(* ===== verification/KV_Prelude.thy ===== *)
theory KV_Prelude
  imports
    Main
    "HOL-Library.AList"
    "HOL-Library.Char_ord"
    "HOL-Library.List_Lexorder"
    "HOL-Library.Multiset"
    "HOL-Library.Signed_Division"
begin

text \<open>
  Shared vocabulary of the development: the Go standard library functions the operator uses
  (strings, strconv, sort), Go maps, and the generic lemmas about them.

  Conventions.
  \<^item> Go's \<open>string\<close> is \<^typ>\<open>string\<close>; the order is the byte order, \<open>strings.ToLower\<close> and
    \<open>strings.EqualFold\<close> are given on ASCII (Kubernetes names, Redis replies).
  \<^item> A Go map is an association list (\<open>gomap\<close>): the list order is the iteration order of one
    particular \<open>range\<close>, so that a statement for every list is a statement for every order. A Go
    map holds a key once: \<open>gm_wf\<close>. A nil map and an empty map are both \<open>[]\<close>.
  \<^item> \<open>time.Time\<close> and \<open>time.Duration\<close> are nanoseconds, \<^typ>\<open>int\<close>; where the width matters the
    wrap-around is written with \<open>wrap64\<close>.
\<close>

section \<open>Collections of facts\<close>

named_theorems go_string "unfolding rules of the strings and strconv functions"
named_theorems gm_simps "reads of Go maps after writes"

section \<open>Time\<close>

type_synonym duration = int
type_synonym time = int

abbreviation msec :: "int" where "msec \<equiv> 1000000"
abbreviation sec :: "int" where "sec \<equiv> 1000000000"

section \<open>Strings\<close>

definition HasPrefix :: "string \<Rightarrow> string \<Rightarrow> bool" where
  "HasPrefix s p = (take (length p) s = p)"

definition HasSuffix :: "string \<Rightarrow> string \<Rightarrow> bool" where
  "HasSuffix s p = (length p \<le> length s \<and> drop (length s - length p) s = p)"

definition TrimPrefix :: "string \<Rightarrow> string \<Rightarrow> string" where
  "TrimPrefix s p = (if HasPrefix s p then drop (length p) s else s)"

definition TrimSuffix :: "string \<Rightarrow> string \<Rightarrow> string" where
  "TrimSuffix s p = (if HasSuffix s p then take (length s - length p) s else s)"

fun Contains :: "string \<Rightarrow> string \<Rightarrow> bool" where
  "Contains [] sub = (sub = [])"
| "Contains (c # s) sub = (HasPrefix (c # s) sub \<or> Contains s sub)"

definition lower_char :: "char \<Rightarrow> char" where
  "lower_char c = (if CHR ''A'' \<le> c \<and> c \<le> CHR ''Z'' then char_of (of_char c + 32 :: nat) else c)"

definition ToLower :: "string \<Rightarrow> string" where
  "ToLower s = map lower_char s"

definition EqualFold :: "string \<Rightarrow> string \<Rightarrow> bool" where
  "EqualFold s t = (ToLower s = ToLower t)"

definition is_space :: "char \<Rightarrow> bool" where
  "is_space c = (c = CHR '' '' \<or> (of_char c :: nat) \<in> {9, 10, 11, 12, 13})"

definition TrimSpace :: "string \<Rightarrow> string" where
  "TrimSpace s = rev (dropWhile is_space (rev (dropWhile is_space s)))"

text \<open>\<open>strings.LastIndex(s, c)\<close> for a one-byte separator; \<^const>\<open>None\<close> is Go's \<open>-1\<close>.\<close>

fun LastIndexByte :: "string \<Rightarrow> char \<Rightarrow> nat option" where
  "LastIndexByte [] c = None"
| "LastIndexByte (x # xs) c = (case LastIndexByte xs c of
      Some i \<Rightarrow> Some (Suc i)
    | None \<Rightarrow> if x = c then Some 0 else None)"

text \<open>\<open>strings.Join\<close>.\<close>

fun Join :: "string list \<Rightarrow> string \<Rightarrow> string" where
  "Join [] sep = []"
| "Join [x] sep = x"
| "Join (x # y # ys) sep = x @ sep @ Join (y # ys) sep"

section \<open>Decimal numbers\<close>

definition digit_char :: "nat \<Rightarrow> char" where
  "digit_char d = char_of (48 + d)"

definition is_digit :: "char \<Rightarrow> bool" where
  "is_digit c = (CHR ''0'' \<le> c \<and> c \<le> CHR ''9'')"

definition digit_val :: "char \<Rightarrow> nat" where
  "digit_val c = of_char c - 48"

text \<open>Decimal rendering of a natural number, \<open>%d\<close>.\<close>

fun nat_to_dec :: "nat \<Rightarrow> string" where
  "nat_to_dec n = (if n < 10 then [digit_char n] else nat_to_dec (n div 10) @ [digit_char (n mod 10)])"

declare nat_to_dec.simps [simp del]

definition int_to_dec :: "int \<Rightarrow> string" where
  "int_to_dec i = (if i < 0 then CHR ''-'' # nat_to_dec (nat (- i)) else nat_to_dec (nat i))"

text \<open>The value of a string of digits, most significant first.\<close>

definition dec_to_nat :: "string \<Rightarrow> nat" where
  "dec_to_nat s = foldl (\<lambda>n c. 10 * n + digit_val c) 0 s"

abbreviation int64_max :: int where "int64_max \<equiv> 9223372036854775807"
abbreviation int64_min :: int where "int64_min \<equiv> - 9223372036854775808"

text \<open>Two's complement reduction to 64 and 32 bits.\<close>

definition wrap64 :: "int \<Rightarrow> int" where
  "wrap64 i = (i + 9223372036854775808) mod 18446744073709551616 - 9223372036854775808"

definition wrap32 :: "int \<Rightarrow> int" where
  "wrap32 i = (i + 2147483648) mod 4294967296 - 2147483648"

text \<open>\<open>strconv.ParseInt(s, 10, 64)\<close>: an optional sign, at least one digit, only digits, in range.\<close>

definition ParseInt64 :: "string \<Rightarrow> int option" where
  "ParseInt64 s =
     (let (neg, ds) = (case s of
             [] \<Rightarrow> (False, [])
           | c # cs \<Rightarrow> if c = CHR ''-'' then (True, cs) else if c = CHR ''+'' then (False, cs) else (False, s))
      in if ds = [] \<or> \<not> list_all is_digit ds then None
         else let v = (if neg then - int (dec_to_nat ds) else int (dec_to_nat ds))
              in if int64_min \<le> v \<and> v \<le> int64_max then Some v else None)"

section \<open>Sorting with a comparator\<close>

text \<open>
  \<open>sort.Slice\<close> and \<open>sort.SliceStable\<close> with a \<open>less\<close> function: an insertion sort. Go sorts slices
  of at most twelve elements by insertion; on elements that \<open>less\<close> does not separate the order
  of a longer slice is not specified by Go, and the statements below are about \<open>less\<close> only.
\<close>

fun insert_by :: "('a \<Rightarrow> 'a \<Rightarrow> bool) \<Rightarrow> 'a \<Rightarrow> 'a list \<Rightarrow> 'a list" where
  "insert_by lt x [] = [x]"
| "insert_by lt x (y # ys) = (if lt y x then y # insert_by lt x ys else x # y # ys)"

fun sort_by :: "('a \<Rightarrow> 'a \<Rightarrow> bool) \<Rightarrow> 'a list \<Rightarrow> 'a list" where
  "sort_by lt [] = []"
| "sort_by lt (x # xs) = insert_by lt x (sort_by lt xs)"

section \<open>Go maps\<close>

type_synonym ('k, 'v) gomap = "('k \<times> 'v) list"
type_synonym strmap = "(string, string) gomap"

definition gm_wf :: "('k, 'v) gomap \<Rightarrow> bool" where
  "gm_wf m = distinct (map fst m)"

definition gm_get :: "('k, 'v) gomap \<Rightarrow> 'k \<Rightarrow> 'v option" where
  "gm_get m k = map_of m k"

text \<open>\<open>m[k]\<close> of a \<open>map[string]string\<close>: the empty string for an absent key.\<close>

definition gm_str :: "strmap \<Rightarrow> string \<Rightarrow> string" where
  "gm_str m k = (case gm_get m k of Some v \<Rightarrow> v | None \<Rightarrow> '''')"

definition gm_set :: "('k, 'v) gomap \<Rightarrow> 'k \<Rightarrow> 'v \<Rightarrow> ('k, 'v) gomap" where
  "gm_set m k v = AList.update k v m"

definition gm_delete :: "('k, 'v) gomap \<Rightarrow> 'k \<Rightarrow> ('k, 'v) gomap" where
  "gm_delete m k = AList.delete k m"

definition gm_has :: "('k, 'v) gomap \<Rightarrow> 'k \<Rightarrow> bool" where
  "gm_has m k = (gm_get m k \<noteq> None)"

text \<open>Two maps with the same bindings, whatever their iteration orders.\<close>

definition gm_eq :: "('k, 'v) gomap \<Rightarrow> ('k, 'v) gomap \<Rightarrow> bool" where
  "gm_eq a b = (\<forall>k. gm_get a k = gm_get b k)"

section \<open>Lemmas on strings\<close>

lemma HasPrefix_append [simp]: "HasPrefix (p @ s) p"
  by (simp add: HasPrefix_def)

lemma HasPrefix_iff: "HasPrefix s p \<longleftrightarrow> (\<exists>t. s = p @ t)"
  by (metis HasPrefix_append HasPrefix_def append_take_drop_id)

lemma HasPrefix_Nil [simp]: "HasPrefix s ''''"
  by (simp add: HasPrefix_def)

lemma TrimPrefix_append [simp]: "TrimPrefix (p @ s) p = s"
  by (simp add: TrimPrefix_def)

lemma HasSuffix_append [simp]: "HasSuffix (s @ p) p"
  by (simp add: HasSuffix_def)

lemma HasSuffix_iff: "HasSuffix s p \<longleftrightarrow> (\<exists>t. s = t @ p)"
proof
  assume "HasSuffix s p"
  then have "s = take (length s - length p) s @ p"
    by (metis HasSuffix_def append_take_drop_id)
  then show "\<exists>t. s = t @ p" ..
qed auto

lemma TrimSuffix_append [simp]: "TrimSuffix (s @ p) p = s"
  by (simp add: TrimSuffix_def)

lemma EqualFold_refl [simp]: "EqualFold s s"
  by (simp add: EqualFold_def)

lemma EqualFold_sym: "EqualFold s t = EqualFold t s"
  by (auto simp: EqualFold_def)

lemma LastIndexByte_None [simp]: "LastIndexByte s c = None \<longleftrightarrow> c \<notin> set s"
  by (induction s) (auto split: option.splits)

lemma LastIndexByte_last:
  assumes "c \<notin> set s"
  shows "LastIndexByte (p @ c # s) c = Some (length p)"
proof (induction p)
  case Nil
  have none: "LastIndexByte s c = None" using assms by simp
  show ?case by (simp add: none)
qed simp

lemma LastIndexByte_Some:
  assumes "LastIndexByte s c = Some i"
  shows "i < length s \<and> s ! i = c \<and> c \<notin> set (drop (Suc i) s)"
  using assms
proof (induction s arbitrary: i)
  case (Cons x xs)
  then show ?case by (cases i) (auto split: option.splits if_splits)
qed simp

section \<open>Lemmas on decimal numbers\<close>

lemma is_digit_digit_char [simp]: "d < 10 \<Longrightarrow> is_digit (digit_char d)"
  by (auto simp: is_digit_def digit_char_def less_eq_char_def)

lemma digit_val_digit_char [simp]: "d < 10 \<Longrightarrow> digit_val (digit_char d) = d"
  by (simp add: digit_val_def digit_char_def)

lemma dec_to_nat_snoc [simp]: "dec_to_nat (s @ [c]) = 10 * dec_to_nat s + digit_val c"
  by (simp add: dec_to_nat_def)

lemma dec_to_nat_Nil [simp]: "dec_to_nat [] = 0"
  by (simp add: dec_to_nat_def)

lemma dec_to_nat_nat_to_dec [simp]: "dec_to_nat (nat_to_dec n) = n"
proof (induction n rule: nat_to_dec.induct)
  case (1 n)
  show ?case
  proof (cases "n < 10")
    case True
    then show ?thesis
      using dec_to_nat_snoc [of "[]" "digit_char n"] by (simp add: nat_to_dec.simps [of n])
  next
    case False
    then have "nat_to_dec n = nat_to_dec (n div 10) @ [digit_char (n mod 10)]"
      by (simp add: nat_to_dec.simps [of n])
    then show ?thesis using 1 [OF False] by simp
  qed
qed

lemma nat_to_dec_digits [simp]: "list_all is_digit (nat_to_dec n)"
proof (induction n rule: nat_to_dec.induct)
  case (1 n)
  then show ?case by (subst nat_to_dec.simps) auto
qed

lemma nat_to_dec_not_Nil [simp]: "nat_to_dec n \<noteq> []"
  by (subst nat_to_dec.simps) auto

lemma nat_to_dec_rules:
  "n < 10 \<Longrightarrow> nat_to_dec n = [digit_char n]"
  "10 \<le> n \<Longrightarrow> nat_to_dec n = nat_to_dec (n div 10) @ [digit_char (n mod 10)]"
  by (simp_all add: nat_to_dec.simps [of n])

lemma digit_char_values:
  "digit_char 0 = CHR ''0''" "digit_char (Suc 0) = CHR ''1''" "digit_char 1 = CHR ''1''" "digit_char 2 = CHR ''2''"
  "digit_char 3 = CHR ''3''" "digit_char 4 = CHR ''4''" "digit_char 5 = CHR ''5''" "digit_char 6 = CHR ''6''"
  "digit_char 7 = CHR ''7''" "digit_char 8 = CHR ''8''" "digit_char 9 = CHR ''9''"
  by (simp_all add: digit_char_def char_of_def bit_nat_def)

text \<open>Evaluation of \<open>int_to_dec\<close> on a numeral.\<close>

lemmas dec_eval = int_to_dec_def nat_to_dec_rules digit_char_values

lemma nat_to_dec_inj [simp]: "nat_to_dec m = nat_to_dec n \<longleftrightarrow> m = n"
  by (metis dec_to_nat_nat_to_dec)

lemma dash_not_digit [simp]: "\<not> is_digit CHR ''-''" "\<not> is_digit CHR ''+''"
  by (auto simp: is_digit_def less_eq_char_def)

lemma dash_notin_nat_to_dec [simp]: "CHR ''-'' \<notin> set (nat_to_dec n)"
  using nat_to_dec_digits [of n] by (auto simp: list_all_iff)

lemma ParseInt64_int_to_dec:
  assumes "int64_min \<le> i" "i \<le> int64_max"
  shows "ParseInt64 (int_to_dec i) = Some i"
proof -
  obtain c cs where n: "nat_to_dec (nat i) = c # cs" by (cases "nat_to_dec (nat i)") auto
  then have "is_digit c" using nat_to_dec_digits [of "nat i"] by simp
  then have "c \<noteq> CHR ''-''" "c \<noteq> CHR ''+''" by auto
  then show ?thesis
    using assms n nat_to_dec_digits [of "nat i"] dec_to_nat_nat_to_dec [of "nat i"]
    by (auto simp: ParseInt64_def int_to_dec_def Let_def)
qed

lemma wrap64_id: "int64_min \<le> i \<Longrightarrow> i \<le> int64_max \<Longrightarrow> wrap64 i = i"
  by (simp add: wrap64_def)

lemma wrap64_range: "int64_min \<le> wrap64 i \<and> wrap64 i \<le> int64_max"
proof -
  let ?r = "(i + 9223372036854775808) mod 18446744073709551616"
  have "0 \<le> ?r" "?r < 18446744073709551616" by simp_all
  then show ?thesis unfolding wrap64_def by linarith
qed

section \<open>Lemmas on sorting\<close>

lemma mset_insert_by [simp]: "mset (insert_by lt x xs) = add_mset x (mset xs)"
  by (induction xs) auto

lemma mset_sort_by [simp]: "mset (sort_by lt xs) = mset xs"
  by (induction xs) auto

lemma set_sort_by [simp]: "set (sort_by lt xs) = set xs"
  by (metis mset_sort_by set_mset_mset)

lemma length_sort_by [simp]: "length (sort_by lt xs) = length xs"
  by (metis mset_sort_by size_mset)

lemma distinct_sort_by [simp]: "distinct (sort_by lt xs) = distinct xs"
  by (metis mset_sort_by mset_eq_imp_distinct_iff)

text \<open>
  What \<open>sort.Slice\<close> asks of its \<open>less\<close> function, a strict weak ordering, and what it promises in
  return. Every comparator of the operator is an interpretation of this interface.
\<close>

locale comparator =
  fixes lt :: "'a \<Rightarrow> 'a \<Rightarrow> bool"
  assumes lt_asym: "lt x y \<Longrightarrow> \<not> lt y x"
    and lt_negtrans: "\<not> lt x y \<Longrightarrow> \<not> lt y z \<Longrightarrow> \<not> lt x z"
begin

lemma insert_by_sorted:
  "sorted_wrt (\<lambda>x y. \<not> lt y x) xs \<Longrightarrow> sorted_wrt (\<lambda>x y. \<not> lt y x) (insert_by lt x xs)"
proof (induction xs)
  case (Cons y ys)
  have set_ins: "set (insert_by lt x ys) = insert x (set ys)"
    by (metis mset_insert_by set_mset_add_mset_insert set_mset_mset)
  show ?case
  proof (cases "lt y x")
    case True
    then show ?thesis using Cons by (auto simp: set_ins lt_asym)
  next
    case False
    then show ?thesis using Cons.prems lt_negtrans by auto
  qed
qed simp

lemma sort_by_sorted: "sorted_wrt (\<lambda>x y. \<not> lt y x) (sort_by lt xs)"
  by (induction xs) (auto intro: insert_by_sorted)

lemma sort_by_head_least:
  assumes "x \<in> set xs"
  shows "\<not> lt x (hd (sort_by lt xs))"
proof (cases "sort_by lt xs")
  case Nil
  then show ?thesis using assms set_sort_by [of lt xs] by simp
next
  case (Cons y ys)
  then have "x = y \<or> x \<in> set ys" using assms set_sort_by [of lt xs] by auto
  moreover have "\<not> lt y y" using lt_asym by blast
  ultimately show ?thesis using sort_by_sorted [of xs] Cons by auto
qed

lemma sort_by_sorted_id: "sorted_wrt (\<lambda>x y. \<not> lt y x) xs \<Longrightarrow> sort_by lt xs = xs"
proof (induction xs)
  case (Cons x xs)
  then show ?case by (cases xs) auto
qed simp

lemma sort_by_idem: "sort_by lt (sort_by lt xs) = sort_by lt xs"
  by (rule sort_by_sorted_id [OF sort_by_sorted])

end

text \<open>\<open>sort.Strings\<close> and every sort on one string key.\<close>

definition key_less :: "('a \<Rightarrow> string) \<Rightarrow> 'a \<Rightarrow> 'a \<Rightarrow> bool" where
  "key_less f x y = (f x < f y)"

interpretation by_key: comparator "key_less f"
  by unfold_locales (auto simp: key_less_def)

definition sort_strings :: "string list \<Rightarrow> string list" where
  "sort_strings xs = sort_by (key_less (\<lambda>s. s)) xs"

lemma set_sort_strings [simp]: "set (sort_strings xs) = set xs"
  by (simp add: sort_strings_def)

lemma sorted_sort_strings: "sorted (sort_strings xs)"
  using by_key.sort_by_sorted [of "\<lambda>s. s" xs]
  by (simp add: sort_strings_def key_less_def linorder_class.not_less)

section \<open>Lemmas on Go maps\<close>

lemma gm_get_Nil [gm_simps, simp]: "gm_get [] k = None"
  by (simp add: gm_get_def)

lemma gm_get_set [gm_simps, simp]: "gm_get (gm_set m k v) k' = (if k = k' then Some v else gm_get m k')"
  by (simp add: gm_get_def gm_set_def update_conv')

lemma gm_get_delete [gm_simps, simp]: "gm_get (gm_delete m k) k' = (if k = k' then None else gm_get m k')"
  by (simp add: gm_get_def gm_delete_def delete_conv')

lemma gm_wf_Nil [simp]: "gm_wf []"
  by (simp add: gm_wf_def)

lemma gm_wf_set [simp]: "gm_wf m \<Longrightarrow> gm_wf (gm_set m k v)"
  by (simp add: gm_wf_def gm_set_def distinct_update)

lemma gm_wf_delete [simp]: "gm_wf m \<Longrightarrow> gm_wf (gm_delete m k)"
  by (simp add: gm_wf_def gm_delete_def distinct_delete)

lemma gm_str_set [gm_simps, simp]: "gm_str (gm_set m k v) k' = (if k = k' then v else gm_str m k')"
  by (simp add: gm_str_def)

lemma gm_get_in: "gm_wf m \<Longrightarrow> gm_get m k = Some v \<longleftrightarrow> (k, v) \<in> set m"
  by (simp add: gm_wf_def gm_get_def)

lemma gm_get_None: "gm_get m k = None \<longleftrightarrow> k \<notin> fst ` set m"
  by (simp add: gm_get_def map_of_eq_None_iff)

lemma gm_eq_refl [simp]: "gm_eq m m"
  by (simp add: gm_eq_def)

text \<open>
  The comparison the operator writes by hand in several places: equal lengths, and every binding
  of the first map is in the second.
\<close>

lemma gm_subset_eq:
  assumes "gm_wf a" "gm_wf b" "length a = length b"
    and "\<forall>(k, v) \<in> set a. gm_get b k = Some v"
  shows "gm_eq a b"
proof -
  have sub: "set a \<subseteq> set b" using assms(2,4) by (auto simp: gm_get_in)
  have "distinct a" "distinct b"
    using assms(1,2) by (auto simp: gm_wf_def distinct_map)
  then have "set a = set b"
    using sub assms(3) by (metis List.finite_set card_subset_eq distinct_card)
  then have "gm_get a k = gm_get b k" for k
    using assms(1,2) unfolding gm_get_def gm_wf_def by (metis map_of_inject_set)
  then show ?thesis by (simp add: gm_eq_def)
qed

lemma gm_eq_length:
  assumes "gm_wf a" "gm_wf b" "gm_eq a b"
  shows "length a = length b"
proof -
  have "fst ` set a = fst ` set b"
    using assms(3) gm_get_None unfolding gm_eq_def by (metis subsetI subset_antisym)
  then show ?thesis
    using assms(1,2) unfolding gm_wf_def by (metis distinct_card length_map set_map)
qed

end
