(* ===== verification/KV_Api.thy ===== *)
theory KV_Api
  imports KV_Prelude
begin

text \<open>
  The custom resource of \<open>src/api/v1alpha1/keyvalcluster_types.go\<close> and the parts of the Kubernetes
  objects (pods, claims, conditions) the operator reads and writes.

  Enumerated strings are datatypes with the constants of the source; a Go pointer is an
  \<open>option\<close>; a Kubernetes quantity is its exact value, counted in the smallest unit a quantity can
  express, so that \<open>Cmp\<close> is the order of \<^typ>\<open>int\<close>. \<open>Engine\<close> has one more constructor for the
  empty string of an omitted field.
\<close>

section \<open>Enumerations\<close>

datatype mode = ModeStandalone | ModeSentinel

datatype engine = EngineUnset | EngineRedis | EngineValkey

datatype external_sync_mode = SyncModeUnset | SyncModeSnapshot | SyncModeLive

datatype roles_source = RolesSourceUnset | RolesSourceSentinel | RolesSourceProbe | RolesSourceForced

datatype pod_role = PodRoleMaster | PodRoleReplica | PodRoleSentinel

datatype pod_health =
  PodHealthUnset | PodHealthHealthy | PodHealthLagging | PodHealthDesynced | PodHealthOffline

datatype condition_type =
    ConditionAvailable
  | ConditionSentinelQuorum
  | ConditionReplicationHealthy
  | ConditionFailoverInProgress
  | ConditionDisruptionsPaused
  | ConditionUpgradeInProgress
  | ConditionBootstrapInProgress
  | ConditionRuntimeConfigApplied
  | ConditionReconciled
  | ConditionStorageCleanup
  | ConditionExternalImport

datatype condition_status = StatusTrue | StatusFalse | StatusUnknown

section \<open>Specification\<close>

type_synonym quantity = int
type_synonym resource_list = "(string, quantity) gomap"

record resource_requirements =
  rr_limits :: resource_list
  rr_requests :: resource_list

record secret_key_selector =
  sks_name :: string
  sks_key :: string

record auth_spec =
  auth_enabled :: bool
  auth_username :: string
  auth_password_ref :: "secret_key_selector option"

record tls_spec =
  tls_enabled :: bool
  tls_secret_name :: string
  tls_ca_cert_key :: string
  tls_cert_key :: string
  tls_key_key :: string
  tls_require_client_auth :: "bool option"
  tls_disable_plaintext :: "bool option"

record security_spec =
  sec_auth :: "auth_spec option"
  sec_tls :: "tls_spec option"

record external_source_auth_spec =
  esa_username_ref :: "secret_key_selector option"
  esa_password_ref :: "secret_key_selector option"

record external_source_tls_spec =
  est_enabled :: bool
  est_ca_ref :: "secret_key_selector option"
  est_cert_ref :: "secret_key_selector option"
  est_key_ref :: "secret_key_selector option"
  est_insecure_skip_verify :: bool

record external_source_spec =
  es_address :: string
  es_auth :: "external_source_auth_spec option"
  es_tls :: "external_source_tls_spec option"
  es_sync_mode :: external_sync_mode
  es_abort_if_existing_data :: "bool option"
  es_max_initial_sync :: "duration option"

record topology_spread_spec =
  tss_disabled :: bool
  tss_max_skew :: "int option"
  tss_topology_keys :: "string list"
  tss_when_unsatisfiable :: string

record topology_anti_affinity_spec =
  taa_disabled :: bool
  taa_required :: bool

record topology_spec =
  topo_spread :: "topology_spread_spec option"
  topo_anti_affinity :: "topology_anti_affinity_spec option"

record storage_spec =
  st_type :: string
  st_size :: "string option"
  st_cleanup_on_delete :: bool
  st_storage_class :: "string option"
  st_access_modes :: "string list"

record metrics_spec =
  ms_enabled :: "bool option"
  ms_image :: string
  ms_port :: int
  ms_resources :: "resource_requirements option"

record service_ports =
  sp_redis :: int
  sp_sentinel :: int

record service_spec =
  svs_create :: "bool option"
  svs_type :: string
  svs_annotations :: strmap
  svs_labels :: strmap
  svs_ports :: "service_ports option"
  svs_publish_not_ready :: "bool option"

record health_spec =
  hs_replication_lag_max :: int
  hs_failover_timeout :: int
  hs_min_replicas :: int

datatype int_or_string = IntVal int | StringVal string

record sentinel_pdb_spec =
  spdb_min_available :: "int_or_string option"
  spdb_max_unavailable :: "int_or_string option"

text \<open>Affinity rules; pod and node affinity are passed through and only known to be present or not.\<close>

record label_selector =
  ls_labels :: strmap
  ls_expressions :: "string list"

record affinity_term =
  at_key :: string
  at_selector :: "label_selector option"

record anti_affinity =
  aa_preferred :: "(int \<times> affinity_term) list"
  aa_required :: "affinity_term list"

record affinity =
  af_anti :: "anti_affinity option"
  af_pod :: bool
  af_node :: bool

record sentinel_pod_spec =
  spod_labels :: strmap
  spod_annotations :: strmap
  spod_node_selector :: strmap
  spod_tolerations :: "string list"
  spod_affinity :: "affinity option"

text \<open>\<open>KeyValClusterSpec\<close>; \<open>replicationHealth\<close> is its only field, the lag threshold.\<close>

record kv_spec =
  spec_mode :: mode
  spec_engine :: engine
  spec_image :: string
  spec_sentinel_image :: "string option"
  spec_redis_replicas :: int
  spec_sentinel_count :: "int option"
  spec_resources :: "resource_requirements option"
  spec_sentinel_resources :: "resource_requirements option"
  spec_storage :: "storage_spec option"
  spec_redis_config :: strmap
  spec_sentinel_config :: strmap
  spec_service :: "service_spec option"
  spec_sentinel_service :: "service_spec option"
  spec_replicas_service :: "service_spec option"
  spec_metrics :: "metrics_spec option"
  spec_sentinel_pod :: "sentinel_pod_spec option"
  spec_sentinel_pdb :: "sentinel_pdb_spec option"
  spec_pod_labels :: strmap
  spec_pod_annotations :: strmap
  spec_replication_health :: "int option"
  spec_health :: "health_spec option"
  spec_security :: "security_spec option"
  spec_external_source :: "external_source_spec option"
  spec_topology :: "topology_spec option"

section \<open>Status\<close>

record condition =
  cond_type :: condition_type
  cond_status :: condition_status
  cond_reason :: string
  cond_message :: string
  cond_observed_generation :: int
  cond_last_transition :: time

record pod_role_status =
  prs_name :: string
  prs_role :: pod_role
  prs_ready :: bool
  prs_health :: pod_health
  prs_lag_seconds :: "int option"
  prs_last_transition :: "time option"

record external_import_status =
  ei_state :: string
  ei_source :: string
  ei_mode :: string
  ei_started_at :: "time option"
  ei_last_synced :: "time option"
  ei_message :: string

record kv_status =
  status_master_pod :: string
  status_replicas :: int
  status_roles_source :: roles_source
  status_ready_replicas :: int
  status_roles :: "pod_role_status list"
  status_conditions :: "condition list"
  status_health_gate :: "bool option"
  status_external_import :: "external_import_status option"

record kv_cluster =
  cr_name :: string
  cr_namespace :: string
  cr_generation :: int
  cr_annotations :: strmap
  cr_finalizers :: "string list"
  cr_deletion :: "time option"
  cr_spec :: kv_spec
  cr_status :: kv_status

section \<open>Kubernetes objects\<close>

record container_port =
  cp_name :: string
  cp_container_port :: int

record container =
  c_name :: string
  c_image :: string
  c_ports :: "container_port list"
  c_resources :: resource_requirements
  c_command :: "string list"
  c_args :: "string list"

record owner_ref =
  or_kind :: string
  or_name :: string

record pod =
  pod_name :: string
  pod_namespace :: string
  pod_labels :: strmap
  pod_annotations :: strmap
  pod_owners :: "owner_ref list"
  pod_deletion :: "time option"
  pod_ip :: string
  pod_phase :: string
  pod_ready_conditions :: "bool list"
  pod_containers :: "container list"
  pod_node_selector :: strmap
  pod_created :: time

text \<open>
  \<open>pod_ready_conditions\<close> lists, in order, for each condition of type \<open>Ready\<close> in the pod's status
  whether its status is \<open>True\<close>.
\<close>

record pvc =
  pvc_name :: string
  pvc_namespace :: string
  pvc_labels :: strmap
  pvc_annotations :: strmap
  pvc_owners :: "owner_ref list"
  pvc_deletion :: "time option"
  pvc_request :: "quantity option"
  pvc_capacity :: "quantity option"
  pvc_conditions :: "(string \<times> condition_status) list"

text \<open>What the API server answers to a deletion.\<close>

datatype delete_answer = DeleteOk | DeleteNotFound | DeleteFailed string

section \<open>Default values\<close>

text \<open>Go's zero value of the specification and the objects, used to build concrete inputs.\<close>

definition spec0 :: kv_spec where
  "spec0 = \<lparr>spec_mode = ModeStandalone, spec_engine = EngineUnset, spec_image = '''',
     spec_sentinel_image = None, spec_redis_replicas = 0, spec_sentinel_count = None,
     spec_resources = None, spec_sentinel_resources = None, spec_storage = None,
     spec_redis_config = [], spec_sentinel_config = [], spec_service = None,
     spec_sentinel_service = None, spec_replicas_service = None, spec_metrics = None,
     spec_sentinel_pod = None, spec_sentinel_pdb = None, spec_pod_labels = [],
     spec_pod_annotations = [], spec_replication_health = None, spec_health = None,
     spec_security = None, spec_external_source = None, spec_topology = None\<rparr>"

definition status0 :: kv_status where
  "status0 = \<lparr>status_master_pod = '''', status_replicas = 0, status_roles_source = RolesSourceUnset,
     status_ready_replicas = 0, status_roles = [], status_conditions = [],
     status_health_gate = None, status_external_import = None\<rparr>"

definition cluster0 :: "string \<Rightarrow> string \<Rightarrow> kv_cluster" where
  "cluster0 ns n = \<lparr>cr_name = n, cr_namespace = ns, cr_generation = 1, cr_annotations = [],
     cr_finalizers = [], cr_deletion = None, cr_spec = spec0, cr_status = status0\<rparr>"

definition pod0 :: "string \<Rightarrow> string \<Rightarrow> pod" where
  "pod0 ns n = \<lparr>pod_name = n, pod_namespace = ns, pod_labels = [], pod_annotations = [],
     pod_owners = [], pod_deletion = None, pod_ip = '''', pod_phase = '''', pod_ready_conditions = [],
     pod_containers = [], pod_node_selector = [], pod_created = 0\<rparr>"

definition pvc0 :: "string \<Rightarrow> string \<Rightarrow> pvc" where
  "pvc0 ns n = \<lparr>pvc_name = n, pvc_namespace = ns, pvc_labels = [], pvc_annotations = [],
     pvc_owners = [], pvc_deletion = None, pvc_request = None, pvc_capacity = None,
     pvc_conditions = []\<rparr>"

definition rr0 :: resource_requirements where
  "rr0 = \<lparr>rr_limits = [], rr_requests = []\<rparr>"

lemmas zero_values = spec0_def status0_def cluster0_def pod0_def pvc0_def rr0_def

end
