(* ===== verification/KV_Core.thy ===== *)
theory KV_Core
  imports KV_Api
begin

text \<open>
  \<open>src/controllers/internal/core\<close>: engine selection (\<open>engine.go\<close>), names and labels
  (\<open>naming.go\<close>), ports, DNS names and ordinals (\<open>network.go\<close>) and claims (\<open>storage.go\<close>).

  The parser of quantities belongs to apimachinery and is the parameter \<open>parse_quantity\<close>.
  \<open>Ordinal\<close> keeps Go's 64-bit accumulator. The receivers \<open>cr\<close> are never nil at the call sites.
\<close>

section \<open>Engine\<close>

definition DefaultRedisImage :: string where "DefaultRedisImage = ''redis:7.2''"
definition DefaultValkeyImage :: string where "DefaultValkeyImage = ''valkey/valkey:7.2''"

definition ResolveImage :: "kv_spec \<Rightarrow> string" where
  "ResolveImage spec =
     (if spec_image spec \<noteq> '''' then spec_image spec
      else case spec_engine spec of
             EngineRedis \<Rightarrow> DefaultRedisImage
           | EngineValkey \<Rightarrow> DefaultValkeyImage
           | EngineUnset \<Rightarrow> DefaultValkeyImage)"

definition ServerCommandForEngine :: "engine \<Rightarrow> string list" where
  "ServerCommandForEngine e = (case e of EngineValkey \<Rightarrow> [''valkey-server''] | _ \<Rightarrow> [''redis-server''])"

definition SentinelCommandForEngine :: "engine \<Rightarrow> string list" where
  "SentinelCommandForEngine e = (case e of EngineValkey \<Rightarrow> [''valkey-sentinel''] | _ \<Rightarrow> [''redis-sentinel''])"

definition inferEngineFromImage :: "string \<Rightarrow> engine option" where
  "inferEngineFromImage img =
     (if img = '''' then None
      else let lower = ToLower img
           in if Contains lower ''valkey'' then Some EngineValkey
              else if Contains lower ''redis'' then Some EngineRedis
              else None)"

definition effectiveEngine :: "engine \<Rightarrow> string \<Rightarrow> engine" where
  "effectiveEngine explicit img =
     (case inferEngineFromImage img of
        Some inferred \<Rightarrow> inferred
      | None \<Rightarrow> if explicit \<noteq> EngineUnset then explicit else EngineValkey)"

definition EffectiveServerEngine :: "kv_spec \<Rightarrow> engine" where
  "EffectiveServerEngine spec = effectiveEngine (spec_engine spec) (spec_image spec)"

definition EffectiveSentinelEngine :: "kv_spec \<Rightarrow> engine" where
  "EffectiveSentinelEngine spec =
     (let img = (case spec_sentinel_image spec of
                   Some i \<Rightarrow> if i \<noteq> '''' then i else spec_image spec
                 | None \<Rightarrow> spec_image spec)
      in effectiveEngine (spec_engine spec) img)"

section \<open>Names and labels\<close>

definition LabelAppKey :: string where "LabelAppKey = ''app''"
definition LabelClusterKey :: string where "LabelClusterKey = ''keyvalcluster''"
definition RoleLabelKey :: string where "RoleLabelKey = ''role''"
definition DataVolumeName :: string where "DataVolumeName = ''data''"
definition RedisContainerName :: string where "RedisContainerName = ''redis''"
definition SentinelContainerName :: string where "SentinelContainerName = ''sentinel''"
definition MetricsContainerName :: string where "MetricsContainerName = ''metrics''"
definition FinalizerName :: string where "FinalizerName = ''keyval.ivelok.io/finalizer''"
definition AnnotationRestartFormerMaster :: string where
  "AnnotationRestartFormerMaster = ''keyval.ivelok.io/restart-former-master''"
definition AnnotationForceMaster :: string where
  "AnnotationForceMaster = ''keyval.ivelok.io/force-master''"
definition AnnotationUpdateBlocked :: string where
  "AnnotationUpdateBlocked = ''keyval.ivelok.io/update-blocked''"
definition AnnotationScalePhase :: string where
  "AnnotationScalePhase = ''keyval.ivelok.io/scale-phase''"
definition AnnotationPVCReplicationOffset :: string where
  "AnnotationPVCReplicationOffset = ''keyval.ivelok.io/pvc-repl-offset''"
definition AnnotationPVCReplicationRole :: string where
  "AnnotationPVCReplicationRole = ''keyval.ivelok.io/pvc-last-role''"
definition AnnotationPVCOffsetTimestamp :: string where
  "AnnotationPVCOffsetTimestamp = ''keyval.ivelok.io/pvc-last-update''"
definition AnnotationSentinelResetMaster :: string where
  "AnnotationSentinelResetMaster = ''keyval.ivelok.io/reset-master''"
definition AnnotationSentinelClusterResetAttempts :: string where
  "AnnotationSentinelClusterResetAttempts = ''keyval.ivelok.io/reset-cluster-attempts''"
definition AnnotationSentinelClusterResetCooldown :: string where
  "AnnotationSentinelClusterResetCooldown = ''keyval.ivelok.io/reset-cluster-cooldown''"
definition AnnotationSentinelQuorumLossSince :: string where
  "AnnotationSentinelQuorumLossSince = ''keyval.ivelok.io/quorum-loss-since''"
definition AnnotationFinalizerStarted :: string where
  "AnnotationFinalizerStarted = ''keyval.ivelok.io/finalizing-since''"
definition AnnotationPVCResizeTarget :: string where
  "AnnotationPVCResizeTarget = ''keyval.ivelok.io/pvc-resize-target''"
definition AnnotationPVCResizeRequestedAt :: string where
  "AnnotationPVCResizeRequestedAt = ''keyval.ivelok.io/pvc-resize-requested-at''"
definition AnnotationPVCResizeCompletedAt :: string where
  "AnnotationPVCResizeCompletedAt = ''keyval.ivelok.io/pvc-resize-completed-at''"

lemmas key_names =
  LabelAppKey_def LabelClusterKey_def RoleLabelKey_def DataVolumeName_def
  RedisContainerName_def SentinelContainerName_def MetricsContainerName_def
  AnnotationRestartFormerMaster_def AnnotationForceMaster_def AnnotationUpdateBlocked_def
  AnnotationScalePhase_def AnnotationPVCReplicationOffset_def AnnotationPVCReplicationRole_def
  AnnotationPVCOffsetTimestamp_def AnnotationSentinelResetMaster_def
  AnnotationSentinelClusterResetAttempts_def AnnotationSentinelClusterResetCooldown_def
  AnnotationSentinelQuorumLossSince_def AnnotationFinalizerStarted_def
  AnnotationPVCResizeTarget_def AnnotationPVCResizeRequestedAt_def AnnotationPVCResizeCompletedAt_def

definition AppLabelForName :: "string \<Rightarrow> string" where
  "AppLabelForName n = n @ ''-redis''"

definition AppLabel :: "kv_cluster \<Rightarrow> string" where
  "AppLabel cr = AppLabelForName (cr_name cr)"

definition LabelsFor :: "kv_cluster \<Rightarrow> strmap" where
  "LabelsFor cr = [(LabelAppKey, AppLabel cr), (LabelClusterKey, cr_name cr)]"

definition SentinelAppLabelForName :: "string \<Rightarrow> string" where
  "SentinelAppLabelForName n = n @ ''-sentinel''"

definition SentinelAppLabel :: "kv_cluster \<Rightarrow> string" where
  "SentinelAppLabel cr = SentinelAppLabelForName (cr_name cr)"

definition SentinelLabelsFor :: "kv_cluster \<Rightarrow> strmap" where
  "SentinelLabelsFor cr = [(LabelAppKey, SentinelAppLabel cr), (LabelClusterKey, cr_name cr)]"

definition HeadlessName :: "kv_cluster \<Rightarrow> string" where
  "HeadlessName cr = cr_name cr @ ''-headless''"

definition MasterServiceName :: "kv_cluster \<Rightarrow> string" where
  "MasterServiceName cr = cr_name cr @ ''-master''"

definition ConfigMapName :: "kv_cluster \<Rightarrow> string" where
  "ConfigMapName cr = cr_name cr @ ''-config''"

definition SentinelServiceName :: "kv_cluster \<Rightarrow> string" where
  "SentinelServiceName cr = cr_name cr @ ''-sentinel''"

definition ReplicasServiceName :: "kv_cluster \<Rightarrow> string" where
  "ReplicasServiceName cr = cr_name cr @ ''-replicas''"

definition SentinelHeadlessName :: "kv_cluster \<Rightarrow> string" where
  "SentinelHeadlessName cr = cr_name cr @ ''-sentinel-headless''"

section \<open>Ports, DNS names and ordinals\<close>

definition valid_port_string :: "string option \<Rightarrow> int option" where
  "valid_port_string o_s = (case o_s of
      None \<Rightarrow> None
    | Some s \<Rightarrow> if s = '''' then None
        else case ParseInt64 s of
               None \<Rightarrow> None
             | Some v \<Rightarrow> if 0 < v \<and> v \<le> 65535 then Some v else None)"

definition RedisPort :: "kv_cluster \<Rightarrow> int \<times> string" where
  "RedisPort cr =
     (let port = (case valid_port_string (gm_get (spec_redis_config (cr_spec cr)) ''port'') of
                    Some v \<Rightarrow> v | None \<Rightarrow> 6379)
      in (port, int_to_dec port))"

definition SentinelPort :: "kv_cluster \<Rightarrow> int \<times> string" where
  "SentinelPort cr =
     (let from_config = (case valid_port_string (gm_get (spec_sentinel_config (cr_spec cr)) ''port'') of
                           Some v \<Rightarrow> (v, int_to_dec v) | None \<Rightarrow> (26379, ''26379''))
      in case spec_sentinel_service (cr_spec cr) of
           None \<Rightarrow> from_config
         | Some svc \<Rightarrow> (case svs_ports svc of
               None \<Rightarrow> from_config
             | Some ports \<Rightarrow> if sp_sentinel ports \<noteq> 0
                 then (sp_sentinel ports, int_to_dec (sp_sentinel ports)) else from_config))"

definition PodFQDN :: "kv_cluster \<Rightarrow> int \<Rightarrow> string" where
  "PodFQDN cr ordinal =
     cr_name cr @ ''-'' @ int_to_dec ordinal @ ''.'' @ HeadlessName cr @ ''.'' @ cr_namespace cr @ ''.svc''"

fun Ordinal_loop :: "int \<Rightarrow> string \<Rightarrow> int" where
  "Ordinal_loop n [] = n"
| "Ordinal_loop n (ch # cs) =
     (if \<not> is_digit ch then - 1 else Ordinal_loop (wrap64 (n * 10 + int (digit_val ch))) cs)"

definition Ordinal :: "string \<Rightarrow> int" where
  "Ordinal name = (case LastIndexByte name CHR ''-'' of
      None \<Rightarrow> - 1
    | Some i \<Rightarrow> if length name \<le> i + 1 then - 1 else Ordinal_loop 0 (drop (i + 1) name))"

definition PodDNSName :: "kv_cluster \<Rightarrow> string \<Rightarrow> string" where
  "PodDNSName cr podName =
     (let ord = Ordinal podName
      in if 0 \<le> ord then PodFQDN cr ord
         else podName @ ''.'' @ HeadlessName cr @ ''.'' @ cr_namespace cr @ ''.svc'')"

section \<open>Claims\<close>

definition HasPersistentData :: "kv_cluster \<Rightarrow> bool" where
  "HasPersistentData cr = (case spec_storage (cr_spec cr) of
      None \<Rightarrow> True
    | Some st \<Rightarrow> if st_type st = '''' \<or> st_type st = ''Persistent'' then True
                 else if st_type st = ''Ephemeral'' then False
                 else True)"

definition StorageAccessModes :: "kv_cluster \<Rightarrow> string list" where
  "StorageAccessModes cr = (case spec_storage (cr_spec cr) of
      Some st \<Rightarrow> if st_access_modes st \<noteq> [] then st_access_modes st else [''ReadWriteOnce'']
    | None \<Rightarrow> [''ReadWriteOnce''])"

definition DataPVCName :: "kv_cluster \<Rightarrow> string \<Rightarrow> string" where
  "DataPVCName cr podName = DataVolumeName @ ''-'' @ podName"

text \<open>\<open>def\<close> is \<open>resource.MustParse("1Gi")\<close>.\<close>

definition DesiredStorageQuantity :: "(string \<Rightarrow> quantity option) \<Rightarrow> quantity \<Rightarrow> kv_cluster \<Rightarrow> quantity" where
  "DesiredStorageQuantity parse_quantity def cr = (case spec_storage (cr_spec cr) of
      None \<Rightarrow> def
    | Some st \<Rightarrow> (case st_size st of
        None \<Rightarrow> def
      | Some s \<Rightarrow> (case parse_quantity s of Some q \<Rightarrow> q | None \<Rightarrow> def)))"

definition StorageCleanupEnabled :: "kv_cluster \<Rightarrow> bool" where
  "StorageCleanupEnabled cr = (case spec_storage (cr_spec cr) of
      None \<Rightarrow> False
    | Some st \<Rightarrow> if EqualFold (st_type st) ''Ephemeral'' then False else st_cleanup_on_delete st)"

definition data_prefix :: "kv_cluster \<Rightarrow> string" where
  "data_prefix cr = DataVolumeName @ ''-'' @ cr_name cr @ ''-''"

definition PodNameFromPVC :: "kv_cluster \<Rightarrow> string \<Rightarrow> string" where
  "PodNameFromPVC cr pvcName =
     (if \<not> HasPrefix pvcName (data_prefix cr) then ''''
      else let ordinal = TrimPrefix pvcName (data_prefix cr)
           in if ordinal = '''' then '''' else cr_name cr @ ''-'' @ ordinal)"

definition PVCBelongsToCluster :: "kv_cluster \<Rightarrow> pvc \<Rightarrow> bool" where
  "PVCBelongsToCluster cr p =
     (if pvc_namespace p \<noteq> cr_namespace cr then False
      else if HasPrefix (pvc_name p) (data_prefix cr) then True
      else if list_ex (\<lambda>o'. or_kind o' = ''StatefulSet'' \<and> or_name o' = cr_name cr) (pvc_owners p) then True
      else gm_str (pvc_labels p) LabelClusterKey = cr_name cr
           \<and> gm_str (pvc_labels p) LabelAppKey = AppLabel cr)"

section \<open>Lemmas\<close>

text \<open>The name a StatefulSet gives its \<open>n\<close>-th pod.\<close>

definition sts_pod_name :: "string \<Rightarrow> nat \<Rightarrow> string" where
  "sts_pod_name sts n = sts @ ''-'' @ nat_to_dec n"

lemma dec_fold_ge: "(a :: nat) \<le> foldl (\<lambda>n c. 10 * n + digit_val c) a s"
proof (induction s arbitrary: a)
  case (Cons c cs)
  have "a \<le> 10 * a + digit_val c" by simp
  also have "\<dots> \<le> foldl (\<lambda>n c. 10 * n + digit_val c) (10 * a + digit_val c) cs" by (rule Cons.IH)
  finally show ?case by simp
qed simp

lemma Ordinal_loop_digits:
  assumes "list_all is_digit s"
    and "int (foldl (\<lambda>n c. 10 * n + digit_val c) a s) \<le> int64_max"
  shows "Ordinal_loop (int a) s = int (foldl (\<lambda>n c. 10 * n + digit_val c) a s)"
  using assms
proof (induction s arbitrary: a)
  case (Cons c cs)
  have "int (10 * a + digit_val c) \<le> int64_max"
    using Cons.prems(2) dec_fold_ge [of "10 * a + digit_val c" cs] by simp
  then have "wrap64 (int a * 10 + int (digit_val c)) = int (10 * a + digit_val c)"
    by (subst wrap64_id) auto
  then show ?case using Cons.IH [of "10 * a + digit_val c"] Cons.prems by simp
qed simp

lemma Ordinal_sts_pod_name:
  assumes "int n \<le> int64_max"
  shows "Ordinal (sts_pod_name sts n) = int n"
proof -
  have "LastIndexByte (sts_pod_name sts n) CHR ''-'' = Some (length sts)"
    using LastIndexByte_last [of "CHR ''-''" "nat_to_dec n" sts] by (simp add: sts_pod_name_def)
  moreover have "Ordinal_loop 0 (nat_to_dec n) = int n"
    using Ordinal_loop_digits [of "nat_to_dec n" 0] assms dec_to_nat_nat_to_dec [of n]
    by (simp add: dec_to_nat_def)
  ultimately show ?thesis by (simp add: Ordinal_def sts_pod_name_def)
qed

lemma Ordinal_loop_range:
  assumes "int64_min \<le> n" "n \<le> int64_max"
  shows "int64_min \<le> Ordinal_loop n s \<and> Ordinal_loop n s \<le> int64_max"
  using assms
proof (induction n s rule: Ordinal_loop.induct)
  case (2 n ch cs)
  then show ?case using wrap64_range by simp
qed simp

lemma inferEngine_defaults:
  "inferEngineFromImage DefaultRedisImage = Some EngineRedis"
  "inferEngineFromImage DefaultValkeyImage = Some EngineValkey"
  by code_simp+

lemma sts_pod_name_inj [simp]: "sts_pod_name s m = sts_pod_name s n \<longleftrightarrow> m = n"
  by (simp add: sts_pod_name_def)

lemma PVCBelongsToCluster_own:
  assumes "pvc_namespace p = cr_namespace cr" "pvc_name p = DataPVCName cr (sts_pod_name (cr_name cr) n)"
  shows "PVCBelongsToCluster cr p"
  using assms by (simp add: PVCBelongsToCluster_def DataPVCName_def sts_pod_name_def data_prefix_def HasPrefix_def)

end
