(* ===== verification/KV_Clients.thy ===== *)
theory KV_Clients
  imports Complex_Main KV_Core
begin

text \<open>
  \<open>src/controllers/internal/clients\<close>: the command loop with its retries (\<open>exec\<close> of \<open>redis.go\<close> and
  \<open>sentinel_client.go\<close>), error classification, backoff, factory configuration, the parser of
  \<open>INFO replication\<close>, and the endpoints of sentinels.

  The commands themselves run on Redis through go-redis: the outcome of the i-th attempt is a
  parameter. The floating point factors are rationals; \<open>sample\<close> is the draw of \<open>rand.Float64\<close>.
  A Go error is its class as \<open>errors.Is\<close>/\<open>errors.As\<close> see it together with its message.
\<close>

section \<open>Errors\<close>

datatype go_err =
    ErrCanceled string
  | ErrDeadlineExceeded string
  | ErrEOF
  | ErrUnexpectedEOF
  | ErrNet (net_timeout: bool) string
  | ErrMsg string

fun err_text :: "go_err \<Rightarrow> string" where
  "err_text (ErrCanceled s) = s"
| "err_text (ErrDeadlineExceeded s) = s"
| "err_text ErrEOF = ''EOF''"
| "err_text ErrUnexpectedEOF = ''unexpected EOF''"
| "err_text (ErrNet t s) = s"
| "err_text (ErrMsg s) = s"

definition retryableError :: "go_err \<Rightarrow> bool \<Rightarrow> bool" where
  "retryableError err retryTimeout = (case err of
      ErrCanceled _ \<Rightarrow> False
    | ErrDeadlineExceeded _ \<Rightarrow> False
    | ErrEOF \<Rightarrow> True
    | ErrUnexpectedEOF \<Rightarrow> True
    | ErrNet timeout msg \<Rightarrow>
        (if msg = ''redis: connection pool timeout'' then True
         else if timeout then retryTimeout else True)
    | ErrMsg msg \<Rightarrow>
        (if msg = ''redis: connection pool timeout'' then True
         else if msg = ''ERR max number of clients reached'' then True
         else if HasPrefix msg ''LOADING '' then True
         else if HasPrefix msg ''READONLY '' then True
         else if HasPrefix msg ''MASTERDOWN '' then True
         else if HasPrefix msg ''CLUSTERDOWN '' then True
         else if HasPrefix msg ''TRYAGAIN '' then True
         else False))"

definition isTimeoutError :: "go_err \<Rightarrow> bool" where
  "isTimeoutError err = (case err of
      ErrDeadlineExceeded _ \<Rightarrow> True
    | ErrNet timeout _ \<Rightarrow> timeout
    | _ \<Rightarrow> False)"

section \<open>Factory configuration\<close>

record factory_config =
  fc_dial_timeout :: duration
  fc_read_timeout :: duration
  fc_write_timeout :: duration
  fc_pool_timeout :: duration
  fc_operation_timeout :: duration
  fc_sentinel_timeout :: duration
  fc_max_retries :: int
  fc_retry_initial :: duration
  fc_retry_max :: duration
  fc_retry_factor :: rat
  fc_retry_jitter :: rat
  fc_min_idle :: int

definition or_default :: "duration \<Rightarrow> duration \<Rightarrow> duration" where
  "or_default d x = (if x \<le> 0 then d else x)"

definition ApplyDefaults :: "factory_config \<Rightarrow> factory_config" where
  "ApplyDefaults cfg = cfg\<lparr>
     fc_dial_timeout := or_default (3 * sec) (fc_dial_timeout cfg),
     fc_read_timeout := or_default (2 * sec) (fc_read_timeout cfg),
     fc_write_timeout := or_default (2 * sec) (fc_write_timeout cfg),
     fc_pool_timeout := or_default (2 * sec) (fc_pool_timeout cfg),
     fc_operation_timeout := or_default (2 * sec) (fc_operation_timeout cfg),
     fc_sentinel_timeout := or_default (5 * sec) (fc_sentinel_timeout cfg),
     fc_max_retries := (let r = (if fc_max_retries cfg < 0 then 2 else fc_max_retries cfg)
                        in if r = 0 then 2 else r),
     fc_retry_initial := or_default (200 * msec) (fc_retry_initial cfg),
     fc_retry_max := or_default sec (fc_retry_max cfg),
     fc_retry_factor := (if fc_retry_factor cfg \<le> 0 then 2 else fc_retry_factor cfg),
     fc_retry_jitter := (let j = (if fc_retry_jitter cfg < 0 then 0 else fc_retry_jitter cfg)
                         in if j > 1 then 1 else j),
     fc_min_idle := (let n = (if fc_min_idle cfg < 0 then 0 else fc_min_idle cfg)
                     in if n = 0 then 1 else n)\<rparr>"

definition maxAttempts :: "factory_config \<Rightarrow> int" where
  "maxAttempts cfg = (let retries = (if fc_max_retries cfg < 0 then 0 else fc_max_retries cfg) in 1 + retries)"

text \<open>The loop \<open>for i := 2; i < attempt; i++\<close> of \<open>nextBackoff\<close>, \<open>n\<close> rounds of it.\<close>

fun grow_backoff :: "factory_config \<Rightarrow> nat \<Rightarrow> duration \<Rightarrow> duration" where
  "grow_backoff cfg 0 delay = delay"
| "grow_backoff cfg (Suc n) delay =
     (let delay' = \<lfloor>of_int delay * fc_retry_factor cfg\<rfloor>
      in if delay' \<ge> fc_retry_max cfg then fc_retry_max cfg else grow_backoff cfg n delay')"

definition clients_nextBackoff :: "rat \<Rightarrow> factory_config \<Rightarrow> int \<Rightarrow> duration" where
  "clients_nextBackoff sample cfg attempt =
     (if attempt \<le> 1 then 0
      else let delay = grow_backoff cfg (nat (attempt - 2)) (fc_retry_initial cfg);
               delay = (if delay > fc_retry_max cfg then fc_retry_max cfg else delay)
           in if delay \<le> 0 then 0
              else if fc_retry_jitter cfg \<le> 0 then delay
              else let factor = 1 + (2 * sample - 1) * min (fc_retry_jitter cfg) 1;
                       factor = (if factor < 1/10 then 1/10 else factor)
                   in \<lfloor>of_int delay * factor\<rfloor>)"

section \<open>The command loop\<close>

text \<open>
  One command: \<open>fn i\<close> is the outcome of the i-th attempt, \<open>sample i\<close> the jitter draw before
  attempt \<open>i\<close>. The result is the error, if any, the number of attempts made and the delays slept
  between them. \<open>todo\<close> counts the attempts left, so it is the loop variant.
\<close>

fun exec_loop ::
  "factory_config \<Rightarrow> (nat \<Rightarrow> rat) \<Rightarrow> duration \<Rightarrow> (nat \<Rightarrow> go_err option) \<Rightarrow> nat \<Rightarrow> nat
    \<Rightarrow> go_err option \<Rightarrow> go_err option \<times> nat \<times> duration list" where
  "exec_loop cfg sample timeout fn attempt 0 lastErr = (lastErr, 0, [])"
| "exec_loop cfg sample timeout fn attempt (Suc todo) lastErr = (case fn attempt of
      None \<Rightarrow> (None, 1, [])
    | Some err \<Rightarrow>
        (let retryTimeout = (timeout \<le> 0);
             retryTimeout = (if timeout > 0 then True else retryTimeout)
         in if \<not> retryableError err retryTimeout \<or> todo = 0 then (Some err, 1, [])
            else let d = clients_nextBackoff (sample attempt) cfg (int attempt + 1);
                     (r, n, ds) = exec_loop cfg sample timeout fn (Suc attempt) todo (Some err)
                 in (r, Suc n, d # ds)))"

definition exec_cmd ::
  "factory_config \<Rightarrow> (nat \<Rightarrow> rat) \<Rightarrow> duration \<Rightarrow> (nat \<Rightarrow> go_err option)
    \<Rightarrow> go_err option \<times> nat \<times> duration list" where
  "exec_cmd cfg sample timeout fn = exec_loop cfg sample timeout fn 1 (nat (maxAttempts cfg)) None"

section \<open>INFO replication\<close>

fun split_on :: "char \<Rightarrow> string \<Rightarrow> string list" where
  "split_on c [] = [[]]"
| "split_on c (x # xs) =
     (if x = c then [] # split_on c xs
      else case split_on c xs of [] \<Rightarrow> [[x]] | l # ls \<Rightarrow> (x # l) # ls)"

fun IndexByte :: "string \<Rightarrow> char \<Rightarrow> nat option" where
  "IndexByte [] c = None"
| "IndexByte (x # xs) c = (if x = c then Some 0 else map_option Suc (IndexByte xs c))"

definition newline :: char where "newline = CHR 0x0A"
definition carriage :: char where "carriage = CHR 0x0D"

definition parse_info_line :: "strmap \<Rightarrow> string \<Rightarrow> strmap" where
  "parse_info_line out line0 =
     (let line = TrimSpace line0
      in if line = '''' \<or> HasPrefix line ''#'' then out
         else case IndexByte line CHR '':'' of
                None \<Rightarrow> out
              | Some idx \<Rightarrow> if 0 < idx
                  then gm_set out (TrimSpace (take idx line)) (TrimSpace (drop (idx + 1) line))
                  else out)"

definition parseInfoMap :: "string \<Rightarrow> strmap" where
  "parseInfoMap info = foldl parse_info_line [] (split_on newline info)"

record replication_info =
  ri_role :: string
  ri_master_host :: string
  ri_master_port :: int
  ri_master_link_status :: string
  ri_master_last_io :: int
  ri_master_sync_in_progress :: bool
  ri_master_repl_offset :: int
  ri_replica_repl_offset :: int
  ri_slave_priority :: int

definition ri0 :: replication_info where
  "ri0 = \<lparr>ri_role = '''', ri_master_host = '''', ri_master_port = 0, ri_master_link_status = '''',
     ri_master_last_io = 0, ri_master_sync_in_progress = False, ri_master_repl_offset = 0,
     ri_replica_repl_offset = 0, ri_slave_priority = 0\<rparr>"

definition int_field :: "strmap \<Rightarrow> string \<Rightarrow> int" where
  "int_field flds k = (case ParseInt64 (gm_str flds k) of Some n \<Rightarrow> n | None \<Rightarrow> 0)"

definition info_of_fields :: "strmap \<Rightarrow> replication_info" where
  "info_of_fields flds =
     \<lparr>ri_role = (let v = gm_str flds ''role''
                 in if v = ''master'' then ''master''
                    else if v = ''slave'' \<or> v = ''replica'' then ''replica'' else v),
      ri_master_host = gm_str flds ''master_host'',
      ri_master_port = int_field flds ''master_port'',
      ri_master_link_status = gm_str flds ''master_link_status'',
      ri_master_last_io = int_field flds ''master_last_io_seconds_ago'',
      ri_master_sync_in_progress = (gm_str flds ''master_sync_in_progress'' = ''1''),
      ri_master_repl_offset = int_field flds ''master_repl_offset'',
      ri_replica_repl_offset = int_field flds ''slave_repl_offset'',
      ri_slave_priority = int_field flds ''slave_priority''\<rparr>"

text \<open>\<open>raw\<close> is the outcome of the \<open>INFO replication\<close> command, \<open>role_reply\<close> of \<open>ROLE\<close>.\<close>

definition ReplicationInfo :: "go_err + string \<Rightarrow> go_err + replication_info" where
  "ReplicationInfo raw = (case raw of Inl e \<Rightarrow> Inl e | Inr s \<Rightarrow> Inr (info_of_fields (parseInfoMap s)))"

definition Role :: "go_err + string \<Rightarrow> go_err + string \<Rightarrow> go_err + string" where
  "Role raw role_reply =
     (case (case ReplicationInfo raw of Inr info \<Rightarrow> ri_role info | Inl _ \<Rightarrow> '''') of
        [] \<Rightarrow> (case role_reply of
                 Inl e \<Rightarrow> Inl e
               | Inr s \<Rightarrow> Inr (if HasPrefix s ''master'' then ''master'' else ''replica''))
      | r \<Rightarrow> Inr r)"

section \<open>Addresses\<close>

definition redisPortFromPod :: "pod \<Rightarrow> int" where
  "redisPortFromPod p =
     (case find (\<lambda>c. c_name c = RedisContainerName) (pod_containers p) of
        None \<Rightarrow> 6379
      | Some c \<Rightarrow> (case c_ports c of
            [] \<Rightarrow> 6379
          | p0 # _ \<Rightarrow>
              (let selected = (case find (\<lambda>cp. cp_name cp = ''redis'') (c_ports c) of
                                 Some cp \<Rightarrow> cp_container_port cp | None \<Rightarrow> cp_container_port p0)
               in if 0 < selected then selected else 6379)))"

text \<open>The address \<open>goRedisFactory.ForPod\<close> connects to; \<open>tls\<close> tells whether a TLS configuration is set.\<close>

definition redis_ForPod_addr :: "bool \<Rightarrow> pod \<Rightarrow> string + string" where
  "redis_ForPod_addr tls p =
     (let crName = gm_str (pod_labels p) LabelClusterKey
      in if crName = '''' then Inl (''pod '' @ pod_name p @ '' missing label'')
         else let dnsHost = pod_name p @ ''.'' @ crName @ ''-headless.'' @ pod_namespace p @ ''.svc'';
                  host = (if \<not> tls \<and> pod_ip p \<noteq> '''' then pod_ip p else dnsHost)
              in Inr (host @ '':'' @ int_to_dec (redisPortFromPod p)))"

definition sentinelServiceEnabled :: "kv_cluster \<Rightarrow> bool" where
  "sentinelServiceEnabled cr = (case spec_sentinel_service (cr_spec cr) of
      None \<Rightarrow> True
    | Some s \<Rightarrow> (case svs_create s of None \<Rightarrow> True | Some b \<Rightarrow> b))"

definition sentinelPorts :: "kv_cluster \<Rightarrow> int \<times> string" where
  "sentinelPorts cr = SentinelPort cr"

definition add_endpoint :: "string \<Rightarrow> string list \<Rightarrow> string \<Rightarrow> string list" where
  "add_endpoint portStr endpoints host =
     (let addr = host @ '':'' @ portStr
      in if addr \<in> set endpoints then endpoints else endpoints @ [addr])"

definition sentinelServiceEndpoints :: "kv_cluster \<Rightarrow> string \<Rightarrow> string list" where
  "sentinelServiceEndpoints cr namespace =
     (let (port, portStr) = sentinelPorts cr
      in if port \<le> 0 then []
         else let eps = (if sentinelServiceEnabled cr
                         then add_endpoint portStr [] (SentinelServiceName cr @ ''.'' @ namespace @ ''.svc'')
                         else []);
                  count = (case spec_sentinel_count (cr_spec cr) of
                             Some n \<Rightarrow> if 0 < n then nat n else 0 | None \<Rightarrow> 0);
                  count = (if count = 0 then 3 else count);
                  headless = SentinelHeadlessName cr @ ''.'' @ namespace @ ''.svc''
              in foldl (add_endpoint portStr) eps
                   (map (\<lambda>i. cr_name cr @ ''-sentinel-'' @ nat_to_dec i @ ''.'' @ headless) [0..<count]))"

definition clients_tlsEnabled :: "kv_cluster \<Rightarrow> bool" where
  "clients_tlsEnabled cr = (case spec_security (cr_spec cr) of
      None \<Rightarrow> False
    | Some s \<Rightarrow> (case sec_tls s of None \<Rightarrow> False | Some t \<Rightarrow> tls_enabled t))"

text \<open>\<open>is_ip\<close> is \<open>net.ParseIP(s) != nil\<close>.\<close>

definition sentinelPodAddress :: "(string \<Rightarrow> bool) \<Rightarrow> kv_cluster \<Rightarrow> pod \<Rightarrow> string" where
  "sentinelPodAddress is_ip cr p =
     (let portStr = snd (sentinelPorts cr)
      in if \<not> clients_tlsEnabled cr \<and> is_ip (pod_ip p) then pod_ip p @ '':'' @ portStr
         else pod_name p @ ''.'' @ SentinelHeadlessName cr @ ''.'' @ pod_namespace p @ ''.svc:'' @ portStr)"

text \<open>
  \<open>ResetSentinel\<close>: the endpoints in order, the first that answers ends the loop. \<open>reset\<close> is the
  outcome of \<open>SENTINEL RESET\<close> on an endpoint (its retries included). The second component is the
  list of endpoints contacted.
\<close>

fun reset_endpoints :: "(string \<Rightarrow> go_err option) \<Rightarrow> string list \<Rightarrow> (string \<times> go_err) list + unit" where
  "reset_endpoints reset [] = Inl []"
| "reset_endpoints reset (e # es) = (case reset e of
      None \<Rightarrow> Inr ()
    | Some err \<Rightarrow> (case reset_endpoints reset es of Inl errs \<Rightarrow> Inl ((e, err) # errs) | Inr u \<Rightarrow> Inr u))"

datatype reset_error = NoSentinelEndpoints | ResetErrors "(string \<times> go_err) list"

definition ResetSentinel :: "(string \<Rightarrow> go_err option) \<Rightarrow> string \<Rightarrow> kv_cluster \<Rightarrow> reset_error option" where
  "ResetSentinel reset namespace cr =
     (if spec_mode (cr_spec cr) \<noteq> ModeSentinel then None
      else let endpoints = sentinelServiceEndpoints cr (if namespace \<noteq> '''' then namespace else ''default'')
           in if endpoints = [] then Some NoSentinelEndpoints
              else case reset_endpoints reset endpoints of
                     Inl errs \<Rightarrow> Some (ResetErrors errs) | Inr _ \<Rightarrow> None)"

section \<open>Lemmas on the command loop\<close>

lemma retry_timeout_always [simp]: "(if 0 < (t :: duration) then True else t \<le> 0) = True"
  by auto

definition exec_outcome ::
  "(nat \<Rightarrow> go_err option) \<Rightarrow> nat \<Rightarrow> nat \<Rightarrow> go_err option \<times> nat \<times> duration list \<Rightarrow> bool" where
  "exec_outcome fn a todo res = (case res of (r, n, ds) \<Rightarrow>
     1 \<le> n \<and> n \<le> todo \<and> Suc (length ds) = n
     \<and> r = fn (a + n - 1)
     \<and> (\<forall>i. a \<le> i \<and> i < a + n - 1 \<longrightarrow> (\<exists>e. fn i = Some e \<and> retryableError e True))
     \<and> (\<forall>e. r = Some e \<longrightarrow> retryableError e True \<longrightarrow> n = todo))"

lemma exec_loop_outcome:
  "exec_outcome fn a (Suc todo) (exec_loop cfg sample timeout fn a (Suc todo) le)"
proof (induction todo arbitrary: a le)
  case 0
  then show ?case by (auto simp: exec_outcome_def split: option.split)
next
  case (Suc todo)
  obtain r n ds where rec: "exec_loop cfg sample timeout fn (Suc a) (Suc todo) (fn a) = (r, n, ds)"
    by (metis prod_cases3)
  have out: "exec_outcome fn (Suc a) (Suc todo) (r, n, ds)"
    using Suc.IH [of "Suc a" "fn a"] rec by simp
  show ?case
  proof (cases "fn a")
    case None
    then show ?thesis by (auto simp: exec_outcome_def)
  next
    case (Some e)
    show ?thesis
    proof (cases "retryableError e True")
      case False
      then show ?thesis using Some by (auto simp: exec_outcome_def Let_def)
    next
      case True
      have step: "exec_loop cfg sample timeout fn a (Suc (Suc todo)) le
          = (r, Suc n, clients_nextBackoff (sample a) cfg (int a + 1) # ds)"
        using rec Some True by simp
      have "\<exists>e. fn i = Some e \<and> retryableError e True" if "a \<le> i" "i < a + n" for i
        using that out Some True by (cases "i = a") (auto simp: exec_outcome_def)
      then show ?thesis unfolding step using out by (auto simp: exec_outcome_def)
    qed
  qed
qed

lemma ApplyDefaults_facts:
  "1 \<le> fc_max_retries (ApplyDefaults cfg)"
  "0 < fc_retry_initial (ApplyDefaults cfg)"
  "0 < fc_retry_max (ApplyDefaults cfg)"
  "0 \<le> fc_retry_jitter (ApplyDefaults cfg)" "fc_retry_jitter (ApplyDefaults cfg) \<le> 1"
  "0 < fc_retry_factor (ApplyDefaults cfg)"
  by (simp_all add: ApplyDefaults_def or_default_def Let_def)

lemma clients_nextBackoff_bounds:
  assumes "0 \<le> sample" "sample \<le> 1" "0 \<le> fc_retry_max cfg" "0 \<le> fc_retry_jitter cfg"
  shows "0 \<le> clients_nextBackoff sample cfg attempt
       \<and> clients_nextBackoff sample cfg attempt \<le> 2 * fc_retry_max cfg"
proof -
  define d where "d = min (grow_backoff cfg (nat (attempt - 2)) (fc_retry_initial cfg)) (fc_retry_max cfg)"
  define j where "j = min (fc_retry_jitter cfg) 1"
  define f where "f = max (1/10) (1 + (2 * sample - 1) * j)"
  have eq: "clients_nextBackoff sample cfg attempt =
      (if attempt \<le> 1 \<or> d \<le> 0 then 0 else if fc_retry_jitter cfg \<le> 0 then d else \<lfloor>of_int d * f\<rfloor>)"
    by (simp add: clients_nextBackoff_def d_def f_def j_def Let_def min_def max_def)
  have "\<bar>2 * sample - 1\<bar> * j \<le> 1 * 1"
    using assms by (intro mult_mono) (auto simp: j_def abs_le_iff)
  moreover have "(2 * sample - 1) * j \<le> \<bar>2 * sample - 1\<bar> * j"
    using assms by (intro mult_right_mono) (auto simp: j_def)
  ultimately have f: "0 \<le> f" "f \<le> 2" by (auto simp: f_def)
  have "\<lfloor>of_int d * f\<rfloor> \<le> 2 * d \<and> 0 \<le> \<lfloor>of_int d * f\<rfloor>" if "0 < d"
  proof -
    have "of_int d * f \<le> of_int d * 2" using that f by (intro mult_left_mono) auto
    then have "of_int d * f < of_int (2 * d) + 1" by simp
    moreover have "0 \<le> of_int d * f" using that f by simp
    ultimately show ?thesis by (simp add: floor_le_iff)
  qed
  moreover have "d \<le> fc_retry_max cfg" by (simp add: d_def)
  ultimately show ?thesis unfolding eq using assms(3) by (smt (verit))
qed

lemma exec_loop_delays:
  assumes "0 \<le> fc_retry_max cfg" "0 \<le> fc_retry_jitter cfg" "\<forall>i. 0 \<le> sample i \<and> sample i \<le> 1"
    and "exec_loop cfg sample timeout fn a todo le = (r, n, ds)" "d \<in> set ds"
  shows "0 \<le> d \<and> d \<le> 2 * fc_retry_max cfg"
  using assms(4,5)
proof (induction todo arbitrary: a le r n ds)
  case (Suc todo)
  show ?case
  proof (cases "fn a")
    case (Some e)
    show ?thesis
    proof (cases "retryableError e True \<and> todo \<noteq> 0")
      case True
      obtain r' n' ds' where rec: "exec_loop cfg sample timeout fn (Suc a) todo (Some e) = (r', n', ds')"
        by (metis prod_cases3)
      have ds: "ds = clients_nextBackoff (sample a) cfg (int a + 1) # ds'"
        using Suc.prems(1) Some True rec by simp
      consider "d = clients_nextBackoff (sample a) cfg (int a + 1)" | "d \<in> set ds'"
        using Suc.prems(2) ds by auto
      then show ?thesis
      proof cases
        case 1
        then show ?thesis using clients_nextBackoff_bounds [of "sample a" cfg "int a + 1"] assms(1-3) by blast
      next
        case 2
        then show ?thesis using Suc.IH [OF rec] by blast
      qed
    qed (use Suc.prems Some in \<open>auto simp: Let_def\<close>)
  qed (use Suc.prems in auto)
qed simp

section \<open>Lemmas on the INFO parser\<close>

lemma split_on_snoc: "c \<notin> set l \<Longrightarrow> split_on c (l @ c # rest) = l # split_on c rest"
  by (induction l) auto

lemma split_on_lines:
  "\<forall>l \<in> set ls. c \<notin> set l \<Longrightarrow> split_on c (concat (map (\<lambda>l. l @ [c]) ls)) = ls @ [[]]"
  by (induction ls) (auto simp: split_on_snoc)

lemma IndexByte_append: "c \<notin> set k \<Longrightarrow> IndexByte (k @ c # v) c = Some (length k)"
  by (induction k) auto

definition trimmed :: "string \<Rightarrow> bool" where
  "trimmed s = (s = [] \<or> \<not> is_space (hd s) \<and> \<not> is_space (last s))"

lemma dropWhile_hd: "s \<noteq> [] \<Longrightarrow> \<not> P (hd s) \<Longrightarrow> dropWhile P s = s"
  by (cases s) auto

lemma TrimSpace_id: "trimmed s \<Longrightarrow> TrimSpace s = s"
  by (cases "s = []") (auto simp: trimmed_def TrimSpace_def dropWhile_hd hd_rev)

lemma TrimSpace_cr:
  assumes "s \<noteq> []" "trimmed s"
  shows "TrimSpace (s @ [carriage]) = s"
proof -
  have "is_space carriage" by (simp add: is_space_def carriage_def)
  then show ?thesis using assms by (auto simp: trimmed_def TrimSpace_def dropWhile_hd hd_rev)
qed

text \<open>A field of \<open>INFO\<close> as Redis prints it: \<open>key:value\r\n\<close>.\<close>

definition info_field_ok :: "string \<times> string \<Rightarrow> bool" where
  "info_field_ok kv = (case kv of (k, v) \<Rightarrow>
     k \<noteq> [] \<and> trimmed k \<and> trimmed v \<and> CHR '':'' \<notin> set k \<and> newline \<notin> set k \<and> newline \<notin> set v
     \<and> hd k \<noteq> CHR ''#'')"

definition info_line :: "string \<times> string \<Rightarrow> string" where
  "info_line kv = (case kv of (k, v) \<Rightarrow> k @ '':'' @ v @ [carriage])"

definition render_info :: "string \<Rightarrow> strmap \<Rightarrow> string" where
  "render_info header kvs = concat (map (\<lambda>l. l @ [newline]) ((CHR ''#'' # header @ [carriage]) # map info_line kvs))"

lemma parse_info_line_field:
  assumes "info_field_ok (k, v)"
  shows "parse_info_line out (info_line (k, v)) = gm_set out k v"
proof -
  have kv: "k \<noteq> []" "trimmed k" "trimmed v" "CHR '':'' \<notin> set k" "hd k \<noteq> CHR ''#''"
    using assms by (auto simp: info_field_ok_def)
  have "trimmed (k @ CHR '':'' # v)"
    using kv by (auto simp: trimmed_def is_space_def)
  then have line: "TrimSpace (info_line (k, v)) = k @ CHR '':'' # v"
    using TrimSpace_cr [of "k @ CHR '':'' # v"] by (simp add: info_line_def)
  have "\<not> HasPrefix (k @ CHR '':'' # v) ''#''"
    using kv(1,5) by (cases k) (auto simp: HasPrefix_def)
  then show ?thesis
    using kv by (simp add: parse_info_line_def line IndexByte_append Let_def TrimSpace_id)
qed

lemma gm_set_new: "k \<notin> fst ` set m \<Longrightarrow> gm_set m k v = m @ [(k, v)]"
  unfolding gm_set_def by (induction m) auto

lemma foldl_parse_fields:
  assumes "\<forall>kv \<in> set kvs. info_field_ok kv" "distinct (map fst (acc @ kvs))"
  shows "foldl parse_info_line acc (map info_line kvs) = acc @ kvs"
  using assms
proof (induction kvs arbitrary: acc)
  case (Cons kv kvs)
  obtain k v where kv: "kv = (k, v)" by force
  have "foldl parse_info_line (acc @ [(k, v)]) (map info_line kvs) = (acc @ [(k, v)]) @ kvs"
    by (rule Cons.IH) (use Cons.prems kv in auto)
  then show ?case
    using Cons.prems kv by (simp add: parse_info_line_field gm_set_new)
qed simp

lemma newline_not_in_line: "info_field_ok kv \<Longrightarrow> newline \<notin> set (info_line kv)"
  by (auto simp: info_field_ok_def info_line_def newline_def carriage_def split: prod.splits)

lemma parse_info_skips:
  "parse_info_line out [] = out"
  "newline \<notin> set h \<Longrightarrow> trimmed (CHR ''#'' # h) \<Longrightarrow> parse_info_line out (CHR ''#'' # h @ [carriage]) = out"
proof -
  show "parse_info_line out [] = out" by (simp add: parse_info_line_def TrimSpace_def)
  assume "trimmed (CHR ''#'' # h)"
  then have "TrimSpace (CHR ''#'' # h @ [carriage]) = CHR ''#'' # h"
    using TrimSpace_cr [of "CHR ''#'' # h"] by simp
  then show "parse_info_line out (CHR ''#'' # h @ [carriage]) = out"
    by (simp add: parse_info_line_def HasPrefix_def Let_def)
qed

lemma add_endpoint_distinct: "distinct eps \<Longrightarrow> distinct (add_endpoint p eps h)"
  by (simp add: add_endpoint_def Let_def)

lemma foldl_add_endpoint:
  assumes "distinct eps"
  shows "distinct (foldl (add_endpoint p) eps hs)
    \<and> set (foldl (add_endpoint p) eps hs) = set eps \<union> (\<lambda>h. h @ '':'' @ p) ` set hs"
  using assms
proof (induction hs arbitrary: eps)
  case (Cons h hs)
  have "set (add_endpoint p eps h) = insert (h @ '':'' @ p) (set eps)"
    by (auto simp: add_endpoint_def Let_def)
  then show ?case using Cons add_endpoint_distinct by auto
qed simp

lemma reset_endpoints_ok: "reset_endpoints reset es = Inr () \<longleftrightarrow> (\<exists>e \<in> set es. reset e = None)"
  by (induction es) (auto split: option.splits sum.splits)

section \<open>Properties\<close>


definition demo_cfg :: factory_config where
  "demo_cfg = \<lparr>fc_dial_timeout = 0, fc_read_timeout = 0, fc_write_timeout = 0, fc_pool_timeout = 0,
     fc_operation_timeout = 0, fc_sentinel_timeout = 0, fc_max_retries = 0, fc_retry_initial = 0,
     fc_retry_max = 0, fc_retry_factor = 0, fc_retry_jitter = 0, fc_min_idle = 0\<rparr>"

definition demo_outcome :: "nat \<Rightarrow> go_err option" where
  "demo_outcome i = (if i = 1 then Some ErrEOF else None)"


text \<open>
  C39: The INFO parser reads back exactly the fields Redis printed: for any section header and any
  well-formed fields with distinct names, parsing the printed text yields the fields, in order
  (values may contain colons).
\<close>

theorem parseInfoMap_render:
  assumes "\<forall>kv \<in> set kvs. info_field_ok kv" "distinct (map fst kvs)"
    and "newline \<notin> set header" "trimmed (CHR ''#'' # header)"
  shows "parseInfoMap (render_info header kvs) = kvs"
proof -
  let ?h = "CHR ''#'' # header @ [carriage]"
  have "\<forall>l \<in> set (?h # map info_line kvs). newline \<notin> set l"
    using assms newline_not_in_line by (auto simp: newline_def carriage_def)
  then have "split_on newline (render_info header kvs) = (?h # map info_line kvs) @ [[]]"
    unfolding render_info_def by (rule split_on_lines)
  then show ?thesis
    using assms foldl_parse_fields [of kvs "[]"] by (simp add: parseInfoMap_def parse_info_skips)
qed

theorem parseInfoMap_render_witness:
  "parseInfoMap (render_info '' Replication'' [(''role'', ''slave''), (''master_host'', ''fd00::1'')])
     = [(''role'', ''slave''), (''master_host'', ''fd00::1'')]
   \<and> ri_role (info_of_fields (parseInfoMap (render_info '' Replication''
       [(''role'', ''slave''), (''master_host'', ''fd00::1'')]))) = ''replica''"
proof -
  have "parseInfoMap (render_info '' Replication'' [(''role'', ''slave''), (''master_host'', ''fd00::1'')])
     = [(''role'', ''slave''), (''master_host'', ''fd00::1'')]"
    by (rule parseInfoMap_render) (simp_all add: info_field_ok_def trimmed_def is_space_def newline_def)
  then show ?thesis by (simp add: info_of_fields_def gm_str_def gm_get_def)
qed

end
