(* ===== verification/KV_Health.thy ===== *)
theory KV_Health
  imports KV_Clients
begin

text \<open>
  \<open>src/controllers/internal/ops/health/health.go\<close>: the thresholds of a cluster and the health of a
  pod from its replication report. \<open>int32\<close> conversions are \<open>wrap32\<close>; a lag pointer is an option.
\<close>

record health_settings =
  hset_lag_threshold :: int
  hset_failover_timeout :: int
  hset_min_replicas :: int

definition SettingsFor :: "kv_cluster \<Rightarrow> health_settings" where
  "SettingsFor cr =
     (let spec = cr_spec cr;
          s0 = \<lparr>hset_lag_threshold = 5, hset_failover_timeout = 20, hset_min_replicas = 2\<rparr>;
          s1 = (case spec_health spec of
                  None \<Rightarrow> s0
                | Some hs \<Rightarrow>
                    \<lparr>hset_lag_threshold =
                       (if hs_replication_lag_max hs \<ge> 0 then hs_replication_lag_max hs else hset_lag_threshold s0),
                     hset_failover_timeout =
                       (if hs_failover_timeout hs > 0 then hs_failover_timeout hs else hset_failover_timeout s0),
                     hset_min_replicas =
                       (if hs_min_replicas hs > 0 then hs_min_replicas hs else hset_min_replicas s0)\<rparr>);
          s2 = (case spec_replication_health spec of
                  Some legacy \<Rightarrow>
                    if spec_health spec = None \<and> legacy > 0 then s1\<lparr>hset_lag_threshold := legacy\<rparr> else s1
                | None \<Rightarrow> s1)
      in if hset_min_replicas s2 < 1 then s2\<lparr>hset_min_replicas := 1\<rparr> else s2)"

definition LagThresholdSeconds :: "kv_cluster \<Rightarrow> int" where
  "LagThresholdSeconds cr = hset_lag_threshold (SettingsFor cr)"

definition computeLagSeconds :: "int \<Rightarrow> int \<Rightarrow> int option" where
  "computeLagSeconds masterOffset replicaOffset =
     (if masterOffset \<le> 0 \<or> replicaOffset \<le> 0 then None
      else let diff = masterOffset - replicaOffset
           in if diff \<le> 0 then None
              else Some (if diff > 2147483647 then 2147483647 else diff))"

text \<open>\<open>mergeLagPointers\<close>: the loop keeps the result and its value.\<close>

fun merge_lag_loop :: "int option \<Rightarrow> int option list \<Rightarrow> int option" where
  "merge_lag_loop result [] = result"
| "merge_lag_loop result (None # ps) = merge_lag_loop result ps"
| "merge_lag_loop result (Some p # ps) =
     merge_lag_loop (case result of None \<Rightarrow> Some p | Some m \<Rightarrow> if m < p then Some p else result) ps"

definition mergeLagPointers :: "int option list \<Rightarrow> int option" where
  "mergeLagPointers ptrs = merge_lag_loop None ptrs"

definition lagPointer :: "replication_info \<Rightarrow> int option" where
  "lagPointer info =
     (let c1 = (if ri_master_last_io info > 0 then [Some (wrap32 (ri_master_last_io info))] else []);
          c2 = (case computeLagSeconds (ri_master_repl_offset info) (ri_replica_repl_offset info) of
                  Some off \<Rightarrow> [Some off] | None \<Rightarrow> [])
      in mergeLagPointers (c1 @ c2))"

definition stringsEqualFoldAny :: "string \<Rightarrow> string list \<Rightarrow> bool" where
  "stringsEqualFoldAny s values = list_ex (EqualFold s) values"

definition EvaluatePodHealth ::
  "pod_role \<Rightarrow> replication_info \<Rightarrow> bool \<Rightarrow> int \<Rightarrow> pod_health \<times> int option" where
  "EvaluatePodHealth role info ready threshold =
     (let lagPtr = lagPointer info
      in case role of
           PodRoleSentinel \<Rightarrow> if ready then (PodHealthHealthy, None) else (PodHealthOffline, None)
         | PodRoleMaster \<Rightarrow>
             if ri_role info = '''' \<and> \<not> ready then (PodHealthOffline, None) else (PodHealthHealthy, lagPtr)
         | PodRoleReplica \<Rightarrow>
             if ri_role info = '''' then (PodHealthOffline, lagPtr)
             else let link = ri_master_link_status info
                  in if link \<noteq> '''' \<and> \<not> stringsEqualFoldAny link [''up'', ''ok''] then (PodHealthDesynced, lagPtr)
                     else let status = (if ri_master_sync_in_progress info then PodHealthLagging else PodHealthHealthy)
                          in if ri_master_repl_offset info > 0 \<and> ri_replica_repl_offset info > 0
                             then let diffLag = computeLagSeconds (ri_master_repl_offset info) (ri_replica_repl_offset info);
                                      lagPtr' = mergeLagPointers [lagPtr, diffLag]
                                  in ((case diffLag of
                                         Some d \<Rightarrow> if d > 0 \<and> status = PodHealthHealthy then PodHealthLagging else status
                                       | None \<Rightarrow> status), lagPtr')
                             else (status, lagPtr))"

section \<open>Lemmas\<close>

definition reported :: "int option list \<Rightarrow> int set" where
  "reported ps = {v. Some v \<in> set ps}"

lemma reported_simps [simp]:
  "reported [] = {}" "reported (None # ps) = reported ps" "reported (Some p # ps) = insert p (reported ps)"
  by (auto simp: reported_def)

lemma finite_reported [simp]: "finite (reported ps)"
proof -
  have "reported ps \<subseteq> the ` set ps" unfolding reported_def by (auto intro: image_eqI [of _ the "Some _"])
  then show ?thesis by (rule finite_subset) simp
qed

lemma Max_insert_max: "finite S \<Longrightarrow> Max (insert (max m p) S) = Max (insert m (insert p S))" for m :: int
  by (cases "S = {}") (auto simp: max.assoc)

lemma merge_lag_loop_Some: "merge_lag_loop (Some m) ps = Some (Max (insert m (reported ps)))"
proof (induction ps arbitrary: m)
  case (Cons q ps)
  show ?case
  proof (cases q)
    case (Some p)
    have "merge_lag_loop (Some m) (q # ps) = merge_lag_loop (Some (max m p)) ps"
      using Some by (simp add: max_def)
    then show ?thesis using Cons Some by (simp only: Max_insert_max finite_reported reported_simps)
  qed (use Cons in simp)
qed simp

lemma mergeLagPointers_reported:
  "mergeLagPointers ps = (if reported ps = {} then None else Some (Max (reported ps)))"
  unfolding mergeLagPointers_def
proof (induction ps)
  case (Cons q ps)
  show ?case by (cases q) (use Cons in \<open>simp_all add: merge_lag_loop_Some\<close>)
qed simp

lemma computeLagSeconds_pos: "computeLagSeconds m r = Some d \<Longrightarrow> 0 < d \<and> d \<le> 2147483647"
  by (auto simp: computeLagSeconds_def Let_def split: if_splits)

lemma clamp_min_replicas:
  "1 \<le> hset_min_replicas (if hset_min_replicas s < 1 then s\<lparr>hset_min_replicas := 1\<rparr> else s)"
  by simp

lemma SettingsFor_min_replicas: "1 \<le> hset_min_replicas (SettingsFor cr)"
  unfolding SettingsFor_def Let_def by (rule clamp_min_replicas)

lemma replica_health_cases:
  "fst (EvaluatePodHealth PodRoleReplica info ready threshold) =
     (if ri_role info = '''' then PodHealthOffline
      else if ri_master_link_status info \<noteq> '''' \<and> \<not> EqualFold (ri_master_link_status info) ''up''
              \<and> \<not> EqualFold (ri_master_link_status info) ''ok'' then PodHealthDesynced
      else if ri_master_sync_in_progress info then PodHealthLagging
      else if computeLagSeconds (ri_master_repl_offset info) (ri_replica_repl_offset info) \<noteq> None
           then PodHealthLagging
      else PodHealthHealthy)"
proof -
  let ?c = "computeLagSeconds (ri_master_repl_offset info) (ri_replica_repl_offset info)"
  have "?c = None" if "\<not> (0 < ri_master_repl_offset info \<and> 0 < ri_replica_repl_offset info)"
    using that by (auto simp: computeLagSeconds_def)
  moreover have "0 < d" if "?c = Some d" for d using computeLagSeconds_pos [OF that] by simp
  ultimately show ?thesis
    by (cases ?c) (auto simp: EvaluatePodHealth_def Let_def stringsEqualFoldAny_def)
qed

section \<open>Properties\<close>


text \<open>Merging lag reports yields the largest one reported, and none when none is reported.\<close>

lemma mergeLagPointers_max:
  "mergeLagPointers ps =
     (if \<forall>p \<in> set ps. p = None then None else Some (Max {v. Some v \<in> set ps}))"
proof -
  have "reported ps = {} \<longleftrightarrow> (\<forall>p \<in> set ps. p = None)"
    unfolding reported_def by (metis (mono_tags, lifting) empty_Collect_eq not_None_eq)
  then show ?thesis by (simp add: mergeLagPointers_reported) (simp add: reported_def)
qed

end
