(* ===== verification/KV_Requeue.thy ===== *)
theory KV_Requeue
  imports KV_Api
begin

text \<open>
  When the next reconcile runs: the requeue accumulator of
  \<open>src/controllers/internal/reconcile/util.go\<close> with its wrappers in \<open>pipeline.go\<close>, the per-key
  backoff of \<open>src/controllers/backoff_tracker.go\<close>, and \<open>applyBackoffDelay\<close> of \<open>controller.go\<close>.

  The draw of \<open>rand.Float64\<close> is a parameter: a multiple \<open>k / 2^53\<close> of the unit, \<open>0 \<le> k < 2^53\<close>,
  and the product with the base delay is computed exactly where Go rounds to a double.
\<close>

section \<open>Requeue accumulator\<close>

record requeue_acc =
  ra_min :: duration
  ra_next :: duration

definition ra_empty :: requeue_acc where
  "ra_empty = \<lparr>ra_min = 0, ra_next = 0\<rparr>"

definition ra_Set :: "requeue_acc \<Rightarrow> duration \<Rightarrow> requeue_acc" where
  "ra_Set a d =
     (if d \<le> 0 then a
      else let a1 = (if ra_next a = 0 \<or> d < ra_next a then a\<lparr>ra_next := d\<rparr> else a)
           in if 0 < ra_min a1 \<and> ra_next a1 < ra_min a1 then a1\<lparr>ra_next := ra_min a1\<rparr> else a1)"

definition ra_SetMin :: "requeue_acc \<Rightarrow> duration \<Rightarrow> requeue_acc" where
  "ra_SetMin a d =
     (if d \<le> 0 then a
      else let a1 = (if ra_min a = 0 \<or> ra_min a < d then a\<lparr>ra_min := d\<rparr> else a)
           in if 0 < ra_next a1 \<and> ra_next a1 < ra_min a1 then a1\<lparr>ra_next := ra_min a1\<rparr> else a1)"

definition ra_Result :: "requeue_acc \<Rightarrow> duration" where
  "ra_Result a =
     (if ra_next a = 0 then ra_min a
      else if 0 < ra_min a \<and> ra_next a < ra_min a then ra_min a
      else ra_next a)"

text \<open>The requests one reconcile makes of its accumulator, \<open>RequeueAfter\<close> and \<open>RequeueMin\<close>.\<close>

datatype requeue_op = RequeueAfter duration | RequeueMin duration

fun requeue_step :: "requeue_acc \<Rightarrow> requeue_op \<Rightarrow> requeue_acc" where
  "requeue_step a (RequeueAfter d) = (if d \<le> 0 then a else ra_Set a d)"
| "requeue_step a (RequeueMin d) = (if d \<le> 0 then a else ra_SetMin a d)"

definition NextRequeue :: "requeue_op list \<Rightarrow> duration" where
  "NextRequeue ops = ra_Result (foldl requeue_step ra_empty ops)"

section \<open>What the accumulator promises\<close>

text \<open>
  The contract: the smallest requested delay, but never below the largest minimum; with no
  requested delay, the largest minimum.
\<close>

definition delays :: "requeue_op list \<Rightarrow> duration set" where
  "delays ops = {d. RequeueAfter d \<in> set ops \<and> 0 < d}"

definition minimums :: "requeue_op list \<Rightarrow> duration set" where
  "minimums ops = {d. RequeueMin d \<in> set ops \<and> 0 < d}"

definition requeue_spec :: "requeue_op list \<Rightarrow> duration" where
  "requeue_spec ops =
     (let m = Max (insert 0 (minimums ops))
      in if delays ops = {} then m else max m (Min (delays ops)))"

lemma finite_delays [simp]: "finite (delays ops)"
proof -
  have "delays ops \<subseteq> (\<lambda>p. case p of RequeueAfter d \<Rightarrow> d | RequeueMin d \<Rightarrow> d) ` set ops"
    by (force simp: delays_def)
  then show ?thesis by (rule finite_subset) simp
qed

lemma finite_minimums [simp]: "finite (minimums ops)"
proof -
  have "minimums ops \<subseteq> (\<lambda>p. case p of RequeueAfter d \<Rightarrow> d | RequeueMin d \<Rightarrow> d) ` set ops"
    by (force simp: minimums_def)
  then show ?thesis by (rule finite_subset) simp
qed

lemma delays_pos: "d \<in> delays ops \<Longrightarrow> 0 < d"
  by (simp add: delays_def)

lemma delays_snoc:
  "delays (ops @ [RequeueAfter d]) = (if 0 < d then insert d (delays ops) else delays ops)"
  "delays (ops @ [RequeueMin d]) = delays ops"
  by (auto simp: delays_def)

lemma minimums_snoc:
  "minimums (ops @ [RequeueMin d]) = (if 0 < d then insert d (minimums ops) else minimums ops)"
  "minimums (ops @ [RequeueAfter d]) = minimums ops"
  by (auto simp: minimums_def)

text \<open>The state after a sequence of requests, as a function of the requests.\<close>

definition ra_abs :: "requeue_op list \<Rightarrow> requeue_acc" where
  "ra_abs ops =
     (let m = Max (insert 0 (minimums ops))
      in \<lparr>ra_min = m, ra_next = (if delays ops = {} then 0 else max m (Min (delays ops)))\<rparr>)"

lemma ra_min_nonneg: "0 \<le> ra_min (ra_abs ops)"
  by (simp add: ra_abs_def Let_def)

lemma ra_abs_Set: "requeue_step (ra_abs ops) (RequeueAfter d) = ra_abs (ops @ [RequeueAfter d])"
proof (cases "0 < d")
  case True
  define m where "m = Max (insert 0 (minimums ops))"
  have m: "0 \<le> m" by (simp add: m_def)
  show ?thesis
  proof (cases "delays ops = {}")
    case empty: True
    then show ?thesis using True m
      by (auto simp: ra_abs_def ra_Set_def Let_def delays_snoc minimums_snoc m_def [symmetric])
  next
    case False
    define x where "x = Min (delays ops)"
    have "0 < x" "Min (insert d (delays ops)) = min d x"
      using False by (auto simp: delays_pos x_def)
    then show ?thesis using True m False
      by (simp add: ra_abs_def ra_Set_def Let_def delays_snoc minimums_snoc m_def [symmetric]
          x_def [symmetric] max_def min_def)
  qed
qed (simp add: ra_abs_def Let_def delays_snoc minimums_snoc)

lemma ra_abs_SetMin: "requeue_step (ra_abs ops) (RequeueMin d) = ra_abs (ops @ [RequeueMin d])"
proof (cases "0 < d")
  case True
  define m where "m = Max (insert 0 (minimums ops))"
  have m: "0 \<le> m" by (simp add: m_def)
  have ins: "Max (insert 0 (insert d (minimums ops))) = max d m"
    by (simp add: m_def insert_commute [of 0 d])
  show ?thesis
  proof (cases "delays ops = {}")
    case empty: True
    then show ?thesis using True m
      by (auto simp: ra_abs_def ra_SetMin_def Let_def delays_snoc minimums_snoc ins m_def [symmetric])
  next
    case False
    define x where "x = Min (delays ops)"
    have "0 < x" using False by (auto simp: delays_pos x_def)
    then show ?thesis using True m False
      by (simp add: ra_abs_def ra_SetMin_def Let_def delays_snoc minimums_snoc ins m_def [symmetric]
          x_def [symmetric] max_def)
  qed
qed (simp add: ra_abs_def Let_def delays_snoc minimums_snoc)

lemma foldl_requeue_step: "foldl requeue_step ra_empty ops = ra_abs ops"
proof (induction ops rule: rev_induct)
  case Nil
  show ?case by (simp add: ra_empty_def ra_abs_def delays_def minimums_def)
next
  case (snoc x xs)
  then show ?case by (cases x) (simp_all only: foldl_append foldl.simps ra_abs_Set ra_abs_SetMin)
qed

lemma ra_Result_abs: "ra_Result (ra_abs ops) = requeue_spec ops"
proof (cases "delays ops = {}")
  case False
  define x where "x = Min (delays ops)"
  have "0 < x" using False by (auto simp: delays_pos x_def)
  then show ?thesis using False
    by (simp add: ra_Result_def ra_abs_def requeue_spec_def Let_def x_def [symmetric])
qed (auto simp: ra_Result_def ra_abs_def requeue_spec_def Let_def)

lemma NextRequeue_eq_spec: "NextRequeue ops = requeue_spec ops"
  by (simp add: NextRequeue_def foldl_requeue_step ra_Result_abs)

section \<open>Per-key backoff\<close>

definition RoleLabelConflictBackoff :: "int \<Rightarrow> duration" where
  "RoleLabelConflictBackoff attempt =
     (if attempt \<le> 1 then 2 * sec else if attempt = 2 then 4 * sec else 8 * sec)"

definition backoffSteps :: "duration list" where
  "backoffSteps = [3 * sec, 6 * sec, 12 * sec, 24 * sec, 48 * sec, 60 * sec]"

type_synonym backoff_tracker = "(string, nat) gomap"

definition tracker_key :: "string \<Rightarrow> string" where
  "tracker_key key = (if key = '''' then ''default'' else key)"

text \<open>\<open>base * (1 + (k / 2^53 * 2 - 1) * 0.1)\<close>, truncated.\<close>

definition jittered :: "int \<Rightarrow> duration \<Rightarrow> duration" where
  "jittered k base = base * (10 * 2 ^ 53 + (2 * k - 2 ^ 53)) div (10 * 2 ^ 53)"

definition tracker_Next :: "int \<Rightarrow> backoff_tracker \<Rightarrow> string \<Rightarrow> duration \<times> backoff_tracker" where
  "tracker_Next k b key0 =
     (let key = tracker_key key0;
          prev = (case gm_get b key of Some n \<Rightarrow> n | None \<Rightarrow> 0);
          attempts = (if length backoffSteps < prev + 1 then length backoffSteps else prev + 1);
          b' = gm_set b key attempts;
          base = backoffSteps ! (attempts - 1)
      in if base \<le> 0 then (0, b')
         else let delay = jittered k base
              in (if delay \<le> 0 then base else delay, b'))"

definition tracker_Reset :: "backoff_tracker \<Rightarrow> string \<Rightarrow> backoff_tracker" where
  "tracker_Reset b key = gm_delete b (tracker_key key)"

text \<open>\<open>applyBackoffDelay\<close>; \<^const>\<open>None\<close> is a reconciler without a tracker.\<close>

definition applyBackoffDelay ::
  "int \<Rightarrow> backoff_tracker option \<Rightarrow> string \<Rightarrow> duration \<Rightarrow> duration \<times> backoff_tracker option" where
  "applyBackoffDelay k ob key base =
     (let delay = (if base < 0 then 0 else base)
      in case ob of
           None \<Rightarrow> (delay, None)
         | Some b \<Rightarrow> (let (bd, b') = tracker_Next k b key
                      in (if delay < bd then bd else delay, Some b')))"

section \<open>What the tracker promises\<close>

definition tracker_inv :: "backoff_tracker \<Rightarrow> bool" where
  "tracker_inv b = (gm_wf b \<and> (\<forall>k n. gm_get b k = Some n \<longrightarrow> 1 \<le> n \<and> n \<le> length backoffSteps))"

lemma backoffSteps_length [simp]: "length backoffSteps = 6"
  by (simp add: backoffSteps_def)

lemma jittered_bounds:
  assumes "0 < base" "0 \<le> k" "k < 2 ^ 53"
  shows "9 * base div 10 \<le> jittered k base \<and> jittered k base \<le> 11 * base div 10"
proof -
  have "base * (9 * 2 ^ 53) \<le> base * (10 * 2 ^ 53 + (2 * k - 2 ^ 53))"
    using assms by (intro mult_left_mono) auto
  then have lo: "base * (9 * 2 ^ 53) div (10 * 2 ^ 53) \<le> jittered k base"
    unfolding jittered_def by (rule zdiv_mono1) simp
  have "base * (10 * 2 ^ 53 + (2 * k - 2 ^ 53)) \<le> base * (11 * 2 ^ 53)"
    using assms by (intro mult_left_mono) auto
  then have hi: "jittered k base \<le> base * (11 * 2 ^ 53) div (10 * 2 ^ 53)"
    unfolding jittered_def by (rule zdiv_mono1) simp
  have "base * (9 * 2 ^ 53) div (10 * 2 ^ 53) = 9 * base div 10"
    "base * (11 * 2 ^ 53) div (10 * 2 ^ 53) = 11 * base div 10"
    using div_mult_mult1 [of "2 ^ 53" "9 * base" 10] div_mult_mult1 [of "2 ^ 53" "11 * base" 10]
    by (simp_all add: mult.commute)
  with lo hi show ?thesis by simp
qed

text \<open>The attempt the tracker serves on its next call.\<close>

definition next_attempt :: "backoff_tracker \<Rightarrow> string \<Rightarrow> nat" where
  "next_attempt b key = min 6 (Suc (case gm_get b (tracker_key key) of Some n \<Rightarrow> n | None \<Rightarrow> 0))"

lemma next_attempt_range: "1 \<le> next_attempt b key \<and> next_attempt b key \<le> 6"
  by (simp add: next_attempt_def)

lemma backoffSteps_pos: "i < 6 \<Longrightarrow> 3 * sec \<le> backoffSteps ! i \<and> backoffSteps ! i \<le> 60 * sec"
  by (auto simp: backoffSteps_def less_Suc_eq numeral_eq_Suc)

lemma tracker_Next_eq:
  assumes "0 \<le> k" "k < 2 ^ 53"
  shows "tracker_Next k b key =
    (jittered k (backoffSteps ! (next_attempt b key - 1)), gm_set b (tracker_key key) (next_attempt b key))"
proof -
  have i: "next_attempt b key - 1 < 6" using next_attempt_range [of b key] by linarith
  have base: "3 * sec \<le> backoffSteps ! (next_attempt b key - 1)" using backoffSteps_pos [OF i] by simp
  then have "0 < jittered k (backoffSteps ! (next_attempt b key - 1))"
    using jittered_bounds [of "backoffSteps ! (next_attempt b key - 1)" k] assms by linarith
  moreover have "(if length backoffSteps < n + 1 then length backoffSteps else n + 1) = min 6 (Suc n)" for n
    by simp
  ultimately show ?thesis
    using base unfolding tracker_Next_def Let_def next_attempt_def by (simp del: backoffSteps_length)
qed

lemma tracker_Next_inv:
  assumes "tracker_inv b" "0 \<le> k" "k < 2 ^ 53"
  shows "tracker_inv (snd (tracker_Next k b key))"
  using assms next_attempt_range [of b key]
  by (auto simp: tracker_Next_eq tracker_inv_def)

lemma tracker_Reset_inv: "tracker_inv b \<Longrightarrow> tracker_inv (tracker_Reset b key)"
  by (auto simp: tracker_inv_def tracker_Reset_def split: if_splits)

lemma tracker_inv_empty: "tracker_inv []"
  by (simp add: tracker_inv_def)

text \<open>Consecutive calls of \<open>Next\<close> on one key, one per draw: the delays handed out.\<close>

fun tracker_run :: "int list \<Rightarrow> backoff_tracker \<Rightarrow> string \<Rightarrow> duration list" where
  "tracker_run [] b key = []"
| "tracker_run (k # ks) b key =
     (let (d, b') = tracker_Next k b key in d # tracker_run ks b' key)"

lemma tracker_run_nth:
  assumes "\<forall>k \<in> set ks. 0 \<le> k \<and> k < 2 ^ 53" "i < length ks"
    and "(case gm_get b (tracker_key key) of Some n \<Rightarrow> n | None \<Rightarrow> 0) = n0"
  shows "tracker_run ks b key ! i = jittered (ks ! i) (backoffSteps ! min 5 (n0 + i))"
  using assms
proof (induction ks arbitrary: b i n0)
  case (Cons k ks)
  have k: "0 \<le> k" "k < 2 ^ 53" using Cons.prems(1) by auto
  have att: "next_attempt b key = min 6 (Suc n0)" using Cons.prems(3) by (simp add: next_attempt_def)
  show ?case
  proof (cases i)
    case 0
    then show ?thesis using k att by (simp add: tracker_Next_eq min_def)
  next
    case (Suc j)
    have "tracker_run ks (gm_set b (tracker_key key) (next_attempt b key)) key ! j
        = jittered (ks ! j) (backoffSteps ! min 5 (next_attempt b key + j))"
      by (rule Cons.IH) (use Cons.prems Suc in auto)
    moreover have "min 5 (next_attempt b key + j) = min 5 (n0 + i)"
      using att Suc by (auto simp: min_def)
    ultimately show ?thesis using k Suc by (simp add: tracker_Next_eq)
  qed
qed simp

section \<open>Properties\<close>

text \<open>
  C36: The delay a reconcile hands to the work queue is the smallest delay any phase asked for,
  raised to the largest minimum any phase imposed (and that minimum alone when no delay was
  asked for); it does not depend on the order in which the phases made their requests, nor on
  repetitions.
\<close>

theorem requeue_contract:
  assumes "set ops' = set ops"
  shows "NextRequeue ops = requeue_spec ops \<and> NextRequeue ops' = NextRequeue ops"
proof -
  have "delays ops' = delays ops" "minimums ops' = minimums ops"
    using assms by (simp_all add: delays_def minimums_def)
  then show ?thesis by (simp add: NextRequeue_eq_spec requeue_spec_def Let_def)
qed

theorem requeue_contract_witness:
  "NextRequeue [RequeueAfter (30 * sec), RequeueMin (5 * sec), RequeueAfter (3 * sec)]
     = requeue_spec [RequeueAfter (30 * sec), RequeueMin (5 * sec), RequeueAfter (3 * sec)]
   \<and> NextRequeue [RequeueAfter (3 * sec), RequeueAfter (30 * sec), RequeueMin (5 * sec)]
     = NextRequeue [RequeueAfter (30 * sec), RequeueMin (5 * sec), RequeueAfter (3 * sec)]
   \<and> NextRequeue [RequeueAfter (30 * sec), RequeueMin (5 * sec), RequeueAfter (3 * sec)] = 5 * sec"
  using requeue_contract [of
      "[RequeueAfter (3 * sec), RequeueAfter (30 * sec), RequeueMin (5 * sec)]"
      "[RequeueAfter (30 * sec), RequeueMin (5 * sec), RequeueAfter (3 * sec)]"]
  by (auto simp: NextRequeue_def ra_empty_def ra_Set_def ra_SetMin_def ra_Result_def)

text \<open>
  C37: After a reset (or from a fresh tracker) the i-th consecutive backoff of a key lies within
  ten percent of the i-th step 3s, 6s, 12s, 24s, 48s, 60s, stays at the last step for ever, and
  other keys are not affected, whatever the random draws.
\<close>

theorem backoff_schedule:
  assumes "\<forall>k \<in> set ks. 0 \<le> k \<and> k < 2 ^ 53" "i < length ks"
  shows "9 * backoffSteps ! min 5 i div 10 \<le> tracker_run ks (tracker_Reset b key) key ! i
       \<and> tracker_run ks (tracker_Reset b key) key ! i \<le> 11 * backoffSteps ! min 5 i div 10
       \<and> (tracker_key other \<noteq> tracker_key key \<longrightarrow>
            gm_get (snd (tracker_Next (ks ! i) b key)) (tracker_key other) = gm_get b (tracker_key other))"
proof -
  have ki: "0 \<le> ks ! i" "ks ! i < 2 ^ 53" using assms by auto
  have "tracker_run ks (tracker_Reset b key) key ! i = jittered (ks ! i) (backoffSteps ! min 5 i)"
    using tracker_run_nth [OF assms, of "tracker_Reset b key" key 0] by (simp add: tracker_Reset_def)
  moreover have "0 < backoffSteps ! min 5 i"
    using backoffSteps_pos [of "min 5 i"] by (simp add: min_less_iff_disj)
  ultimately show ?thesis using jittered_bounds [OF _ ki] ki by (simp add: tracker_Next_eq)
qed

theorem backoff_schedule_witness:
  "9 * backoffSteps ! min 5 1 div 10 \<le> tracker_run [0, 5] (tracker_Reset [] ''ns/a'') ''ns/a'' ! 1
   \<and> tracker_run [0, 5] (tracker_Reset [] ''ns/a'') ''ns/a'' ! 1 \<le> 11 * backoffSteps ! min 5 1 div 10"
  using backoff_schedule [of "[0, 5]" 1 "[]" "''ns/a''" "''ns/b''"] by simp

end
