(* ===== verification/KV_Profile.thy ===== *)
theory KV_Profile
  imports KV_Api
begin

text \<open>
  \<open>src/controllers/reconcile_profile.go\<close>: the tuning profile chosen at start-up from the live
  clusters, and the capacity of the master address cache.

  The environment variable and the Kubernetes list are inputs of \<open>ResolveReconcileProfile\<close>;
  \<open>ClientQPS\<close> has whole values in every profile and is an \<^typ>\<open>int\<close>.
\<close>

datatype profile_name = ProfileSmall | ProfileMedium | ProfileLarge

record reconcile_profile =
  rp_name :: string
  rp_max_concurrent :: int
  rp_qps :: int
  rp_burst :: int
  rp_cache_ttl :: duration

fun reconcileProfiles :: "profile_name \<Rightarrow> reconcile_profile" where
  "reconcileProfiles ProfileSmall =
     \<lparr>rp_name = ''small'', rp_max_concurrent = 2, rp_qps = 15, rp_burst = 30, rp_cache_ttl = 200 * msec\<rparr>"
| "reconcileProfiles ProfileMedium =
     \<lparr>rp_name = ''medium'', rp_max_concurrent = 4, rp_qps = 30, rp_burst = 60, rp_cache_ttl = 200 * msec\<rparr>"
| "reconcileProfiles ProfileLarge =
     \<lparr>rp_name = ''large'', rp_max_concurrent = 8, rp_qps = 60, rp_burst = 120, rp_cache_ttl = 200 * msec\<rparr>"

record profile_snapshot =
  ps_cluster_count :: int
  ps_sentinel_clusters :: int
  ps_redis_replicas :: int
  ps_sentinel_members :: int
  ps_standalone_clusters :: int

definition ps_empty :: profile_snapshot where
  "ps_empty = \<lparr>ps_cluster_count = 0, ps_sentinel_clusters = 0, ps_redis_replicas = 0,
     ps_sentinel_members = 0, ps_standalone_clusters = 0\<rparr>"

definition WorkloadUnits :: "profile_snapshot \<Rightarrow> int" where
  "WorkloadUnits s =
     (let un = ps_redis_replicas s + ps_sentinel_members s
      in if un = 0 then ps_cluster_count s else un)"

record profile_selection =
  sel_profile :: reconcile_profile
  sel_name :: profile_name
  sel_source :: string
  sel_override :: bool
  sel_snapshot :: profile_snapshot

definition CacheCapacityHint :: "profile_selection \<Rightarrow> int" where
  "CacheCapacityHint s =
     (let units0 = WorkloadUnits (sel_snapshot s);
          units = (if units0 \<le> 0 then rp_max_concurrent (sel_profile s) * 4 else units0);
          cap = units * 2;
          cap = (if cap < 64 then 64 else cap)
      in if cap > 2048 then 2048 else cap)"

definition snapshot_add :: "profile_snapshot \<Rightarrow> kv_cluster \<Rightarrow> profile_snapshot" where
  "snapshot_add s cr =
     (let spec = cr_spec cr;
          redis = (if spec_redis_replicas spec < 0 then 0 else spec_redis_replicas spec);
          s1 = s\<lparr>ps_cluster_count := ps_cluster_count s + 1,
                 ps_redis_replicas := ps_redis_replicas s + redis\<rparr>
      in if spec_mode spec = ModeSentinel
         then let members0 = (case spec_sentinel_count spec of Some c \<Rightarrow> c | None \<Rightarrow> 0);
                  members = (if members0 < 0 then 0 else members0)
              in s1\<lparr>ps_sentinel_clusters := ps_sentinel_clusters s1 + 1,
                    ps_sentinel_members := ps_sentinel_members s1 + members\<rparr>
         else s1\<lparr>ps_standalone_clusters := ps_standalone_clusters s1 + 1\<rparr>)"

definition snapshotForClusters :: "kv_cluster list \<Rightarrow> profile_snapshot" where
  "snapshotForClusters clusters = foldl snapshot_add ps_empty clusters"

definition chooseProfile :: "profile_snapshot \<Rightarrow> profile_name" where
  "chooseProfile s =
     (let workload = WorkloadUnits s
      in if ps_cluster_count s = 0 then ProfileSmall
         else if workload \<le> 60 \<and> ps_cluster_count s \<le> 20 then ProfileSmall
         else if workload \<le> 180 \<and> ps_cluster_count s \<le> 70 then ProfileMedium
         else ProfileLarge)"

datatype profile_error =
  UnknownOverride string | ConfigNil | SchemeNil | BuildClient string | ListClusters string

definition profile_by_name :: "string \<Rightarrow> profile_name option" where
  "profile_by_name n = (if n = ''small'' then Some ProfileSmall
     else if n = ''medium'' then Some ProfileMedium
     else if n = ''large'' then Some ProfileLarge else None)"

definition default_selection :: profile_selection where
  "default_selection = \<lparr>sel_profile = reconcileProfiles ProfileSmall, sel_name = ProfileSmall,
     sel_source = ''default'', sel_override = False, sel_snapshot = ps_empty\<rparr>"

text \<open>
  The returned selection and error. \<open>build\<close> is the outcome of building the client, \<open>listed\<close> the
  outcome of listing the clusters.
\<close>

definition ResolveReconcileProfile ::
  "string \<Rightarrow> bool \<Rightarrow> bool \<Rightarrow> string option \<Rightarrow> string + kv_cluster list
    \<Rightarrow> profile_selection \<times> profile_error option" where
  "ResolveReconcileProfile env cfg_nil scheme_nil build_err listed =
     (let override = TrimSpace env
      in if override \<noteq> '''' then
           (case profile_by_name (ToLower override) of
              None \<Rightarrow> (default_selection, Some (UnknownOverride override))
            | Some n \<Rightarrow> (default_selection\<lparr>sel_name := n, sel_profile := reconcileProfiles n,
                           sel_source := ''override'', sel_override := True\<rparr>, None))
         else if cfg_nil then (default_selection, Some ConfigNil)
         else if scheme_nil then (default_selection, Some SchemeNil)
         else case build_err of
                Some e \<Rightarrow> (default_selection, Some (BuildClient e))
              | None \<Rightarrow> (case listed of
                    Inl e \<Rightarrow> (default_selection, Some (ListClusters e))
                  | Inr items \<Rightarrow>
                      (let snapshot = snapshotForClusters items; n = chooseProfile snapshot
                       in (default_selection\<lparr>sel_snapshot := snapshot, sel_name := n,
                             sel_profile := reconcileProfiles n, sel_source := ''auto''\<rparr>, None))))"

section \<open>Lemmas\<close>

instantiation profile_name :: linorder
begin

definition profile_rank :: "profile_name \<Rightarrow> nat" where
  "profile_rank p = (case p of ProfileSmall \<Rightarrow> 0 | ProfileMedium \<Rightarrow> 1 | ProfileLarge \<Rightarrow> 2)"

definition less_eq_profile_name :: "profile_name \<Rightarrow> profile_name \<Rightarrow> bool" where
  "less_eq_profile_name p q = (profile_rank p \<le> profile_rank q)"

definition less_profile_name :: "profile_name \<Rightarrow> profile_name \<Rightarrow> bool" where
  "less_profile_name p q = (profile_rank p < profile_rank q)"

instance
  by standard (auto simp: less_eq_profile_name_def less_profile_name_def profile_rank_def
      split: profile_name.splits)

end

definition pods_of :: "kv_cluster \<Rightarrow> int" where
  "pods_of cr = max 0 (spec_redis_replicas (cr_spec cr))
     + (if spec_mode (cr_spec cr) = ModeSentinel
        then max 0 (case spec_sentinel_count (cr_spec cr) of Some c \<Rightarrow> c | None \<Rightarrow> 0) else 0)"

lemma snapshot_add_counts:
  "ps_cluster_count (snapshot_add s cr) = ps_cluster_count s + 1"
  "ps_redis_replicas (snapshot_add s cr) + ps_sentinel_members (snapshot_add s cr)
     = ps_redis_replicas s + ps_sentinel_members s + pods_of cr"
  "ps_sentinel_clusters (snapshot_add s cr) + ps_standalone_clusters (snapshot_add s cr)
     = ps_sentinel_clusters s + ps_standalone_clusters s + 1"
  by (auto simp: snapshot_add_def Let_def pods_of_def max_def split: option.splits)

lemma foldl_snapshot_counts:
  "ps_cluster_count (foldl snapshot_add s cs) = ps_cluster_count s + int (length cs)"
  "ps_redis_replicas (foldl snapshot_add s cs) + ps_sentinel_members (foldl snapshot_add s cs)
     = ps_redis_replicas s + ps_sentinel_members s + sum_list (map pods_of cs)"
  by (induction cs arbitrary: s) (simp_all add: snapshot_add_counts)

lemma snapshot_counts:
  "ps_cluster_count (snapshotForClusters cs) = int (length cs)"
  "ps_redis_replicas (snapshotForClusters cs) + ps_sentinel_members (snapshotForClusters cs)
     = sum_list (map pods_of cs)"
  by (simp_all add: snapshotForClusters_def foldl_snapshot_counts ps_empty_def)

lemma pods_of_nonneg [simp]: "0 \<le> pods_of cr"
  by (simp add: pods_of_def)

lemma sum_pods_nonneg [simp]: "0 \<le> sum_list (map pods_of cs)"
  by (induction cs) auto

lemma chooseProfile_mono:
  assumes "0 \<le> ps_cluster_count s" "ps_cluster_count s \<le> ps_cluster_count t"
    and "WorkloadUnits s \<le> WorkloadUnits t \<or> WorkloadUnits s = ps_cluster_count s"
  shows "chooseProfile s \<le> chooseProfile t"
  using assms unfolding chooseProfile_def Let_def less_eq_profile_name_def profile_rank_def
  by (simp split: if_splits) linarith

section \<open>Properties\<close>

text \<open>
  The automatic choice is monotone in the fleet: adding clusters to the ones observed never
  moves the operator to a smaller profile, and the cache capacity hint stays within 64 and 2048.
\<close>

lemma profile_monotone:
  "chooseProfile (snapshotForClusters cs) \<le> chooseProfile (snapshotForClusters (cs @ ds))
   \<and> 64 \<le> CacheCapacityHint sel \<and> CacheCapacityHint sel \<le> 2048"
proof -
  define p q where pq: "p = sum_list (map pods_of cs)" "q = sum_list (map pods_of ds)"
  then have "0 \<le> p" "0 \<le> q" by simp_all
  then have "WorkloadUnits (snapshotForClusters cs) \<le> WorkloadUnits (snapshotForClusters (cs @ ds))
      \<or> WorkloadUnits (snapshotForClusters cs) = ps_cluster_count (snapshotForClusters cs)"
    by (simp add: WorkloadUnits_def Let_def snapshot_counts pq [symmetric])
  then have "chooseProfile (snapshotForClusters cs) \<le> chooseProfile (snapshotForClusters (cs @ ds))"
    by (intro chooseProfile_mono) (simp_all add: snapshot_counts)
  then show ?thesis by (simp add: CacheCapacityHint_def Let_def)
qed

end
