(* ===== verification/KV_Disruption.thy ===== *)
theory KV_Disruption
  imports KV_Health
begin

text \<open>
  Voluntary disruptions: the disruption decisions and PodDisruptionBudget arithmetic of
  \<open>src/controllers/internal/reconcile/util.go\<close>, the builders of \<open>resources/pdb.go\<close> and the phase
  \<open>reconcile/phases/pdb.go\<close>.

  The Kubernetes client is represented by what it answers in one run of the phase: the result of
  \<open>Get\<close>, whether the owner reference could be set and whether the patch was accepted. The phase
  returns what it applied, the events it emitted and the minimums it recorded in the state.
\<close>

section \<open>Conditions\<close>

definition ConditionTrue :: "kv_status \<Rightarrow> condition_type \<Rightarrow> bool" where
  "ConditionTrue status typ =
     list_ex (\<lambda>c. cond_type c = typ \<and> cond_status c = StatusTrue) (status_conditions status)"

definition ConditionStatus :: "condition list \<Rightarrow> condition_type \<Rightarrow> condition option" where
  "ConditionStatus conds typ = find (\<lambda>c. cond_type c = typ) conds"

definition sentinelQuorumRecoverableReasons :: "string list" where
  "sentinelQuorumRecoverableReasons =
     [''SentinelQuorumNotReady'', ''InsufficientSentinels'', ''SentinelQuorumLost'',
      ''SentinelQuorumUnknown'', ''SentinelQuorumCheckFailed'', ''SentinelQuorum'']"

definition AllowSentinelDisruptions :: "kv_status \<Rightarrow> bool" where
  "AllowSentinelDisruptions status =
     (if status_health_gate status = Some True then True
      else let sentinelCond = ConditionStatus (status_conditions status) ConditionSentinelQuorum;
               paused = ConditionStatus (status_conditions status) ConditionDisruptionsPaused
           in case sentinelCond of
                Some sc \<Rightarrow>
                  if cond_status sc = StatusFalse \<and> cond_reason sc \<in> set sentinelQuorumRecoverableReasons
                  then (case paused of
                          Some p \<Rightarrow> if cond_status p = StatusTrue \<and> cond_reason p \<noteq> ''SentinelQuorum''
                                    then False else True
                        | None \<Rightarrow> True)
                  else False
              | None \<Rightarrow> False)"

section \<open>Minimums\<close>

definition ComputeRedisPDBMinAvailable :: "kv_cluster \<Rightarrow> bool \<Rightarrow> health_settings \<Rightarrow> int" where
  "ComputeRedisPDBMinAvailable cr allowDisruptions settings =
     (let desired = (if spec_redis_replicas (cr_spec cr) < 0 then 0 else spec_redis_replicas (cr_spec cr))
      in if \<not> allowDisruptions then desired
         else let limit = (if desired - 1 < 0 then 0 else desired - 1);
                  safety = (if hset_min_replicas settings < 0 then 0 else hset_min_replicas settings);
                  safety = (if safety > limit then limit else safety)
              in if spec_mode (cr_spec cr) = ModeStandalone
                 then if desired \<le> 1 then 0 else if safety < 1 then 1 else safety
                 else safety)"

definition SentinelDesiredCount :: "kv_cluster \<Rightarrow> int" where
  "SentinelDesiredCount cr = (case spec_sentinel_count (cr_spec cr) of
      Some n \<Rightarrow> if 0 < n then n else 3 | None \<Rightarrow> 3)"

definition ComputeSentinelPDBMinAvailable :: "kv_cluster \<Rightarrow> bool \<Rightarrow> int" where
  "ComputeSentinelPDBMinAvailable cr allowDisruptions =
     (if spec_mode (cr_spec cr) \<noteq> ModeSentinel then 0
      else let desired = SentinelDesiredCount cr
           in if desired \<le> 0 then 0
              else if \<not> allowDisruptions then desired
              else let quorum = desired div 2 + 1;
                       quorum = (if quorum > desired then desired else quorum)
                   in if quorum < 1 then 1 else quorum)"

section \<open>Budgets\<close>

record pdb =
  pdb_name :: string
  pdb_namespace :: string
  pdb_labels :: strmap
  pdb_annotations :: strmap
  pdb_selector :: strmap
  pdb_min_available :: "int_or_string option"
  pdb_max_unavailable :: "int_or_string option"

definition MinAvailableValue :: "pdb \<Rightarrow> int option" where
  "MinAvailableValue b = (case pdb_min_available b of Some (IntVal n) \<Rightarrow> Some n | _ \<Rightarrow> None)"

definition SetMinAvailable :: "pdb \<Rightarrow> int \<Rightarrow> pdb" where
  "SetMinAvailable b m =
     b\<lparr>pdb_min_available := Some (IntVal (if m < 0 then 0 else m)), pdb_max_unavailable := None\<rparr>"

definition PDBPreserveMinAnnotation :: string where
  "PDBPreserveMinAnnotation = ''keyval.ivelok.io/preserve-min-available''"

definition AnnotationBoolTrue :: "strmap \<Rightarrow> string \<Rightarrow> bool" where
  "AnnotationBoolTrue annotations key = (case gm_get annotations key of
      None \<Rightarrow> False
    | Some val \<Rightarrow> val \<in> set [''true'', ''True'', ''TRUE'', ''1'', ''yes'', ''on''])"

definition ResolvePDBMinAvailable :: "int option \<Rightarrow> int \<Rightarrow> strmap \<Rightarrow> int \<times> bool" where
  "ResolvePDBMinAvailable prevMin computedMin annotations = (case prevMin of
      Some prev \<Rightarrow> if AnnotationBoolTrue annotations PDBPreserveMinAnnotation \<and> prev > computedMin
                   then (prev, True) else (computedMin, False)
    | None \<Rightarrow> (computedMin, False))"

definition RedisPDB :: "kv_cluster \<Rightarrow> int \<Rightarrow> pdb" where
  "RedisPDB cr minAvailable =
     \<lparr>pdb_name = cr_name cr @ ''-redis'', pdb_namespace = cr_namespace cr, pdb_labels = LabelsFor cr,
      pdb_annotations = [], pdb_selector = LabelsFor cr,
      pdb_min_available = Some (IntVal (if minAvailable < 0 then 0 else minAvailable)),
      pdb_max_unavailable = None\<rparr>"

definition SentinelPDB :: "kv_cluster \<Rightarrow> int \<Rightarrow> pdb" where
  "SentinelPDB cr minAvailable =
     (let m = (if minAvailable < 0 then 0 else minAvailable);
          user = spec_sentinel_pdb (cr_spec cr);
          minPtr = (case user of Some u \<Rightarrow> spdb_min_available u | None \<Rightarrow> None);
          maxPtr = (case user of Some u \<Rightarrow> spdb_max_unavailable u | None \<Rightarrow> None)
      in \<lparr>pdb_name = cr_name cr @ ''-sentinel'', pdb_namespace = cr_namespace cr,
          pdb_labels = SentinelLabelsFor cr, pdb_annotations = [], pdb_selector = SentinelLabelsFor cr,
          pdb_min_available = (if minPtr = None \<and> maxPtr = None then Some (IntVal m) else minPtr),
          pdb_max_unavailable = maxPtr\<rparr>)"

section \<open>The phase\<close>

datatype pdb_lookup = PdbFound pdb | PdbNotFound | PdbGetError

record pdb_env =
  pe_existing :: pdb_lookup
  pe_owner_ok :: bool
  pe_patch_ok :: bool

datatype pdb_event = PDBModeSwitched string string int

definition annotationOrDefault :: "strmap \<Rightarrow> string \<Rightarrow> string \<Rightarrow> string" where
  "annotationOrDefault annotations key fallback = (case gm_get annotations key of
      Some val \<Rightarrow> if TrimSpace val \<noteq> '''' then val else fallback | None \<Rightarrow> fallback)"

definition ensureAnnotation :: "pdb \<Rightarrow> string \<Rightarrow> string \<Rightarrow> pdb" where
  "ensureAnnotation b key val = b\<lparr>pdb_annotations := gm_set (pdb_annotations b) key val\<rparr>"

definition pdbMode :: "bool \<Rightarrow> string" where
  "pdbMode allow = (if allow then ''Soft'' else ''Hard'')"

text \<open>
  The body shared by the two budgets: read the existing one, keep its minimum when it is pinned,
  apply. Returns the applied object (if the patch was accepted), the events and the minimum.
\<close>

definition reconcile_pdb ::
  "string \<Rightarrow> bool \<Rightarrow> pdb_env \<Rightarrow> pdb \<Rightarrow> int \<Rightarrow> pdb option \<times> pdb_event list \<times> int" where
  "reconcile_pdb component allow env pdbObj computed =
     (let (prevMin, annotations) =
            (case pe_existing env of
               PdbFound b \<Rightarrow> (MinAvailableValue b, pdb_annotations b)
             | PdbNotFound \<Rightarrow> (None, [])
             | PdbGetError \<Rightarrow> (None, []));
          (desiredMin, preserve) = ResolvePDBMinAvailable prevMin computed annotations;
          obj = SetMinAvailable pdbObj desiredMin;
          obj = (if preserve
                 then ensureAnnotation obj PDBPreserveMinAnnotation
                        (annotationOrDefault annotations PDBPreserveMinAnnotation ''true'')
                 else obj)
      in if \<not> pe_owner_ok env then (None, [], desiredMin)
         else if \<not> pe_patch_ok env then (None, [], desiredMin)
         else (Some obj,
               (case MinAvailableValue obj of
                  Some m \<Rightarrow> if prevMin \<noteq> Some m then [PDBModeSwitched component (pdbMode allow) m] else []
                | None \<Rightarrow> []),
               desiredMin))"

record pdb_result =
  pres_redis :: "pdb option"
  pres_sentinel :: "pdb option"
  pres_events :: "pdb_event list"
  pres_redis_min :: int
  pres_sentinel_min :: int

text \<open>The Sentinel budget is labelled with the mode of the Redis budget, as in the source.\<close>

definition PDB :: "kv_cluster \<Rightarrow> bool \<Rightarrow> bool \<Rightarrow> pdb_env \<Rightarrow> pdb_env \<Rightarrow> pdb_result" where
  "PDB cr allowDisruptions allowSentinel renv senv =
     (let settings = SettingsFor cr;
          (robj, revs, rmin) =
            (if spec_redis_replicas (cr_spec cr) > 0
             then let computed = ComputeRedisPDBMinAvailable cr allowDisruptions settings
                  in reconcile_pdb ''redis'' allowDisruptions renv (RedisPDB cr computed) computed
             else (None, [], 0));
          (sobj, sevs, smin) =
            (if spec_mode (cr_spec cr) = ModeSentinel \<and> SentinelDesiredCount cr > 0
             then let computed = ComputeSentinelPDBMinAvailable cr allowSentinel
                  in reconcile_pdb ''sentinel'' allowDisruptions senv (SentinelPDB cr computed) computed
             else (None, [], 0))
      in \<lparr>pres_redis = robj, pres_sentinel = sobj, pres_events = revs @ sevs,
          pres_redis_min = rmin, pres_sentinel_min = smin\<rparr>)"

section \<open>Lemmas\<close>

lemma ComputeRedisPDB_bounds:
  assumes "0 < spec_redis_replicas (cr_spec cr)" "1 \<le> hset_min_replicas s"
  shows "ComputeRedisPDBMinAvailable cr True s < spec_redis_replicas (cr_spec cr)"
    "0 \<le> ComputeRedisPDBMinAvailable cr True s"
    "1 < spec_redis_replicas (cr_spec cr) \<Longrightarrow> 1 \<le> ComputeRedisPDBMinAvailable cr True s"
    "ComputeRedisPDBMinAvailable cr False s = spec_redis_replicas (cr_spec cr)"
  using assms by (simp_all add: ComputeRedisPDBMinAvailable_def Let_def)

lemma ComputeSentinelPDB_bounds:
  assumes "spec_mode (cr_spec cr) = ModeSentinel"
  shows "SentinelDesiredCount cr < 2 * ComputeSentinelPDBMinAvailable cr b"
    "0 \<le> ComputeSentinelPDBMinAvailable cr b"
    "ComputeSentinelPDBMinAvailable cr b \<le> SentinelDesiredCount cr"
    "ComputeSentinelPDBMinAvailable cr False = SentinelDesiredCount cr"
    "3 \<le> SentinelDesiredCount cr \<Longrightarrow> ComputeSentinelPDBMinAvailable cr True < SentinelDesiredCount cr"
proof -
  have d: "0 < SentinelDesiredCount cr" by (simp add: SentinelDesiredCount_def split: option.split)
  show "SentinelDesiredCount cr < 2 * ComputeSentinelPDBMinAvailable cr b"
    "0 \<le> ComputeSentinelPDBMinAvailable cr b"
    "ComputeSentinelPDBMinAvailable cr b \<le> SentinelDesiredCount cr"
    "ComputeSentinelPDBMinAvailable cr False = SentinelDesiredCount cr"
    "3 \<le> SentinelDesiredCount cr \<Longrightarrow> ComputeSentinelPDBMinAvailable cr True < SentinelDesiredCount cr"
    using assms d by (auto simp: ComputeSentinelPDBMinAvailable_def Let_def)
qed

lemma reconcile_pdb_min:
  assumes "reconcile_pdb c a env obj computed = (Some b, evs, m)"
  shows "pdb_min_available b = Some (IntVal (max 0 m)) \<and> pdb_max_unavailable b = None
       \<and> pdb_selector b = pdb_selector obj \<and> computed \<le> m"
  using assms
  by (auto simp: reconcile_pdb_def ResolvePDBMinAvailable_def SetMinAvailable_def ensureAnnotation_def Let_def
      max_def split: if_splits prod.splits option.splits)

lemma reconcile_pdb_unpinned:
  assumes "\<forall>b. pe_existing env = PdbFound b \<longrightarrow> \<not> AnnotationBoolTrue (pdb_annotations b) PDBPreserveMinAnnotation"
  shows "snd (snd (reconcile_pdb c a env obj computed)) = computed"
  using assms
  by (auto simp: reconcile_pdb_def ResolvePDBMinAvailable_def Let_def AnnotationBoolTrue_def
      split: pdb_lookup.splits option.splits)

lemma PDB_redis_eq:
  assumes "0 < spec_redis_replicas (cr_spec cr)"
  shows "pres_redis (PDB cr a s renv senv) =
    fst (reconcile_pdb ''redis'' a renv (RedisPDB cr (ComputeRedisPDBMinAvailable cr a (SettingsFor cr)))
          (ComputeRedisPDBMinAvailable cr a (SettingsFor cr)))"
  using assms by (simp add: PDB_def Let_def split: prod.splits)

lemma PDB_sentinel_eq:
  assumes "spec_mode (cr_spec cr) = ModeSentinel"
  shows "pres_sentinel (PDB cr a s renv senv) =
    fst (reconcile_pdb ''sentinel'' a senv (SentinelPDB cr (ComputeSentinelPDBMinAvailable cr s))
          (ComputeSentinelPDBMinAvailable cr s))"
proof -
  have "0 < SentinelDesiredCount cr" by (simp add: SentinelDesiredCount_def split: option.split)
  then show ?thesis using assms by (simp add: PDB_def Let_def split: prod.splits)
qed

definition unpinned :: "pdb_env \<Rightarrow> bool" where
  "unpinned env = (case pe_existing env of
      PdbFound b \<Rightarrow> \<not> AnnotationBoolTrue (pdb_annotations b) PDBPreserveMinAnnotation | _ \<Rightarrow> True)"

lemma applied_pdb_min:
  assumes "fst (reconcile_pdb c a env obj computed) = Some b" "unpinned env" "0 \<le> computed"
  shows "pdb_min_available b = Some (IntVal computed) \<and> pdb_max_unavailable b = None
       \<and> pdb_selector b = pdb_selector obj"
proof -
  obtain ob evs m where r: "reconcile_pdb c a env obj computed = (ob, evs, m)" by (metis prod_cases3)
  have "m = computed"
    using reconcile_pdb_unpinned [of env c a obj computed] assms(2) r
    by (auto simp: unpinned_def split: pdb_lookup.splits)
  then show ?thesis using reconcile_pdb_min [of c a env obj computed b evs m] assms r by (simp add: max_def)
qed

text \<open>Server-side apply of the same object from two inputs that differ in their own limits only.\<close>

lemma reconcile_pdb_overrides:
  assumes "x\<lparr>pdb_min_available := None, pdb_max_unavailable := None\<rparr>
         = y\<lparr>pdb_min_available := None, pdb_max_unavailable := None\<rparr>"
  shows "reconcile_pdb c a env x computed = reconcile_pdb c a env y computed"
proof -
  have "SetMinAvailable x m = SetMinAvailable y m" for m
    using assms by (cases x; cases y) (simp add: SetMinAvailable_def)
  then show ?thesis by (simp add: reconcile_pdb_def)
qed

section \<open>Properties\<close>

text \<open>
  C34: The Redis budget the phase applies (unless its minimum is pinned by annotation) forbids every
  voluntary eviction while disruptions are blocked (minimum = replicas), and otherwise always leaves
  room for one eviction while keeping at least one pod of a replicated cluster; it selects exactly
  the cluster's Redis pods.
\<close>

theorem redis_pdb_guard:
  assumes "pres_redis (PDB cr allow allowS renv senv) = Some b" "unpinned renv"
    and "0 < spec_redis_replicas (cr_spec cr)"
  shows "\<exists>m. pdb_min_available b = Some (IntVal m) \<and> pdb_max_unavailable b = None
       \<and> pdb_selector b = LabelsFor cr
       \<and> (\<not> allow \<longrightarrow> m = spec_redis_replicas (cr_spec cr))
       \<and> (allow \<longrightarrow> 0 \<le> m \<and> m < spec_redis_replicas (cr_spec cr)
            \<and> (1 < spec_redis_replicas (cr_spec cr) \<longrightarrow> 1 \<le> m))"
proof -
  let ?m = "ComputeRedisPDBMinAvailable cr allow (SettingsFor cr)"
  note bounds = ComputeRedisPDB_bounds [OF assms(3) SettingsFor_min_replicas]
  have "0 \<le> ?m" using bounds(2,4) assms(3) by (cases allow) auto
  then have "pdb_min_available b = Some (IntVal ?m) \<and> pdb_max_unavailable b = None
      \<and> pdb_selector b = pdb_selector (RedisPDB cr ?m)"
    using applied_pdb_min assms(1,2) PDB_redis_eq [OF assms(3)] by metis
  then show ?thesis using bounds by (cases allow) (auto simp: RedisPDB_def)
qed

definition demo_sentinel_cluster :: kv_cluster where
  "demo_sentinel_cluster = (cluster0 ''ns'' ''kv'')\<lparr>cr_spec := spec0\<lparr>spec_mode := ModeSentinel,
     spec_image := ''valkey/valkey:7.2'', spec_redis_replicas := 3, spec_sentinel_count := Some 3\<rparr>\<rparr>"

definition demo_pdb_env :: pdb_env where
  "demo_pdb_env = \<lparr>pe_existing = PdbNotFound, pe_owner_ok = True, pe_patch_ok = True\<rparr>"

lemmas demo_disruption = demo_sentinel_cluster_def demo_pdb_env_def zero_values

theorem redis_pdb_guard_witness:
  "\<exists>b m. pres_redis (PDB demo_sentinel_cluster True True demo_pdb_env demo_pdb_env) = Some b
     \<and> pdb_min_available b = Some (IntVal m) \<and> 1 \<le> m \<and> m < 3"
proof -
  obtain b where b: "pres_redis (PDB demo_sentinel_cluster True True demo_pdb_env demo_pdb_env) = Some b"
    using PDB_redis_eq [of demo_sentinel_cluster True True demo_pdb_env demo_pdb_env]
    by (simp add: demo_disruption reconcile_pdb_def ResolvePDBMinAvailable_def Let_def)
  have "unpinned demo_pdb_env" "0 < spec_redis_replicas (cr_spec demo_sentinel_cluster)"
    by (simp_all add: unpinned_def demo_disruption)
  from redis_pdb_guard [OF b this] b show ?thesis by (auto simp: demo_disruption)
qed



end
