(* ===== verification/KV_Runtime.thy ===== *)
theory KV_Runtime
  imports Complex_Main KV_Core
begin

text \<open>
  \<open>src/controllers/internal/runtime\<close>: pod helpers (\<open>pods.go\<close>), the retry loop (\<open>retry.go\<close>), the
  pod watch with its mapping to clusters (\<open>pod_lifecycle.go\<close>) and the TLS secret watch
  (\<open>secret.go\<close>).
\<close>

section \<open>Pods\<close>

definition IsPodReady :: "pod \<Rightarrow> bool" where
  "IsPodReady p = list_ex (\<lambda>b. b) (pod_ready_conditions p)"

definition SortedPodsByName :: "pod list \<Rightarrow> pod list" where
  "SortedPodsByName pods = sort_by (key_less pod_name) pods"

section \<open>Retry\<close>

record retry_backoff =
  rb_initial :: duration
  rb_max :: duration
  rb_factor :: rat
  rb_jitter :: rat

definition normalize_backoff :: "retry_backoff \<Rightarrow> retry_backoff" where
  "normalize_backoff bo =
     (let initial = (if rb_initial bo \<le> 0 then 50 * msec
                     else if rb_initial bo < msec then msec else rb_initial bo)
      in bo\<lparr>rb_initial := initial,
            rb_factor := (if rb_factor bo < 1 then 2 else rb_factor bo),
            rb_max := (if rb_max bo \<le> 0 then 2 * sec else if rb_max bo < initial then initial else rb_max bo),
            rb_jitter := (let j = (if rb_jitter bo < 0 then 0 else rb_jitter bo) in if j > 1 then 1 else j)\<rparr>)"

definition retry_wait :: "retry_backoff \<Rightarrow> rat \<Rightarrow> duration \<Rightarrow> duration" where
  "retry_wait bo sample delay =
     (let d = (if rb_jitter bo > 0
               then \<lfloor>of_int delay * (1 + (sample * 2 - 1) * rb_jitter bo)\<rfloor> else delay)
      in if d < msec then msec else d)"

definition next_delay :: "retry_backoff \<Rightarrow> duration \<Rightarrow> duration" where
  "next_delay bo delay =
     (let next = \<lfloor>of_int delay * rb_factor bo\<rfloor>;
          next = (if next > rb_max bo then rb_max bo else next);
          next = (if next < 0 \<or> next > int64_max then rb_max bo else next)
      in if next < msec then msec else next)"

text \<open>
  The context is what it reports at two points of the i-th round: before the call (\<open>ctx_err i\<close>)
  and while waiting after it (\<open>wait_err i\<close>). \<open>fn i\<close> is the outcome of the i-th call. The result is
  the returned error, the number of calls made and the waits entered.
\<close>

fun retry_loop ::
  "retry_backoff \<Rightarrow> (nat \<Rightarrow> rat) \<Rightarrow> (nat \<Rightarrow> 'e option) \<Rightarrow> (nat \<Rightarrow> 'e option) \<Rightarrow> (nat \<Rightarrow> 'e option)
    \<Rightarrow> nat \<Rightarrow> nat \<Rightarrow> duration \<Rightarrow> 'e option \<times> nat \<times> duration list" where
  "retry_loop bo sample ctx_err wait_err fn i 0 delay = (None, 0, [])"
| "retry_loop bo sample ctx_err wait_err fn i (Suc todo) delay = (case ctx_err i of
      Some e \<Rightarrow> (Some e, 0, [])
    | None \<Rightarrow> (case fn i of
          None \<Rightarrow> (None, 1, [])
        | Some err \<Rightarrow> if todo = 0 then (Some err, 1, [])
            else let d = retry_wait bo (sample i) delay
                 in case wait_err i of
                      Some e \<Rightarrow> (Some e, 1, [d])
                    | None \<Rightarrow> (let (r, n, ds) = retry_loop bo sample ctx_err wait_err fn (Suc i) todo (next_delay bo delay)
                               in (r, Suc n, d # ds))))"

definition Retry ::
  "(nat \<Rightarrow> rat) \<Rightarrow> (nat \<Rightarrow> 'e option) \<Rightarrow> (nat \<Rightarrow> 'e option) \<Rightarrow> int \<Rightarrow> retry_backoff \<Rightarrow> (nat \<Rightarrow> 'e option)
    \<Rightarrow> 'e option \<times> nat \<times> duration list" where
  "Retry sample ctx_err wait_err attempts bo fn =
     (let attempts = (if attempts < 1 then 1 else attempts);
          bo = normalize_backoff bo
      in retry_loop bo sample ctx_err wait_err fn 1 (nat attempts) (rb_initial bo))"

section \<open>Watches\<close>

definition ConfigHashAnnotationKey :: string where
  "ConfigHashAnnotationKey = ''keyval.ivelok.io/config-hash''"
definition TLSSecretHashAnnotationKey :: string where
  "TLSSecretHashAnnotationKey = ''keyval.ivelok.io/tls-secret-hash''"

definition labelsMatchCluster :: "strmap \<Rightarrow> string \<Rightarrow> bool" where
  "labelsMatchCluster labels cluster =
     (if gm_str labels LabelClusterKey = cluster then True
      else gm_str labels LabelAppKey = AppLabelForName cluster
           \<or> gm_str labels LabelAppKey = SentinelAppLabelForName cluster)"

definition clusterNameFromStatefulSet :: "string \<Rightarrow> string option" where
  "clusterNameFromStatefulSet name =
     (if name = '''' then None
      else if HasSuffix name ''-sentinel''
           then let base = TrimSuffix name ''-sentinel'' in if base = '''' then None else Some base
           else Some name)"

fun owner_cluster :: "strmap \<Rightarrow> owner_ref list \<Rightarrow> string option" where
  "owner_cluster labels [] = None"
| "owner_cluster labels (ref # refs) =
     (if or_kind ref \<noteq> ''StatefulSet'' \<or> or_name ref = '''' then owner_cluster labels refs
      else case clusterNameFromStatefulSet (or_name ref) of
             Some cluster \<Rightarrow> if labelsMatchCluster labels cluster then Some cluster else owner_cluster labels refs
           | None \<Rightarrow> owner_cluster labels refs)"

definition isClusterManagedPod :: "pod \<Rightarrow> bool" where
  "isClusterManagedPod p =
     (let name = gm_str (pod_labels p) LabelClusterKey
      in if name \<noteq> '''' then labelsMatchCluster (pod_labels p) name
         else owner_cluster (pod_labels p) (pod_owners p) \<noteq> None)"

definition clusterNamespacedName :: "pod \<Rightarrow> (string \<times> string) option" where
  "clusterNamespacedName p =
     (let name = gm_str (pod_labels p) LabelClusterKey
      in if name \<noteq> '''' \<and> labelsMatchCluster (pod_labels p) name then Some (pod_namespace p, name)
         else case owner_cluster (pod_labels p) (pod_owners p) of
                Some cluster \<Rightarrow> Some (pod_namespace p, cluster) | None \<Rightarrow> None)"

definition PodToClusterRequests :: "pod \<Rightarrow> (string \<times> string) list" where
  "PodToClusterRequests p = (case clusterNamespacedName p of Some nn \<Rightarrow> [nn] | None \<Rightarrow> [])"

definition operatorLabelChanged :: "strmap \<Rightarrow> strmap \<Rightarrow> bool" where
  "operatorLabelChanged old new =
     list_ex (\<lambda>key. gm_str old key \<noteq> gm_str new key) [RoleLabelKey, LabelClusterKey, LabelAppKey]"

definition operatorAnnotationChanged :: "strmap \<Rightarrow> strmap \<Rightarrow> bool" where
  "operatorAnnotationChanged old new = (gm_str old ConfigHashAnnotationKey \<noteq> gm_str new ConfigHashAnnotationKey)"

datatype pod_event = PodCreated pod | PodDeleted pod | PodUpdated pod pod

fun PodLifecyclePredicate :: "pod_event \<Rightarrow> bool" where
  "PodLifecyclePredicate (PodCreated p) =
     (isClusterManagedPod p \<or> gm_str (pod_labels p) LabelClusterKey \<noteq> '''')"
| "PodLifecyclePredicate (PodDeleted p) = isClusterManagedPod p"
| "PodLifecyclePredicate (PodUpdated old new) =
     (if \<not> isClusterManagedPod old \<and> \<not> isClusterManagedPod new then False
      else if pod_deletion old = None \<and> pod_deletion new \<noteq> None then True
      else if IsPodReady old \<noteq> IsPodReady new then True
      else if pod_ip old \<noteq> pod_ip new then True
      else if pod_phase old \<noteq> pod_phase new then True
      else if operatorLabelChanged (pod_labels old) (pod_labels new) then True
      else operatorAnnotationChanged (pod_annotations old) (pod_annotations new))"

definition TLSSecretToClusterRequests ::
  "(string + kv_cluster list) \<Rightarrow> string \<Rightarrow> string \<Rightarrow> (string \<times> string) list" where
  "TLSSecretToClusterRequests listed secret_ns secret_name = (case listed of
      Inl e \<Rightarrow> []
    | Inr items \<Rightarrow>
        map (\<lambda>c. (cr_namespace c, cr_name c))
          (filter (\<lambda>c. case spec_security (cr_spec c) of
                     None \<Rightarrow> False
                   | Some s \<Rightarrow> (case sec_tls s of
                       None \<Rightarrow> False
                     | Some t \<Rightarrow> tls_enabled t \<and> tls_secret_name t = secret_name)) items))"

section \<open>Lemmas\<close>

lemma set_SortedPodsByName [simp]: "set (SortedPodsByName pods) = set pods"
  by (simp add: SortedPodsByName_def)

lemma distinct_SortedPodsByName:
  "distinct (map pod_name pods) \<Longrightarrow> distinct (map pod_name (SortedPodsByName pods))"
  by (metis SortedPodsByName_def mset_eq_imp_distinct_iff mset_map mset_sort_by)

lemma SortedPodsByName_Nil [simp]: "SortedPodsByName pods = [] \<longleftrightarrow> pods = []"
  by (metis set_SortedPodsByName set_empty)

lemma SortedPodsByName_hd:
  assumes "p \<in> set pods"
  shows "pod_name (hd (SortedPodsByName pods)) \<le> pod_name p"
  using by_key.sort_by_head_least [OF assms, of pod_name] by (simp add: SortedPodsByName_def key_less_def)

lemma SortedPodsByName_sorted: "sorted (map pod_name (SortedPodsByName pods))"
  using by_key.sort_by_sorted [of pod_name pods]
  by (simp add: SortedPodsByName_def key_less_def sorted_map linorder_class.not_less)

definition retry_outcome ::
  "(nat \<Rightarrow> 'e option) \<Rightarrow> nat \<Rightarrow> nat \<Rightarrow> 'e option \<times> nat \<times> duration list \<Rightarrow> bool" where
  "retry_outcome fn i todo res = (case res of (r, n, ds) \<Rightarrow>
     1 \<le> n \<and> n \<le> todo \<and> Suc (length ds) = n \<and> r = fn (i + n - 1)
     \<and> (\<forall>j \<in> {i..<i + n - 1}. fn j \<noteq> None)
     \<and> (r \<noteq> None \<longrightarrow> n = todo))"

text \<open>Without cancellation a retry ends with the first success or after all attempts.\<close>

lemma retry_loop_outcome:
  "retry_outcome fn i (Suc todo) (retry_loop bo sample (\<lambda>_. None) (\<lambda>_. None) fn i (Suc todo) delay)"
proof (induction todo arbitrary: i delay)
  case 0
  show ?case by (cases "fn i") (simp_all add: retry_outcome_def)
next
  case (Suc todo)
  obtain r n ds where rec:
    "retry_loop bo sample (\<lambda>_. None) (\<lambda>_. None) fn (Suc i) (Suc todo) (next_delay bo delay) = (r, n, ds)"
    by (rule prod_cases3)
  have "retry_outcome fn (Suc i) (Suc todo) (r, n, ds)"
    using Suc.IH [of "Suc i" "next_delay bo delay"] unfolding rec .
  then have n: "1 \<le> n" "n \<le> Suc todo" "Suc (length ds) = n" and r: "r = fn (Suc i + n - 1)"
    and later: "\<forall>j \<in> {Suc i..<Suc i + n - 1}. fn j \<noteq> None" and last: "r \<noteq> None \<longrightarrow> n = Suc todo"
    unfolding retry_outcome_def prod.case by - (elim conjE, assumption)+
  show ?case
  proof (cases "fn i")
    case None
    then show ?thesis by (simp add: retry_outcome_def)
  next
    case (Some e)
    have step: "retry_loop bo sample (\<lambda>_. None) (\<lambda>_. None) fn i (Suc (Suc todo)) delay
        = (r, Suc n, retry_wait bo (sample i) delay # ds)"
      using Some by (subst retry_loop.simps) (simp del: retry_loop.simps add: rec)
    have "fn j \<noteq> None" if "j \<in> {i..<i + n}" for j
    proof (cases "j = i")
      case False
      then have "j \<in> {Suc i..<Suc i + n - 1}" using that by simp
      then show ?thesis using later by blast
    qed (simp add: Some)
    then have all: "\<forall>j \<in> {i..<i + n}. fn j \<noteq> None" by blast
    have "retry_outcome fn i (Suc (Suc todo)) (r, Suc n, ws)" if "length ws = n" for ws
      unfolding retry_outcome_def prod.case
    proof (intro conjI)
      show "Suc n \<le> Suc (Suc todo)" using n(2) by simp
      show "r = fn (i + Suc n - 1)" using r by (simp only: add_Suc add_Suc_right)
      show "\<forall>j \<in> {i..<i + Suc n - 1}. fn j \<noteq> None" using all by (simp only: add_Suc_right diff_Suc_1)
      show "r \<noteq> None \<longrightarrow> Suc n = Suc (Suc todo)" using last by blast
    qed (simp_all add: that)
    then show ?thesis unfolding step using n(3) by simp
  qed
qed

end
