(* ===== verification/KV_MasterCache.thy ===== *)
theory KV_MasterCache
  imports KV_Core
begin

text \<open>
  \<open>src/controllers/internal/ops/replication/master_cache.go\<close>: the cache of master addresses, its
  interface as the replication code uses it, and the interpretation of that interface on the
  implementation.

  The clock reading of each call is an argument; the entry \<open>Remember\<close> drops from a full cache is
  Go's arbitrary first map key, the argument \<open>pick\<close>. Each method runs under the cache's lock, so the
  calls of concurrent reconciles are one sequence of operations.
\<close>

section \<open>Implementation\<close>

type_synonym cache_key = "string \<times> string"

record cache_entry =
  ce_master :: string
  ce_detail :: string
  ce_expires :: time

record master_cache =
  mc_ttl :: duration
  mc_max :: nat
  mc_entries :: "(cache_key, cache_entry) gomap"

definition NewMasterAddressCache :: "duration \<Rightarrow> int \<Rightarrow> master_cache" where
  "NewMasterAddressCache ttl maxEntries =
     \<lparr>mc_ttl = (if ttl \<le> 0 then 200 * msec else ttl),
      mc_max = nat (if maxEntries \<le> 0 then 128 else maxEntries), mc_entries = []\<rparr>"

definition Lookup :: "master_cache \<Rightarrow> time \<Rightarrow> cache_key \<Rightarrow> (string \<times> string) option \<times> master_cache" where
  "Lookup c now key = (case gm_get (mc_entries c) key of
      None \<Rightarrow> (None, c)
    | Some entry \<Rightarrow>
        if ce_expires entry < now then (None, c\<lparr>mc_entries := gm_delete (mc_entries c) key\<rparr>)
        else (Some (ce_master entry, ce_detail entry), c))"

definition Remember ::
  "nat \<Rightarrow> master_cache \<Rightarrow> time \<Rightarrow> cache_key \<Rightarrow> string \<Rightarrow> string \<Rightarrow> master_cache" where
  "Remember pick c now key master detail =
     (if master = '''' then c
      else let entry = \<lparr>ce_master = master, ce_detail = detail, ce_expires = now + mc_ttl c\<rparr>;
               entries = mc_entries c;
               entries = (if mc_max c \<le> length entries \<and> entries \<noteq> []
                          then gm_delete entries (fst (entries ! (pick mod length entries))) else entries)
           in c\<lparr>mc_entries := gm_set entries key entry\<rparr>)"

definition Invalidate :: "master_cache \<Rightarrow> cache_key \<Rightarrow> master_cache" where
  "Invalidate c key = c\<lparr>mc_entries := gm_delete (mc_entries c) key\<rparr>"

definition CacheKeyForCluster :: "kv_cluster \<Rightarrow> cache_key" where
  "CacheKeyForCluster cr = (cr_namespace cr, cr_name cr)"

definition cache_inv :: "master_cache \<Rightarrow> bool" where
  "cache_inv c = (gm_wf (mc_entries c) \<and> length (mc_entries c) \<le> mc_max c \<and> 0 < mc_max c \<and> 0 < mc_ttl c)"

section \<open>Interface\<close>

text \<open>
  What a client of the cache may rely on. \<open>view c now k\<close> is what a lookup at time \<open>now\<close> would
  report; an entry may always disappear (capacity, expiry), never change by itself.
\<close>

datatype 'k cache_op =
    OpLookup time 'k
  | OpRemember nat time 'k string string
  | OpInvalidate 'k

text \<open>The clock reading of a call; an invalidation reads none.\<close>

fun op_time :: "'k cache_op \<Rightarrow> time \<Rightarrow> time" where
  "op_time (OpLookup t k) now = t"
| "op_time (OpRemember p t k m d) now = t"
| "op_time (OpInvalidate k) now = now"

text \<open>
  What a history of calls (the most recent first) says about a key: the last master remembered for
  it, unless it expired or was invalidated since.
\<close>

fun last_known :: "duration \<Rightarrow> time \<Rightarrow> 'k \<Rightarrow> 'k cache_op list \<Rightarrow> (string \<times> string) option" where
  "last_known ttl now k [] = None"
| "last_known ttl now k (OpLookup t k' # h) = last_known ttl now k h"
| "last_known ttl now k (OpRemember p t k' m d # h) =
     (if k' = k \<and> m \<noteq> '''' then if now \<le> t + ttl then Some (m, d) else None
      else last_known ttl now k h)"
| "last_known ttl now k (OpInvalidate k' # h) = (if k' = k then None else last_known ttl now k h)"

locale address_cache =
  fixes inv :: "'c \<Rightarrow> bool"
    and ttl :: "'c \<Rightarrow> duration"
    and lookup :: "'c \<Rightarrow> time \<Rightarrow> 'k \<Rightarrow> (string \<times> string) option \<times> 'c"
    and remember :: "nat \<Rightarrow> 'c \<Rightarrow> time \<Rightarrow> 'k \<Rightarrow> string \<Rightarrow> string \<Rightarrow> 'c"
    and invalidate :: "'c \<Rightarrow> 'k \<Rightarrow> 'c"
  assumes inv_lookup: "inv c \<Longrightarrow> inv (snd (lookup c t k))"
    and inv_remember: "inv c \<Longrightarrow> inv (remember p c t k m d)"
    and inv_invalidate: "inv c \<Longrightarrow> inv (invalidate c k)"
    and ttl_lookup: "ttl (snd (lookup c t k)) = ttl c"
    and ttl_remember: "ttl (remember p c t k m d) = ttl c"
    and ttl_invalidate: "ttl (invalidate c k) = ttl c"
    and remember_hit: "inv c \<Longrightarrow> m \<noteq> '''' \<Longrightarrow>
      fst (lookup (remember p c t k m d) now k) = (if now \<le> t + ttl c then Some (m, d) else None)"
    and remember_empty: "fst (lookup (remember p c t k '''' d) now k') = fst (lookup c now k')"
    and remember_other: "inv c \<Longrightarrow> k' \<noteq> k \<Longrightarrow>
      fst (lookup (remember p c t k m d) now k') \<in> {None, fst (lookup c now k')}"
    and invalidate_miss: "inv c \<Longrightarrow> fst (lookup (invalidate c k) now k) = None"
    and invalidate_other: "inv c \<Longrightarrow> k' \<noteq> k \<Longrightarrow> fst (lookup (invalidate c k) now k') = fst (lookup c now k')"
    and lookup_frame: "inv c \<Longrightarrow> t \<le> now \<Longrightarrow> fst (lookup (snd (lookup c t k)) now k') = fst (lookup c now k')"
begin

fun apply_op :: "'c \<Rightarrow> 'k cache_op \<Rightarrow> 'c" where
  "apply_op c (OpLookup t k) = snd (lookup c t k)"
| "apply_op c (OpRemember p t k m d) = remember p c t k m d"
| "apply_op c (OpInvalidate k) = invalidate c k"

text \<open>The state after a history, the most recent call first.\<close>

fun after :: "'c \<Rightarrow> 'k cache_op list \<Rightarrow> 'c" where
  "after c0 [] = c0"
| "after c0 (op # h) = apply_op (after c0 h) op"

lemma inv_after: "inv c0 \<Longrightarrow> inv (after c0 h)"
proof (induction h)
  case (Cons op h)
  then show ?case by (cases op) (auto simp: inv_lookup inv_remember inv_invalidate)
qed simp

lemma ttl_after: "ttl (after c0 h) = ttl c0"
proof (induction h)
  case (Cons op h)
  then show ?case by (cases op) (auto simp: ttl_lookup ttl_remember ttl_invalidate)
qed simp

text \<open>
  Soundness for clients: what a lookup reports is the master last remembered for that very key,
  not expired and not invalidated since.
\<close>

lemma lookup_last_known:
  assumes "inv c0" "\<forall>k. fst (lookup c0 now k) = None" "\<forall>op \<in> set h. op_time op now \<le> now"
  shows "fst (lookup (after c0 h) now k) \<in> {None, last_known (ttl c0) now k h}"
  using assms(3)
proof (induction h)
  case Nil
  then show ?case using assms(2) by simp
next
  case (Cons op h)
  let ?c = "after c0 h"
  have IH: "fst (lookup ?c now k) \<in> {None, last_known (ttl c0) now k h}" using Cons by simp
  have inv: "inv ?c" using inv_after assms(1) by simp
  show ?case
  proof (cases op)
    case (OpLookup t k')
    then show ?thesis using Cons.prems IH lookup_frame [OF inv, of t now k' k] by simp
  next
    case (OpRemember p t k' m d)
    show ?thesis
    proof (cases "k' = k \<and> m \<noteq> ''''")
      case True
      then show ?thesis using OpRemember remember_hit [OF inv, of m p t k d now] ttl_after [of c0 h] by simp
    next
      case False
      then have "fst (lookup (remember p ?c t k' m d) now k) \<in> {None, fst (lookup ?c now k)}"
        using remember_other [OF inv, of k k' p t m d now] remember_empty [of p ?c t k' d now k] by auto
      then show ?thesis using OpRemember False IH by auto
    qed
  next
    case (OpInvalidate k')
    then show ?thesis
      using IH invalidate_miss [OF inv, of k now] invalidate_other [OF inv, of k k' now] by (cases "k' = k") auto
  qed
qed

end

section \<open>The implementation provides the interface\<close>

lemma gm_delete_length:
  assumes "gm_wf m" "k \<in> fst ` set m"
  shows "length (gm_delete m k) < length m"
proof -
  obtain v where "(k, v) \<in> set m" using assms(2) by auto
  then show ?thesis unfolding gm_delete_def AList.delete_eq by (intro length_filter_less) auto
qed

lemma gm_delete_length_le: "length (gm_delete m k) \<le> length m"
  by (simp add: gm_delete_def AList.delete_eq)

lemma gm_set_length_le: "length (gm_set m k v) \<le> Suc (length m)"
  unfolding gm_set_def by (induction m) auto

lemma Lookup_view:
  "fst (Lookup c now k) = (case gm_get (mc_entries c) k of
      None \<Rightarrow> None
    | Some e \<Rightarrow> if ce_expires e < now then None else Some (ce_master e, ce_detail e))"
  by (simp add: Lookup_def split: option.split)

lemma Remember_entries:
  assumes "m \<noteq> ''''"
  shows "\<exists>E. mc_entries (Remember p c t k m d)
      = gm_set E k \<lparr>ce_master = m, ce_detail = d, ce_expires = t + mc_ttl c\<rparr>
    \<and> (E = mc_entries c \<or> (\<exists>x. E = gm_delete (mc_entries c) x))"
proof (cases "mc_max c \<le> length (mc_entries c) \<and> mc_entries c \<noteq> []")
  case True
  let ?E = "gm_delete (mc_entries c) (fst (mc_entries c ! (p mod length (mc_entries c))))"
  have "mc_entries (Remember p c t k m d)
      = gm_set ?E k \<lparr>ce_master = m, ce_detail = d, ce_expires = t + mc_ttl c\<rparr>"
    using assms True by (simp add: Remember_def Let_def)
  then show ?thesis by blast
next
  case False
  then show ?thesis using assms by (intro exI [of _ "mc_entries c"]) (auto simp: Remember_def Let_def)
qed

lemma cache_inv_Remember:
  assumes "cache_inv c"
  shows "cache_inv (Remember p c t k m d)"
proof (cases "m = ''''")
  case False
  let ?E = "mc_entries c"
  show ?thesis
  proof (cases "mc_max c \<le> length ?E \<and> ?E \<noteq> []")
    case True
    let ?x = "fst (?E ! (p mod length ?E))"
    have "?x \<in> fst ` set ?E" using True by (intro imageI nth_mem) simp
    then have "length (gm_delete ?E ?x) < length ?E"
      using assms unfolding cache_inv_def by (blast intro: gm_delete_length)
    then have "length (gm_set (gm_delete ?E ?x) k e) \<le> mc_max c" for e
      using gm_set_length_le [of "gm_delete ?E ?x" k e] assms by (simp add: cache_inv_def)
    then show ?thesis using True False assms by (simp add: cache_inv_def Remember_def Let_def)
  next
    case not_full: False
    then have "length (gm_set ?E k e) \<le> mc_max c" for e
      using gm_set_length_le [of ?E k e] assms by (auto simp: cache_inv_def)
    then show ?thesis using not_full False assms by (auto simp: cache_inv_def Remember_def Let_def)
  qed
qed (use assms in \<open>simp add: Remember_def\<close>)

lemma cache_inv_delete: "cache_inv c \<Longrightarrow> cache_inv (c\<lparr>mc_entries := gm_delete (mc_entries c) k\<rparr>)"
  using gm_delete_length_le [of "mc_entries c" k] by (auto simp: cache_inv_def)

lemma cache_inv_New: "cache_inv (NewMasterAddressCache ttl n)"
  by (simp add: cache_inv_def NewMasterAddressCache_def)

lemma mc_ttl_Remember: "mc_ttl (Remember p c t k m d) = mc_ttl c"
  by (simp add: Remember_def Let_def)

interpretation mcache: address_cache cache_inv mc_ttl Lookup Remember Invalidate
proof
  fix c :: master_cache and k k' :: cache_key and t now :: time and p m d
  assume inv: "cache_inv c"
  show "cache_inv (snd (Lookup c t k))"
    using inv cache_inv_delete by (simp add: Lookup_def split: option.split)
  show "cache_inv (Remember p c t k m d)" by (rule cache_inv_Remember [OF inv])
  show "cache_inv (Invalidate c k)" using cache_inv_delete [OF inv] by (simp add: Invalidate_def)
  show "m \<noteq> '''' \<Longrightarrow> fst (Lookup (Remember p c t k m d) now k) = (if now \<le> t + mc_ttl c then Some (m, d) else None)"
    using Remember_entries [of m p c t k d] by (auto simp: Lookup_view)
  show "k' \<noteq> k \<Longrightarrow> fst (Lookup (Remember p c t k m d) now k') \<in> {None, fst (Lookup c now k')}"
    using Remember_entries [of m p c t k d]
    by (cases "m = ''''") (auto simp: Lookup_view Remember_def split: if_splits)
  show "fst (Lookup (Invalidate c k) now k) = None" by (simp add: Lookup_view Invalidate_def)
  show "k' \<noteq> k \<Longrightarrow> fst (Lookup (Invalidate c k) now k') = fst (Lookup c now k')"
    by (simp add: Lookup_view Invalidate_def)
  show "t \<le> now \<Longrightarrow> fst (Lookup (snd (Lookup c t k)) now k') = fst (Lookup c now k')"
    by (auto simp: Lookup_view Lookup_def split: option.splits)
next
  fix c :: master_cache and k k' :: cache_key and t now :: time and p m d
  show "mc_ttl (snd (Lookup c t k)) = mc_ttl c" by (simp add: Lookup_def split: option.split)
  show "mc_ttl (Remember p c t k m d) = mc_ttl c" by (rule mc_ttl_Remember)
  show "mc_ttl (Invalidate c k) = mc_ttl c" by (simp add: Invalidate_def)
  show "fst (Lookup (Remember p c t k '''' d) now k') = fst (Lookup c now k')" by (simp add: Remember_def)
qed

text \<open>A run of the implementation, the most recent call first.\<close>

fun cache_step :: "master_cache \<Rightarrow> cache_key cache_op \<Rightarrow> master_cache" where
  "cache_step c (OpLookup t k) = snd (Lookup c t k)"
| "cache_step c (OpRemember p t k m d) = Remember p c t k m d"
| "cache_step c (OpInvalidate k) = Invalidate c k"

fun cache_run :: "master_cache \<Rightarrow> cache_key cache_op list \<Rightarrow> master_cache" where
  "cache_run c0 [] = c0"
| "cache_run c0 (op # h) = cache_step (cache_run c0 h) op"

lemma cache_run_after: "cache_run c0 h = mcache.after c0 h"
proof (induction h)
  case (Cons op h)
  then show ?case by (cases op) auto
qed simp

section \<open>Properties\<close>

text \<open>
  C6: From a new cache, after any sequence of calls of any clusters: a lookup that hits reports
  the master last remembered for that very cluster, remembered no longer than the time to live
  ago and not invalidated since; and the cache never holds more entries than its capacity.
\<close>

theorem master_cache_sound:
  assumes "\<forall>op \<in> set h. op_time op now \<le> now"
  shows "(\<forall>hit. fst (Lookup (cache_run (NewMasterAddressCache ttl n) h) now k) = Some hit
            \<longrightarrow> last_known (mc_ttl (NewMasterAddressCache ttl n)) now k h = Some hit)
       \<and> length (mc_entries (cache_run (NewMasterAddressCache ttl n) h)) \<le> mc_max (NewMasterAddressCache ttl n)"
proof -
  let ?c0 = "NewMasterAddressCache ttl n"
  have "\<forall>k. fst (Lookup ?c0 now k) = None" by (simp add: Lookup_view NewMasterAddressCache_def)
  then have "fst (Lookup (cache_run ?c0 h) now k) \<in> {None, last_known (mc_ttl ?c0) now k h}"
    using mcache.lookup_last_known [OF cache_inv_New _ assms] by (simp add: cache_run_after)
  moreover have "mc_max (cache_run ?c0 h) = mc_max ?c0"
  proof (induction h)
    case (Cons op h)
    then show ?case
      by (cases op) (auto simp: Lookup_def Remember_def Invalidate_def Let_def split: option.split)
  qed simp
  moreover have "cache_inv (cache_run ?c0 h)"
    using mcache.inv_after [OF cache_inv_New] by (simp add: cache_run_after)
  ultimately show ?thesis by (auto simp: cache_inv_def)
qed

theorem master_cache_sound_witness:
  "fst (Lookup (cache_run (NewMasterAddressCache 0 0)
      [OpRemember 0 5 (''ns'', ''b'') ''b-1'' '''', OpRemember 0 0 (''ns'', ''a'') ''a-0'' ''x''])
      (100 * msec) (''ns'', ''a'')) = Some (''a-0'', ''x'')
   \<and> last_known (mc_ttl (NewMasterAddressCache 0 0)) (100 * msec) (''ns'', ''a'')
      [OpRemember 0 5 (''ns'', ''b'') ''b-1'' '''', OpRemember 0 0 (''ns'', ''a'') ''a-0'' ''x'']
     = Some (''a-0'', ''x'')"
proof -
  let ?h = "[OpRemember 0 5 (''ns'', ''b'') ''b-1'' '''', OpRemember 0 0 (''ns'', ''a'') ''a-0'' ''x'']"
  have hit: "fst (Lookup (cache_run (NewMasterAddressCache 0 0) ?h) (100 * msec) (''ns'', ''a'')) = Some (''a-0'', ''x'')"
    by (simp add: Lookup_view NewMasterAddressCache_def Remember_def Let_def gm_set_def gm_get_def)
  have "\<forall>op \<in> set ?h. op_time op (100 * msec) \<le> 100 * msec" by simp
  from master_cache_sound [OF this, of 0 0 "(''ns'', ''a'')"] hit show ?thesis by blast
qed

end
