(* ===== verification/KV_Security.thy ===== *)
theory KV_Security
  imports KV_Core
begin

text \<open>
  \<open>src/controllers/internal/security\<close>: resolution of the AUTH and TLS secrets (\<open>settings.go\<close>) and the
  digest of the TLS secret (\<open>digest.go\<close>).

  The Kubernetes reader is the parameter \<open>get_secret\<close>; the certificate parsers of the crypto
  packages are the parameters \<open>key_pair_ok\<close> and \<open>ca_ok\<close>, the hash is \<open>hash\<close>.
\<close>

record secret =
  secret_data :: strmap
  secret_version :: string

record auth_settings =
  as_enabled :: bool
  as_username :: string
  as_password :: string
  as_secret_name :: string
  as_secret_key :: string
  as_version :: string

record tls_settings =
  ts_enabled :: bool
  ts_secret_name :: string
  ts_ca_key :: string
  ts_cert_key :: string
  ts_key_key :: string
  ts_require_client_auth :: bool
  ts_disable_plaintext :: bool
  ts_version :: string
  ts_ca_bundle :: string
  ts_client_cert :: "(string \<times> string) option"

record security_settings =
  ss_auth :: auth_settings
  ss_tls :: tls_settings

definition no_security :: security_settings where
  "no_security = \<lparr>ss_auth = \<lparr>as_enabled = False, as_username = '''', as_password = '''',
       as_secret_name = '''', as_secret_key = '''', as_version = ''''\<rparr>,
     ss_tls = \<lparr>ts_enabled = False, ts_secret_name = '''', ts_ca_key = '''', ts_cert_key = '''',
       ts_key_key = '''', ts_require_client_auth = False, ts_disable_plaintext = False,
       ts_version = '''', ts_ca_bundle = '''', ts_client_cert = None\<rparr>\<rparr>"

definition HasAuth :: "security_settings \<Rightarrow> bool" where "HasAuth s = as_enabled (ss_auth s)"
definition HasTLS :: "security_settings \<Rightarrow> bool" where "HasTLS s = ts_enabled (ss_tls s)"

datatype tls_config_error = CABundleEmpty | CABundleInvalid

text \<open>A client configuration: the CA bundle and the client certificate, if one is presented.\<close>

definition ClientTLSConfig ::
  "(string \<Rightarrow> bool) \<Rightarrow> security_settings \<Rightarrow> tls_config_error + (string \<times> (string \<times> string) option) option" where
  "ClientTLSConfig ca_ok s =
     (if \<not> ts_enabled (ss_tls s) then Inr None
      else if ts_ca_bundle (ss_tls s) = '''' then Inl CABundleEmpty
      else if \<not> ca_ok (ts_ca_bundle (ss_tls s)) then Inl CABundleInvalid
      else Inr (Some (ts_ca_bundle (ss_tls s),
             if ts_require_client_auth (ss_tls s) then ts_client_cert (ss_tls s) else None)))"

datatype security_error =
    AuthRefMissing | AuthNameMissing | AuthSecretGet string | AuthKeyMissing | AuthKeyAbsent string
  | TLSNameMissing | TLSSecretGet string | TLSKeyAbsent string | TLSCertInvalid

definition default_key :: "string \<Rightarrow> string \<Rightarrow> string" where
  "default_key d k = (if k = '''' then d else k)"

definition resolve_auth_settings ::
  "(string \<Rightarrow> string \<Rightarrow> string + secret) \<Rightarrow> kv_cluster \<Rightarrow> auth_spec \<Rightarrow> security_error + auth_settings" where
  "resolve_auth_settings get_secret cr authSpec = (case auth_password_ref authSpec of
      None \<Rightarrow> Inl AuthRefMissing
    | Some ref \<Rightarrow>
        if sks_name ref = '''' then Inl AuthNameMissing
        else (case get_secret (cr_namespace cr) (sks_name ref) of
            Inl e \<Rightarrow> Inl (AuthSecretGet e)
          | Inr scr \<Rightarrow>
              if sks_key ref = '''' then Inl AuthKeyMissing
              else (case gm_get (secret_data scr) (sks_key ref) of
                  None \<Rightarrow> Inl (AuthKeyAbsent (sks_key ref))
                | Some val \<Rightarrow> Inr \<lparr>as_enabled = True, as_username = auth_username authSpec,
                    as_password = val, as_secret_name = sks_name ref, as_secret_key = sks_key ref,
                    as_version = secret_version scr\<rparr>)))"

definition present :: "secret \<Rightarrow> string \<Rightarrow> string option" where
  "present scr k = (case gm_get (secret_data scr) k of Some v \<Rightarrow> if v = '''' then None else Some v | None \<Rightarrow> None)"

definition resolve_tls_settings ::
  "(string \<Rightarrow> string \<Rightarrow> string + secret) \<Rightarrow> (string \<Rightarrow> string \<Rightarrow> bool) \<Rightarrow> kv_cluster \<Rightarrow> tls_spec
    \<Rightarrow> security_error + tls_settings" where
  "resolve_tls_settings get_secret key_pair_ok cr tlsSpec =
     (if tls_secret_name tlsSpec = '''' then Inl TLSNameMissing
      else case get_secret (cr_namespace cr) (tls_secret_name tlsSpec) of
             Inl e \<Rightarrow> Inl (TLSSecretGet e)
           | Inr scr \<Rightarrow>
               (let caKey = default_key ''ca.crt'' (tls_ca_cert_key tlsSpec);
                    certKey = default_key ''tls.crt'' (tls_cert_key tlsSpec);
                    keyKey = default_key ''tls.key'' (tls_key_key tlsSpec);
                    require = (tls_require_client_auth tlsSpec = Some True)
                in case present scr caKey of
                     None \<Rightarrow> Inl (TLSKeyAbsent caKey)
                   | Some ca \<Rightarrow> (case present scr certKey of
                       None \<Rightarrow> Inl (TLSKeyAbsent certKey)
                     | Some cert \<Rightarrow> (case present scr keyKey of
                         None \<Rightarrow> Inl (TLSKeyAbsent keyKey)
                       | Some key \<Rightarrow>
                           if require \<and> \<not> key_pair_ok cert key then Inl TLSCertInvalid
                           else Inr \<lparr>ts_enabled = True, ts_secret_name = tls_secret_name tlsSpec,
                                  ts_ca_key = caKey, ts_cert_key = certKey, ts_key_key = keyKey,
                                  ts_require_client_auth = require,
                                  ts_disable_plaintext = (tls_disable_plaintext tlsSpec = Some True),
                                  ts_version = secret_version scr, ts_ca_bundle = ca,
                                  ts_client_cert = (if require then Some (cert, key) else None)\<rparr>))))"

text \<open>\<open>FromSpec\<close>: the settings resolved so far are returned also with an error.\<close>

definition FromSpec ::
  "(string \<Rightarrow> string \<Rightarrow> string + secret) \<Rightarrow> (string \<Rightarrow> string \<Rightarrow> bool) \<Rightarrow> kv_cluster
    \<Rightarrow> security_settings \<times> security_error option" where
  "FromSpec get_secret key_pair_ok cr = (case spec_security (cr_spec cr) of
      None \<Rightarrow> (no_security, None)
    | Some sp \<Rightarrow>
        (let auth = (case sec_auth sp of
               Some a \<Rightarrow> if auth_enabled a then resolve_auth_settings get_secret cr a
                         else Inr (ss_auth no_security)
             | None \<Rightarrow> Inr (ss_auth no_security))
         in case auth of
              Inl e \<Rightarrow> (no_security, Some e)
            | Inr as \<Rightarrow>
                (let out = no_security\<lparr>ss_auth := as\<rparr>
                 in case sec_tls sp of
                      None \<Rightarrow> (out, None)
                    | Some t \<Rightarrow> if \<not> tls_enabled t then (out, None)
                        else (case resolve_tls_settings get_secret key_pair_ok cr t of
                            Inl e \<Rightarrow> (out, Some e)
                          | Inr ts \<Rightarrow> (out\<lparr>ss_tls := ts\<rparr>, None)))))"

definition ResolveAuth :: "kv_cluster \<Rightarrow> security_settings option \<Rightarrow> string \<times> string" where
  "ResolveAuth cr scr =
     (let fallback =
            (let cfg = spec_redis_config (cr_spec cr)
             in if gm_str cfg ''requirepass'' \<noteq> '''' then ('''', gm_str cfg ''requirepass'')
                else if gm_str cfg ''masterauth'' \<noteq> '''' then ('''', gm_str cfg ''masterauth'')
                else ('''', ''''))
      in case scr of
           Some s \<Rightarrow> if as_enabled (ss_auth s) then (as_username (ss_auth s), as_password (ss_auth s)) else fallback
         | None \<Rightarrow> fallback)"

section \<open>Digest of the TLS secret\<close>

text \<open>The bytes written to the hash: the keys in order, each followed by its value.\<close>

definition digest_input :: "strmap \<Rightarrow> string" where
  "digest_input data = concat (map (\<lambda>k. k @ gm_str data k) (sort_strings (map fst data)))"

definition TLSDigest ::
  "(string \<Rightarrow> string) \<Rightarrow> (string \<Rightarrow> string \<Rightarrow> string + secret) \<Rightarrow> kv_cluster \<Rightarrow> string option" where
  "TLSDigest hash get_secret cr = (case spec_security (cr_spec cr) of
      None \<Rightarrow> None
    | Some sp \<Rightarrow> (case sec_tls sp of
        None \<Rightarrow> None
      | Some t \<Rightarrow>
          if \<not> tls_enabled t then None
          else if tls_secret_name t = '''' then None
          else (case get_secret (cr_namespace cr) (tls_secret_name t) of
              Inl e \<Rightarrow> None
            | Inr scr \<Rightarrow> Some (hash (digest_input (secret_data scr))))))"

section \<open>Lemmas\<close>

lemma sort_strings_cong:
  assumes "mset xs = mset ys"
  shows "sort_strings xs = sort_strings ys"
proof -
  have "mset (sort_strings xs) = mset (sort_strings ys)" using assms by (simp add: sort_strings_def)
  then show ?thesis using sorted_sort_strings properties_for_sort by metis
qed

lemma digest_input_cong:
  assumes "gm_wf a" "gm_wf b" "gm_eq a b"
  shows "digest_input a = digest_input b"
proof -
  have "set (map fst a) = set (map fst b)"
    using assms(3) gm_get_None unfolding gm_eq_def by (metis list.set_map subsetI subset_antisym)
  then have "mset (map fst a) = mset (map fst b)"
    using assms(1,2) unfolding gm_wf_def by (metis set_eq_iff_mset_eq_distinct)
  moreover have "gm_str a = gm_str b" using assms(3) by (auto simp: gm_eq_def gm_str_def)
  ultimately show ?thesis using sort_strings_cong by (metis digest_input_def)
qed

section \<open>Properties\<close>

text \<open>
  C7: The TLS digest is a function of the secret's contents: two reads of a secret with the same
  data, whatever the iteration order of its map, give the same digest, so an unchanged secret never
  triggers a restart.
\<close>

theorem TLSDigest_stable:
  assumes "get1 (cr_namespace cr) (tls_secret_name t) = Inr s1"
    and "get2 (cr_namespace cr) (tls_secret_name t) = Inr s2"
    and "spec_security (cr_spec cr) = Some sp" "sec_tls sp = Some t"
    and "gm_wf (secret_data s1)" "gm_wf (secret_data s2)" "gm_eq (secret_data s1) (secret_data s2)"
  shows "TLSDigest hash get1 cr = TLSDigest hash get2 cr"
  using assms digest_input_cong [OF assms(5-7)] by (simp add: TLSDigest_def)

definition demo_tls_cluster :: kv_cluster where
  "demo_tls_cluster = (cluster0 ''ns'' ''kv'')\<lparr>cr_spec := spec0\<lparr>spec_security :=
     Some \<lparr>sec_auth = None, sec_tls = Some \<lparr>tls_enabled = True, tls_secret_name = ''kv-tls'',
       tls_ca_cert_key = '''', tls_cert_key = '''', tls_key_key = '''',
       tls_require_client_auth = None, tls_disable_plaintext = None\<rparr>\<rparr>\<rparr>\<rparr>"

definition demo_secret :: "strmap \<Rightarrow> string \<Rightarrow> string \<Rightarrow> string + secret" where
  "demo_secret data ns n = Inr \<lparr>secret_data = data, secret_version = ''1''\<rparr>"

theorem TLSDigest_stable_witness:
  "TLSDigest id (demo_secret [(''ca.crt'', ''A''), (''tls.crt'', ''B'')]) demo_tls_cluster
     = TLSDigest id (demo_secret [(''tls.crt'', ''B''), (''ca.crt'', ''A'')]) demo_tls_cluster
   \<and> TLSDigest id (demo_secret [(''ca.crt'', ''A''), (''tls.crt'', ''B'')]) demo_tls_cluster
     = Some ''ca.crtAtls.crtB''"
proof -
  let ?a = "[(''ca.crt'', ''A''), (''tls.crt'', ''B'')]" and ?b = "[(''tls.crt'', ''B''), (''ca.crt'', ''A'')]"
  obtain sp t where sp: "spec_security (cr_spec demo_tls_cluster) = Some sp" "sec_tls sp = Some t"
    by (simp add: demo_tls_cluster_def)
  have "gm_wf ?a" "gm_wf ?b" "gm_eq ?a ?b" by (auto simp: gm_wf_def gm_eq_def gm_get_def)
  then have "TLSDigest id (demo_secret ?a) demo_tls_cluster = TLSDigest id (demo_secret ?b) demo_tls_cluster"
    using TLSDigest_stable [of "demo_secret ?a" demo_tls_cluster t _ "demo_secret ?b" _ sp] sp
    by (simp add: demo_secret_def)
  moreover have "TLSDigest id (demo_secret ?a) demo_tls_cluster = Some ''ca.crtAtls.crtB''"
    by code_simp
  ultimately show ?thesis by simp
qed

end
