(* ===== verification/KV_Replication.thy ===== *)
theory KV_Replication
  imports KV_Runtime KV_Security KV_Health KV_MasterCache
begin

text \<open>
  \<open>src/controllers/internal/ops/replication\<close>: finding the master and enforcing a single-master
  topology (\<open>replication.go\<close>), and the role labels (\<open>labels.go\<close>).

  Redis and Sentinel are reached through client interfaces. What they answer in one call of
  \<open>EnsureTopology\<close> is a parameter: for every pod the outcome of creating the client, of each
  attempt of each command, and of the context checks around the attempts. The commands that were
  accepted are recorded in order, so that their effect on the servers can be stated.

  The wait for a replica to synchronise is a loop without a bound of its own; it takes fuel, and
  \<^const>\<open>None\<close> is a call that has not returned yet.
\<close>

section \<open>Answers of the clients\<close>

datatype call = CallAuth | CallRole | CallNoOne | CallReplicaOf

record pod_replies =
  pr_client :: "string option"
  pr_auth :: "nat \<Rightarrow> string \<Rightarrow> string option"
  pr_role :: "nat \<Rightarrow> string + string"
  pr_info :: "string + replication_info"
  pr_noone :: "nat \<Rightarrow> string option"
  pr_replicaof :: "nat \<Rightarrow> string option"
  pr_ctx :: "call \<Rightarrow> nat \<Rightarrow> string option"
  pr_ctx_wait :: "call \<Rightarrow> nat \<Rightarrow> string option"
  pr_poll :: "nat \<Rightarrow> string + replication_info"
  pr_poll_ctx :: "nat \<Rightarrow> string option"
  pr_poll_ctx_wait :: "nat \<Rightarrow> string option"
  pr_poll_clock :: "nat \<Rightarrow> time"
  pr_poll_start :: time

text \<open>The context check before and the wait after the i-th attempt of a command.\<close>

record sentinel_replies =
  sr_client :: "string option"
  sr_master :: "string + (string \<times> int)"

datatype redis_command = CmdNoOne string | CmdReplicaOf string string int

datatype repl_error =
    NoPodsProvided
  | TLSConfigFailed tls_config_error
  | ClientFailed string string
  | AuthFailed string string
  | RoleFailed string string
  | PromoteFailed string string
  | ReplicaOfFailed string string

datatype ensure_source =
  EnsureSourceUnknown | EnsureSourceSentinel | EnsureSourceProbe | EnsureSourceForced | EnsureSourceCache

record ensure_result =
  er_changed :: bool
  er_master :: string
  er_roles :: "(string, pod_role) gomap"
  er_infos :: "(string, replication_info) gomap"
  er_drift :: "string list"
  er_pending :: "string list"
  er_source :: ensure_source
  er_reason :: string

definition er0 :: "string \<Rightarrow> ensure_result" where
  "er0 master = \<lparr>er_changed = False, er_master = master, er_roles = [], er_infos = [], er_drift = [],
     er_pending = [], er_source = EnsureSourceUnknown, er_reason = ''''\<rparr>"

record ensure_options =
  eo_username :: string
  eo_password :: string
  eo_tls :: bool
  eo_threshold :: int
  eo_wait_timeout :: duration
  eo_wait_interval :: duration

section \<open>Hosts\<close>

definition MatchPodByHost :: "pod list \<Rightarrow> string \<Rightarrow> string" where
  "MatchPodByHost pods host = (case IndexByte host CHR ''.'' of
      None \<Rightarrow> ''''
    | Some i \<Rightarrow> if 0 < i
        then (case find (\<lambda>p. pod_name p = take i host) pods of Some p \<Rightarrow> pod_name p | None \<Rightarrow> '''')
        else '''')"

definition HostMatchesMaster :: "string \<Rightarrow> string \<Rightarrow> string \<Rightarrow> pod list \<Rightarrow> bool" where
  "HostMatchesMaster host masterName masterIP pods =
     (if host = '''' then False
      else if host = masterName then True
      else if masterIP \<noteq> '''' \<and> host = masterIP then True
      else MatchPodByHost pods host = masterName)"

definition hasRedisPod :: "pod list \<Rightarrow> string \<Rightarrow> bool" where
  "hasRedisPod pods name = (name \<noteq> '''' \<and> list_ex (\<lambda>p. pod_name p = name) pods)"

definition selectorEquals :: "strmap \<Rightarrow> strmap \<Rightarrow> bool" where
  "selectorEquals a b =
     (length a = length b
      \<and> list_all (\<lambda>(k, v). gm_str b k = v) a
      \<and> list_all (\<lambda>(k, v). gm_get a k \<noteq> None) b)"

definition replicaAligned :: "replication_info \<Rightarrow> int \<Rightarrow> bool" where
  "replicaAligned info threshold =
     (if \<not> EqualFold (ri_role info) ''replica'' then False
      else if ri_master_host info = '''' then False
      else if ri_master_link_status info \<noteq> '''' \<and> \<not> EqualFold (ri_master_link_status info) ''up''
              \<and> \<not> EqualFold (ri_master_link_status info) ''ok'' then False
      else if ri_master_sync_in_progress info then False
      else True)"

section \<open>Authentication\<close>

definition upper_char :: "char \<Rightarrow> char" where
  "upper_char c = (if CHR ''a'' \<le> c \<and> c \<le> CHR ''z'' then char_of (of_char c - 32 :: nat) else c)"

definition isWrongPassError :: "string \<Rightarrow> bool" where
  "isWrongPassError err = Contains (map upper_char err) ''WRONGPASS''"

fun auth_users :: "(string \<Rightarrow> string option) \<Rightarrow> string list \<Rightarrow> string option \<Rightarrow> string option" where
  "auth_users auth [] authErr = authErr"
| "auth_users auth (user # users) authErr = (case auth user of
      None \<Rightarrow> None
    | Some e \<Rightarrow> if \<not> isWrongPassError e \<or> users = [] then Some e else auth_users auth users (Some e))"

definition repl_backoff :: retry_backoff where
  "repl_backoff = \<lparr>rb_initial = 200 * msec, rb_max = 2 * sec, rb_factor = 2, rb_jitter = 0\<rparr>"

definition auth_backoff :: retry_backoff where
  "auth_backoff = \<lparr>rb_initial = 100 * msec, rb_max = sec, rb_factor = 2, rb_jitter = 0\<rparr>"

definition retry_call :: "pod_replies \<Rightarrow> call \<Rightarrow> int \<Rightarrow> retry_backoff \<Rightarrow> (nat \<Rightarrow> string option) \<Rightarrow> string option" where
  "retry_call r c attempts bo fn = fst (Retry (\<lambda>_. 0) (pr_ctx r c) (pr_ctx_wait r c) attempts bo fn)"

definition maybeAuth :: "pod_replies \<Rightarrow> string \<Rightarrow> string \<Rightarrow> string option" where
  "maybeAuth r username password =
     (if password = '''' then None
      else let usernames = (if username \<noteq> '''' then [username, ''''] else [username])
           in retry_call r CallAuth 2 auth_backoff (\<lambda>i. auth_users (pr_auth r i) usernames None))"

section \<open>Waiting for a replica\<close>

definition or_last :: "string option \<Rightarrow> string \<Rightarrow> string option" where
  "or_last lastErr e = (case lastErr of Some l \<Rightarrow> Some l | None \<Rightarrow> Some e)"

fun wait_loop ::
  "nat \<Rightarrow> pod_replies \<Rightarrow> ensure_options \<Rightarrow> nat \<Rightarrow> replication_info \<Rightarrow> string option
    \<Rightarrow> (replication_info \<times> string option) option" where
  "wait_loop 0 r opts k lastInfo lastErr = None"
| "wait_loop (Suc fuel) r opts k lastInfo lastErr = (case pr_poll_ctx r k of
      Some e \<Rightarrow> Some (lastInfo, or_last lastErr e)
    | None \<Rightarrow>
        (let (lastInfo', lastErr', done) = (case pr_poll r k of
                Inr info \<Rightarrow> (info, None, replicaAligned info (eo_threshold opts))
              | Inl e \<Rightarrow> (lastInfo, Some e, False))
         in if done then Some (lastInfo', None)
            else if pr_poll_start r + eo_wait_timeout opts < pr_poll_clock r k
                 then Some (lastInfo', or_last lastErr' ''replication sync timeout'')
            else case pr_poll_ctx_wait r k of
                   Some e \<Rightarrow> Some (lastInfo', or_last lastErr' e)
                 | None \<Rightarrow> wait_loop fuel r opts (Suc k) lastInfo' lastErr'))"

definition waitForReplicaSync ::
  "nat \<Rightarrow> pod_replies \<Rightarrow> ensure_options \<Rightarrow> (replication_info \<times> string option) option" where
  "waitForReplicaSync fuel r opts = wait_loop fuel r opts 0 ri0 None"

section \<open>Enforcing a master\<close>

definition ensure_master_pod ::
  "pod_replies \<Rightarrow> string \<Rightarrow> ensure_result \<Rightarrow> (ensure_result \<times> redis_command list) + repl_error" where
  "ensure_master_pod r name res =
     (let info = (case pr_info r of Inr i \<Rightarrow> i | Inl _ \<Rightarrow> ri0\<lparr>ri_role := ''master''\<rparr>)
      in if ri_role info \<noteq> ''master''
         then (case retry_call r CallNoOne 3 repl_backoff (pr_noone r) of
                 Some e \<Rightarrow> Inr (PromoteFailed name e)
               | None \<Rightarrow>
                   (let info' = info\<lparr>ri_role := ''master'', ri_master_host := ''''\<rparr>
                    in Inl (res\<lparr>er_changed := True, er_drift := er_drift res @ [name],
                           er_roles := gm_set (er_roles res) name PodRoleMaster,
                           er_infos := gm_set (er_infos res) name info'\<rparr>, [CmdNoOne name])))
         else Inl (res\<lparr>er_roles := gm_set (er_roles res) name PodRoleMaster,
                      er_infos := gm_set (er_infos res) name info\<rparr>, []))"

definition needs_replicaof ::
  "pod_replies \<Rightarrow> string \<Rightarrow> string \<Rightarrow> int \<Rightarrow> pod list \<Rightarrow> int \<Rightarrow> bool" where
  "needs_replicaof r masterName masterHost masterPort pods threshold = (case pr_info r of
      Inl _ \<Rightarrow> True
    | Inr info \<Rightarrow>
        \<not> (EqualFold (ri_role info) ''replica''
           \<and> HostMatchesMaster (ri_master_host info) masterName masterHost pods
           \<and> (ri_master_port info = 0 \<or> ri_master_port info = masterPort)
           \<and> replicaAligned info threshold))"

definition replica_role :: "replication_info \<Rightarrow> replication_info" where
  "replica_role info = (if ri_role info = '''' then info\<lparr>ri_role := ''replica''\<rparr> else info)"

definition ensure_replica_pod ::
  "nat \<Rightarrow> pod_replies \<Rightarrow> string \<Rightarrow> string \<Rightarrow> string \<Rightarrow> int \<Rightarrow> pod list \<Rightarrow> ensure_options \<Rightarrow> ensure_result
    \<Rightarrow> ((ensure_result \<times> redis_command list) + repl_error) option" where
  "ensure_replica_pod fuel r name masterName masterHost masterPort pods opts res =
     (let finish = (\<lambda>res info. res\<lparr>er_roles := gm_set (er_roles res) name PodRoleReplica,
                                  er_infos := gm_set (er_infos res) name (replica_role info)\<rparr>)
      in if needs_replicaof r masterName masterHost masterPort pods (eo_threshold opts)
         then (case retry_call r CallReplicaOf 3 repl_backoff (pr_replicaof r) of
                 Some e \<Rightarrow> Some (Inr (ReplicaOfFailed name e))
               | None \<Rightarrow> (case waitForReplicaSync fuel r opts of
                     None \<Rightarrow> None
                   | Some (info, waitErr) \<Rightarrow>
                       (let res1 = res\<lparr>er_changed := True, er_drift := er_drift res @ [name]\<rparr>;
                            res2 = (if waitErr \<noteq> None then res1\<lparr>er_pending := er_pending res1 @ [name]\<rparr> else res1)
                        in Some (Inl (finish res2 info, [CmdReplicaOf name masterHost masterPort])))))
         else Some (Inl (finish res (case pr_info r of Inr i \<Rightarrow> i | Inl _ \<Rightarrow> ri0\<lparr>ri_role := ''replica''\<rparr>), [])))"

fun ensure_pods ::
  "nat \<Rightarrow> (string \<Rightarrow> pod_replies) \<Rightarrow> string \<Rightarrow> string \<Rightarrow> int \<Rightarrow> pod list \<Rightarrow> ensure_options \<Rightarrow> pod list
    \<Rightarrow> ensure_result \<Rightarrow> redis_command list
    \<Rightarrow> (ensure_result \<times> redis_command list \<times> repl_error option) option" where
  "ensure_pods fuel rs mn mh mp pods opts [] res cmds = Some (res, cmds, None)"
| "ensure_pods fuel rs mn mh mp pods opts (p # ps) res cmds =
     (let r = rs (pod_name p)
      in case pr_client r of
           Some e \<Rightarrow> Some (res, cmds, Some (ClientFailed (pod_name p) e))
         | None \<Rightarrow> (case maybeAuth r (eo_username opts) (eo_password opts) of
             Some e \<Rightarrow> Some (res, cmds, Some (AuthFailed (pod_name p) e))
           | None \<Rightarrow>
               (case (if pod_name p = mn then Some (ensure_master_pod r mn res)
                      else ensure_replica_pod fuel r (pod_name p) mn mh mp pods opts res) of
                  None \<Rightarrow> None
                | Some (Inr e) \<Rightarrow> Some (res, cmds, Some e)
                | Some (Inl (res', new)) \<Rightarrow> ensure_pods fuel rs mn mh mp pods opts ps res' (cmds @ new))))"

definition master_host :: "kv_cluster \<Rightarrow> pod list \<Rightarrow> string \<Rightarrow> string" where
  "master_host cr pods masterName =
     (let ip = (case find (\<lambda>p. pod_name p = masterName) pods of Some p \<Rightarrow> pod_ip p | None \<Rightarrow> '''')
      in if ip = '''' then PodDNSName cr masterName else ip)"

definition ensureWithMaster ::
  "nat \<Rightarrow> (string \<Rightarrow> pod_replies) \<Rightarrow> kv_cluster \<Rightarrow> pod list \<Rightarrow> string \<Rightarrow> ensure_options
    \<Rightarrow> (ensure_result \<times> redis_command list \<times> repl_error option) option" where
  "ensureWithMaster fuel rs cr pods masterName0 opts =
     (if pods = [] then Some (er0 masterName0, [], Some NoPodsProvided)
      else let masterName = (if masterName0 = '''' then pod_name (hd (SortedPodsByName pods)) else masterName0)
           in ensure_pods fuel rs masterName (master_host cr pods masterName) (fst (RedisPort cr)) pods opts
                (SortedPodsByName pods) (er0 masterName) [])"

section \<open>Finding the master\<close>

fun detect_pods ::
  "(string \<Rightarrow> pod_replies) \<Rightarrow> ensure_options \<Rightarrow> pod list \<Rightarrow> string list \<Rightarrow> (string, pod_role) gomap
    \<Rightarrow> repl_error + (string list \<times> (string, pod_role) gomap)" where
  "detect_pods rs opts [] masters roles = Inr (masters, roles)"
| "detect_pods rs opts (p # ps) masters roles =
     (let r = rs (pod_name p)
      in case pr_client r of
           Some e \<Rightarrow> Inl (ClientFailed (pod_name p) e)
         | None \<Rightarrow> (case maybeAuth r (eo_username opts) (eo_password opts) of
             Some e \<Rightarrow> Inl (AuthFailed (pod_name p) e)
           | None \<Rightarrow>
               (let (err, n, _) = Retry (\<lambda>_. 0) (pr_ctx r CallRole) (pr_ctx_wait r CallRole) 3 repl_backoff
                      (\<lambda>i. case pr_role r i of Inl e \<Rightarrow> Some e | Inr _ \<Rightarrow> None)
                in case err of
                     Some e \<Rightarrow> Inl (RoleFailed (pod_name p) e)
                   | None \<Rightarrow>
                       if pr_role r n = Inr ''master''
                       then detect_pods rs opts ps (masters @ [pod_name p]) (gm_set roles (pod_name p) PodRoleMaster)
                       else detect_pods rs opts ps masters (gm_set roles (pod_name p) PodRoleReplica))))"

definition DetectRoles ::
  "(string \<Rightarrow> pod_replies) \<Rightarrow> ensure_options \<Rightarrow> pod list \<Rightarrow> repl_error + (string \<times> (string, pod_role) gomap)" where
  "DetectRoles rs opts pods =
     (if pods = [] then Inr ('''', [])
      else case detect_pods rs opts (SortedPodsByName pods) [] [] of
             Inl e \<Rightarrow> Inl e
           | Inr (masters, roles) \<Rightarrow>
               if masters = [] then Inr (pod_name (hd (SortedPodsByName pods)), roles)
               else Inr (hd (sort_strings masters), roles))"

definition ensureByProbe ::
  "nat \<Rightarrow> (string \<Rightarrow> pod_replies) \<Rightarrow> kv_cluster \<Rightarrow> pod list \<Rightarrow> ensure_options
    \<Rightarrow> (ensure_result \<times> redis_command list \<times> repl_error option) option" where
  "ensureByProbe fuel rs cr pods opts = (case DetectRoles rs opts pods of
      Inl e \<Rightarrow> Some (er0 '''', [], Some e)
    | Inr (master, _) \<Rightarrow> ensureWithMaster fuel rs cr pods master opts)"

datatype sentinel_error =
  SentinelClient string string | SentinelGetMaster string string
  | SentinelEmptyHost string | SentinelUnmapped string string

definition sentinel_error_text :: "sentinel_error \<Rightarrow> string" where
  "sentinel_error_text e = (case e of
      SentinelClient n t \<Rightarrow> ''transient'' @ [newline] @ ''sentinel client '' @ n @ '': '' @ t
    | SentinelGetMaster n t \<Rightarrow> ''transient'' @ [newline] @ ''sentinel '' @ n @ '' get-master: '' @ t
    | SentinelEmptyHost n \<Rightarrow> ''fatal'' @ [newline] @ ''sentinel '' @ n @ '' returned empty host''
    | SentinelUnmapped n h \<Rightarrow> ''fatal'' @ [newline] @ ''sentinel '' @ n @ '' host '' @ h @ '' not mapped to pod'')"

definition pod_of_host :: "pod list \<Rightarrow> string \<Rightarrow> string" where
  "pod_of_host redisPods host =
     (let name = MatchPodByHost redisPods host
      in if name \<noteq> '''' then name
         else case find (\<lambda>p. pod_ip p = host) redisPods of Some p \<Rightarrow> pod_name p | None \<Rightarrow> '''')"

fun ask_sentinels ::
  "(string \<Rightarrow> sentinel_replies) \<Rightarrow> pod list \<Rightarrow> pod list \<Rightarrow> sentinel_error list
    \<Rightarrow> sentinel_error list + (string \<times> string)" where
  "ask_sentinels ss redisPods [] errs = Inl errs"
| "ask_sentinels ss redisPods (sp # sps) errs =
     (let s = ss (pod_name sp)
      in case sr_client s of
           Some e \<Rightarrow> ask_sentinels ss redisPods sps (errs @ [SentinelClient (pod_name sp) e])
         | None \<Rightarrow> (case sr_master s of
             Inl e \<Rightarrow> ask_sentinels ss redisPods sps (errs @ [SentinelGetMaster (pod_name sp) e])
           | Inr (host, port) \<Rightarrow>
               if host = '''' then ask_sentinels ss redisPods sps (errs @ [SentinelEmptyHost (pod_name sp)])
               else let name = pod_of_host redisPods host
                    in if name = '''' then ask_sentinels ss redisPods sps (errs @ [SentinelUnmapped (pod_name sp) host])
                       else Inr (name, host @ '':'' @ int_to_dec port)))"

definition resolveMasterViaSentinel ::
  "(string \<Rightarrow> sentinel_replies) \<Rightarrow> pod list \<Rightarrow> pod list \<Rightarrow> sentinel_error list + (string \<times> string)" where
  "resolveMasterViaSentinel ss redisPods sentinelPods =
     ask_sentinels ss redisPods (SortedPodsByName sentinelPods) []"

text \<open>
  \<open>strings.Fields\<close>, and the shortening of an error text to 200 characters; the three bytes are the
  UTF-8 encoding of the ellipsis.
\<close>

function Fields :: "string \<Rightarrow> string list" where
  "Fields [] = []"
| "Fields (c # cs) =
     (if is_space c then Fields cs
      else (c # takeWhile (\<lambda>x. \<not> is_space x) cs) # Fields (dropWhile (\<lambda>x. \<not> is_space x) cs))"
  by pat_completeness auto

termination Fields
  by (relation "measure length") (auto simp: less_Suc_eq_le length_dropWhile_le)

definition ellipsis :: string where "ellipsis = [CHR 0xE2, CHR 0x80, CHR 0xA6]"

definition sanitizeEnsureReason :: "string \<Rightarrow> string" where
  "sanitizeEnsureReason reason =
     (let flds = Fields (map (\<lambda>c. if c = newline \<or> c = carriage then CHR '' '' else c) (TrimSpace reason))
      in if flds = [] then ''''
         else let joined = Join flds '' ''
              in if 200 < length joined then take 200 joined @ ellipsis else joined)"

definition sentinel_failure_text :: "sentinel_error list \<Rightarrow> string" where
  "sentinel_failure_text errs =
     (if errs = [] then ''no sentinel pods available'' else Join (map sentinel_error_text errs) [newline])"

section \<open>Ensuring the topology\<close>

record ensure_request =
  rq_cluster :: kv_cluster
  rq_redis_pods :: "pod list"
  rq_sentinel_pods :: "pod list"
  rq_replies :: "string \<Rightarrow> pod_replies"
  rq_sentinels :: "(string \<Rightarrow> sentinel_replies) option"
  rq_security :: "security_settings option"
  rq_ca_ok :: "string \<Rightarrow> bool"
  rq_force_master :: string
  rq_force_reason :: string
  rq_wait_timeout :: duration
  rq_wait_interval :: duration

text \<open>The clock readings and the dropped entry of the cache calls of one request.\<close>

record cache_calls =
  cc_lookup_at :: time
  cc_remember_at :: time
  cc_pick :: nat

definition cache_lookup ::
  "cache_calls \<Rightarrow> master_cache option \<Rightarrow> cache_key \<Rightarrow> (string \<times> string) option \<times> master_cache option" where
  "cache_lookup cc oc key = (case oc of
      None \<Rightarrow> (None, None) | Some c \<Rightarrow> (let (hit, c') = Lookup c (cc_lookup_at cc) key in (hit, Some c')))"

definition cache_remember ::
  "cache_calls \<Rightarrow> master_cache option \<Rightarrow> cache_key \<Rightarrow> string \<Rightarrow> string \<Rightarrow> master_cache option" where
  "cache_remember cc oc key m d = map_option (\<lambda>c. Remember (cc_pick cc) c (cc_remember_at cc) key m d) oc"

definition cache_invalidate :: "master_cache option \<Rightarrow> cache_key \<Rightarrow> master_cache option" where
  "cache_invalidate oc key = map_option (\<lambda>c. Invalidate c key) oc"

definition ensure_opts :: "ensure_request \<Rightarrow> repl_error + ensure_options" where
  "ensure_opts rq =
     (let (user, pw) = ResolveAuth (rq_cluster rq) (rq_security rq);
          timeout = (if rq_wait_timeout rq \<le> 0 then 30 * sec else rq_wait_timeout rq);
          interval = (if rq_wait_interval rq \<le> 0 then sec else rq_wait_interval rq);
          opts = \<lparr>eo_username = user, eo_password = pw, eo_tls = False,
                  eo_threshold = LagThresholdSeconds (rq_cluster rq),
                  eo_wait_timeout = timeout, eo_wait_interval = interval\<rparr>
      in case rq_security rq of
           Some s \<Rightarrow> if HasTLS s
             then (case ClientTLSConfig (rq_ca_ok rq) s of
                     Inl e \<Rightarrow> Inl (TLSConfigFailed e) | Inr cfg \<Rightarrow> Inr (opts\<lparr>eo_tls := (cfg \<noteq> None)\<rparr>))
             else Inr opts
         | None \<Rightarrow> Inr opts)"

definition sentinel_ready_count :: "kv_cluster \<Rightarrow> pod list \<Rightarrow> nat" where
  "sentinel_ready_count cr sentinelPods =
     (let desired = (case spec_sentinel_pod (cr_spec cr) of Some sp \<Rightarrow> spod_node_selector sp | None \<Rightarrow> [])
      in length (filter (\<lambda>p. IsPodReady p \<and> selectorEquals (pod_node_selector p) desired) sentinelPods))"

definition with_source :: "ensure_source \<Rightarrow> string \<Rightarrow> ensure_result \<Rightarrow> ensure_result" where
  "with_source src reason res = res\<lparr>er_source := src, er_reason := reason\<rparr>"

text \<open>The part of \<open>EnsureTopology\<close> after the cache: forced master, Sentinel, probe.\<close>

definition ensure_uncached ::
  "nat \<Rightarrow> cache_calls \<Rightarrow> ensure_request \<Rightarrow> ensure_options \<Rightarrow> master_cache option \<Rightarrow> redis_command list
    \<Rightarrow> (ensure_result \<times> redis_command list \<times> repl_error option \<times> master_cache option) option" where
  "ensure_uncached fuel cc rq opts oc cmds0 =
     (let cr = rq_cluster rq; pods = rq_redis_pods rq; key = CacheKeyForCluster cr;
          viaMaster = (\<lambda>m. ensureWithMaster fuel (rq_replies rq) cr pods m opts);
          probe = (\<lambda>failure. case ensureByProbe fuel (rq_replies rq) cr pods opts of
             None \<Rightarrow> None
           | Some (res, cmds, err) \<Rightarrow>
               (let oc' = (if err = None \<and> er_master res \<noteq> ''''
                           then cache_remember cc oc key (er_master res) (er_reason res) else oc)
                in Some (with_source EnsureSourceProbe
                           (if er_reason res = '''' then failure else er_reason res) res,
                         cmds0 @ cmds, err, oc')))
      in if rq_force_master rq \<noteq> ''''
         then (case viaMaster (rq_force_master rq) of
                 None \<Rightarrow> None
               | Some (res, cmds, err) \<Rightarrow>
                   (let res' = with_source EnsureSourceForced (rq_force_reason rq) res;
                        oc' = (if err = None \<and> er_master res' \<noteq> ''''
                               then cache_remember cc oc key (er_master res') (er_reason res') else oc)
                    in Some (res', cmds0 @ cmds, err, oc')))
         else case rq_sentinels rq of
                Some ss \<Rightarrow>
                  if spec_mode (cr_spec cr) = ModeSentinel \<and> rq_sentinel_pods rq \<noteq> []
                  then if sentinel_ready_count cr (rq_sentinel_pods rq) = 0 then probe ''no ready sentinel pods''
                       else (case resolveMasterViaSentinel ss pods (rq_sentinel_pods rq) of
                               Inr (masterName, detail) \<Rightarrow>
                                 (case viaMaster masterName of
                                    None \<Rightarrow> None
                                  | Some (res, cmds, err) \<Rightarrow>
                                      Some (with_source EnsureSourceSentinel detail res, cmds0 @ cmds, err,
                                        if err = None then cache_remember cc oc key masterName detail else oc))
                             | Inl errs \<Rightarrow> probe (sanitizeEnsureReason (sentinel_failure_text errs)))
                  else probe ''''
              | None \<Rightarrow> probe '''')"

definition EnsureTopology ::
  "nat \<Rightarrow> cache_calls \<Rightarrow> ensure_request \<Rightarrow> master_cache option
    \<Rightarrow> (ensure_result \<times> redis_command list \<times> repl_error option \<times> master_cache option) option" where
  "EnsureTopology fuel cc rq oc =
     (if rq_redis_pods rq = [] then Some (er0 '''', [], Some NoPodsProvided, oc)
      else case ensure_opts rq of
             Inl e \<Rightarrow> Some (er0 '''', [], Some e, oc)
           | Inr opts \<Rightarrow>
               (let key = CacheKeyForCluster (rq_cluster rq); pods = rq_redis_pods rq;
                    (hit, oc1) = cache_lookup cc oc key
                in case hit of
                     None \<Rightarrow> ensure_uncached fuel cc rq opts oc1 []
                   | Some (candidate, detail) \<Rightarrow>
                       if hasRedisPod pods candidate
                       then (case ensureWithMaster fuel (rq_replies rq) (rq_cluster rq) pods candidate opts of
                               None \<Rightarrow> None
                             | Some (res, cmds, None) \<Rightarrow>
                                 Some (with_source EnsureSourceCache
                                         (if er_reason res = '''' then detail else er_reason res) res, cmds, None, oc1)
                             | Some (res, cmds, Some _) \<Rightarrow>
                                 ensure_uncached fuel cc rq opts (cache_invalidate oc1 key) cmds)
                       else ensure_uncached fuel cc rq opts (cache_invalidate oc1 key) []))"

definition EnsureSourceToRolesSource :: "ensure_source \<Rightarrow> roles_source" where
  "EnsureSourceToRolesSource s = (case s of
      EnsureSourceSentinel \<Rightarrow> RolesSourceSentinel
    | EnsureSourceCache \<Rightarrow> RolesSourceSentinel
    | EnsureSourceProbe \<Rightarrow> RolesSourceProbe
    | EnsureSourceForced \<Rightarrow> RolesSourceForced
    | EnsureSourceUnknown \<Rightarrow> RolesSourceUnset)"

section \<open>Role labels\<close>

definition role_label :: "pod_role \<Rightarrow> string" where
  "role_label r = (case r of PodRoleMaster \<Rightarrow> ''master'' | PodRoleReplica \<Rightarrow> ''replica'' | PodRoleSentinel \<Rightarrow> ''sentinel'')"

definition set_role_label :: "pod_role \<Rightarrow> pod \<Rightarrow> pod" where
  "set_role_label r p = p\<lparr>pod_labels := gm_set (pod_labels p) RoleLabelKey (role_label r)\<rparr>"

definition UpdatePodRoleLabels :: "pod list \<Rightarrow> string \<Rightarrow> pod list" where
  "UpdatePodRoleLabels pods master =
     (let demoted = map (\<lambda>p. if gm_str (pod_labels p) RoleLabelKey = role_label PodRoleMaster \<and> pod_name p \<noteq> master
                            then set_role_label PodRoleReplica p else p) pods
      in map (\<lambda>p. if pod_name p = master then set_role_label PodRoleMaster p
                  else set_role_label PodRoleReplica p) demoted)"

end
