(* ===== verification/KV_Topology.thy ===== *)
theory KV_Topology
  imports KV_Replication
begin

text \<open>
  What the enforcement of the replication topology (\<open>ops/replication/replication.go\<close>) guarantees: which
  commands are sent, which servers are primaries afterwards, that the wait for a replica returns, and
  which pod is chosen as the master.
\<close>

section \<open>Lemmas on the clients\<close>

text \<open>A retry that reports success made a call that succeeded.\<close>

lemma retry_loop_ok:
  assumes "retry_loop bo sample ce we fn i todo d = (None, n, ds)" "0 < todo"
  shows "\<exists>k. fn k = None"
  using assms
proof (induction todo arbitrary: i d n ds)
  case (Suc todo)
  show ?case
  proof (cases "ce i = None \<and> fn i \<noteq> None \<and> todo \<noteq> 0 \<and> we i = None")
    case True
    then obtain n' ds' where "retry_loop bo sample ce we fn (Suc i) todo (next_delay bo d) = (None, n', ds')"
      using Suc.prems(1) by (auto split: option.splits prod.splits)
    then show ?thesis using Suc.IH True by blast
  next
    case False
    then show ?thesis using Suc.prems(1) by (auto split: option.splits if_splits)
  qed
qed simp

lemma retry_call_ok: "retry_call r c attempts bo fn = None \<Longrightarrow> \<exists>k. fn k = None"
proof -
  assume "retry_call r c attempts bo fn = None"
  then obtain n ds where "Retry (\<lambda>_. 0) (pr_ctx r c) (pr_ctx_wait r c) attempts bo fn = (None, n, ds)"
    by (metis retry_call_def prod_cases3 fst_conv)
  then show ?thesis unfolding Retry_def Let_def by (rule retry_loop_ok) simp
qed

section \<open>What enforcing a master does\<close>

text \<open>The commands one pod receives, as a function of its report.\<close>

definition pod_commands ::
  "(string \<Rightarrow> pod_replies) \<Rightarrow> string \<Rightarrow> string \<Rightarrow> int \<Rightarrow> pod list \<Rightarrow> int \<Rightarrow> pod \<Rightarrow> redis_command list" where
  "pod_commands rs mn mh mp pods threshold p =
     (if pod_name p = mn
      then (case pr_info (rs mn) of Inr i \<Rightarrow> if ri_role i \<noteq> ''master'' then [CmdNoOne mn] else [] | Inl _ \<Rightarrow> [])
      else if needs_replicaof (rs (pod_name p)) mn mh mp pods threshold
           then [CmdReplicaOf (pod_name p) mh mp] else [])"

definition expected_role :: "string \<Rightarrow> string \<Rightarrow> pod_role" where
  "expected_role mn n = (if n = mn then PodRoleMaster else PodRoleReplica)"

lemma ensure_master_pod_ok:
  assumes "ensure_master_pod (rs mn) mn res = Inl (res', new)" "pod_name p = mn"
  shows "new = pod_commands rs mn mh mp pods threshold p
       \<and> er_roles res' = gm_set (er_roles res) mn PodRoleMaster \<and> er_master res' = er_master res
       \<and> er_changed res' = (er_changed res \<or> new \<noteq> [])
       \<and> er_drift res' = er_drift res @ (if new \<noteq> [] then [mn] else [])"
  using assms
  by (auto simp: ensure_master_pod_def pod_commands_def Let_def ri0_def
      split: option.splits sum.splits if_splits)

lemma ensure_replica_pod_ok:
  assumes "ensure_replica_pod fuel (rs (pod_name p)) (pod_name p) mn mh mp pods opts res = Some (Inl (res', new))"
    and "pod_name p \<noteq> mn"
  shows "new = pod_commands rs mn mh mp pods (eo_threshold opts) p
       \<and> er_roles res' = gm_set (er_roles res) (pod_name p) PodRoleReplica \<and> er_master res' = er_master res
       \<and> er_changed res' = (er_changed res \<or> new \<noteq> [])
       \<and> er_drift res' = er_drift res @ (if new \<noteq> [] then [pod_name p] else [])"
  using assms
  by (auto simp: ensure_replica_pod_def pod_commands_def Let_def split: option.splits if_splits prod.splits)

lemma ensure_pods_ok:
  assumes "ensure_pods fuel rs mn mh mp pods opts ps res cmds = Some (res', cmds', None)"
  shows "cmds' = cmds @ concat (map (pod_commands rs mn mh mp pods (eo_threshold opts)) ps)
       \<and> er_master res' = er_master res
       \<and> (\<forall>n. gm_get (er_roles res') n =
             (if n \<in> pod_name ` set ps then Some (expected_role mn n) else gm_get (er_roles res) n))
       \<and> (er_changed res' \<longleftrightarrow> er_changed res
             \<or> concat (map (pod_commands rs mn mh mp pods (eo_threshold opts)) ps) \<noteq> [])"
  using assms
proof (induction ps arbitrary: res cmds)
  case (Cons p ps)
  let ?r = "rs (pod_name p)" and ?pc = "pod_commands rs mn mh mp pods (eo_threshold opts)"
  have ok: "pr_client ?r = None" "maybeAuth ?r (eo_username opts) (eo_password opts) = None"
    using Cons.prems by (auto simp: Let_def split: option.splits)
  obtain res1 new where step:
    "(if pod_name p = mn then Some (ensure_master_pod ?r mn res)
      else ensure_replica_pod fuel ?r (pod_name p) mn mh mp pods opts res) = Some (Inl (res1, new))"
    and rest: "ensure_pods fuel rs mn mh mp pods opts ps res1 (cmds @ new) = Some (res', cmds', None)"
    using Cons.prems ok by (auto simp: Let_def split: option.splits sum.splits prod.splits)
  have one: "new = ?pc p \<and> er_roles res1 = gm_set (er_roles res) (pod_name p) (expected_role mn (pod_name p))
      \<and> er_master res1 = er_master res \<and> er_changed res1 = (er_changed res \<or> new \<noteq> [])"
  proof (cases "pod_name p = mn")
    case True
    then have "ensure_master_pod (rs mn) mn res = Inl (res1, new)" using step by simp
    note ensure_master_pod_ok [where rs = rs and mn = mn and res = res and res' = res1 and new = new
        and p = p and mh = mh and mp = mp and pods = pods and threshold = "eo_threshold opts", OF this True]
    with True show ?thesis by (simp add: expected_role_def)
  next
    case False
    then have "ensure_replica_pod fuel (rs (pod_name p)) (pod_name p) mn mh mp pods opts res = Some (Inl (res1, new))"
      using step by simp
    note ensure_replica_pod_ok [where rs = rs and mn = mn and res = res and res' = res1 and new = new
        and p = p and mh = mh and mp = mp and pods = pods and opts = opts and fuel = fuel, OF this False]
    with False show ?thesis by (simp add: expected_role_def)
  qed
  note ih = Cons.IH [OF rest]
  have names: "pod_name ` set (p # ps) = insert (pod_name p) (pod_name ` set ps)" by simp
  show ?case
  proof (intro conjI allI)
    show "cmds' = cmds @ concat (map ?pc (p # ps))" using ih one by simp
    show "er_master res' = er_master res" using ih one by simp
    show "gm_get (er_roles res') n = (if n \<in> pod_name ` set (p # ps) then Some (expected_role mn n)
        else gm_get (er_roles res) n)" for n
      unfolding names using ih one by simp
    show "er_changed res' \<longleftrightarrow> er_changed res \<or> concat (map ?pc (p # ps)) \<noteq> []"
      using ih one by simp
  qed
qed simp

lemma ensureWithMaster_ok:
  assumes "ensureWithMaster fuel rs cr pods m opts = Some (res, cmds, None)"
  shows "pods \<noteq> []
    \<and> er_master res = (if m = '''' then pod_name (hd (SortedPodsByName pods)) else m)
    \<and> cmds = concat (map (pod_commands rs (er_master res) (master_host cr pods (er_master res))
               (fst (RedisPort cr)) pods (eo_threshold opts)) (SortedPodsByName pods))
    \<and> (\<forall>n. gm_get (er_roles res) n =
          (if n \<in> pod_name ` set pods then Some (expected_role (er_master res) n) else None))
    \<and> (er_changed res \<longleftrightarrow> cmds \<noteq> [])"
proof -
  let ?mn = "if m = '''' then pod_name (hd (SortedPodsByName pods)) else m"
  have ne: "pods \<noteq> []" using assms by (auto simp: ensureWithMaster_def)
  have "ensure_pods fuel rs ?mn (master_host cr pods ?mn) (fst (RedisPort cr)) pods opts
      (SortedPodsByName pods) (er0 ?mn) [] = Some (res, cmds, None)"
    using assms ne by (simp add: ensureWithMaster_def Let_def)
  from ensure_pods_ok [OF this] ne show ?thesis by (simp add: er0_def)
qed

section \<open>Effect on the servers\<close>

datatype server = Primary | Following string int

fun run_command :: "(string \<Rightarrow> server) \<Rightarrow> redis_command \<Rightarrow> string \<Rightarrow> server" where
  "run_command w (CmdNoOne p) = w(p := Primary)"
| "run_command w (CmdReplicaOf p h port) = w(p := Following h port)"

definition run_commands :: "(string \<Rightarrow> server) \<Rightarrow> redis_command list \<Rightarrow> string \<Rightarrow> server" where
  "run_commands w cmds = foldl run_command w cmds"

text \<open>A report that tells the truth about the server.\<close>

definition truthful :: "server \<Rightarrow> replication_info \<Rightarrow> bool" where
  "truthful s i = ((ri_role i = ''master'' \<longleftrightarrow> s = Primary)
     \<and> (\<forall>h p. s = Following h p \<longrightarrow> ri_role i = ''replica'' \<and> ri_master_host i = h \<and> ri_master_port i = p))"

fun target :: "redis_command \<Rightarrow> string" where
  "target (CmdNoOne p) = p"
| "target (CmdReplicaOf p h port) = p"

lemma run_commands_append: "run_commands w (a @ b) = run_commands (run_commands w a) b"
  by (simp add: run_commands_def)

lemma run_commands_frame: "\<forall>c \<in> set cmds. target c \<noteq> n \<Longrightarrow> run_commands w cmds n = w n"
proof (induction cmds arbitrary: w)
  case (Cons c cmds)
  then have "run_commands (run_command w c) cmds n = run_command w c n" by simp
  moreover have "run_command w c n = w n" using Cons.prems by (cases c) auto
  ultimately show ?case by (simp add: run_commands_def)
qed (simp add: run_commands_def)

lemma run_commands_cong:
  assumes "\<forall>c \<in> set cs. target c = n" "v n = w n"
  shows "run_commands v cs n = run_commands w cs n"
  using assms
proof (induction cs arbitrary: v w)
  case (Cons c cs)
  have same: "run_command v c n = run_command w c n" using Cons.prems by (cases c) simp_all
  have rest: "\<forall>c \<in> set cs. target c = n" using Cons.prems(1) by simp
  show ?case
    using Cons.IH [where v = "run_command v c" and w = "run_command w c", OF rest same]
    unfolding run_commands_def foldl.simps .
qed (simp add: run_commands_def)

lemma run_commands_local:
  assumes "\<forall>q \<in> set ps. \<forall>c \<in> set (f q). target c = pod_name q" "distinct (map pod_name ps)" "p \<in> set ps"
  shows "run_commands w (concat (map f ps)) (pod_name p) = run_commands w (f p) (pod_name p)"
proof -
  obtain as bs where ps: "ps = as @ p # bs" using split_list [OF assms(3)] by blast
  have other: "target c \<noteq> pod_name p" if "q \<in> set as \<union> set bs" "c \<in> set (f q)" for q c
  proof -
    have "pod_name p \<notin> pod_name ` (set as \<union> set bs)" using assms(2) unfolding ps by (simp add: image_Un)
    then have "pod_name q \<noteq> pod_name p" using that(1) by (metis imageI)
    moreover have "target c = pod_name q" using assms(1) that unfolding ps by simp
    ultimately show ?thesis by simp
  qed
  have all: "set (concat (map f xs)) = (\<Union>x \<in> set xs. set (f x))" for xs by simp
  have before: "run_commands w (concat (map f as)) (pod_name p) = w (pod_name p)"
    by (rule run_commands_frame) (unfold all, use other in blast)
  have after: "run_commands v (concat (map f bs)) (pod_name p) = v (pod_name p)" for v
    by (rule run_commands_frame) (unfold all, use other in blast)
  have own: "\<forall>c \<in> set (f p). target c = pod_name p" using assms(1,3) by blast
  have "run_commands w (concat (map f ps)) (pod_name p)
      = run_commands (run_commands w (concat (map f as))) (f p) (pod_name p)"
    unfolding ps by (simp add: run_commands_append after)
  also have "\<dots> = run_commands w (f p) (pod_name p)"
    by (rule run_commands_cong [where v = "run_commands w (concat (map f as))" and w = w, OF own before])
  finally show ?thesis .
qed

lemma target_pod_commands:
  "c \<in> set (pod_commands rs mn mh mp pods t p) \<Longrightarrow> target c = pod_name p"
  by (auto simp: pod_commands_def split: if_splits sum.splits)

lemma master_host_nonempty: "master_host cr pods n \<noteq> ''''"
  by (auto simp: master_host_def Let_def PodDNSName_def PodFQDN_def)

lemma master_host_matches: "HostMatchesMaster (master_host cr pods n) n (master_host cr pods n) pods"
  using master_host_nonempty [of cr pods n] by (simp add: HostMatchesMaster_def)

text \<open>After its commands, the master is a primary and every other pod follows it.\<close>

definition follows :: "kv_cluster \<Rightarrow> pod list \<Rightarrow> string \<Rightarrow> server \<Rightarrow> bool" where
  "follows cr pods mn s = (case s of
      Primary \<Rightarrow> False
    | Following h port \<Rightarrow> HostMatchesMaster h mn (master_host cr pods mn) pods
                          \<and> (port = 0 \<or> port = fst (RedisPort cr)))"

lemma EqualFold_master_replica [simp]: "\<not> EqualFold ''master'' ''replica''"
  by (simp add: EqualFold_def ToLower_def)

lemma pod_after_commands:
  assumes "\<forall>i. pr_info (rs (pod_name p)) = Inr i \<longrightarrow> truthful (w (pod_name p)) i"
    and "pod_name p = mn \<longrightarrow> (\<exists>i. pr_info (rs mn) = Inr i)"
    and w'_def: "w' = run_commands w (pod_commands rs mn (master_host cr pods mn) (fst (RedisPort cr)) pods t p)"
  shows "if pod_name p = mn then w' (pod_name p) = Primary else follows cr pods mn (w' (pod_name p))"
proof (cases "pod_name p = mn")
  case True
  then obtain i where i: "pr_info (rs mn) = Inr i" using assms(2) by blast
  then have "truthful (w mn) i" using assms(1) True by blast
  then show ?thesis using True i
    by (auto simp: w'_def pod_commands_def run_commands_def truthful_def)
next
  case False
  show ?thesis
  proof (cases "needs_replicaof (rs (pod_name p)) mn (master_host cr pods mn) (fst (RedisPort cr)) pods t")
    case True
    then show ?thesis using False
      by (simp add: w'_def pod_commands_def run_commands_def follows_def master_host_matches)
  next
    case kept: False
    then obtain i where i: "pr_info (rs (pod_name p)) = Inr i" "EqualFold (ri_role i) ''replica''"
      "HostMatchesMaster (ri_master_host i) mn (master_host cr pods mn) pods"
      "ri_master_port i = 0 \<or> ri_master_port i = fst (RedisPort cr)"
      by (auto simp: needs_replicaof_def split: sum.splits)
    have truth: "truthful (w (pod_name p)) i" using assms(1) i(1) by blast
    then have "w (pod_name p) \<noteq> Primary" using i(2) by (auto simp: truthful_def)
    then show ?thesis using False kept i truth
      by (cases "w (pod_name p)")
        (auto simp: w'_def pod_commands_def run_commands_def follows_def truthful_def)
  qed
qed

lemma enforced_pod:
  assumes run: "ensureWithMaster fuel rs cr pods m opts = Some (res, cmds, None)"
    and names: "distinct (map pod_name pods)"
    and reads: "\<exists>i. pr_info (rs (er_master res)) = Inr i"
    and truth: "\<forall>p \<in> set pods. \<forall>i. pr_info (rs (pod_name p)) = Inr i \<longrightarrow> truthful (w (pod_name p)) i"
    and p: "p \<in> set pods"
  shows "if pod_name p = er_master res then run_commands w cmds (pod_name p) = Primary
    else follows cr pods (er_master res) (run_commands w cmds (pod_name p))"
proof -
  let ?mn = "er_master res"
  let ?pc = "pod_commands rs ?mn (master_host cr pods ?mn) (fst (RedisPort cr)) pods (eo_threshold opts)"
  from ensureWithMaster_ok [OF run] have cmds: "cmds = concat (map ?pc (SortedPodsByName pods))" by auto
  have own: "\<forall>q \<in> set (SortedPodsByName pods). \<forall>c \<in> set (?pc q). target c = pod_name q"
    using target_pod_commands by blast
  have eq: "run_commands w cmds (pod_name p) = run_commands w (?pc p) (pod_name p)"
    unfolding cmds using p
    by (intro run_commands_local [where f = ?pc, OF own distinct_SortedPodsByName [OF names(1)]]) simp
  have "\<forall>i. pr_info (rs (pod_name p)) = Inr i \<longrightarrow> truthful (w (pod_name p)) i" using truth p by blast
  then show ?thesis
    unfolding eq by (rule pod_after_commands [where w = w, OF _ _ refl]) (simp add: reads)
qed

lemma enforced_primary:
  assumes "ensureWithMaster fuel rs cr pods m opts = Some (res, cmds, None)" "distinct (map pod_name pods)"
    and "\<exists>i. pr_info (rs (er_master res)) = Inr i"
    and "\<forall>p \<in> set pods. \<forall>i. pr_info (rs (pod_name p)) = Inr i \<longrightarrow> truthful (w (pod_name p)) i" "p \<in> set pods"
  shows "run_commands w cmds (pod_name p) = Primary \<longleftrightarrow> pod_name p = er_master res"
  using enforced_pod [OF assms] by (auto simp: follows_def split: if_splits)

text \<open>
  C1: When \<open>ensureWithMaster\<close> reports success and the replication reports were truthful and the master's
  could be read, then after the accepted commands exactly the chosen master is a primary, every other pod
  follows the master's address and port, no server outside the given pods was touched, and the returned
  roles say exactly that.
\<close>

theorem ensure_single_primary:
  assumes run: "ensureWithMaster fuel rs cr pods m opts = Some (res, cmds, None)"
    and names: "distinct (map pod_name pods)" "er_master res \<in> pod_name ` set pods"
    and reads: "\<exists>i. pr_info (rs (er_master res)) = Inr i"
    and truth: "\<forall>p \<in> set pods. \<forall>i. pr_info (rs (pod_name p)) = Inr i \<longrightarrow> truthful (w (pod_name p)) i"
  shows "run_commands w cmds (er_master res) = Primary
    \<and> (\<forall>p \<in> set pods. pod_name p \<noteq> er_master res
          \<longrightarrow> follows cr pods (er_master res) (run_commands w cmds (pod_name p)))
    \<and> {n \<in> pod_name ` set pods. run_commands w cmds n = Primary} = {er_master res}
    \<and> (\<forall>n. n \<notin> pod_name ` set pods \<longrightarrow> run_commands w cmds n = w n)
    \<and> (\<forall>n \<in> pod_name ` set pods. gm_get (er_roles res) n
           = Some (if run_commands w cmds n = Primary then PodRoleMaster else PodRoleReplica))"
proof -
  let ?mn = "er_master res"
  let ?pc = "pod_commands rs ?mn (master_host cr pods ?mn) (fst (RedisPort cr)) pods (eo_threshold opts)"
  let ?ps = "SortedPodsByName pods"
  define w' where w'_def: "w' = run_commands w cmds"
  from ensureWithMaster_ok [OF run] have cmds: "cmds = concat (map ?pc ?ps)"
    and roles: "\<forall>n. gm_get (er_roles res) n =
          (if n \<in> pod_name ` set pods then Some (expected_role ?mn n) else None)" by auto
  have own: "\<forall>q \<in> set ?ps. \<forall>c \<in> set (?pc q). target c = pod_name q"
    using target_pod_commands by blast
  note each = enforced_pod [OF run names(1) reads truth, folded w'_def]
  note not_primary = enforced_primary [OF run names(1) reads truth, folded w'_def]
  obtain q where q: "q \<in> set pods" "pod_name q = ?mn" using names(2) by auto
  have frame: "w' n = w n" if "n \<notin> pod_name ` set pods" for n
  proof -
    have "\<forall>c \<in> set cmds. target c \<noteq> n" unfolding cmds using own that by auto
    then show ?thesis unfolding w'_def by (rule run_commands_frame)
  qed
  show ?thesis
    unfolding w'_def [symmetric]
  proof (intro conjI)
    show prim: "w' ?mn = Primary" using q not_primary [of q] by simp
    show "\<forall>p \<in> set pods. pod_name p \<noteq> ?mn \<longrightarrow> follows cr pods ?mn (w' (pod_name p))"
      using each by simp
    show "{n \<in> pod_name ` set pods. w' n = Primary} = {?mn}"
    proof (intro set_eqI iffI)
      fix n assume "n \<in> {n \<in> pod_name ` set pods. w' n = Primary}"
      then show "n \<in> {?mn}" using not_primary by auto
    next
      fix n assume "n \<in> {?mn}"
      then show "n \<in> {n \<in> pod_name ` set pods. w' n = Primary}" using prim names(2) by simp
    qed
    show "\<forall>n. n \<notin> pod_name ` set pods \<longrightarrow> w' n = w n" using frame by blast
    show "\<forall>n \<in> pod_name ` set pods. gm_get (er_roles res) n
           = Some (if w' n = Primary then PodRoleMaster else PodRoleReplica)"
      using roles not_primary by (auto simp: expected_role_def)
  qed
qed

section \<open>Convergence\<close>

text \<open>A server that answers every call.\<close>

definition reachable_pod :: "pod_replies \<Rightarrow> ensure_options \<Rightarrow> bool" where
  "reachable_pod r opts = (pr_client r = None \<and> maybeAuth r (eo_username opts) (eo_password opts) = None)"

lemma ensure_pods_quiet:
  assumes "\<forall>p \<in> set ps. reachable_pod (rs (pod_name p)) opts
             \<and> pod_commands rs mn mh mp pods (eo_threshold opts) p = []"
  shows "\<exists>res'. ensure_pods fuel rs mn mh mp pods opts ps res cmds = Some (res', cmds, None)
           \<and> er_changed res' = er_changed res \<and> er_master res' = er_master res"
  using assms
proof (induction ps arbitrary: res)
  case (Cons p ps)
  let ?r = "rs (pod_name p)"
  have "\<exists>res1. (if pod_name p = mn then Some (ensure_master_pod ?r mn res)
      else ensure_replica_pod fuel ?r (pod_name p) mn mh mp pods opts res) = Some (Inl (res1, []))
      \<and> er_changed res1 = er_changed res \<and> er_master res1 = er_master res"
    using Cons.prems
    by (auto simp: ensure_master_pod_def ensure_replica_pod_def pod_commands_def Let_def split: sum.splits)
  then obtain res1 where step: "(if pod_name p = mn then Some (ensure_master_pod ?r mn res)
      else ensure_replica_pod fuel ?r (pod_name p) mn mh mp pods opts res) = Some (Inl (res1, []))"
      "er_changed res1 = er_changed res" "er_master res1 = er_master res" by blast
  have "pr_client ?r = None" "maybeAuth ?r (eo_username opts) (eo_password opts) = None"
    using Cons.prems by (auto simp: reachable_pod_def)
  with step(1) have "ensure_pods fuel rs mn mh mp pods opts (p # ps) res cmds
      = ensure_pods fuel rs mn mh mp pods opts ps res1 cmds"
    by (simp add: Let_def split: if_splits)
  moreover have "\<exists>res'. ensure_pods fuel rs mn mh mp pods opts ps res1 cmds = Some (res', cmds, None)
      \<and> er_changed res' = er_changed res1 \<and> er_master res' = er_master res1"
    by (rule Cons.IH) (use Cons.prems in simp)
  ultimately show ?case using step(2,3) by simp
qed auto

text \<open>What the servers report once they are in state \<open>w\<close> and every replica has synchronised.\<close>

definition settled :: "(string \<Rightarrow> pod_replies) \<Rightarrow> (string \<Rightarrow> server) \<Rightarrow> pod list \<Rightarrow> bool" where
  "settled rs w pods = (\<forall>p \<in> set pods. \<exists>i. pr_info (rs (pod_name p)) = Inr i \<and> truthful (w (pod_name p)) i
     \<and> ri_master_link_status i = ''up'' \<and> \<not> ri_master_sync_in_progress i)"

lemma settled_quiet:
  assumes "settled rs w pods" "p \<in> set pods"
    and "if pod_name p = mn then w (pod_name p) = Primary else follows cr pods mn (w (pod_name p))"
  shows "pod_commands rs mn (master_host cr pods mn) (fst (RedisPort cr)) pods t p = []"
proof -
  obtain i where i: "pr_info (rs (pod_name p)) = Inr i" "truthful (w (pod_name p)) i"
     "ri_master_link_status i = ''up''" "\<not> ri_master_sync_in_progress i"
    using assms(1,2) by (auto simp: settled_def)
  show ?thesis
  proof (cases "w (pod_name p)")
    case Primary
    then show ?thesis using assms(3) i
      by (auto simp: pod_commands_def truthful_def follows_def split: if_splits)
  next
    case (Following h port)
    then have ne: "pod_name p \<noteq> mn" and h: "HostMatchesMaster h mn (master_host cr pods mn) pods"
      and port: "port = 0 \<or> port = fst (RedisPort cr)"
      using assms(3) by (auto simp: follows_def split: if_splits)
    have "ri_role i = ''replica''" "ri_master_host i = h" "ri_master_port i = port"
      using i(2) Following by (auto simp: truthful_def)
    moreover have "h \<noteq> ''''" using h by (auto simp: HostMatchesMaster_def)
    ultimately have "\<not> needs_replicaof (rs (pod_name p)) mn (master_host cr pods mn) (fst (RedisPort cr)) pods t"
      using i h port by (simp add: needs_replicaof_def replicaAligned_def EqualFold_def)
    then show ?thesis using ne by (simp add: pod_commands_def)
  qed
qed


section \<open>Termination of the wait\<close>

text \<open>
  The ticker of the wait fires no earlier than its interval: the clock reading of the k-th poll is at
  least k intervals after the start.
\<close>

definition ticks :: "pod_replies \<Rightarrow> duration \<Rightarrow> bool" where
  "ticks r interval = (\<forall>k. pr_poll_start r + int k * interval \<le> pr_poll_clock r k)"

definition wait_fuel :: "ensure_options \<Rightarrow> nat" where
  "wait_fuel opts = nat (eo_wait_timeout opts div eo_wait_interval opts) + 2"

lemma wait_loop_returns:
  assumes "ticks r (eo_wait_interval opts)" "0 < eo_wait_interval opts"
    and "eo_wait_timeout opts < int (k + fuel - 1) * eo_wait_interval opts" "0 < fuel"
  shows "\<exists>y. wait_loop fuel r opts k lastInfo lastErr = Some y"
  using assms(3,4)
proof (induction fuel arbitrary: k lastInfo lastErr)
  case (Suc fuel)
  show ?case
  proof (cases "pr_poll_start r + eo_wait_timeout opts < pr_poll_clock r k")
    case True
    then show ?thesis by (auto simp: Let_def split: option.splits sum.splits prod.splits)
  next
    case False
    have "pr_poll_start r + int k * eo_wait_interval opts \<le> pr_poll_clock r k"
      using assms(1) by (simp add: ticks_def)
    then have "int k * eo_wait_interval opts \<le> eo_wait_timeout opts" using False by linarith
    then have "fuel \<noteq> 0" using Suc.prems(1) by (cases fuel) simp_all
    then have "0 < fuel" and "eo_wait_timeout opts < int (Suc k + fuel - 1) * eo_wait_interval opts"
      using Suc.prems(1) by simp_all
    from Suc.IH [OF this(2,1)] show ?thesis
      by (auto simp: Let_def split: option.splits sum.splits prod.splits)
  qed
qed simp

lemma waitForReplicaSync_returns:
  assumes "ticks r (eo_wait_interval opts)" "0 < eo_wait_interval opts" "wait_fuel opts \<le> fuel"
  shows "\<exists>y. waitForReplicaSync fuel r opts = Some y"
proof -
  let ?t = "eo_wait_timeout opts" and ?i = "eo_wait_interval opts"
  have "?t div ?i < int (fuel - 1)" using assms(3) by (simp add: wait_fuel_def)
  then have "(?t div ?i + 1) * ?i \<le> int (fuel - 1) * ?i" using assms(2) by simp
  moreover have "?t < (?t div ?i + 1) * ?i"
    using pos_mod_bound [OF assms(2), of ?t] div_mult_mod_eq [of ?t ?i]
    unfolding distrib_right by linarith
  ultimately have "?t < int (0 + fuel - 1) * ?i" by simp
  then show ?thesis unfolding waitForReplicaSync_def
    using assms(3) by (intro wait_loop_returns assms) (simp_all add: wait_fuel_def)
qed

lemma ensure_replica_pod_returns:
  assumes "ticks r (eo_wait_interval opts)" "0 < eo_wait_interval opts" "wait_fuel opts \<le> fuel"
  shows "\<exists>y. ensure_replica_pod fuel r n mn mh mp pods opts res = Some y"
  using waitForReplicaSync_returns [OF assms]
  by (auto simp: ensure_replica_pod_def Let_def split: option.splits)

lemma ensure_pods_returns:
  assumes "\<forall>p \<in> set ps. ticks (rs (pod_name p)) (eo_wait_interval opts)"
    and "0 < eo_wait_interval opts" "wait_fuel opts \<le> fuel"
  shows "\<exists>y. ensure_pods fuel rs mn mh mp pods opts ps res cmds = Some y"
  using assms(1)
proof (induction ps arbitrary: res cmds)
  case (Cons p ps)
  obtain y where y: "ensure_replica_pod fuel (rs (pod_name p)) (pod_name p) mn mh mp pods opts res = Some y"
    using ensure_replica_pod_returns [OF _ assms(2,3)] Cons.prems by (metis list.set_intros(1))
  have ih: "\<exists>y. ensure_pods fuel rs mn mh mp pods opts ps res cmds = Some y" for res cmds
    by (rule Cons.IH) (use Cons.prems in simp)
  show ?case using y ih by (simp add: Let_def split: option.split sum.split)
qed simp

lemma ensureWithMaster_returns:
  assumes "\<forall>p \<in> set pods. ticks (rs (pod_name p)) (eo_wait_interval opts)"
    and "0 < eo_wait_interval opts" "wait_fuel opts \<le> fuel"
  shows "\<exists>y. ensureWithMaster fuel rs cr pods m opts = Some y"
proof (cases "pods = []")
  case False
  have "\<forall>p \<in> set (SortedPodsByName pods). ticks (rs (pod_name p)) (eo_wait_interval opts)" using assms(1) by simp
  from ensure_pods_returns [OF this assms(2,3)] False show ?thesis
    by (simp add: ensureWithMaster_def Let_def del: split_paired_Ex)
qed (simp add: ensureWithMaster_def)

section \<open>Which pod becomes the master\<close>

text \<open>The answer of the role probe of a pod: that of the attempt that ended the retry.\<close>

definition role_attempt :: "pod_replies \<Rightarrow> string option \<times> nat \<times> duration list" where
  "role_attempt r = Retry (\<lambda>_. 0) (pr_ctx r CallRole) (pr_ctx_wait r CallRole) 3 repl_backoff
     (\<lambda>i. case pr_role r i of Inl e \<Rightarrow> Some e | Inr _ \<Rightarrow> None)"

definition reports_master :: "(string \<Rightarrow> pod_replies) \<Rightarrow> pod \<Rightarrow> bool" where
  "reports_master rs p =
     (pr_role (rs (pod_name p)) (fst (snd (role_attempt (rs (pod_name p))))) = Inr ''master'')"

lemma detect_pods_ok:
  assumes "detect_pods rs opts ps ms roles = Inr (ms', roles')"
  shows "ms' = ms @ map pod_name (filter (reports_master rs) ps)"
  using assms
proof (induction ps arbitrary: ms roles)
  case (Cons p ps)
  obtain n ds where att: "role_attempt (rs (pod_name p)) = (None, n, ds)"
    using Cons.prems
    by (cases "role_attempt (rs (pod_name p))")
      (auto simp: Let_def role_attempt_def split: option.splits)
  then have rep: "reports_master rs p \<longleftrightarrow> pr_role (rs (pod_name p)) n = Inr ''master''"
    by (simp add: reports_master_def)
  obtain ms1 roles1 where "detect_pods rs opts ps ms1 roles1 = Inr (ms', roles')"
    and ms1: "ms1 = (if reports_master rs p then ms @ [pod_name p] else ms)"
    using Cons.prems att unfolding rep
    by (auto simp: Let_def role_attempt_def split: option.splits if_splits)
  from Cons.IH [OF this(1)] ms1 show ?case by simp
qed simp

definition probe_choice :: "(string \<Rightarrow> pod_replies) \<Rightarrow> pod list \<Rightarrow> string \<Rightarrow> bool" where
  "probe_choice rs pods m =
     (if \<exists>p \<in> set pods. reports_master rs p
      then (\<exists>p \<in> set pods. pod_name p = m \<and> reports_master rs p)
           \<and> (\<forall>p \<in> set pods. reports_master rs p \<longrightarrow> m \<le> pod_name p)
      else (\<exists>p \<in> set pods. pod_name p = m) \<and> (\<forall>p \<in> set pods. m \<le> pod_name p))"

lemma sort_strings_hd:
  assumes "xs \<noteq> []"
  shows "hd (sort_strings xs) \<in> set xs \<and> (\<forall>x \<in> set xs. hd (sort_strings xs) \<le> x)"
proof -
  obtain y ys where eq: "sort_strings xs = y # ys"
    using assms set_sort_strings [of xs] by (cases "sort_strings xs") auto
  then have "sorted (y # ys)" using sorted_sort_strings [of xs] by simp
  moreover have "set xs = set (y # ys)" using set_sort_strings [of xs] eq by simp
  ultimately show ?thesis unfolding eq by auto
qed

lemma DetectRoles_ok:
  assumes "DetectRoles rs opts pods = Inr (m, roles)" "pods \<noteq> []"
  shows "probe_choice rs pods m"
proof -
  obtain ms rl where d: "detect_pods rs opts (SortedPodsByName pods) [] [] = Inr (ms, rl)"
    and m: "m = (if ms = [] then pod_name (hd (SortedPodsByName pods)) else hd (sort_strings ms))"
    using assms by (auto simp: DetectRoles_def split: sum.splits prod.splits if_splits)
  have ms: "set ms = pod_name ` {p \<in> set pods. reports_master rs p}"
    using detect_pods_ok [OF d] by simp
  show ?thesis
  proof (cases "ms = []")
    case True
    then have "\<not> (\<exists>p \<in> set pods. reports_master rs p)" using ms by auto
    moreover have "hd (SortedPodsByName pods) \<in> set pods" using assms(2) by (metis hd_in_set SortedPodsByName_Nil set_SortedPodsByName)
    ultimately show ?thesis using True m SortedPodsByName_hd by (auto simp: probe_choice_def)
  next
    case False
    then have "hd (sort_strings ms) \<in> set ms" "\<forall>x \<in> set ms. hd (sort_strings ms) \<le> x"
      using sort_strings_hd by blast+
    moreover have "\<exists>p \<in> set pods. reports_master rs p" using False ms by (metis (mono_tags, lifting) empty_Collect_eq image_empty set_empty)
    ultimately show ?thesis using False m ms by (auto simp: probe_choice_def)
  qed
qed

lemma find_member: "find P xs = Some x \<Longrightarrow> x \<in> set xs \<and> P x"
  by (auto simp: find_Some_iff)

lemma MatchPodByHost_in: "MatchPodByHost pods host \<noteq> '''' \<Longrightarrow> MatchPodByHost pods host \<in> pod_name ` set pods"
  by (cases "IndexByte host CHR ''.''"; cases "find (\<lambda>p. pod_name p = take (the (IndexByte host CHR ''.'')) host) pods")
    (auto simp: MatchPodByHost_def dest!: find_member split: if_splits)

lemma pod_of_host_in:
  assumes "pod_of_host pods host \<noteq> ''''"
  shows "pod_of_host pods host \<in> pod_name ` set pods"
  using assms MatchPodByHost_in [of pods host]
  by (auto simp: pod_of_host_def Let_def dest!: find_member split: option.splits if_splits)

text \<open>Some ready Sentinel named the address of this pod.\<close>

definition sentinel_choice :: "(string \<Rightarrow> sentinel_replies) \<Rightarrow> pod list \<Rightarrow> pod list \<Rightarrow> string \<Rightarrow> bool" where
  "sentinel_choice ss pods sentinels m =
     (\<exists>sp \<in> set sentinels. \<exists>host port. sr_client (ss (pod_name sp)) = None
        \<and> sr_master (ss (pod_name sp)) = Inr (host, port) \<and> pod_of_host pods host = m)"

lemma ask_sentinels_ok:
  assumes "ask_sentinels ss pods sps errs = Inr (m, d)"
  shows "m \<in> pod_name ` set pods \<and> sentinel_choice ss pods sps m"
  using assms
proof (induction sps arbitrary: errs)
  case (Cons sp sps)
  show ?case
  proof (cases "\<exists>errs'. ask_sentinels ss pods sps errs' = Inr (m, d)")
    case True
    then show ?thesis using Cons.IH by (auto simp: sentinel_choice_def)
  next
    case False
    then obtain host port where "sr_client (ss (pod_name sp)) = None"
      "sr_master (ss (pod_name sp)) = Inr (host, port)" "pod_of_host pods host = m" "m \<noteq> ''''"
      using Cons.prems by (auto simp: Let_def split: option.splits sum.splits prod.splits if_splits)
    then show ?thesis using pod_of_host_in [of pods host] by (auto simp: sentinel_choice_def)
  qed
qed simp

text \<open>The evidence on which \<open>EnsureTopology\<close> chose the master, by the source it reports.\<close>

definition topology_choice :: "cache_calls \<Rightarrow> ensure_request \<Rightarrow> master_cache option \<Rightarrow> ensure_source \<Rightarrow> string \<Rightarrow> bool" where
  "topology_choice cc rq oc src m = (case src of
      EnsureSourceUnknown \<Rightarrow> False
    | EnsureSourceCache \<Rightarrow> (\<exists>d. fst (cache_lookup cc oc (CacheKeyForCluster (rq_cluster rq))) = Some (m, d))
    | EnsureSourceForced \<Rightarrow> rq_force_master rq = m
    | EnsureSourceSentinel \<Rightarrow> rq_force_master rq = '''' \<and> spec_mode (cr_spec (rq_cluster rq)) = ModeSentinel
        \<and> (\<exists>ss. rq_sentinels rq = Some ss \<and> sentinel_choice ss (rq_redis_pods rq) (rq_sentinel_pods rq) m)
    | EnsureSourceProbe \<Rightarrow> rq_force_master rq = '''' \<and> probe_choice (rq_replies rq) (rq_redis_pods rq) m)"

definition enforced :: "nat \<Rightarrow> ensure_request \<Rightarrow> ensure_options \<Rightarrow> ensure_result \<Rightarrow> redis_command list \<Rightarrow> bool" where
  "enforced fuel rq opts res cmds =
     (\<exists>res0. ensureWithMaster fuel (rq_replies rq) (rq_cluster rq) (rq_redis_pods rq) (er_master res) opts
               = Some (res0, cmds, None)
        \<and> er_master res0 = er_master res \<and> er_roles res0 = er_roles res)"

lemma ensureWithMaster_master:
  assumes "ensureWithMaster fuel rs cr pods m opts = Some (res, cmds, None)" "m \<noteq> ''''"
  shows "er_master res = m"
  using ensureWithMaster_ok [OF assms(1)] assms(2) by simp

lemma with_source_simps [simp]:
  "er_master (with_source s d res) = er_master res" "er_roles (with_source s d res) = er_roles res"
  "er_source (with_source s d res) = s" "er_reason (with_source s d res) = d"
  by (simp_all add: with_source_def)

lemma ensureByProbe_ok:
  assumes "ensureByProbe fuel rs cr pods opts = Some (res, cmds, None)" "pods \<noteq> []" "'''' \<notin> pod_name ` set pods"
  shows "probe_choice rs pods (er_master res)
     \<and> ensureWithMaster fuel rs cr pods (er_master res) opts = Some (res, cmds, None)"
proof -
  obtain m roles where d: "DetectRoles rs opts pods = Inr (m, roles)"
    and e: "ensureWithMaster fuel rs cr pods m opts = Some (res, cmds, None)"
    using assms(1) by (auto simp: ensureByProbe_def split: sum.splits)
  have choice: "probe_choice rs pods m" by (rule DetectRoles_ok [OF d assms(2)])
  then have "m \<in> pod_name ` set pods" by (auto simp: probe_choice_def split: if_splits)
  then have "m \<noteq> ''''" using assms(3) by metis
  then show ?thesis using choice e ensureWithMaster_master by metis
qed

lemma probe_choice_in: "probe_choice rs pods m \<Longrightarrow> m \<in> pod_name ` set pods"
  by (auto simp: probe_choice_def split: if_splits)

lemma ensure_uncached_ok:
  assumes run: "ensure_uncached fuel cc rq opts oc1 cmds0 = Some (res, cmds, None, oc')"
    and pods: "rq_redis_pods rq \<noteq> []" "'''' \<notin> pod_name ` set (rq_redis_pods rq)"
    and force: "rq_force_master rq = '''' \<or> rq_force_master rq \<in> pod_name ` set (rq_redis_pods rq)"
  shows "er_master res \<in> pod_name ` set (rq_redis_pods rq)
     \<and> topology_choice cc rq oc (er_source res) (er_master res)
     \<and> (\<exists>new. cmds = cmds0 @ new \<and> enforced fuel rq opts res new)"
proof -
  let ?pods = "rq_redis_pods rq"
  let ?via = "\<lambda>m. ensureWithMaster fuel (rq_replies rq) (rq_cluster rq) ?pods m opts"
  consider (forced) res0 new where "rq_force_master rq \<noteq> ''''" "?via (rq_force_master rq) = Some (res0, new, None)"
        "res = with_source EnsureSourceForced (rq_force_reason rq) res0" "cmds = cmds0 @ new"
    | (sentinel) ss m d res0 new where "rq_force_master rq = ''''" "rq_sentinels rq = Some ss"
        "spec_mode (cr_spec (rq_cluster rq)) = ModeSentinel"
        "resolveMasterViaSentinel ss ?pods (rq_sentinel_pods rq) = Inr (m, d)"
        "?via m = Some (res0, new, None)" "res = with_source EnsureSourceSentinel d res0" "cmds = cmds0 @ new"
    | (probe) res0 new d where "rq_force_master rq = ''''"
        "ensureByProbe fuel (rq_replies rq) (rq_cluster rq) ?pods opts = Some (res0, new, None)"
        "res = with_source EnsureSourceProbe d res0" "cmds = cmds0 @ new"
    using run by (auto simp: ensure_uncached_def Let_def split: option.splits if_splits sum.splits)
  then show ?thesis
  proof cases
    case forced
    then have "er_master res = rq_force_master rq" using ensureWithMaster_master [OF forced(2,1)] by simp
    then show ?thesis using forced force by (auto simp: topology_choice_def enforced_def)
  next
    case sentinel
    have "m \<in> pod_name ` set ?pods" "sentinel_choice ss ?pods (rq_sentinel_pods rq) m"
      using ask_sentinels_ok sentinel(4) unfolding resolveMasterViaSentinel_def sentinel_choice_def
      by (metis set_SortedPodsByName)+
    moreover from this have "m \<noteq> ''''" using pods(2) by metis
    then have "er_master res0 = m" using ensureWithMaster_master [OF sentinel(5)] by simp
    ultimately show ?thesis using sentinel by (auto simp: topology_choice_def enforced_def)
  next
    case probe
    from ensureByProbe_ok [OF probe(2) pods] have "probe_choice (rq_replies rq) ?pods (er_master res0)"
      "?via (er_master res0) = Some (res0, new, None)" by auto
    then show ?thesis using probe probe_choice_in by (auto simp: topology_choice_def enforced_def)
  qed
qed

lemma EnsureTopology_ok:
  assumes "EnsureTopology fuel cc rq oc = Some (res, cmds, None, oc')"
    and "'''' \<notin> pod_name ` set (rq_redis_pods rq)"
    and "rq_force_master rq = '''' \<or> rq_force_master rq \<in> pod_name ` set (rq_redis_pods rq)"
  shows "er_master res \<in> pod_name ` set (rq_redis_pods rq)
     \<and> topology_choice cc rq oc (er_source res) (er_master res)
     \<and> (\<forall>n. gm_get (er_roles res) n = (if n \<in> pod_name ` set (rq_redis_pods rq)
            then Some (if n = er_master res then PodRoleMaster else PodRoleReplica) else None))
     \<and> (\<exists>opts old new. ensure_opts rq = Inr opts \<and> cmds = old @ new \<and> enforced fuel rq opts res new)"
proof -
  let ?pods = "rq_redis_pods rq" and ?key = "CacheKeyForCluster (rq_cluster rq)"
  let ?goal = "\<lambda>opts. er_master res \<in> pod_name ` set ?pods \<and> topology_choice cc rq oc (er_source res) (er_master res)
     \<and> (\<exists>old new. cmds = old @ new \<and> enforced fuel rq opts res new)"
  have ne: "?pods \<noteq> []" using assms(1) by (auto simp: EnsureTopology_def)
  then obtain opts where opts: "ensure_opts rq = Inr opts"
    using assms(1) by (auto simp: EnsureTopology_def split: sum.splits)
  obtain hit oc1 where look: "cache_lookup cc oc ?key = (hit, oc1)" by (cases "cache_lookup cc oc ?key")
  consider (uncached) oc2 cmds0 where "ensure_uncached fuel cc rq opts oc2 cmds0 = Some (res, cmds, None, oc')"
    | (cached) m d res0 reason where "hit = Some (m, d)" "hasRedisPod ?pods m"
        "ensureWithMaster fuel (rq_replies rq) (rq_cluster rq) ?pods m opts = Some (res0, cmds, None)"
        "res = with_source EnsureSourceCache reason res0"
    using assms(1) ne opts look
    by (auto simp: EnsureTopology_def Let_def split: option.splits if_splits)
  then have goal: "?goal opts"
  proof cases
    case uncached
    from ensure_uncached_ok [OF this ne assms(2,3), of oc] show ?thesis by blast
  next
    case cached
    then have "m \<noteq> ''''" "m \<in> pod_name ` set ?pods" by (auto simp: hasRedisPod_def list_ex_iff)
    moreover have "er_master res0 = m" by (rule ensureWithMaster_master [OF cached(3) \<open>m \<noteq> ''''\<close>])
    ultimately show ?thesis using cached look
      by (auto simp: topology_choice_def enforced_def intro: exI [of _ "[]"])
  qed
  then obtain old new where "cmds = old @ new" "enforced fuel rq opts res new" by blast
  moreover from this(2) obtain res0 where "ensureWithMaster fuel (rq_replies rq) (rq_cluster rq) ?pods
      (er_master res) opts = Some (res0, new, None)" "er_master res0 = er_master res" "er_roles res0 = er_roles res"
    by (auto simp: enforced_def)
  from ensureWithMaster_ok [OF this(1)] this(2,3) have "\<forall>n. gm_get (er_roles res) n =
      (if n \<in> pod_name ` set ?pods then Some (if n = er_master res then PodRoleMaster else PodRoleReplica) else None)"
    by (simp add: expected_role_def)
  ultimately show ?thesis using goal opts by blast
qed


section \<open>Termination of the whole pass\<close>

lemma ensure_opts_interval: "ensure_opts rq = Inr opts \<Longrightarrow> 0 < eo_wait_interval opts"
  by (auto simp: ensure_opts_def Let_def split: option.splits if_splits sum.splits prod.splits)

lemma EnsureTopology_returns:
  assumes "\<forall>opts. ensure_opts rq = Inr opts \<longrightarrow> wait_fuel opts \<le> fuel
     \<and> (\<forall>p \<in> set (rq_redis_pods rq). ticks (rq_replies rq (pod_name p)) (eo_wait_interval opts))"
  shows "\<exists>y. EnsureTopology fuel cc rq oc = Some y"
proof -
  have via: "ensureWithMaster fuel (rq_replies rq) (rq_cluster rq) (rq_redis_pods rq) m opts \<noteq> None"
    if "ensure_opts rq = Inr opts" for m opts
    unfolding not_None_eq using assms that by (intro ensureWithMaster_returns ensure_opts_interval) auto
  have probe: "ensureByProbe fuel (rq_replies rq) (rq_cluster rq) (rq_redis_pods rq) opts \<noteq> None"
    if "ensure_opts rq = Inr opts" for opts
    using via [OF that] by (simp add: ensureByProbe_def split: sum.split prod.split del: not_None_eq)
  have uncached: "ensure_uncached fuel cc rq opts oc1 cmds0 \<noteq> None"
    if "ensure_opts rq = Inr opts" for opts oc1 cmds0
    using via [OF that] probe [OF that]
    by (simp add: ensure_uncached_def Let_def split: option.split sum.split prod.split del: not_None_eq)
  have "EnsureTopology fuel cc rq oc \<noteq> None"
    using via uncached
    by (simp add: EnsureTopology_def Let_def split: option.split sum.split prod.split del: not_None_eq) blast
  then show ?thesis by (simp only: not_None_eq)
qed

text \<open>
  C4: \<open>EnsureTopology\<close> returns on every request: the only loop that is not bounded by its data, the wait
  for a replica to synchronise, ends within \<open>timeout / interval + 2\<close> polls when its ticker does not fire
  early, so that much fuel gives a result, for every behaviour of the servers.
\<close>

theorem topology_returns:
  assumes "\<forall>opts. ensure_opts rq = Inr opts \<longrightarrow> wait_fuel opts \<le> fuel
     \<and> (\<forall>p \<in> set (rq_redis_pods rq). ticks (rq_replies rq (pod_name p)) (eo_wait_interval opts))"
  shows "\<exists>y. EnsureTopology fuel cc rq oc = Some y"
  by (rule EnsureTopology_returns [OF assms])

section \<open>A concrete cluster\<close>

text \<open>
  Three pods after a failover that no one followed up: \<open>kv-0\<close> still believes it is the master, \<open>kv-1\<close>
  was promoted, and \<open>kv-2\<close> follows the old master.
\<close>

definition demo_reply :: "string + replication_info \<Rightarrow> pod_replies" where
  "demo_reply info = \<lparr>pr_client = None, pr_auth = (\<lambda>_ _. None),
     pr_role = (\<lambda>_. case info of Inl e \<Rightarrow> Inl e | Inr i \<Rightarrow> Inr (ri_role i)), pr_info = info,
     pr_noone = (\<lambda>_. None), pr_replicaof = (\<lambda>_. None), pr_ctx = (\<lambda>_ _. None), pr_ctx_wait = (\<lambda>_ _. None),
     pr_poll = (\<lambda>k. if k < 2 then Inl ''LOADING'' else Inr (ri0\<lparr>ri_role := ''replica'',
        ri_master_host := ''10.0.0.2'', ri_master_port := 6379, ri_master_link_status := ''up''\<rparr>)),
     pr_poll_ctx = (\<lambda>_. None), pr_poll_ctx_wait = (\<lambda>_. None),
     pr_poll_clock = (\<lambda>k. int k * sec), pr_poll_start = 0\<rparr>"

definition demo_world :: "string \<Rightarrow> server" where
  "demo_world n = (if n = ''kv-2'' then Following ''10.0.0.1'' 6379 else Primary)"

definition demo_info :: "server \<Rightarrow> replication_info" where
  "demo_info s = (case s of
      Primary \<Rightarrow> ri0\<lparr>ri_role := ''master'', ri_master_link_status := ''up''\<rparr>
    | Following h p \<Rightarrow> ri0\<lparr>ri_role := ''replica'', ri_master_host := h, ri_master_port := p,
                          ri_master_link_status := ''up''\<rparr>)"

definition demo_replies :: "(string \<Rightarrow> server) \<Rightarrow> string \<Rightarrow> pod_replies" where
  "demo_replies w n = demo_reply (Inr (demo_info (w n)))"

definition demo_pods :: "pod list" where
  "demo_pods = [(pod0 ''ns'' ''kv-2'')\<lparr>pod_ip := ''10.0.0.3''\<rparr>,
                (pod0 ''ns'' ''kv-0'')\<lparr>pod_ip := ''10.0.0.1''\<rparr>,
                (pod0 ''ns'' ''kv-1'')\<lparr>pod_ip := ''10.0.0.2''\<rparr>]"

definition demo_opts :: ensure_options where
  "demo_opts = \<lparr>eo_username = '''', eo_password = '''', eo_tls = False, eo_threshold = 10,
     eo_wait_timeout = 30 * sec, eo_wait_interval = sec\<rparr>"

definition demo_cluster :: kv_cluster where
  "demo_cluster = cluster0 ''ns'' ''kv''"

lemma retry_call_first:
  assumes "pr_ctx r c (Suc 0) = None" "fn (Suc 0) = None" "0 < attempts"
  shows "retry_call r c attempts bo fn = None"
proof -
  obtain k where "nat attempts = Suc k" using assms(3) by (metis gr0_conv_Suc zero_less_nat_eq)
  then show ?thesis using assms by (simp add: retry_call_def Retry_def Let_def)
qed

lemma demo_sorted:
  "SortedPodsByName demo_pods = [(pod0 ''ns'' ''kv-0'')\<lparr>pod_ip := ''10.0.0.1''\<rparr>,
     (pod0 ''ns'' ''kv-1'')\<lparr>pod_ip := ''10.0.0.2''\<rparr>, (pod0 ''ns'' ''kv-2'')\<lparr>pod_ip := ''10.0.0.3''\<rparr>]"
  by code_simp

lemma demo_reply_simps [simp]:
  "pr_client (demo_reply i) = None" "pr_info (demo_reply i) = i"
  "pr_ctx (demo_reply i) c k = None" "pr_noone (demo_reply i) k = None" "pr_replicaof (demo_reply i) k = None"
  by (simp_all add: demo_reply_def)

lemma demo_auth [simp]: "maybeAuth r u '''' = None"
  by (simp add: maybeAuth_def)

lemma demo_noone [simp]: "retry_call (demo_reply i) c 3 bo (pr_noone (demo_reply i)) = None"
  by (rule retry_call_first) simp_all

lemma demo_replicaof [simp]: "retry_call (demo_reply i) c 3 bo (pr_replicaof (demo_reply i)) = None"
  by (rule retry_call_first) simp_all

lemma demo_wait: "\<exists>info. waitForReplicaSync 40 (demo_reply i) demo_opts = Some (info, None)"
proof -
  have "wait_loop (Suc (Suc (Suc n))) (demo_reply i) demo_opts 0 ri0 None = Some (ri0\<lparr>ri_role := ''replica'',
        ri_master_host := ''10.0.0.2'', ri_master_port := 6379, ri_master_link_status := ''up''\<rparr>, None)" for n
    by (simp add: demo_reply_def demo_opts_def replicaAligned_def EqualFold_def ToLower_def ri0_def
        eval_nat_numeral)
  from this [of 37] show ?thesis by (simp add: waitForReplicaSync_def)
qed

lemma demo_port: "fst (RedisPort demo_cluster) = 6379"
  by (simp add: RedisPort_def demo_cluster_def zero_values valid_port_string_def Let_def)

lemma demo_host: "master_host demo_cluster demo_pods ''kv-1'' = ''10.0.0.2''"
  by (simp add: master_host_def demo_pods_def pod0_def Let_def)

lemma demo_need0:
  "needs_replicaof (demo_replies demo_world ''kv-0'') ''kv-1'' ''10.0.0.2'' 6379 demo_pods (eo_threshold demo_opts)"
  by (simp add: needs_replicaof_def demo_replies_def demo_world_def demo_info_def EqualFold_def ToLower_def)

lemma demo_need2:
  "needs_replicaof (demo_replies demo_world ''kv-2'') ''kv-1'' ''10.0.0.2'' 6379 demo_pods (eo_threshold demo_opts)"
  by (simp add: needs_replicaof_def demo_replies_def demo_world_def demo_info_def HostMatchesMaster_def
      MatchPodByHost_def demo_pods_def pod0_def)

lemma demo_pods_nonempty: "demo_pods \<noteq> []"
  by (simp add: demo_pods_def)

lemma demo_names: "pod_name ` set demo_pods = {''kv-0'', ''kv-1'', ''kv-2''}"
  by (auto simp: demo_pods_def pod0_def)

lemma demo_truthful: "truthful s (demo_info s)"
  by (cases s) (simp_all add: truthful_def demo_info_def ri0_def)

lemma demo_run:
  "\<exists>res. ensureWithMaster 40 (demo_replies demo_world) demo_cluster demo_pods ''kv-1'' demo_opts
     = Some (res, [CmdReplicaOf ''kv-0'' ''10.0.0.2'' 6379, CmdReplicaOf ''kv-2'' ''10.0.0.2'' 6379], None)
     \<and> er_master res = ''kv-1''"
proof -
  obtain info where wait: "\<And>i. waitForReplicaSync 40 (demo_reply i) demo_opts = Some (info i, None)"
    using demo_wait by metis
  have master: "ensure_master_pod (demo_replies demo_world ''kv-1'') ''kv-1'' res
      = Inl (res\<lparr>er_roles := gm_set (er_roles res) ''kv-1'' PodRoleMaster,
          er_infos := gm_set (er_infos res) ''kv-1'' (demo_info Primary)\<rparr>, [])" for res
    by (simp add: ensure_master_pod_def demo_replies_def demo_world_def demo_info_def)
  have replica: "\<exists>res'. ensure_replica_pod 40 (demo_replies demo_world n) n ''kv-1'' ''10.0.0.2'' 6379 demo_pods demo_opts res
      = Some (Inl (res', [CmdReplicaOf n ''10.0.0.2'' 6379])) \<and> er_master res' = er_master res"
    if "n = ''kv-0'' \<or> n = ''kv-2''" for n res
    using that demo_need0 demo_need2 wait by (elim disjE) (simp_all add: ensure_replica_pod_def demo_replies_def Let_def)
  obtain r0 where r0: "ensure_replica_pod 40 (demo_replies demo_world ''kv-0'') ''kv-0'' ''kv-1'' ''10.0.0.2'' 6379 demo_pods demo_opts (er0 ''kv-1'')
      = Some (Inl (r0, [CmdReplicaOf ''kv-0'' ''10.0.0.2'' 6379]))" "er_master r0 = ''kv-1''"
    using replica [of "''kv-0''" "er0 ''kv-1''"] by (auto simp: er0_def)
  define r1 where "r1 = r0\<lparr>er_roles := gm_set (er_roles r0) ''kv-1'' PodRoleMaster,
          er_infos := gm_set (er_infos r0) ''kv-1'' (demo_info Primary)\<rparr>"
  obtain r2 where r2: "ensure_replica_pod 40 (demo_replies demo_world ''kv-2'') ''kv-2'' ''kv-1'' ''10.0.0.2'' 6379 demo_pods demo_opts r1
      = Some (Inl (r2, [CmdReplicaOf ''kv-2'' ''10.0.0.2'' 6379]))" "er_master r2 = ''kv-1''"
    using replica [of "''kv-2''" r1] r0(2) by (auto simp: r1_def)
  have auth: "maybeAuth (demo_replies demo_world n) (eo_username demo_opts) (eo_password demo_opts) = None"
    "pr_client (demo_replies demo_world n) = None" for n
    by (simp_all add: demo_opts_def demo_replies_def)
  show ?thesis
    by (simp add: ensureWithMaster_def demo_sorted demo_host demo_port Let_def auth pod0_def r0 master r1_def [symmetric] r2 demo_pods_nonempty)
qed

theorem ensure_single_primary_witness:
  "\<exists>res. ensureWithMaster 40 (demo_replies demo_world) demo_cluster demo_pods ''kv-1'' demo_opts
     = Some (res, [CmdReplicaOf ''kv-0'' ''10.0.0.2'' 6379, CmdReplicaOf ''kv-2'' ''10.0.0.2'' 6379], None)
     \<and> {n \<in> pod_name ` set demo_pods. demo_world n = Primary} = {''kv-0'', ''kv-1''}
     \<and> {n \<in> pod_name ` set demo_pods. run_commands demo_world
          [CmdReplicaOf ''kv-0'' ''10.0.0.2'' 6379, CmdReplicaOf ''kv-2'' ''10.0.0.2'' 6379] n = Primary} = {''kv-1''}"
proof -
  obtain res where run: "ensureWithMaster 40 (demo_replies demo_world) demo_cluster demo_pods ''kv-1'' demo_opts
     = Some (res, [CmdReplicaOf ''kv-0'' ''10.0.0.2'' 6379, CmdReplicaOf ''kv-2'' ''10.0.0.2'' 6379], None)"
    and m: "er_master res = ''kv-1''" using demo_run by blast
  have d: "distinct (map pod_name demo_pods)" by (simp add: demo_pods_def pod0_def)
  have i: "er_master res \<in> pod_name ` set demo_pods" using m demo_names by simp
  have r: "\<exists>i. pr_info (demo_replies demo_world (er_master res)) = Inr i" by (simp add: demo_replies_def)
  have t: "\<forall>p \<in> set demo_pods. \<forall>i. pr_info (demo_replies demo_world (pod_name p)) = Inr i
      \<longrightarrow> truthful (demo_world (pod_name p)) i" by (simp add: demo_replies_def demo_truthful)
  have before: "{n \<in> pod_name ` set demo_pods. demo_world n = Primary} = {''kv-0'', ''kv-1''}"
    unfolding demo_names by (auto simp: demo_world_def)
  show ?thesis using ensure_single_primary [OF run d i r t] run m before by auto
qed

definition settled_world :: "string \<Rightarrow> server" where
  "settled_world n = (if n = ''kv-1'' then Primary else Following ''10.0.0.2'' 6379)"

lemma demo_settled: "settled (demo_replies w) w pods"
proof -
  have "ri_master_link_status (demo_info s) = ''up'' \<and> \<not> ri_master_sync_in_progress (demo_info s)" for s
    by (cases s) (simp_all add: demo_info_def ri0_def)
  then show ?thesis by (simp add: settled_def demo_replies_def demo_truthful)
qed

lemma settled_follows:
  "if n = ''kv-1'' then settled_world n = Primary else follows demo_cluster demo_pods ''kv-1'' (settled_world n)"
  by (simp add: settled_world_def follows_def demo_host demo_port HostMatchesMaster_def)


definition demo_request :: ensure_request where
  "demo_request = \<lparr>rq_cluster = demo_cluster, rq_redis_pods = demo_pods, rq_sentinel_pods = [],
     rq_replies = demo_replies settled_world, rq_sentinels = None, rq_security = None, rq_ca_ok = (\<lambda>_. True),
     rq_force_master = '''', rq_force_reason = '''', rq_wait_timeout = 0, rq_wait_interval = 0\<rparr>"

definition demo_calls :: cache_calls where
  "demo_calls = \<lparr>cc_lookup_at = 0, cc_remember_at = 0, cc_pick = 0\<rparr>"

lemma demo_ensure_opts:
  "ensure_opts demo_request = Inr (demo_opts\<lparr>eo_threshold := LagThresholdSeconds demo_cluster\<rparr>)"
  by (simp add: ensure_opts_def demo_request_def ResolveAuth_def demo_opts_def demo_cluster_def zero_values gm_str_def)

theorem topology_returns_witness:
  "wait_fuel demo_opts = 32 \<and> (\<exists>y. EnsureTopology 32 demo_calls demo_request None = Some y)"
proof -
  have fuel: "wait_fuel (demo_opts\<lparr>eo_threshold := t\<rparr>) = 32" for t by (simp add: wait_fuel_def demo_opts_def)
  have tick: "ticks (demo_replies w n) sec" for w n
    by (simp add: ticks_def demo_replies_def demo_reply_def)
  have "\<forall>opts. ensure_opts demo_request = Inr opts \<longrightarrow> wait_fuel opts \<le> 32
     \<and> (\<forall>p \<in> set (rq_redis_pods demo_request).
          ticks (rq_replies demo_request (pod_name p)) (eo_wait_interval opts))"
    using tick fuel unfolding demo_ensure_opts by (auto simp: demo_request_def demo_opts_def)
  from topology_returns [OF this, of demo_calls None] show ?thesis
    by (simp add: wait_fuel_def demo_opts_def)
qed

lemma demo_role_attempt: "role_attempt (demo_replies w n) = (None, Suc 0, [])"
  by (simp add: role_attempt_def Retry_def Let_def demo_replies_def demo_reply_def eval_nat_numeral)

lemma demo_detect:
  "\<exists>roles. DetectRoles (demo_replies settled_world) (demo_opts\<lparr>eo_threshold := t\<rparr>) demo_pods = Inr (''kv-1'', roles)"
proof -
  have auth: "maybeAuth (demo_replies w n) (eo_username demo_opts) (eo_password demo_opts) = None" "pr_client (demo_replies w n) = None" for w n
    by (simp_all add: demo_opts_def demo_replies_def)
  have role: "pr_role (demo_replies settled_world n) k = Inr (if n = ''kv-1'' then ''master'' else ''replica'')" for n k
    by (simp add: demo_replies_def demo_reply_def demo_info_def settled_world_def)
  have att: "Retry (\<lambda>_. 0) (pr_ctx (demo_replies settled_world n) CallRole)
      (pr_ctx_wait (demo_replies settled_world n) CallRole) 3 repl_backoff (\<lambda>i. None) = (None, Suc 0, [])" for n
    using demo_role_attempt [of settled_world n] by (simp add: role_attempt_def role)
  have "sort_strings [''kv-1''] = [''kv-1'']" by code_simp
  then show ?thesis
    by (simp add: DetectRoles_def demo_pods_nonempty demo_sorted Let_def auth role pod0_def att)
qed


end
