(* ===== verification/KV_Labels.thy ===== *)
theory KV_Labels
  imports KV_Replication KV_Requeue
begin

text \<open>
  \<open>src/controllers/internal/reconcile/phases/labels.go\<close>: the phase that moves the role labels, which
  select the pod behind the master Service.

  The Kubernetes client is represented by its answers: \<open>le_patch n k\<close> to the k-th patch of pod n and
  \<open>le_get n k\<close> to the read that follows a conflict. An accepted patch carries the optimistic lock, so it
  changed the object the phase held; the accepted patches are recorded in order.
\<close>

section \<open>The phase\<close>

datatype patch_answer = PatchOk | PatchConflict | PatchFailed string
datatype refresh_answer = Refreshed pod | RefreshNotFound | RefreshFailed string

record label_env =
  le_client :: bool
  le_patch :: "string \<Rightarrow> nat \<Rightarrow> patch_answer"
  le_get :: "string \<Rightarrow> nat \<Rightarrow> refresh_answer"

datatype label_error = LabelClientMissing | LabelPatchFailed string string | LabelRefreshFailed string string

record label_run =
  lr_pods :: "pod list"
  lr_patches :: "(string \<times> string) list"
  lr_changes :: nat
  lr_requeue :: requeue_acc

definition PodLabelPatchMaxAttempts :: nat where "PodLabelPatchMaxAttempts = 3"

definition pod_role_label :: "pod \<Rightarrow> string" where
  "pod_role_label p = gm_str (pod_labels p) RoleLabelKey"

definition put_role_label :: "string \<Rightarrow> pod \<Rightarrow> pod" where
  "put_role_label r p = p\<lparr>pod_labels := gm_set (pod_labels p) RoleLabelKey r\<rparr>"

text \<open>\<open>todo\<close> attempts are left, the next of which is number \<open>attempt\<close>.\<close>

fun apply_at ::
  "label_env \<Rightarrow> pod list \<Rightarrow> nat \<Rightarrow> nat \<Rightarrow> nat \<Rightarrow> label_run \<Rightarrow> label_run \<times> label_error option" where
  "apply_at env desiredPods i attempt 0 run = (run, None)"
| "apply_at env desiredPods i attempt (Suc todo) run =
     (let cur = lr_pods run ! i; toRole = pod_role_label (desiredPods ! i)
      in if pod_role_label cur = toRole then (run, None)
         else case le_patch env (pod_name cur) attempt of
           PatchOk \<Rightarrow> (run\<lparr>lr_pods := (lr_pods run)[i := put_role_label toRole cur],
                          lr_patches := lr_patches run @ [(pod_name cur, toRole)],
                          lr_changes := Suc (lr_changes run)\<rparr>, None)
         | PatchFailed e \<Rightarrow> (run\<lparr>lr_pods := (lr_pods run)[i := put_role_label toRole cur]\<rparr>,
                             Some (LabelPatchFailed (pod_name cur) e))
         | PatchConflict \<Rightarrow>
             (let run' = run\<lparr>lr_requeue := ra_SetMin (lr_requeue run) (RoleLabelConflictBackoff (int attempt))\<rparr>
              in if attempt = PodLabelPatchMaxAttempts then (run', None)
                 else case le_get env (pod_name cur) attempt of
                   RefreshNotFound \<Rightarrow> (run', None)
                 | RefreshFailed e \<Rightarrow> (run', Some (LabelRefreshFailed (pod_name cur) e))
                 | Refreshed p \<Rightarrow>
                     apply_at env desiredPods i (Suc attempt) todo (run'\<lparr>lr_pods := (lr_pods run')[i := p]\<rparr>)))"

fun apply_all ::
  "label_env \<Rightarrow> pod list \<Rightarrow> nat list \<Rightarrow> label_run \<Rightarrow> label_run \<times> label_error option" where
  "apply_all env desiredPods [] run = (run, None)"
| "apply_all env desiredPods (i # idxs) run = (case apply_at env desiredPods i 1 PodLabelPatchMaxAttempts run of
      (run', None) \<Rightarrow> apply_all env desiredPods idxs run'
    | (run', Some e) \<Rightarrow> (run', Some e))"

definition is_demotion :: "pod \<Rightarrow> pod \<Rightarrow> bool" where
  "is_demotion cur want = (pod_role_label cur = role_label PodRoleMaster \<and> pod_role_label want \<noteq> role_label PodRoleMaster)"

definition demote_idxs :: "pod list \<Rightarrow> pod list \<Rightarrow> nat list" where
  "demote_idxs pods desiredPods = filter (\<lambda>i. pod_role_label (pods ! i) \<noteq> pod_role_label (desiredPods ! i)
     \<and> is_demotion (pods ! i) (desiredPods ! i)) [0..<length pods]"

definition other_idxs :: "pod list \<Rightarrow> pod list \<Rightarrow> nat list" where
  "other_idxs pods desiredPods = filter (\<lambda>i. pod_role_label (pods ! i) \<noteq> pod_role_label (desiredPods ! i)
     \<and> \<not> is_demotion (pods ! i) (desiredPods ! i)) [0..<length pods]"

definition Labels :: "label_env \<Rightarrow> requeue_acc \<Rightarrow> pod list \<Rightarrow> string \<Rightarrow> label_run \<times> label_error option" where
  "Labels env acc pods master =
     (let run0 = \<lparr>lr_pods = pods, lr_patches = [], lr_changes = 0, lr_requeue = acc\<rparr>
      in if pods = [] then (run0, None)
         else if \<not> le_client env then (run0, Some LabelClientMissing)
         else let desiredPods = UpdatePodRoleLabels pods master
              in case apply_all env desiredPods (demote_idxs pods desiredPods) run0 of
                   (run1, Some e) \<Rightarrow> (run1, Some e)
                 | (run1, None) \<Rightarrow> apply_all env desiredPods (other_idxs pods desiredPods) run1)"

section \<open>Desired labels\<close>

lemma put_role_label_simps [simp]:
  "pod_name (put_role_label r p) = pod_name p" "pod_role_label (put_role_label r p) = r"
  by (simp_all add: put_role_label_def pod_role_label_def)

lemma length_UpdatePodRoleLabels [simp]: "length (UpdatePodRoleLabels pods m) = length pods"
  by (simp add: UpdatePodRoleLabels_def)

definition wanted_label :: "string \<Rightarrow> string \<Rightarrow> string" where
  "wanted_label m n = (if n = m then ''master'' else ''replica'')"

lemma UpdatePodRoleLabels_nth:
  assumes "i < length pods"
  shows "pod_name (UpdatePodRoleLabels pods m ! i) = pod_name (pods ! i)"
    and "pod_role_label (UpdatePodRoleLabels pods m ! i) = wanted_label m (pod_name (pods ! i))"
    and "k \<noteq> RoleLabelKey \<Longrightarrow> gm_get (pod_labels (UpdatePodRoleLabels pods m ! i)) k = gm_get (pod_labels (pods ! i)) k"
  using assms
  by (auto simp: UpdatePodRoleLabels_def set_role_label_def pod_role_label_def role_label_def wanted_label_def Let_def)

lemma wanted_label_master [simp]: "wanted_label m n = ''master'' \<longleftrightarrow> n = m"
  by (simp add: wanted_label_def)

lemma is_demotion_iff:
  "i < length pods \<Longrightarrow> is_demotion (pods ! i) (UpdatePodRoleLabels pods m ! i)
     \<longleftrightarrow> pod_role_label (pods ! i) = ''master'' \<and> pod_name (pods ! i) \<noteq> m"
  by (simp add: is_demotion_def UpdatePodRoleLabels_nth role_label_def)
section \<open>When every patch is accepted\<close>

lemma apply_at_accepted:
  assumes "\<forall>n k. le_patch env n k = PatchOk" "pod_role_label (lr_pods run ! i) \<noteq> pod_role_label (des ! i)"
  shows "apply_at env des i 1 PodLabelPatchMaxAttempts run =
    (run\<lparr>lr_pods := (lr_pods run)[i := put_role_label (pod_role_label (des ! i)) (lr_pods run ! i)],
         lr_patches := lr_patches run @ [(pod_name (lr_pods run ! i), pod_role_label (des ! i))],
         lr_changes := Suc (lr_changes run)\<rparr>, None)"
  using assms by (simp add: PodLabelPatchMaxAttempts_def numeral_3_eq_3 Let_def)

lemma apply_all_accepted:
  assumes env: "\<forall>n k. le_patch env n k = PatchOk" and "distinct idxs"
    and "\<forall>i \<in> set idxs. i < length (lr_pods run) \<and> lr_pods run ! i = pods ! i
           \<and> pod_role_label (pods ! i) \<noteq> pod_role_label (des ! i)"
  shows "\<exists>run'. apply_all env des idxs run = (run', None)
     \<and> lr_patches run' = lr_patches run @ map (\<lambda>i. (pod_name (pods ! i), pod_role_label (des ! i))) idxs
     \<and> length (lr_pods run') = length (lr_pods run)
     \<and> (\<forall>j. lr_pods run' ! j = (if j \<in> set idxs then put_role_label (pod_role_label (des ! j)) (pods ! j)
            else lr_pods run ! j))"
  using assms(2,3)
proof (induction idxs arbitrary: run)
  case (Cons i idxs)
  let ?run1 = "run\<lparr>lr_pods := (lr_pods run)[i := put_role_label (pod_role_label (des ! i)) (pods ! i)],
         lr_patches := lr_patches run @ [(pod_name (pods ! i), pod_role_label (des ! i))],
         lr_changes := Suc (lr_changes run)\<rparr>"
  have i: "i < length (lr_pods run)" "lr_pods run ! i = pods ! i"
    "pod_role_label (pods ! i) \<noteq> pod_role_label (des ! i)" using Cons.prems(2) by auto
  have step: "apply_at env des i 1 PodLabelPatchMaxAttempts run = (?run1, None)"
    using apply_at_accepted [OF env, of run i des] i by simp
  have "\<forall>j \<in> set idxs. j < length (lr_pods ?run1) \<and> lr_pods ?run1 ! j = pods ! j
           \<and> pod_role_label (pods ! j) \<noteq> pod_role_label (des ! j)"
    using Cons.prems by (auto simp: nth_list_update)
  then obtain run' where run': "apply_all env des idxs ?run1 = (run', None)"
      "lr_patches run' = lr_patches ?run1 @ map (\<lambda>i. (pod_name (pods ! i), pod_role_label (des ! i))) idxs"
      "length (lr_pods run') = length (lr_pods ?run1)"
      "\<forall>j. lr_pods run' ! j = (if j \<in> set idxs then put_role_label (pod_role_label (des ! j)) (pods ! j)
            else lr_pods ?run1 ! j)"
    using Cons.IH [of ?run1] Cons.prems(1) by auto
  show ?case
  proof (intro exI conjI allI)
    show "apply_all env des (i # idxs) run = (run', None)" using step run'(1) by simp
    show "lr_patches run' = lr_patches run @ map (\<lambda>i. (pod_name (pods ! i), pod_role_label (des ! i))) (i # idxs)"
      using run'(2) by simp
    show "length (lr_pods run') = length (lr_pods run)" using run'(3) by simp
    show "lr_pods run' ! j = (if j \<in> set (i # idxs) then put_role_label (pod_role_label (des ! j)) (pods ! j)
            else lr_pods run ! j)" for j
      using run'(4) i(1) by (cases "j = i") auto
  qed
qed auto

text \<open>The labels on the server after a list of accepted patches.\<close>

fun labels_after :: "(string \<times> string) list \<Rightarrow> (string \<Rightarrow> string) \<Rightarrow> string \<Rightarrow> string" where
  "labels_after [] l = l"
| "labels_after ((n, r) # ps) l = labels_after ps (l(n := r))"

definition listed_label :: "pod list \<Rightarrow> string \<Rightarrow> string" where
  "listed_label pods n = (case find (\<lambda>p. pod_name p = n) pods of Some p \<Rightarrow> pod_role_label p | None \<Rightarrow> '''')"

definition labelled_masters :: "pod list \<Rightarrow> (string \<Rightarrow> string) \<Rightarrow> string set" where
  "labelled_masters pods l = {n \<in> pod_name ` set pods. l n = ''master''}"

lemma labels_after_eq:
  "labels_after ps l n = (case map_of (rev ps) n of Some r \<Rightarrow> r | None \<Rightarrow> l n)"
proof (induction ps arbitrary: l)
  case (Cons a ps)
  obtain m r where a: "a = (m, r)" by (cases a)
  show ?case using Cons by (auto simp: a map_add_def split: option.splits)
qed simp

lemma listed_label_pod:
  assumes "distinct (map pod_name pods)" "p \<in> set pods"
  shows "listed_label pods (pod_name p) = pod_role_label p"
proof -
  obtain q where q: "find (\<lambda>r. pod_name r = pod_name p) pods = Some q"
    using assms(2) by (cases "find (\<lambda>r. pod_name r = pod_name p) pods") (auto simp: find_None_iff)
  then have "q \<in> set pods" "pod_name q = pod_name p" by (auto simp: find_Some_iff)
  then have "q = p" using assms by (metis eq_key_imp_eq_value inj_on_contraD distinct_map inj_on_def)
  then show ?thesis using q by (simp add: listed_label_def)
qed

text \<open>
  Patches that carry the wanted labels, demotions first: at no moment do they add a master label to one
  that is to be taken away.
\<close>

lemma labels_after_wanted:
  assumes "\<forall>(n, r) \<in> set ps. r = wanted_label m n"
  shows "labels_after ps l n = (if n \<in> fst ` set ps then wanted_label m n else l n)"
proof (cases "n \<in> fst ` set ps")
  case True
  then obtain r where "map_of (rev ps) n = Some r" by (metis map_of_eq_None_iff not_None_eq set_rev)
  moreover from this have "(n, r) \<in> set ps" by (metis map_of_SomeD set_rev)
  ultimately show ?thesis using assms True by (auto simp: labels_after_eq)
next
  case False
  then have "map_of (rev ps) n = None" by (simp add: map_of_eq_None_iff)
  then show ?thesis using False by (simp add: labels_after_eq)
qed

lemma Labels_accepted:
  assumes "\<forall>n k. le_patch env n k = PatchOk" "le_client env" "pods \<noteq> []"
    and des_def: "des = UpdatePodRoleLabels pods m"
  shows "\<exists>run. Labels env acc pods m = (run, None)
     \<and> lr_patches run = map (\<lambda>i. (pod_name (pods ! i), wanted_label m (pod_name (pods ! i))))
                           (demote_idxs pods des @ other_idxs pods des)
     \<and> length (lr_pods run) = length pods
     \<and> (\<forall>i < length pods. pod_name (lr_pods run ! i) = pod_name (pods ! i)
          \<and> pod_role_label (lr_pods run ! i) = wanted_label m (pod_name (pods ! i))
          \<and> (\<forall>k. k \<noteq> RoleLabelKey \<longrightarrow> gm_get (pod_labels (lr_pods run ! i)) k = gm_get (pod_labels (pods ! i)) k))"
proof -
  let ?D = "demote_idxs pods des" and ?O = "other_idxs pods des"
  let ?run0 = "\<lparr>lr_pods = pods, lr_patches = [], lr_changes = 0, lr_requeue = acc\<rparr>"
  have D: "distinct ?D" "\<forall>i \<in> set ?D. i < length pods \<and> pod_role_label (pods ! i) \<noteq> pod_role_label (des ! i)"
    by (auto simp: demote_idxs_def)
  have O: "distinct ?O" "\<forall>i \<in> set ?O. i < length pods \<and> pod_role_label (pods ! i) \<noteq> pod_role_label (des ! i)"
    by (auto simp: other_idxs_def)
  have disj: "set ?D \<inter> set ?O = {}" by (auto simp: demote_idxs_def other_idxs_def)
  have all: "i \<in> set ?D \<union> set ?O" if "i < length pods" "pod_role_label (pods ! i) \<noteq> pod_role_label (des ! i)" for i
    using that by (auto simp: demote_idxs_def other_idxs_def)
  have want: "pod_role_label (des ! i) = wanted_label m (pod_name (pods ! i))" if "i < length pods" for i
    using that by (simp add: des_def UpdatePodRoleLabels_nth)
  obtain run1 where run1: "apply_all env des ?D ?run0 = (run1, None)"
      "lr_patches run1 = map (\<lambda>i. (pod_name (pods ! i), pod_role_label (des ! i))) ?D"
      "length (lr_pods run1) = length pods"
      "\<forall>j. lr_pods run1 ! j = (if j \<in> set ?D then put_role_label (pod_role_label (des ! j)) (pods ! j) else pods ! j)"
    using apply_all_accepted [OF assms(1) D(1), of ?run0 pods des] D(2) by auto
  have "\<forall>i \<in> set ?O. i < length (lr_pods run1) \<and> lr_pods run1 ! i = pods ! i
      \<and> pod_role_label (pods ! i) \<noteq> pod_role_label (des ! i)"
    using O(2) run1(3,4) disj by auto
  then obtain run where run: "apply_all env des ?O run1 = (run, None)"
      "lr_patches run = lr_patches run1 @ map (\<lambda>i. (pod_name (pods ! i), pod_role_label (des ! i))) ?O"
      "length (lr_pods run) = length (lr_pods run1)"
      "\<forall>j. lr_pods run ! j = (if j \<in> set ?O then put_role_label (pod_role_label (des ! j)) (pods ! j) else lr_pods run1 ! j)"
    using apply_all_accepted [OF assms(1) O(1), of run1 pods des] by blast
  show ?thesis
  proof (intro exI conjI allI impI)
    show "Labels env acc pods m = (run, None)"
      using assms(2,3) run1(1) run(1) by (simp add: Labels_def Let_def des_def [symmetric])
    show "lr_patches run = map (\<lambda>i. (pod_name (pods ! i), wanted_label m (pod_name (pods ! i)))) (?D @ ?O)"
      using run(2) run1(2) D(2) O(2) want by auto
    show "length (lr_pods run) = length pods" using run(3) run1(3) by simp
    fix i assume i: "i < length pods"
    show "pod_name (lr_pods run ! i) = pod_name (pods ! i)" using run(4) run1(4) by simp
    show "pod_role_label (lr_pods run ! i) = wanted_label m (pod_name (pods ! i))"
      using run(4) run1(4) all [OF i] want [OF i] by auto
    fix k :: string assume "k \<noteq> RoleLabelKey"
    then show "gm_get (pod_labels (lr_pods run ! i)) k = gm_get (pod_labels (pods ! i)) k"
      using run(4) run1(4) by (simp add: put_role_label_def)
  qed
qed

text \<open>
  Patches to the wanted labels that leave the new master alone only remove master labels; patches that cover every
  other labelled master leave at most the new one.
\<close>

lemma demotions_shrink:
  assumes "\<forall>(n, r) \<in> set ps. r = wanted_label m n" "m \<notin> fst ` set ps"
  shows "card (labelled_masters pods (labels_after ps l)) \<le> card (labelled_masters pods l)"
  using assms(2)
  by (intro card_mono) (auto simp: labelled_masters_def labels_after_wanted [OF assms(1), of l] split: if_splits)

lemma covered_single:
  assumes "\<forall>(n, r) \<in> set ps. r = wanted_label m n"
    and "\<And>p. p \<in> set pods \<Longrightarrow> l (pod_name p) = ''master'' \<Longrightarrow> pod_name p \<noteq> m \<Longrightarrow> pod_name p \<in> fst ` set ps"
  shows "card (labelled_masters pods (labels_after ps l)) \<le> 1"
proof -
  have "labelled_masters pods (labels_after ps l) \<subseteq> {m}"
    using assms(2) by (auto simp: labelled_masters_def labels_after_wanted [OF assms(1), of l] split: if_splits)
  then have "card (labelled_masters pods (labels_after ps l)) \<le> card {m}" by (intro card_mono) simp_all
  then show ?thesis by simp
qed

lemma label_prefix_bound:
  fixes m pods
  defines "f \<equiv> \<lambda>i. (pod_name (pods ! i), wanted_label m (pod_name (pods ! i)))" and "D \<equiv> demote_idxs pods (UpdatePodRoleLabels pods m)"
  assumes "distinct (map pod_name pods)"
  shows "card (labelled_masters pods (labels_after (take k (map f (D @ os))) (listed_label pods)))
    \<le> max 1 (card (labelled_masters pods (listed_label pods)))"
proof -
  let ?ps = "take k (map f (D @ os))"
  have w: "\<forall>(n, r) \<in> set ?ps. r = wanted_label m n" 
  proof -
    have "set ?ps \<subseteq> set (map f (D @ os))" by (rule set_take_subset)
    moreover have "\<forall>(n, r) \<in> set (map f (D @ os)). r = wanted_label m n" by (auto simp: f_def)
    ultimately show ?thesis by (meson subsetD)
  qed
  have notm: "pod_name (pods ! i) \<noteq> m" if "i \<in> set D" for i
    using that by (auto simp: D_def demote_idxs_def is_demotion_iff)
  show ?thesis
  proof (cases "k \<le> length D")
    case True
    then have "fst ` set ?ps \<subseteq> (\<lambda>i. pod_name (pods ! i)) ` set D" by (auto simp: take_map f_def dest!: in_set_takeD)
    moreover have "m \<notin> (\<lambda>i. pod_name (pods ! i)) ` set D" using notm by (metis imageE)
    ultimately have "m \<notin> fst ` set ?ps" by (rule contra_subsetD)
    from demotions_shrink [OF w this] show ?thesis by (rule le_trans) simp
  next
    case False
    then have "map f D = take (length D) ?ps" by simp
    then have "set (map f D) \<subseteq> set ?ps" by (metis set_take_subset)
    then have "fst ` set (map f D) \<subseteq> fst ` set ?ps" by (rule image_mono)
    moreover have "fst ` set (map f D) = (\<lambda>i. pod_name (pods ! i)) ` set D" by (simp add: image_image f_def)
    ultimately have "(\<lambda>i. pod_name (pods ! i)) ` set D \<subseteq> fst ` set ?ps" by (simp only:)
    then have touched: "pod_name (pods ! i) \<in> fst ` set ?ps" if "i \<in> set D" for i
      by (rule subsetD) (rule imageI [OF that])
    have "pod_name p \<in> fst ` set ?ps" if p: "p \<in> set pods" "listed_label pods (pod_name p) = ''master''" "pod_name p \<noteq> m" for p
    proof -
      obtain i where i: "i < length pods" "p = pods ! i" using p(1) by (auto simp: in_set_conv_nth)
      have "pod_role_label (pods ! i) = ''master''" using listed_label_pod [OF assms(3), of p] p(1,2) i(2) by simp
      then have "i \<in> set D" using i p(3)
        by (simp add: D_def demote_idxs_def is_demotion_iff UpdatePodRoleLabels_nth wanted_label_def)
      then show ?thesis using touched i(2) by blast
    qed
    then have "card (labelled_masters pods (labels_after ?ps (listed_label pods))) \<le> 1" by (rule covered_single [OF w])
    then show ?thesis by (rule le_trans) (rule max.cobounded1)
  qed
qed

text \<open>
  C8: When the API server accepts the patches, the phase ends with exactly the chosen pod labelled
  \<open>master\<close> and every other pod \<open>replica\<close>, and because demotions come first no intermediate moment has more
  master labels than before the phase or than one: a cluster with one master label never shows two.
\<close>

theorem labels_single_master:
  assumes "\<forall>n k. le_patch env n k = PatchOk" "le_client env"
    and "distinct (map pod_name pods)" "m \<in> pod_name ` set pods"
  shows "\<exists>run. Labels env acc pods m = (run, None)
     \<and> map pod_name (lr_pods run) = map pod_name pods
     \<and> (\<forall>p \<in> set (lr_pods run). pod_role_label p = ''master'' \<longleftrightarrow> pod_name p = m)
     \<and> (\<forall>p \<in> set (lr_pods run). pod_name p \<noteq> m \<longrightarrow> pod_role_label p = ''replica'')
     \<and> (\<forall>k. card (labelled_masters pods (labels_after (take k (lr_patches run)) (listed_label pods)))
           \<le> max 1 (card (labelled_masters pods (listed_label pods))))"
proof -
  let ?des = "UpdatePodRoleLabels pods m" and ?l = "listed_label pods"
  let ?f = "\<lambda>i. (pod_name (pods ! i), wanted_label m (pod_name (pods ! i)))"
  let ?D = "demote_idxs pods ?des" and ?O = "other_idxs pods ?des"
  have ne: "pods \<noteq> []" using assms(4) by auto
  obtain run where run: "Labels env acc pods m = (run, None)" "lr_patches run = map ?f (?D @ ?O)"
      "length (lr_pods run) = length pods"
      "\<forall>i < length pods. pod_name (lr_pods run ! i) = pod_name (pods ! i)
          \<and> pod_role_label (lr_pods run ! i) = wanted_label m (pod_name (pods ! i))"
    using Labels_accepted [OF assms(1,2) ne refl, of acc m] by blast
  have names: "map pod_name (lr_pods run) = map pod_name pods" using run(3,4) by (simp add: list_eq_iff_nth_eq)
  have roles: "pod_role_label p = wanted_label m (pod_name p)" if "p \<in> set (lr_pods run)" for p
    using that run(3,4) by (auto simp: in_set_conv_nth)
  show ?thesis
  proof (intro exI conjI)
    show "Labels env acc pods m = (run, None)" by (rule run(1))
    show "map pod_name (lr_pods run) = map pod_name pods" by (rule names)
    show "\<forall>p \<in> set (lr_pods run). pod_role_label p = ''master'' \<longleftrightarrow> pod_name p = m" using roles by simp
    show "\<forall>p \<in> set (lr_pods run). pod_name p \<noteq> m \<longrightarrow> pod_role_label p = ''replica''"
      using roles by (simp add: wanted_label_def)
    show "\<forall>k. card (labelled_masters pods (labels_after (take k (lr_patches run)) ?l))
        \<le> max 1 (card (labelled_masters pods ?l))"
      unfolding run(2) by (intro allI label_prefix_bound [OF assms(3)])
  qed
qed

definition demo_labelled :: "string \<Rightarrow> string \<Rightarrow> pod" where
  "demo_labelled n r = put_role_label r (pod0 ''ns'' n)"

definition accepting :: label_env where
  "accepting = \<lparr>le_client = True, le_patch = (\<lambda>_ _. PatchOk), le_get = (\<lambda>_ _. RefreshNotFound)\<rparr>"

theorem labels_single_master_witness:
  "\<exists>run. Labels accepting ra_empty
        [demo_labelled ''kv-0'' ''master'', demo_labelled ''kv-1'' ''replica''] ''kv-1'' = (run, None)
     \<and> lr_patches run = [(''kv-0'', ''replica''), (''kv-1'', ''master'')]
     \<and> (\<forall>p \<in> set (lr_pods run). pod_role_label p = ''master'' \<longleftrightarrow> pod_name p = ''kv-1'')"
proof -
  let ?pods = "[demo_labelled ''kv-0'' ''master'', demo_labelled ''kv-1'' ''replica'']"
  have acc: "\<forall>n k. le_patch accepting n k = PatchOk" "le_client accepting" by (simp_all add: accepting_def)
  have names: "distinct (map pod_name ?pods)" "''kv-1'' \<in> pod_name ` set ?pods"
    by (simp_all add: demo_labelled_def pod0_def)
  have patches: "lr_patches (fst (Labels accepting ra_empty ?pods ''kv-1'')) = [(''kv-0'', ''replica''), (''kv-1'', ''master'')]"
    by code_simp
  from labels_single_master [OF acc names, of ra_empty] patches show ?thesis by auto
qed

text \<open>
  A demotion whose patches keep conflicting gives up without an error, and the promotion follows: two
  pods end up with the master label, against the demotion-first intent of the phase.
\<close>

lemma labels_two_masters_after_conflicts:
  "let env = accepting\<lparr>le_patch := (\<lambda>n _. if n = ''kv-0'' then PatchConflict else PatchOk),
                       le_get := (\<lambda>n _. Refreshed (demo_labelled n ''master''))\<rparr>;
       (run, err) = Labels env ra_empty
         [demo_labelled ''kv-0'' ''master'', demo_labelled ''kv-1'' ''replica''] ''kv-1''
   in err = None \<and> lr_patches run = [(''kv-1'', ''master'')]
      \<and> map pod_role_label (lr_pods run) = [''master'', ''master'']"
  by code_simp

end
