(* ===== verification/KV_Bootstrap.thy ===== *)
theory KV_Bootstrap
  imports KV_Runtime KV_Clients "HOL-Library.Product_Lexorder"
begin

text \<open>
  \<open>src/controllers/internal/ops/bootstrap/freshness.go\<close>: replication offsets are stored on the claims
  while the cluster is alive, and read back to choose the pod to promote when no master is left.

  The Kubernetes client is \<open>get_pvc\<close> (None for any error; the code treats them alike); timestamps are
  printed and read by \<open>fmt\<close> and \<open>parse\<close>, the RFC 3339 texts of the time package. Times count from the
  zero value of \<open>time.Time\<close>, so \<open>IsZero\<close> is equality with 0.
\<close>

section \<open>Records\<close>

record candidate =
  cand_name :: string
  cand_source :: string
  cand_offset :: int
  cand_updated :: time

definition no_candidate :: candidate where
  "no_candidate = \<lparr>cand_name = '''', cand_source = '''', cand_offset = 0, cand_updated = 0\<rparr>"

record freshness_record =
  fr_pod :: string
  fr_offset :: int
  fr_updated :: time
  fr_last_role :: string
  fr_force :: bool

definition freshnessOffset :: "replication_info \<Rightarrow> int" where
  "freshnessOffset info =
     (if ri_role info = ''master''
      then if ri_master_repl_offset info > 0 then ri_master_repl_offset info
           else if ri_replica_repl_offset info > 0 then ri_replica_repl_offset info else 0
      else if ri_replica_repl_offset info > 0 then ri_replica_repl_offset info
           else if ri_master_repl_offset info > 0 then ri_master_repl_offset info else 0)"

definition freshnessRole :: "replication_info \<Rightarrow> string" where
  "freshnessRole info = (if ri_role info \<noteq> '''' then ri_role info else ''unknown'')"

definition pvcEqualAnnotations :: "pvc \<Rightarrow> pvc \<Rightarrow> bool" where
  "pvcEqualAnnotations cur desired =
     list_all (\<lambda>key. (gm_str (pvc_annotations cur) key = '''' \<and> gm_str (pvc_annotations desired) key = '''')
                   \<or> gm_str (pvc_annotations cur) key = gm_str (pvc_annotations desired) key)
       [AnnotationPVCReplicationOffset, AnnotationPVCReplicationRole, AnnotationPVCOffsetTimestamp]"

definition fresh_annotations :: "(time \<Rightarrow> string) \<Rightarrow> time \<Rightarrow> replication_info \<Rightarrow> pvc \<Rightarrow> pvc" where
  "fresh_annotations fmt now info p = p\<lparr>pvc_annotations :=
     gm_set (gm_set (gm_set (pvc_annotations p) AnnotationPVCReplicationOffset (int_to_dec (freshnessOffset info)))
       AnnotationPVCReplicationRole (freshnessRole info)) AnnotationPVCOffsetTimestamp (fmt now)\<rparr>"

section \<open>Storing\<close>

definition fresh_patch ::
  "(string \<Rightarrow> string \<Rightarrow> pvc option) \<Rightarrow> (time \<Rightarrow> string) \<Rightarrow> time \<Rightarrow> kv_cluster \<Rightarrow> (string, replication_info) gomap
    \<Rightarrow> pod \<Rightarrow> pvc list" where
  "fresh_patch get_pvc fmt now cr infos p = (case gm_get infos (pod_name p) of
      None \<Rightarrow> []
    | Some info \<Rightarrow> (case get_pvc (pod_namespace p) (DataPVCName cr (pod_name p)) of
          None \<Rightarrow> []
        | Some claim \<Rightarrow> (let desired = fresh_annotations fmt now info claim
                         in if pvcEqualAnnotations claim desired then [] else [desired])))"

text \<open>The claims the client is asked to patch, in order; the outcome of a patch is ignored.\<close>

definition UpdatePVCFreshness ::
  "(string \<Rightarrow> string \<Rightarrow> pvc option) option \<Rightarrow> (time \<Rightarrow> string) \<Rightarrow> time \<Rightarrow> kv_cluster \<Rightarrow> pod list
    \<Rightarrow> (string, replication_info) gomap \<Rightarrow> pvc list" where
  "UpdatePVCFreshness client fmt now cr pods infos = (case client of
      None \<Rightarrow> []
    | Some get_pvc \<Rightarrow> if \<not> HasPersistentData cr \<or> pods = [] then []
                      else concat (map (fresh_patch get_pvc fmt now cr infos) pods))"

section \<open>Choosing\<close>

definition load_record ::
  "(string \<Rightarrow> string \<Rightarrow> pvc option) option \<Rightarrow> (string \<Rightarrow> time option) \<Rightarrow> kv_cluster \<Rightarrow> pod \<Rightarrow> freshness_record" where
  "load_record client parse cr p =
     (let force = EqualFold (gm_str (pod_annotations p) AnnotationForceMaster) ''true'';
          claim = (case client of
              Some get_pvc \<Rightarrow> if HasPersistentData cr
                then get_pvc (pod_namespace p) (DataPVCName cr (pod_name p)) else None
            | None \<Rightarrow> None);
          ann = (case claim of Some c \<Rightarrow> pvc_annotations c | None \<Rightarrow> []);
          offset = (case ParseInt64 (gm_str ann AnnotationPVCReplicationOffset) of Some v \<Rightarrow> v | None \<Rightarrow> 0);
          ts = gm_str ann AnnotationPVCOffsetTimestamp;
          updated = (if ts = '''' then 0 else case parse ts of Some t \<Rightarrow> t | None \<Rightarrow> 0)
      in \<lparr>fr_pod = pod_name p, fr_offset = offset,
          fr_updated = (if updated = 0 then pod_created p else updated),
          fr_last_role = gm_str ann AnnotationPVCReplicationRole, fr_force = force\<rparr>)"

definition loadFreshnessRecords ::
  "(string \<Rightarrow> string \<Rightarrow> pvc option) option \<Rightarrow> (string \<Rightarrow> time option) \<Rightarrow> kv_cluster \<Rightarrow> pod list
    \<Rightarrow> freshness_record list" where
  "loadFreshnessRecords client parse cr pods = map (load_record client parse cr) pods"

definition record_less :: "freshness_record \<Rightarrow> freshness_record \<Rightarrow> bool" where
  "record_less a b =
     (if fr_offset a \<noteq> fr_offset b then fr_offset a > fr_offset b
      else if fr_updated a \<noteq> fr_updated b then fr_updated a > fr_updated b
      else let la = ToLower (fr_last_role a); lb = ToLower (fr_last_role b)
           in if la = ''master'' \<and> lb \<noteq> ''master'' then True
              else if la \<noteq> ''master'' \<and> lb = ''master'' then False
              else let iOrd = Ordinal (fr_pod a); jOrd = Ordinal (fr_pod b)
                   in if 0 \<le> iOrd \<and> 0 \<le> jOrd \<and> iOrd \<noteq> jOrd then iOrd < jOrd
                      else fr_pod a < fr_pod b)"

definition sortRecords :: "freshness_record list \<Rightarrow> freshness_record list" where
  "sortRecords recs = sort_by record_less recs"

definition candidate_of :: "string \<Rightarrow> freshness_record \<Rightarrow> candidate" where
  "candidate_of src r = \<lparr>cand_name = fr_pod r, cand_source = src, cand_offset = fr_offset r, cand_updated = fr_updated r\<rparr>"

definition SelectCandidate ::
  "(string \<Rightarrow> string \<Rightarrow> pvc option) option \<Rightarrow> (string \<Rightarrow> time option) \<Rightarrow> kv_cluster \<Rightarrow> pod list \<Rightarrow> candidate" where
  "SelectCandidate client parse cr pods =
     (if pods = [] then no_candidate
      else let records = loadFreshnessRecords client parse cr pods; forced = filter fr_force records
           in if forced \<noteq> [] then candidate_of ''force-master'' (hd (sortRecords forced))
              else if records \<noteq> [] \<and> 0 < fr_offset (hd (sortRecords records))
                   then candidate_of ''freshness'' (hd (sortRecords records))
                   else \<lparr>cand_name = pod_name (hd (SortedPodsByName pods)), cand_source = ''seed'',
                         cand_offset = 0, cand_updated = 0\<rparr>)"

text \<open>The value written to the freshness gap metric.\<close>

definition observeFreshnessMetrics :: "string \<Rightarrow> freshness_record \<Rightarrow> freshness_record list \<Rightarrow> int" where
  "observeFreshnessMetrics source winner records =
     (if source \<noteq> ''freshness'' \<and> source \<noteq> ''force-master'' then 0
      else if length records < 2 then 0
      else let sorted = sortRecords records;
               next_rec = (if fr_pod (sorted ! 0) = fr_pod winner then sorted ! 1 else sorted ! 0);
               delta = wrap64 (fr_offset winner - fr_offset next_rec)
           in if delta < 0 then 0 else delta)"

section \<open>The order on records\<close>

text \<open>
  The order of the records as the doc comment lists it. It agrees with the comparator of the code on pods
  of a StatefulSet, whose names end in an ordinal; on other names the comparator is no order at all.
\<close>

definition fresher :: "freshness_record \<Rightarrow> freshness_record \<Rightarrow> bool" where
  "fresher a b =
     (if fr_offset a \<noteq> fr_offset b then fr_offset a > fr_offset b
      else if fr_updated a \<noteq> fr_updated b then fr_updated a > fr_updated b
      else let ma = (ToLower (fr_last_role a) = ''master''); mb = (ToLower (fr_last_role b) = ''master'')
           in if ma \<noteq> mb then ma
              else if Ordinal (fr_pod a) \<noteq> Ordinal (fr_pod b) then Ordinal (fr_pod a) < Ordinal (fr_pod b)
              else fr_pod a < fr_pod b)"

definition freshness_key :: "freshness_record \<Rightarrow> int \<times> int \<times> int \<times> int \<times> string" where
  "freshness_key r = (- fr_offset r, - fr_updated r, if ToLower (fr_last_role r) = ''master'' then 0 else 1,
     Ordinal (fr_pod r), fr_pod r)"

lemma fresher_key: "fresher a b \<longleftrightarrow> freshness_key a < freshness_key b"
  unfolding fresher_def freshness_key_def Let_def less_prod_simp by simp linarith

interpretation fresher: comparator fresher
  by unfold_locales (unfold fresher_key, auto)

lemma insert_by_cong:
  assumes "\<forall>y \<in> set xs. lt y x = lt' y x"
  shows "insert_by lt x xs = insert_by lt' x xs"
  using assms by (induction xs) auto

lemma sort_by_cong:
  assumes "\<forall>x \<in> set xs. \<forall>y \<in> set xs. lt x y = lt' x y"
  shows "sort_by lt xs = sort_by lt' xs"
  using assms
proof (induction xs)
  case (Cons x xs)
  then have "sort_by lt xs = sort_by lt' xs" by simp
  then show ?case using Cons.prems by (simp add: insert_by_cong)
qed simp

lemma sortRecords_fresher:
  assumes "\<forall>r \<in> set recs. 0 \<le> Ordinal (fr_pod r)"
  shows "sortRecords recs = sort_by fresher recs"
  unfolding sortRecords_def
  by (rule sort_by_cong) (use assms in \<open>auto simp: record_less_def fresher_def Let_def\<close>)

lemma sortRecords_hd:
  assumes "\<forall>r \<in> set recs. 0 \<le> Ordinal (fr_pod r)" "recs \<noteq> []"
  shows "hd (sortRecords recs) \<in> set recs \<and> (\<forall>r \<in> set recs. \<not> fresher r (hd (sortRecords recs)))"
  unfolding sortRecords_fresher [OF assms(1)]
  using fresher.sort_by_head_least assms(2) by (metis hd_in_set set_empty set_sort_by)

text \<open>The comparator of the code cycles on names without an ordinal.\<close>

lemma record_less_cycles:
  "let r = (\<lambda>n. \<lparr>fr_pod = n, fr_offset = 0, fr_updated = 0, fr_last_role = '''', fr_force = False\<rparr>)
   in record_less (r ''a-2'') (r ''a-10'') \<and> record_less (r ''a-10'') (r ''a-1x'') \<and> record_less (r ''a-1x'') (r ''a-2'')"
  by code_simp
section \<open>The choice\<close>

lemma load_record_pod [simp]: "fr_pod (load_record client parse cr p) = pod_name p"
  by (simp add: load_record_def Let_def)

lemma not_fresher_offset: "\<not> fresher q r \<Longrightarrow> fr_offset q \<le> fr_offset r"
  by (auto simp: fresher_def split: if_splits)

text \<open>The documented priority: forced pods, then stored offsets, then the first pod by name.\<close>

definition best_candidate :: "freshness_record set \<Rightarrow> pod list \<Rightarrow> candidate \<Rightarrow> bool" where
  "best_candidate recs pods c =
     (if \<exists>r \<in> recs. fr_force r
      then \<exists>r \<in> recs. fr_force r \<and> c = candidate_of ''force-master'' r \<and> (\<forall>q \<in> recs. fr_force q \<longrightarrow> \<not> fresher q r)
      else if \<exists>r \<in> recs. 0 < fr_offset r
      then \<exists>r \<in> recs. 0 < fr_offset r \<and> c = candidate_of ''freshness'' r \<and> (\<forall>q \<in> recs. \<not> fresher q r)
      else cand_source c = ''seed'' \<and> (\<exists>p \<in> set pods. cand_name c = pod_name p)
           \<and> (\<forall>p \<in> set pods. cand_name c \<le> pod_name p))"

lemma SelectCandidate_best:
  assumes "pods \<noteq> []" "\<forall>p \<in> set pods. 0 \<le> Ordinal (pod_name p)"
  shows "best_candidate (set (loadFreshnessRecords client parse cr pods)) pods (SelectCandidate client parse cr pods)"
proof -
  let ?l = "loadFreshnessRecords client parse cr pods"
  let ?f = "filter fr_force ?l"
  define recs where recs_def: "recs = set ?l"
  have ord: "\<forall>r \<in> set ?l. 0 \<le> Ordinal (fr_pod r)" using assms(2) by (simp add: loadFreshnessRecords_def)
  have ne: "?l \<noteq> []" using assms(1) by (simp add: loadFreshnessRecords_def)
  show ?thesis
  proof (cases "\<exists>r \<in> recs. fr_force r")
    case True
    then have f: "?f \<noteq> []" by (auto simp: recs_def filter_empty_conv)
    have "\<forall>r \<in> set ?f. 0 \<le> Ordinal (fr_pod r)" using ord by simp
    from sortRecords_hd [OF this f] have "hd (sortRecords ?f) \<in> set ?f"
      "\<forall>r \<in> set ?f. \<not> fresher r (hd (sortRecords ?f))" by auto
    moreover have "SelectCandidate client parse cr pods = candidate_of ''force-master'' (hd (sortRecords ?f))"
      using assms(1) f by (simp add: SelectCandidate_def Let_def)
    ultimately show ?thesis using True by (auto simp: recs_def best_candidate_def)
  next
    case False
    then have f: "?f = []" by (auto simp: recs_def filter_empty_conv)
    from sortRecords_hd [OF ord ne] have best: "hd (sortRecords ?l) \<in> recs"
      "\<forall>r \<in> recs. \<not> fresher r (hd (sortRecords ?l))" by (auto simp: recs_def)
    have sel: "SelectCandidate client parse cr pods = (if 0 < fr_offset (hd (sortRecords ?l))
        then candidate_of ''freshness'' (hd (sortRecords ?l))
        else \<lparr>cand_name = pod_name (hd (SortedPodsByName pods)), cand_source = ''seed'', cand_offset = 0, cand_updated = 0\<rparr>)"
      using assms(1) f ne by (simp add: SelectCandidate_def Let_def)
    show ?thesis
    proof (cases "\<exists>r \<in> recs. 0 < fr_offset r")
      case True
      then obtain r where "r \<in> recs" "0 < fr_offset r" by blast
      then have "0 < fr_offset (hd (sortRecords ?l))" using best(2) not_fresher_offset by fastforce
      then show ?thesis using False True best sel by (auto simp: best_candidate_def recs_def)
    next
      case none: False
      then have "\<not> 0 < fr_offset (hd (sortRecords ?l))" using best(1) by blast
      moreover have "hd (SortedPodsByName pods) \<in> set pods"
        using assms(1) by (metis hd_in_set SortedPodsByName_Nil set_SortedPodsByName)
      ultimately show ?thesis using False none sel SortedPodsByName_hd by (auto simp: best_candidate_def recs_def)
    qed
  qed
qed

section \<open>Store, then choose\<close>

text \<open>The claims after the patches were accepted.\<close>

definition after_patches :: "(string \<Rightarrow> string \<Rightarrow> pvc option) \<Rightarrow> pvc list \<Rightarrow> string \<Rightarrow> string \<Rightarrow> pvc option" where
  "after_patches get_pvc patches ns n = (case find (\<lambda>c. pvc_namespace c = ns \<and> pvc_name c = n) patches of
      Some c \<Rightarrow> Some c | None \<Rightarrow> get_pvc ns n)"

lemma DataPVCName_inj [simp]: "DataPVCName cr a = DataPVCName cr b \<longleftrightarrow> a = b"
  by (simp add: DataPVCName_def)

lemma fresh_annotations_simps [simp]:
  "pvc_name (fresh_annotations fmt now info c) = pvc_name c"
  "pvc_namespace (fresh_annotations fmt now info c) = pvc_namespace c"
  "gm_str (pvc_annotations (fresh_annotations fmt now info c)) AnnotationPVCReplicationOffset
     = int_to_dec (freshnessOffset info)"
  by (simp_all add: fresh_annotations_def AnnotationPVCReplicationOffset_def AnnotationPVCReplicationRole_def
      AnnotationPVCOffsetTimestamp_def)

lemma stored_offset:
  assumes "HasPersistentData cr" "distinct (map pod_name pods)" "p \<in> set pods"
    and infos: "gm_get infos (pod_name p) = Some info"
    and claims: "\<forall>q \<in> set pods. \<exists>c. get_pvc (pod_namespace q) (DataPVCName cr (pod_name q)) = Some c
           \<and> pvc_namespace c = pod_namespace q \<and> pvc_name c = DataPVCName cr (pod_name q)"
  shows "\<exists>c. after_patches get_pvc (UpdatePVCFreshness (Some get_pvc) fmt now cr pods infos)
             (pod_namespace p) (DataPVCName cr (pod_name p)) = Some c
           \<and> gm_str (pvc_annotations c) AnnotationPVCReplicationOffset = int_to_dec (freshnessOffset info)"
proof -
  let ?patches = "UpdatePVCFreshness (Some get_pvc) fmt now cr pods infos"
  let ?P = "\<lambda>c. pvc_namespace c = pod_namespace p \<and> pvc_name c = DataPVCName cr (pod_name p)"
  obtain claim where claim: "get_pvc (pod_namespace p) (DataPVCName cr (pod_name p)) = Some claim" "?P claim"
    using claims assms(3) by blast
  have own: "c = fresh_annotations fmt now info claim" if "c \<in> set ?patches" "?P c" for c
  proof -
    have "c \<in> set (concat (map (fresh_patch get_pvc fmt now cr infos) pods))"
      using that(1) by (simp add: UpdatePVCFreshness_def split: if_splits)
    then obtain q where q0: "q \<in> set pods" "c \<in> set (fresh_patch get_pvc fmt now cr infos q)" by auto
    obtain info' claim' where q: "q \<in> set pods" "gm_get infos (pod_name q) = Some info'"
      "get_pvc (pod_namespace q) (DataPVCName cr (pod_name q)) = Some claim'"
      "c = fresh_annotations fmt now info' claim'"
      using q0
      by (cases "gm_get infos (pod_name q)"; cases "get_pvc (pod_namespace q) (DataPVCName cr (pod_name q))")
        (auto simp: fresh_patch_def Let_def split: if_splits)
    have "pvc_name claim' = DataPVCName cr (pod_name q)" using claims q(1,3) by auto
    then have "pod_name q = pod_name p" using that(2) q(4) by simp
    then have "q = p" using assms(2,3) q(1) by (metis distinct_map inj_on_contraD)
    then show ?thesis using q infos claim(1) by simp
  qed
  show ?thesis
  proof (cases "find ?P ?patches")
    case (Some c)
    then have "c \<in> set ?patches" "?P c" by (auto simp: find_Some_iff)
    then have "c = fresh_annotations fmt now info claim" by (rule own)
    then show ?thesis using Some by (simp add: after_patches_def)
  next
    case None
    have "fresh_annotations fmt now info claim \<notin> set ?patches"
      using None claim(2) unfolding find_None_iff by (metis fresh_annotations_simps(1,2))
    moreover have "pods \<noteq> []" using assms(3) by auto
    ultimately have "fresh_annotations fmt now info claim \<notin> set (fresh_patch get_pvc fmt now cr infos p)"
      using assms(1,3) by (auto simp: UpdatePVCFreshness_def)
    then have "pvcEqualAnnotations claim (fresh_annotations fmt now info claim)"
      using infos claim(1) by (simp add: fresh_patch_def Let_def split: if_splits)
    then have "gm_str (pvc_annotations claim) AnnotationPVCReplicationOffset = int_to_dec (freshnessOffset info)"
      by (auto simp: pvcEqualAnnotations_def)
    then show ?thesis using None claim(1) by (simp add: after_patches_def)
  qed
qed

lemma freshnessOffset_nonneg: "0 \<le> freshnessOffset info"
  by (simp add: freshnessOffset_def)

text \<open>
  C28: Disaster recovery promotes the freshest replica: after one pass that stored the offsets of all
  pods on their claims (the patches being accepted), and with no pod forced, the candidate chosen from
  the claims alone has the highest offset its pods reported, whenever one of them is positive.
\<close>

theorem recovery_picks_freshest:
  assumes "HasPersistentData cr" "distinct (map pod_name pods)" "\<forall>p \<in> set pods. 0 \<le> Ordinal (pod_name p)"
    and infos: "\<forall>p \<in> set pods. gm_get infos (pod_name p) = Some (info p) \<and> freshnessOffset (info p) \<le> int64_max"
    and claims: "\<forall>q \<in> set pods. \<exists>c. get_pvc (pod_namespace q) (DataPVCName cr (pod_name q)) = Some c
           \<and> pvc_namespace c = pod_namespace q \<and> pvc_name c = DataPVCName cr (pod_name q)"
    and unforced: "\<forall>p \<in> set pods. \<not> EqualFold (gm_str (pod_annotations p) AnnotationForceMaster) ''true''"
    and alive: "\<exists>p \<in> set pods. 0 < freshnessOffset (info p)"
  shows "\<exists>p \<in> set pods.
      SelectCandidate (Some (after_patches get_pvc (UpdatePVCFreshness (Some get_pvc) fmt now cr pods infos))) parse cr pods
        = candidate_of ''freshness'' (load_record
            (Some (after_patches get_pvc (UpdatePVCFreshness (Some get_pvc) fmt now cr pods infos))) parse cr p)
      \<and> (\<forall>q \<in> set pods. freshnessOffset (info q) \<le> freshnessOffset (info p))"
proof -
  define client where "client = Some (after_patches get_pvc (UpdatePVCFreshness (Some get_pvc) fmt now cr pods infos))"
  let ?recs = "set (loadFreshnessRecords client parse cr pods)"
  have off: "fr_offset (load_record client parse cr p) = freshnessOffset (info p)" if p: "p \<in> set pods" for p
  proof -
    have "gm_get infos (pod_name p) = Some (info p)" using infos p by blast
    from stored_offset [OF assms(1,2) p this claims, of fmt now] obtain c where
      "after_patches get_pvc (UpdatePVCFreshness (Some get_pvc) fmt now cr pods infos)
             (pod_namespace p) (DataPVCName cr (pod_name p)) = Some c"
      "gm_str (pvc_annotations c) AnnotationPVCReplicationOffset = int_to_dec (freshnessOffset (info p))" by blast
    moreover have "ParseInt64 (int_to_dec (freshnessOffset (info p))) = Some (freshnessOffset (info p))"
      by (rule ParseInt64_int_to_dec) (use infos p freshnessOffset_nonneg [of "info p"] in auto)
    ultimately show ?thesis using assms(1) by (simp add: load_record_def client_def Let_def)
  qed
  have force: "\<not> (\<exists>r \<in> ?recs. fr_force r)"
    using unforced by (auto simp: loadFreshnessRecords_def load_record_def Let_def)
  have pos: "\<exists>r \<in> ?recs. 0 < fr_offset r" using alive off by (auto simp: loadFreshnessRecords_def)
  have ne: "pods \<noteq> []" using alive by auto
  have "best_candidate ?recs pods (SelectCandidate client parse cr pods)"
    by (rule SelectCandidate_best [OF ne assms(3)])
  then obtain r where r: "r \<in> ?recs" "SelectCandidate client parse cr pods = candidate_of ''freshness'' r"
      "\<forall>q \<in> ?recs. \<not> fresher q r"
    using force pos by (auto simp: best_candidate_def)
  then obtain p where p: "p \<in> set pods" "r = load_record client parse cr p" by (auto simp: loadFreshnessRecords_def)
  have "freshnessOffset (info q) \<le> freshnessOffset (info p)" if q: "q \<in> set pods" for q
  proof -
    have "\<not> fresher (load_record client parse cr q) r" using r(3) q by (simp add: loadFreshnessRecords_def)
    from not_fresher_offset [OF this] show ?thesis using off q p by simp
  qed
  then show ?thesis using p r(2) unfolding client_def by blast
qed

text \<open>
  C29: Among pods of a StatefulSet the bootstrap candidate is the best by the documented order: if pods
  are annotated as forced, a forced pod no other forced pod is fresher than; otherwise, if some stored
  offset is positive, a pod with the highest offset, then the latest timestamp, then a former master, then
  the lowest ordinal; otherwise the first pod by name. It is always one of the given pods.
\<close>

theorem candidate_best:
  assumes "pods \<noteq> []" "\<forall>p \<in> set pods. 0 \<le> Ordinal (pod_name p)"
  shows "best_candidate (set (loadFreshnessRecords client parse cr pods)) pods (SelectCandidate client parse cr pods)"
  by (rule SelectCandidate_best [OF assms])

section \<open>A concrete cluster\<close>

definition demo_claims :: "string \<Rightarrow> string \<Rightarrow> pvc option" where
  "demo_claims ns n = (if n = ''data-kv-0'' \<or> n = ''data-kv-1'' then Some (pvc0 ns n) else None)"

definition demo_boot_pods :: "pod list" where
  "demo_boot_pods = [pod0 ''ns'' ''kv-0'', pod0 ''ns'' ''kv-1'']"

definition demo_boot_info :: "pod \<Rightarrow> replication_info" where
  "demo_boot_info p = ri0\<lparr>ri_role := ''replica'', ri_replica_repl_offset := (if pod_name p = ''kv-1'' then 900 else 700)\<rparr>"

definition demo_boot_infos :: "(string, replication_info) gomap" where
  "demo_boot_infos = map (\<lambda>p. (pod_name p, demo_boot_info p)) demo_boot_pods"

lemma demo_boot_ordinals: "\<forall>p \<in> set demo_boot_pods. 0 \<le> Ordinal (pod_name p)"
  by code_simp

theorem candidate_best_witness:
  "best_candidate (set (loadFreshnessRecords (Some demo_claims) (\<lambda>_. None) (cluster0 ''ns'' ''kv'') demo_boot_pods))
     demo_boot_pods (SelectCandidate (Some demo_claims) (\<lambda>_. None) (cluster0 ''ns'' ''kv'') demo_boot_pods)
   \<and> cand_name (SelectCandidate (Some demo_claims) (\<lambda>_. None) (cluster0 ''ns'' ''kv'') demo_boot_pods) = ''kv-0''"
proof -
  have "demo_boot_pods \<noteq> []" by (simp add: demo_boot_pods_def)
  from candidate_best [OF this demo_boot_ordinals]
  have "best_candidate (set (loadFreshnessRecords (Some demo_claims) (\<lambda>_. None) (cluster0 ''ns'' ''kv'') demo_boot_pods))
     demo_boot_pods (SelectCandidate (Some demo_claims) (\<lambda>_. None) (cluster0 ''ns'' ''kv'') demo_boot_pods)" .
  moreover have "cand_name (SelectCandidate (Some demo_claims) (\<lambda>_. None) (cluster0 ''ns'' ''kv'') demo_boot_pods) = ''kv-0''"
    by code_simp
  ultimately show ?thesis by simp
qed

theorem recovery_picks_freshest_witness:
  "cand_name (SelectCandidate (Some (after_patches demo_claims
      (UpdatePVCFreshness (Some demo_claims) (\<lambda>_. ''t'') 5 (cluster0 ''ns'' ''kv'') demo_boot_pods demo_boot_infos)))
      (\<lambda>_. None) (cluster0 ''ns'' ''kv'') demo_boot_pods) = ''kv-1''"
proof -
  let ?cr = "cluster0 ''ns'' ''kv''"
  have a: "HasPersistentData ?cr" by (simp add: HasPersistentData_def zero_values)
  have b: "distinct (map pod_name demo_boot_pods)" by (simp add: demo_boot_pods_def pod0_def)
  have c: "\<forall>p \<in> set demo_boot_pods. gm_get demo_boot_infos (pod_name p) = Some (demo_boot_info p)
      \<and> freshnessOffset (demo_boot_info p) \<le> int64_max"
    by (simp add: demo_boot_pods_def demo_boot_infos_def pod0_def gm_get_def demo_boot_info_def freshnessOffset_def)
  have d: "\<forall>q \<in> set demo_boot_pods. \<exists>c. demo_claims (pod_namespace q) (DataPVCName ?cr (pod_name q)) = Some c
      \<and> pvc_namespace c = pod_namespace q \<and> pvc_name c = DataPVCName ?cr (pod_name q)"
    by (simp add: demo_boot_pods_def demo_claims_def pod0_def pvc0_def DataPVCName_def DataVolumeName_def)
  have e: "\<forall>p \<in> set demo_boot_pods. \<not> EqualFold (gm_str (pod_annotations p) AnnotationForceMaster) ''true''"
    by (simp add: demo_boot_pods_def pod0_def EqualFold_def ToLower_def gm_str_def)
  have f: "\<exists>p \<in> set demo_boot_pods. 0 < freshnessOffset (demo_boot_info p)"
    by (simp add: demo_boot_pods_def demo_boot_info_def freshnessOffset_def)
  show ?thesis
    using recovery_picks_freshest [OF a b demo_boot_ordinals c d e f, of "\<lambda>_. ''t''" 5 "\<lambda>_. None"]
    by (auto simp: demo_boot_pods_def demo_boot_info_def freshnessOffset_def candidate_of_def pod0_def)
qed

end
