(* ===== verification/KV_Config.thy ===== *)
theory KV_Config
  imports KV_Security KV_Clients KV_Runtime
begin

text \<open>
  \<open>src/controllers/internal/resources/configmap.go\<close>: the effective Redis and Sentinel configuration, the
  rendered files, the ConfigMap and its hash.

  The three shell scripts of the ConfigMap (\<open>bootstrap_script.go\<close>, \<open>probe_scripts.go\<close>) are constant texts,
  the argument \<open>scripts\<close>; the SHA-256 digest is the argument \<open>hash\<close>. Secret keys are valid Kubernetes keys,
  so \<open>path.Join\<close> of the mount path and a key is their concatenation.
\<close>

section \<open>Effective configuration\<close>

definition TLSMountPath :: string where "TLSMountPath = ''/tls''"

definition tls_path :: "string \<Rightarrow> string" where
  "tls_path key = TLSMountPath @ ''/'' @ key"

definition yes_no :: "bool \<Rightarrow> string" where
  "yes_no b = (if b then ''yes'' else ''no'')"

definition merge_map :: "('k, 'v) gomap \<Rightarrow> ('k, 'v) gomap \<Rightarrow> ('k, 'v) gomap" where
  "merge_map cfg extra = foldl (\<lambda>m (k, v). gm_set m k v) cfg extra"

definition redis_defaults :: strmap where
  "redis_defaults = [(''port'', ''6379''), (''dir'', ''/data''),
     (''save'', [CHR 0x22, CHR 0x22]), (''appendonly'', ''yes'')]"

definition with_auth :: "security_settings \<Rightarrow> strmap \<Rightarrow> strmap" where
  "with_auth s cfg =
     (if \<not> as_enabled (ss_auth s) then cfg
      else let cfg = gm_set (gm_set cfg ''requirepass'' (as_password (ss_auth s))) ''masterauth'' (as_password (ss_auth s))
           in if as_username (ss_auth s) \<noteq> '''' then gm_set cfg ''masteruser'' (as_username (ss_auth s)) else cfg)"

definition tls_entries :: "tls_settings \<Rightarrow> int \<Rightarrow> strmap" where
  "tls_entries t port = [(''tls-port'', int_to_dec port), (''tls-cert-file'', tls_path (ts_cert_key t)),
     (''tls-key-file'', tls_path (ts_key_key t)), (''tls-ca-cert-file'', tls_path (ts_ca_key t)),
     (''tls-auth-clients'', yes_no (ts_require_client_auth t)), (''tls-replication'', ''yes'')]"

definition with_tls :: "security_settings \<Rightarrow> int \<Rightarrow> strmap \<Rightarrow> strmap" where
  "with_tls s port cfg =
     (if \<not> ts_enabled (ss_tls s) then cfg
      else let cfg = merge_map cfg (tls_entries (ss_tls s) port)
           in if ts_disable_plaintext (ss_tls s) then gm_set cfg ''port'' ''0''
              else if gm_str cfg ''port'' = '''' \<or> gm_str cfg ''port'' = ''0'' then gm_set cfg ''port'' (int_to_dec port)
              else cfg)"

definition EffectiveRedisConfig :: "kv_cluster \<Rightarrow> security_settings option \<Rightarrow> strmap" where
  "EffectiveRedisConfig cr scr =
     (let cfg = merge_map redis_defaults (spec_redis_config (cr_spec cr))
      in case scr of None \<Rightarrow> cfg | Some s \<Rightarrow> with_tls s (fst (RedisPort cr)) (with_auth s cfg))"

definition sentinel_defaults :: strmap where
  "sentinel_defaults = [(''port'', ''26379''), (''dir'', ''/data''),
     (''sentinel resolve-hostnames'', ''yes''), (''sentinel announce-hostnames'', ''yes''),
     (''sentinel down-after-milliseconds'', ''5000''), (''sentinel failover-timeout'', ''60000''),
     (''sentinel parallel-syncs'', ''1'')]"

definition sentinel_targets :: "(string \<times> string) list" where
  "sentinel_targets = [(''port'', ''port''), (''dir'', ''dir''),
     (''resolve-hostnames'', ''sentinel resolve-hostnames''),
     (''announce-hostnames'', ''sentinel announce-hostnames''),
     (''down-after-milliseconds'', ''sentinel down-after-milliseconds''),
     (''failover-timeout'', ''sentinel failover-timeout''), (''parallel-syncs'', ''sentinel parallel-syncs'')]"

definition with_sentinel_auth :: "security_settings \<Rightarrow> strmap \<Rightarrow> strmap" where
  "with_sentinel_auth s cfg =
     (if \<not> as_enabled (ss_auth s) then cfg
      else let cfg = gm_set (gm_set cfg ''requirepass'' (as_password (ss_auth s)))
                       ''sentinel auth-pass'' (as_password (ss_auth s))
           in if as_username (ss_auth s) \<noteq> '''' then gm_set cfg ''sentinel auth-user'' (as_username (ss_auth s)) else cfg)"

definition EffectiveSentinelConfig :: "kv_cluster \<Rightarrow> security_settings option \<Rightarrow> strmap" where
  "EffectiveSentinelConfig cr scr =
     (let given = spec_sentinel_config (cr_spec cr);
          cfg = foldl (\<lambda>m (key, target). if gm_str given key \<noteq> '''' then gm_set m target (gm_str given key) else m)
                  sentinel_defaults sentinel_targets
      in case scr of None \<Rightarrow> cfg | Some s \<Rightarrow> with_tls s (fst (SentinelPort cr)) (with_sentinel_auth s cfg))"

section \<open>Rendering\<close>

definition line :: "string \<Rightarrow> string" where
  "line s = s @ [newline]"

definition rendered_keys :: "strmap \<Rightarrow> string list" where
  "rendered_keys m = sort_strings (filter (\<lambda>k. k \<noteq> ''replicaof'' \<and> k \<noteq> ''slaveof'') (map fst m))"

definition renderKVConfig :: "strmap \<Rightarrow> string" where
  "renderKVConfig m = concat (map (\<lambda>k. line (k @ '' '' @ gm_str m k)) (rendered_keys m))"

definition buildRedisConfig :: "kv_cluster \<Rightarrow> security_settings option \<Rightarrow> string" where
  "buildRedisConfig cr scr =
     (let content = renderKVConfig (EffectiveRedisConfig cr scr);
          content = (if \<not> HasSuffix content [newline] then line content else content)
      in content @ line ''include /runtime-conf/role.conf'')"

definition optional_line :: "string \<Rightarrow> strmap \<Rightarrow> string \<Rightarrow> string" where
  "optional_line directive cfg key =
     (if gm_str cfg key \<noteq> '''' then line (directive @ '' '' @ gm_str cfg key) else '''')"

definition sentinel_quorum :: "kv_cluster \<Rightarrow> int" where
  "sentinel_quorum cr = (case spec_sentinel_count (cr_spec cr) of
      Some n \<Rightarrow> if 0 < n then n div 2 + 1 else 1 | None \<Rightarrow> 1)"

definition buildSentinelConfig :: "kv_cluster \<Rightarrow> security_settings option \<Rightarrow> string" where
  "buildSentinelConfig cr scr =
     (let n = cr_name cr; cfg = EffectiveSentinelConfig cr scr;
          masterAddr = n @ ''-0.'' @ HeadlessName cr @ ''.'' @ cr_namespace cr @ ''.svc''
      in line (''sentinel monitor '' @ n @ '' '' @ masterAddr @ '' '' @ int_to_dec (fst (RedisPort cr)) @ '' ''
               @ int_to_dec (sentinel_quorum cr))
       @ line (''port '' @ gm_str cfg ''port'')
       @ line (''dir '' @ gm_str cfg ''dir'')
       @ line (''sentinel resolve-hostnames '' @ gm_str cfg ''sentinel resolve-hostnames'')
       @ line (''sentinel announce-hostnames '' @ gm_str cfg ''sentinel announce-hostnames'')
       @ line (''sentinel down-after-milliseconds '' @ n @ '' '' @ gm_str cfg ''sentinel down-after-milliseconds'')
       @ line (''sentinel failover-timeout '' @ n @ '' '' @ gm_str cfg ''sentinel failover-timeout'')
       @ line (''sentinel parallel-syncs '' @ n @ '' '' @ gm_str cfg ''sentinel parallel-syncs'')
       @ optional_line (''sentinel auth-pass '' @ n) cfg ''sentinel auth-pass''
       @ optional_line (''sentinel auth-user '' @ n) cfg ''sentinel auth-user''
       @ optional_line ''requirepass'' cfg ''requirepass''
       @ (if gm_str cfg ''tls-port'' \<noteq> ''''
          then concat (map (\<lambda>k. optional_line k cfg k)
                 [''tls-port'', ''tls-cert-file'', ''tls-key-file'', ''tls-ca-cert-file'', ''tls-auth-clients'', ''tls-replication''])
          else ''''))"

record config_scripts =
  cs_bootstrap :: string
  cs_liveness :: string
  cs_readiness :: string

record config_map =
  cm_name :: string
  cm_namespace :: string
  cm_labels :: strmap
  cm_data :: strmap

definition ConfigMap :: "config_scripts \<Rightarrow> kv_cluster \<Rightarrow> security_settings option \<Rightarrow> config_map" where
  "ConfigMap scripts cr scr = \<lparr>cm_name = ConfigMapName cr, cm_namespace = cr_namespace cr, cm_labels = LabelsFor cr,
     cm_data = [(''redis.conf'', buildRedisConfig cr scr)]
       @ (if spec_mode (cr_spec cr) = ModeSentinel then [(''sentinel.conf'', buildSentinelConfig cr scr)] else [])
       @ [(''bootstrap.sh'', cs_bootstrap scripts), (''liveness.sh'', cs_liveness scripts),
          (''readiness.sh'', cs_readiness scripts)]\<rparr>"

definition hash_input :: "config_scripts \<Rightarrow> kv_cluster \<Rightarrow> security_settings option \<Rightarrow> string" where
  "hash_input scripts cr scr =
     buildRedisConfig cr scr @ line (newline # ''--'')
     @ (if spec_mode (cr_spec cr) = ModeSentinel then buildSentinelConfig cr scr else '''')
     @ line (newline # ''--bootstrap'') @ cs_bootstrap scripts
     @ line (newline # ''--liveness'') @ cs_liveness scripts
     @ line (newline # ''--readiness'') @ cs_readiness scripts
     @ (case scr of None \<Rightarrow> ''''
        | Some s \<Rightarrow> (if as_enabled (ss_auth s) then as_secret_name (ss_auth s) @ as_version (ss_auth s) else '''')
                   @ (if ts_enabled (ss_tls s) then ts_secret_name (ss_tls s) @ ts_version (ss_tls s) else ''''))"

definition ConfigHash :: "(string \<Rightarrow> string) \<Rightarrow> config_scripts \<Rightarrow> kv_cluster \<Rightarrow> security_settings option \<Rightarrow> string" where
  "ConfigHash hash scripts cr scr = hash (hash_input scripts cr scr)"
section \<open>Reading the effective configuration\<close>

lemma merge_map_get:
  assumes "gm_wf extra"
  shows "gm_get (merge_map cfg extra) k = (case gm_get extra k of Some v \<Rightarrow> Some v | None \<Rightarrow> gm_get cfg k)"
  using assms
proof (induction extra arbitrary: cfg)
  case (Cons a extra)
  obtain j v where a: "a = (j, v)" by (cases a)
  have wf: "gm_wf extra" "j \<notin> fst ` set extra" using Cons.prems a by (auto simp: gm_wf_def)
  have "gm_get (merge_map cfg (a # extra)) k = gm_get (merge_map (gm_set cfg j v) extra) k"
    by (simp add: merge_map_def a)
  also have "\<dots> = (case gm_get extra k of Some v \<Rightarrow> Some v | None \<Rightarrow> gm_get (gm_set cfg j v) k)"
    by (rule Cons.IH [OF wf(1)])
  also have "\<dots> = (case gm_get (a # extra) k of Some v \<Rightarrow> Some v | None \<Rightarrow> gm_get cfg k)"
  proof -
    have "gm_get extra j = None" using wf(2) by (simp add: gm_get_None)
    moreover have "gm_get (a # extra) k = (if k = j then Some v else gm_get extra k)" by (simp add: a gm_get_def)
    ultimately show ?thesis by (cases "k = j") (simp_all split: option.split)
  qed
  finally show ?case .
qed (simp add: merge_map_def)

lemma merge_map_wf: "gm_wf cfg \<Longrightarrow> gm_wf (merge_map cfg extra)"
  unfolding merge_map_def by (induction extra arbitrary: cfg) auto

lemma tls_entries_wf: "gm_wf (tls_entries t port)"
  by (simp add: gm_wf_def tls_entries_def)

definition auth_keys :: "string set" where
  "auth_keys = {''requirepass'', ''masterauth'', ''masteruser''}"

definition tls_keys :: "string set" where
  "tls_keys = {''port'', ''tls-port'', ''tls-cert-file'', ''tls-key-file'', ''tls-ca-cert-file'', ''tls-auth-clients'', ''tls-replication''}"

lemma with_auth_get:
  "gm_get (with_auth s cfg) k =
     (if as_enabled (ss_auth s) \<and> (k = ''requirepass'' \<or> k = ''masterauth'') then Some (as_password (ss_auth s))
      else if as_enabled (ss_auth s) \<and> k = ''masteruser'' \<and> as_username (ss_auth s) \<noteq> '''' then Some (as_username (ss_auth s))
      else gm_get cfg k)"
  by (auto simp: with_auth_def Let_def)

lemma tls_entries_get:
  "k \<notin> tls_keys \<Longrightarrow> gm_get (tls_entries t port) k = None"
  "gm_get (tls_entries t port) ''port'' = None"
  "gm_get (tls_entries t port) ''tls-port'' = Some (int_to_dec port)"
  by (auto simp: tls_entries_def gm_get_def tls_keys_def)

lemma with_tls_get:
  "k \<notin> tls_keys \<Longrightarrow> gm_get (with_tls s port cfg) k = gm_get cfg k"
  "ts_enabled (ss_tls s) \<Longrightarrow> gm_get (with_tls s port cfg) ''tls-port'' = Some (int_to_dec port)"
  "ts_enabled (ss_tls s) \<Longrightarrow> gm_str (with_tls s port cfg) ''port'' =
     (if ts_disable_plaintext (ss_tls s) then ''0''
      else if gm_str cfg ''port'' = '''' \<or> gm_str cfg ''port'' = ''0'' then int_to_dec port else gm_str cfg ''port'')"
  by (auto simp: with_tls_def Let_def merge_map_get [OF tls_entries_wf] tls_entries_get gm_str_def tls_keys_def
      split: option.splits)

lemma redis_defaults_get: "k \<notin> {''port'', ''dir'', ''save'', ''appendonly''} \<Longrightarrow> gm_get redis_defaults k = None"
  by (auto simp: redis_defaults_def gm_get_def)

section \<open>Order independence\<close>

lemma gm_eq_str: "gm_eq a b \<Longrightarrow> gm_str a k = gm_str b k"
  by (simp add: gm_eq_def gm_str_def)

lemma gm_eq_set: "gm_eq a b \<Longrightarrow> gm_eq (gm_set a k v) (gm_set b k v)"
  by (simp add: gm_eq_def)

lemma merge_map_eq:
  assumes "gm_eq a b" "gm_wf x" "gm_wf y" "gm_eq x y"
  shows "gm_eq (merge_map a x) (merge_map b y)"
  using assms by (simp add: gm_eq_def merge_map_get split: option.split)

lemma with_auth_eq: "gm_eq a b \<Longrightarrow> gm_eq (with_auth s a) (with_auth s b)"
  by (simp add: with_auth_def Let_def gm_eq_set)

lemma with_tls_eq:
  assumes "gm_eq a b"
  shows "gm_eq (with_tls s port a) (with_tls s port b)"
proof -
  have m: "gm_eq (merge_map a (tls_entries (ss_tls s) port)) (merge_map b (tls_entries (ss_tls s) port))"
    by (rule merge_map_eq [OF assms tls_entries_wf tls_entries_wf gm_eq_refl])
  then show ?thesis
    using assms by (simp add: with_tls_def Let_def gm_eq_set gm_eq_str [OF m])
qed

lemma with_auth_wf: "gm_wf cfg \<Longrightarrow> gm_wf (with_auth s cfg)"
  by (simp add: with_auth_def Let_def)

lemma with_tls_wf: "gm_wf cfg \<Longrightarrow> gm_wf (with_tls s port cfg)"
  by (simp add: with_tls_def Let_def merge_map_wf)

lemma EffectiveRedisConfig_wf: "gm_wf (EffectiveRedisConfig cr scr)"
proof -
  have "gm_wf redis_defaults" by (simp add: gm_wf_def redis_defaults_def)
  then show ?thesis
    by (simp add: EffectiveRedisConfig_def Let_def merge_map_wf with_auth_wf with_tls_wf split: option.split)
qed

lemma rendered_keys_eq:
  assumes "gm_wf a" "gm_wf b" "gm_eq a b"
  shows "rendered_keys a = rendered_keys b"
proof -
  have "set (map fst a) = set (map fst b)"
    using assms(3) gm_get_None unfolding gm_eq_def by (metis list.set_map subsetI subset_antisym)
  then have "mset (map fst a) = mset (map fst b)"
    using assms(1,2) unfolding gm_wf_def by (metis set_eq_iff_mset_eq_distinct)
  then have "mset (filter (\<lambda>k. k \<noteq> ''replicaof'' \<and> k \<noteq> ''slaveof'') (map fst a))
      = mset (filter (\<lambda>k. k \<noteq> ''replicaof'' \<and> k \<noteq> ''slaveof'') (map fst b))"
    by (metis mset_filter)
  then show ?thesis unfolding rendered_keys_def by (rule sort_strings_cong)
qed

lemma renderKVConfig_eq:
  assumes "gm_wf a" "gm_wf b" "gm_eq a b"
  shows "renderKVConfig a = renderKVConfig b"
  using rendered_keys_eq [OF assms] gm_eq_str [OF assms(3)] by (simp add: renderKVConfig_def)

lemma EffectiveRedisConfig_eq:
  assumes "gm_wf m" "gm_wf m'" "gm_eq m m'"
  shows "gm_eq (EffectiveRedisConfig (cr\<lparr>cr_spec := (cr_spec cr)\<lparr>spec_redis_config := m\<rparr>\<rparr>) scr)
               (EffectiveRedisConfig (cr\<lparr>cr_spec := (cr_spec cr)\<lparr>spec_redis_config := m'\<rparr>\<rparr>) scr)"
proof -
  have "gm_get m ''port'' = gm_get m' ''port''" using assms(3) by (simp add: gm_eq_def)
  then have "RedisPort (cr\<lparr>cr_spec := (cr_spec cr)\<lparr>spec_redis_config := m\<rparr>\<rparr>)
      = RedisPort (cr\<lparr>cr_spec := (cr_spec cr)\<lparr>spec_redis_config := m'\<rparr>\<rparr>)" by (simp add: RedisPort_def)
  then show ?thesis
    using merge_map_eq [OF gm_eq_refl assms, of redis_defaults]
    by (simp add: EffectiveRedisConfig_def Let_def with_auth_eq with_tls_eq split: option.split)
qed

lemma EffectiveSentinelConfig_eq:
  "EffectiveSentinelConfig (cr\<lparr>cr_spec := (cr_spec cr)\<lparr>spec_redis_config := m\<rparr>\<rparr>) scr = EffectiveSentinelConfig cr scr"
proof -
  have "SentinelPort (cr\<lparr>cr_spec := (cr_spec cr)\<lparr>spec_redis_config := m\<rparr>\<rparr>) = SentinelPort cr"
    by (simp add: SentinelPort_def)
  then show ?thesis by (cases scr) (simp_all add: EffectiveSentinelConfig_def Let_def)
qed

section \<open>Reading redis.conf back\<close>

text \<open>The configuration file as Redis reads it: a directive and its argument per line.\<close>

definition parse_line :: "string \<Rightarrow> string \<times> string" where
  "parse_line l = (case IndexByte l CHR '' '' of Some i \<Rightarrow> (take i l, drop (Suc i) l) | None \<Rightarrow> (l, ''''))"

definition parse_conf :: "string \<Rightarrow> strmap" where
  "parse_conf s = map parse_line (filter (\<lambda>l. l \<noteq> '''') (split_on newline s))"

definition conf_ok :: "strmap \<Rightarrow> bool" where
  "conf_ok m = (gm_wf m \<and> (\<forall>(k, v) \<in> set m. k \<noteq> '''' \<and> CHR '' '' \<notin> set k \<and> newline \<notin> set k \<and> newline \<notin> set v))"

lemma set_rendered_keys: "set (rendered_keys m) = fst ` set m - {''replicaof'', ''slaveof''}"
  by (auto simp: rendered_keys_def)

lemma distinct_rendered_keys: "gm_wf m \<Longrightarrow> distinct (rendered_keys m)"
  by (simp add: rendered_keys_def gm_wf_def sort_strings_def)

lemma conf_ok_key:
  assumes "conf_ok m" "k \<in> fst ` set m"
  shows "k \<noteq> ''''" "CHR '' '' \<notin> set k" "newline \<notin> set k" "newline \<notin> set (gm_str m k)"
    "gm_get m k = Some (gm_str m k)"
proof -
  obtain v where v: "(k, v) \<in> set m" using assms(2) by auto
  then have get: "gm_get m k = Some v" using assms(1) by (simp add: conf_ok_def gm_get_in)
  have ok: "\<forall>(k, v) \<in> set m. k \<noteq> '''' \<and> CHR '' '' \<notin> set k \<and> newline \<notin> set k \<and> newline \<notin> set v"
    using assms(1) by (simp add: conf_ok_def)
  from bspec [OF this v] get show "k \<noteq> ''''" "CHR '' '' \<notin> set k" "newline \<notin> set k" "newline \<notin> set (gm_str m k)"
    "gm_get m k = Some (gm_str m k)"
    by (auto simp: gm_str_def)
qed

lemma parse_conf_render:
  assumes "conf_ok m"
  shows "parse_conf (renderKVConfig m) = map (\<lambda>k. (k, gm_str m k)) (rendered_keys m)"
proof -
  let ?ls = "map (\<lambda>k. k @ '' '' @ gm_str m k) (rendered_keys m)"
  have key: "k \<noteq> ''''" "CHR '' '' \<notin> set k" "newline \<notin> set k" "newline \<notin> set (gm_str m k)"
    if "k \<in> set (rendered_keys m)" for k
    using that conf_ok_key [OF assms, of k] by (auto simp: set_rendered_keys)
  have "newline \<noteq> CHR '' ''" by (simp add: newline_def)
  then have lines: "\<forall>l \<in> set ?ls. newline \<notin> set l" using key by auto
  have "renderKVConfig m = concat (map (\<lambda>l. l @ [newline]) ?ls)"
    by (simp add: renderKVConfig_def line_def comp_def)
  then have "split_on newline (renderKVConfig m) = ?ls @ [[]]" using split_on_lines [OF lines] by simp
  moreover have "filter (\<lambda>l. l \<noteq> '''') ?ls = ?ls" by (simp add: filter_id_conv)
  ultimately have "parse_conf (renderKVConfig m) = map parse_line ?ls" by (simp add: parse_conf_def)
  also have "\<dots> = map (\<lambda>k. (k, gm_str m k)) (rendered_keys m)"
    using key by (simp add: parse_line_def IndexByte_append)
  finally show ?thesis .
qed

section \<open>Properties\<close>

text \<open>
  C30: The rendered file says what the effective configuration says: reading the directives of the file back
  gives, for every key but \<open>replicaof\<close> and \<open>slaveof\<close>, exactly the configured value, every key once and in
  order, and nothing for those two, which the operator manages itself.
\<close>

theorem redis_conf_roundtrip:
  assumes "conf_ok m"
  shows "(\<forall>k. gm_get (parse_conf (renderKVConfig m)) k
            = (if k = ''replicaof'' \<or> k = ''slaveof'' then None else gm_get m k))
       \<and> gm_wf (parse_conf (renderKVConfig m)) \<and> sorted (map fst (parse_conf (renderKVConfig m)))"
proof -
  let ?p = "map (\<lambda>k. (k, gm_str m k)) (rendered_keys m)"
  have "gm_get ?p k = (if k = ''replicaof'' \<or> k = ''slaveof'' then None else gm_get m k)" for k
  proof (cases "k \<in> set (rendered_keys m)")
    case True
    then have "k \<in> fst ` set m" "k \<noteq> ''replicaof''" "k \<noteq> ''slaveof''" by (auto simp: set_rendered_keys)
    then show ?thesis using True conf_ok_key(5) [OF assms] by (simp add: gm_get_def map_of_map_restrict)
  next
    case False
    then have "gm_get ?p k = None" by (auto simp: gm_get_None)
    moreover have "k = ''replicaof'' \<or> k = ''slaveof'' \<or> gm_get m k = None"
      using False by (auto simp: set_rendered_keys gm_get_None)
    ultimately show ?thesis by auto
  qed
  moreover have "gm_wf ?p" using distinct_rendered_keys assms by (simp add: gm_wf_def conf_ok_def comp_def)
  moreover have "sorted (map fst ?p)" by (simp add: comp_def rendered_keys_def sorted_sort_strings)
  ultimately show ?thesis unfolding parse_conf_render [OF assms] by blast
qed

theorem redis_conf_roundtrip_witness:
  "gm_get (parse_conf (renderKVConfig [(''save'', ''900 1''), (''replicaof'', ''10.0.0.9 6379''), (''dir'', ''/data'')])) ''save''
     = Some ''900 1''
   \<and> gm_get (parse_conf (renderKVConfig [(''save'', ''900 1''), (''replicaof'', ''10.0.0.9 6379''), (''dir'', ''/data'')])) ''replicaof''
     = None"
proof -
  have "conf_ok [(''save'', ''900 1''), (''replicaof'', ''10.0.0.9 6379''), (''dir'', ''/data'')]"
    by (simp add: conf_ok_def gm_wf_def newline_def)
  from redis_conf_roundtrip [OF this] show ?thesis by (simp add: gm_get_def)
qed


definition demo_scripts :: config_scripts where
  "demo_scripts = \<lparr>cs_bootstrap = ''b'', cs_liveness = ''l'', cs_readiness = ''r''\<rparr>"




text \<open>
  With TLS enabled and plaintext not disabled, which is the default, \<open>port\<close> and \<open>tls-port\<close> of the Redis
  configuration are the same number: the server cannot open the second listener.
\<close>

lemma tls_port_clash:
  assumes "gm_wf (spec_redis_config (cr_spec cr))" "HasTLS s" "\<not> ts_disable_plaintext (ss_tls s)"
    and "gm_get (spec_redis_config (cr_spec cr)) ''port'' = None"
  shows "gm_str (EffectiveRedisConfig cr (Some s)) ''port'' = ''6379''
       \<and> gm_str (EffectiveRedisConfig cr (Some s)) ''tls-port'' = ''6379''"
proof -
  let ?cfg = "with_auth s (merge_map redis_defaults (spec_redis_config (cr_spec cr)))"
  have "gm_get redis_defaults ''port'' = Some ''6379''" by (simp add: redis_defaults_def gm_get_def)
  then have "gm_get ?cfg ''port'' = Some ''6379''"
    using assms(4) by (simp add: with_auth_get merge_map_get [OF assms(1)])
  then have "gm_str ?cfg ''port'' = ''6379''" by (simp add: gm_str_def)
  moreover have "fst (RedisPort cr) = 6379" using assms(4) by (simp add: RedisPort_def valid_port_string_def Let_def)
  moreover have "int_to_dec 6379 = ''6379''" by (simp add: dec_eval)
  ultimately show ?thesis
    using assms(2,3) with_tls_get(2) [of s 6379 ?cfg]
    by (simp add: EffectiveRedisConfig_def HasTLS_def with_tls_get(3)) (simp add: gm_str_def)
qed

text \<open>
  The port of \<open>spec.sentinelService.ports\<close> moves the container port, the Services, the probes and the
  clients of the Sentinels, but not the port the Sentinels are configured to listen on.
\<close>

lemma sentinel_port_mismatch:
  "let cr = (cluster0 ''ns'' ''kv'')\<lparr>cr_spec := spec0\<lparr>spec_sentinel_service := Some \<lparr>svs_create = None, svs_type = '''',
         svs_annotations = [], svs_labels = [], svs_ports = Some \<lparr>sp_redis = 0, sp_sentinel = 27000\<rparr>,
         svs_publish_not_ready = None\<rparr>\<rparr>\<rparr>
   in snd (SentinelPort cr) = ''27000'' \<and> gm_str (EffectiveSentinelConfig cr None) ''port'' = ''26379''"
  by (simp add: Let_def SentinelPort_def EffectiveSentinelConfig_def zero_values sentinel_defaults_def sentinel_targets_def
      dec_eval gm_str_def) (simp add: gm_get_def)

end
