(* ===== verification/KV_RuntimeConfig.thy ===== *)
theory KV_RuntimeConfig
  imports KV_Config
begin

text \<open>
  \<open>src/controllers/internal/ops/runtimeconfig/runtime.go\<close>: bringing the configuration of running servers in
  line with the specification without a restart.

  The Redis and Sentinel clients and the Kubernetes client are represented by their answers; every accepted
  \<open>CONFIG SET\<close>, \<open>CONFIG REWRITE\<close> and \<open>SENTINEL SET\<close> is recorded in order. \<open>strconv.ParseFloat\<close> is modelled on
  decimal numbers with an exact rational value. The pending changes of a pod are a Go map, whose order of iteration
  is open; the model sends them in the order of the keys, and the properties below do not depend on it.
\<close>

section \<open>Normal forms\<close>

definition all_digits :: "string \<Rightarrow> bool" where
  "all_digits s = (s \<noteq> '''' \<and> list_all is_digit s)"

definition strip_sign :: "string \<Rightarrow> bool \<times> string" where
  "strip_sign s = (case s of
      c # cs \<Rightarrow> if c = CHR ''-'' then (True, cs) else if c = CHR ''+'' then (False, cs) else (False, s)
    | [] \<Rightarrow> (False, s))"

definition split_at :: "char \<Rightarrow> string \<Rightarrow> string \<times> string option" where
  "split_at c s = (case IndexByte s c of Some i \<Rightarrow> (take i s, Some (drop (Suc i) s)) | None \<Rightarrow> (s, None))"

definition ParseFloat :: "string \<Rightarrow> rat option" where
  "ParseFloat s =
     (let (neg, s1) = strip_sign s; (mant, ex) = split_at CHR ''e'' s1; (whole, frac) = split_at CHR ''.'' mant;
          frac_digits = (case frac of Some f \<Rightarrow> f | None \<Rightarrow> '''');
          digits = whole @ frac_digits;
          scale = (case ex of None \<Rightarrow> Some 0
                   | Some e \<Rightarrow> (let (eneg, e1) = strip_sign e
                               in if all_digits e1 then Some (if eneg then - int (dec_to_nat e1) else int (dec_to_nat e1)) else None))
      in if \<not> all_digits digits then None
         else case scale of
                None \<Rightarrow> None
              | Some k \<Rightarrow>
                  (let m = of_nat (dec_to_nat digits) / 10 ^ length frac_digits;
                       v = (if 0 \<le> k then m * 10 ^ nat k else m / 10 ^ nat (- k))
                   in Some (if neg then - v else v)))"

definition memory_units :: "(string \<times> nat) list" where
  "memory_units = [('''', 1), (''b'', 1), (''k'', 1024), (''kb'', 1024), (''m'', 1024 ^ 2), (''mb'', 1024 ^ 2),
     (''g'', 1024 ^ 3), (''gb'', 1024 ^ 3), (''t'', 1024 ^ 4), (''tb'', 1024 ^ 4), (''p'', 1024 ^ 5), (''pb'', 1024 ^ 5)]"

definition float_to_int64 :: "rat \<Rightarrow> int" where
  "float_to_int64 x =
     (let i = (if 0 \<le> x then \<lfloor>x\<rfloor> else \<lceil>x\<rceil>)
      in if int64_min \<le> i \<and> i \<le> int64_max then i else int64_min)"

definition parseRedisMemory :: "string \<Rightarrow> int option" where
  "parseRedisMemory v0 =
     (let v = TrimSpace (ToLower v0)
      in if v = '''' then Some 0
         else case ParseInt64 v of
           Some n \<Rightarrow> Some n
         | None \<Rightarrow>
             (let suffix0 = rev (takeWhile (\<lambda>c. \<not> is_digit c) (rev v));
                  num0 = take (length v - length suffix0) v
              in if num0 = '''' then None
                 else case ParseFloat (TrimSpace num0) of
                   None \<Rightarrow> None
                 | Some base \<Rightarrow> (case map_of memory_units (TrimSpace suffix0) of
                     None \<Rightarrow> None
                   | Some unit_size \<Rightarrow> Some (float_to_int64 (base * of_nat unit_size + 1 / 2)))))"

definition normalizeRedisValue :: "string \<Rightarrow> string \<Rightarrow> string" where
  "normalizeRedisValue key value =
     (let trimmed = TrimSpace value
      in if key = ''maxmemory'' \<or> key = ''repl-backlog-size'' \<or> key = ''stream-node-max-bytes''
         then (case parseRedisMemory trimmed of Some n \<Rightarrow> int_to_dec n | None \<Rightarrow> trimmed)
         else if key = ''save'' \<and> (trimmed = [CHR 0x22, CHR 0x22] \<or> trimmed = [CHR 0x27, CHR 0x27]) then ''''
         else trimmed)"

definition redisRuntimeAllow :: "string list" where
  "redisRuntimeAllow = [''maxmemory'', ''maxmemory-policy'', ''maxmemory-samples'', ''lfu-log-factor'', ''lfu-decay-time'',
     ''repl-timeout'', ''repl-backlog-size'', ''repl-backlog-ttl'', ''tcp-keepalive'', ''hz'', ''stream-node-max-bytes'',
     ''stream-node-max-entries'']"

definition sentinelRuntimeAllow :: "string list" where
  "sentinelRuntimeAllow = [''down-after-milliseconds'', ''failover-timeout'', ''parallel-syncs'']"

definition isReadOnlyConfigRewrite :: "string \<Rightarrow> bool" where
  "isReadOnlyConfigRewrite err =
     (let msg = ToLower err
      in Contains msg ''read-only file system'' \<or> Contains msg ''rewriting config file'' \<and> Contains msg ''err'')"

section \<open>Results\<close>

datatype runtime_mode = ModeSkipped | ModeNoChange | ModeApplied | ModeNeedsRestart | ModeFailed

datatype runtime_error =
    RtTLS tls_config_error
  | RtClient string string
  | RtConfigGet string string
  | RtConfigSet string string
  | RtConfigRewrite string string
  | RtPatch string string
  | RtSentinelClient string
  | RtSentinelSet string string

record runtime_result =
  rt_component :: string
  rt_mode :: runtime_mode
  rt_changed :: "string list"
  rt_message :: string
  rt_err :: "runtime_error option"
  rt_requeue :: duration

definition rt_plain :: "string \<Rightarrow> runtime_mode \<Rightarrow> string \<Rightarrow> runtime_result" where
  "rt_plain component m msg = \<lparr>rt_component = component, rt_mode = m, rt_changed = [], rt_message = msg,
     rt_err = None, rt_requeue = 0\<rparr>"

definition withError :: "string \<Rightarrow> runtime_error \<Rightarrow> string \<Rightarrow> runtime_result" where
  "withError component err msg = (rt_plain component ModeFailed msg)\<lparr>rt_err := Some err\<rparr>"

definition collectChangedKeys :: "string list \<Rightarrow> string list" where
  "collectChangedKeys changed = sort_strings (remdups changed)"

section \<open>Redis\<close>

record redis_config_env =
  rc_client :: "string \<Rightarrow> string option"
  rc_client_again :: "string \<Rightarrow> string option"
  rc_get :: "string \<Rightarrow> string \<Rightarrow> string + string option"
  rc_set :: "string \<Rightarrow> string \<Rightarrow> string option"
  rc_rewrite :: "string \<Rightarrow> string option"
  rc_patch :: "string \<Rightarrow> string option"
  rc_ca_ok :: "string \<Rightarrow> bool"

datatype config_command = ConfigSet string string string | ConfigRewrite string

datatype scan_result = ScanError string string | ScanRestart string | ScanPending "(string \<times> string) list"

definition in_sync :: "string \<Rightarrow> string \<Rightarrow> string \<Rightarrow> bool" where
  "in_sync key desired current = (normalizeRedisValue key (TrimSpace current) = normalizeRedisValue key (TrimSpace desired))"

fun scan_keys :: "redis_config_env \<Rightarrow> string \<Rightarrow> strmap \<Rightarrow> string list \<Rightarrow> (string \<times> string) list \<Rightarrow> scan_result" where
  "scan_keys env pod desired [] pending = ScanPending pending"
| "scan_keys env pod desired (key # keys) pending = (case rc_get env pod key of
      Inl e \<Rightarrow> ScanError key e
    | Inr cur \<Rightarrow>
        (let current = (case cur of Some c \<Rightarrow> c | None \<Rightarrow> '''')
         in if in_sync key (gm_str desired key) current then scan_keys env pod desired keys pending
            else if key \<notin> set redisRuntimeAllow then ScanRestart key
            else scan_keys env pod desired keys (pending @ [(key, TrimSpace (gm_str desired key))])))"

fun scan_pods ::
  "redis_config_env \<Rightarrow> strmap \<Rightarrow> string list \<Rightarrow> pod list \<Rightarrow> (string \<times> (string \<times> string) list) list
    \<Rightarrow> runtime_result + (string \<times> (string \<times> string) list) list" where
  "scan_pods env desired keys [] acc = Inr acc"
| "scan_pods env desired keys (p # ps) acc = (case rc_client env (pod_name p) of
      Some e \<Rightarrow> Inl (withError ''redis'' (RtClient (pod_name p) e) (''redis client for '' @ pod_name p))
    | None \<Rightarrow> (case scan_keys env (pod_name p) desired keys [] of
        ScanError key e \<Rightarrow> Inl (withError ''redis'' (RtConfigGet key e) (''CONFIG GET '' @ key))
      | ScanRestart key \<Rightarrow> Inl (rt_plain ''redis'' ModeNeedsRestart (''redis parameter '' @ key @ '' requires restart''))
      | ScanPending pending \<Rightarrow>
          scan_pods env desired keys ps (if pending = [] then acc else gm_set acc (pod_name p) pending)))"

fun set_keys ::
  "redis_config_env \<Rightarrow> string \<Rightarrow> (string \<times> string) list \<Rightarrow> config_command list \<Rightarrow> config_command list \<times> runtime_result option" where
  "set_keys env pod [] cmds = (cmds, None)"
| "set_keys env pod ((key, val) # kvs) cmds = (case rc_set env pod key of
      Some e \<Rightarrow> (cmds, Some (withError ''redis'' (RtConfigSet key e) (''CONFIG SET '' @ key)))
    | None \<Rightarrow> set_keys env pod kvs (cmds @ [ConfigSet pod key val]))"

definition rewrite_restart :: "string list \<Rightarrow> runtime_result" where
  "rewrite_restart changed =
     (let keysList = collectChangedKeys changed
      in (rt_plain ''redis'' ModeNeedsRestart
            (if keysList \<noteq> [] then ''redis config rewrite requires restart ('' @ Join keysList '','' @ '')''
             else ''redis config rewrite requires restart''))\<lparr>rt_changed := keysList\<rparr>)"

fun apply_pods ::
  "redis_config_env \<Rightarrow> string list \<Rightarrow> (string \<times> (string \<times> string) list) list \<Rightarrow> pod list \<Rightarrow> config_command list
    \<Rightarrow> config_command list \<times> runtime_result option" where
  "apply_pods env changed pending [] cmds = (cmds, None)"
| "apply_pods env changed pending (p # ps) cmds =
     (let changes = (case gm_get pending (pod_name p) of Some c \<Rightarrow> c | None \<Rightarrow> [])
      in if changes = [] then apply_pods env changed pending ps cmds
         else case rc_client_again env (pod_name p) of
           Some e \<Rightarrow> (cmds, Some (withError ''redis'' (RtClient (pod_name p) e) (''redis client for '' @ pod_name p)))
         | None \<Rightarrow> (case set_keys env (pod_name p) changes cmds of
             (cmds', Some r) \<Rightarrow> (cmds', Some r)
           | (cmds', None) \<Rightarrow> (case rc_rewrite env (pod_name p) of
               Some e \<Rightarrow> (cmds', Some (if isReadOnlyConfigRewrite e then rewrite_restart changed
                   else withError ''redis'' (RtConfigRewrite (pod_name p) e) (''CONFIG REWRITE '' @ pod_name p)))
             | None \<Rightarrow> apply_pods env changed pending ps (cmds' @ [ConfigRewrite (pod_name p)]))))"

fun patchConfigHashAnnotations ::
  "redis_config_env \<Rightarrow> string \<Rightarrow> pod list \<Rightarrow> pod list \<times> (string \<times> string) option" where
  "patchConfigHashAnnotations env hash [] = ([], None)"
| "patchConfigHashAnnotations env hash (p # ps) =
     (if hash = '''' then (p # ps, None)
      else if gm_get (pod_annotations p) ConfigHashAnnotationKey = Some hash
      then (let (ps', err) = patchConfigHashAnnotations env hash ps in (p # ps', err))
      else case rc_patch env (pod_name p) of
        Some e \<Rightarrow> (p # ps, Some (pod_name p, e))
      | None \<Rightarrow> (let (ps', err) = patchConfigHashAnnotations env hash ps
                 in (p\<lparr>pod_annotations := gm_set (pod_annotations p) ConfigHashAnnotationKey hash\<rparr> # ps', err)))"

definition redis_applied :: "string list \<Rightarrow> runtime_result" where
  "redis_applied changed =
     (let keysList = collectChangedKeys changed
      in (rt_plain ''redis'' ModeApplied (''redis runtime config applied: '' @ Join keysList '',''))\<lparr>rt_changed := keysList\<rparr>)"

definition patch_failed :: "string \<times> string \<Rightarrow> runtime_result" where
  "patch_failed e = withError ''redis'' (RtPatch (fst e) (snd e)) ''patch redis pod annotations''"

definition ApplyRedisRuntime ::
  "redis_config_env option \<Rightarrow> kv_cluster \<Rightarrow> pod list \<Rightarrow> string \<Rightarrow> security_settings option
    \<Rightarrow> runtime_result \<times> config_command list \<times> pod list" where
  "ApplyRedisRuntime factory cr pods desiredHash scr = (case factory of
      None \<Rightarrow> (rt_plain ''redis'' ModeSkipped ''redis client factory unavailable'', [], pods)
    | Some env \<Rightarrow>
        if pods = [] then (rt_plain ''redis'' ModeNoChange ''no redis pods'', [], pods)
        else if \<not> list_all IsPodReady pods
        then ((rt_plain ''redis'' ModeSkipped ''redis pods not ready'')\<lparr>rt_requeue := 5 * sec\<rparr>, [], pods)
        else (let desired = EffectiveRedisConfig cr scr; keys = sort_strings (map fst desired);
                  tls_err = (case scr of
                      Some s \<Rightarrow> if HasTLS s then (case ClientTLSConfig (rc_ca_ok env) s of Inl e \<Rightarrow> Some e | Inr _ \<Rightarrow> None) else None
                    | None \<Rightarrow> None)
              in case tls_err of
                   Some e \<Rightarrow> (withError ''redis'' (RtTLS e) ''build tls client config'', [], pods)
                 | None \<Rightarrow> (case scan_pods env desired keys pods [] of
                     Inl r \<Rightarrow> (r, [], pods)
                   | Inr pending \<Rightarrow>
                       if pending = []
                       then (case patchConfigHashAnnotations env desiredHash pods of
                               (pods', Some e) \<Rightarrow> (patch_failed e, [], pods')
                             | (pods', None) \<Rightarrow> (rt_plain ''redis'' ModeNoChange ''redis config already in sync'', [], pods'))
                       else (let changed = concat (map (map fst \<circ> snd) pending)
                             in case apply_pods env changed pending pods [] of
                                  (cmds, Some r) \<Rightarrow> (r, cmds, pods)
                                | (cmds, None) \<Rightarrow> (case patchConfigHashAnnotations env desiredHash pods of
                                    (pods', Some e) \<Rightarrow> (patch_failed e, cmds, pods')
                                  | (pods', None) \<Rightarrow> (redis_applied changed, cmds, pods'))))))"

section \<open>Sentinel\<close>

record sentinel_config_env =
  sc_client :: "string option"
  sc_master :: "string + strmap"
  sc_set :: "string \<Rightarrow> string option"
  sc_ca_ok :: "string \<Rightarrow> bool"

fun sentinel_set :: "sentinel_config_env \<Rightarrow> (string \<times> string) list \<Rightarrow> (string \<times> string) list
    \<Rightarrow> (string \<times> string) list \<times> runtime_result option" where
  "sentinel_set env [] done = (done, None)"
| "sentinel_set env ((option, val) # kvs) done = (case sc_set env option of
      Some e \<Rightarrow> (done, Some (withError ''sentinel'' (RtSentinelSet option e) (''SENTINEL SET '' @ option)))
    | None \<Rightarrow> sentinel_set env kvs (done @ [(option, val)]))"

definition sentinel_pending :: "kv_cluster \<Rightarrow> security_settings option \<Rightarrow> strmap \<Rightarrow> (string \<times> string) list" where
  "sentinel_pending cr scr info =
     (let desired = EffectiveSentinelConfig cr scr
      in map (\<lambda>option. (option, gm_str desired (''sentinel '' @ option)))
           (filter (\<lambda>option. TrimSpace (gm_str info option) \<noteq> TrimSpace (gm_str desired (''sentinel '' @ option)))
             sentinelRuntimeAllow))"

definition ApplySentinelRuntime ::
  "sentinel_config_env option \<Rightarrow> kv_cluster \<Rightarrow> pod list \<Rightarrow> security_settings option
    \<Rightarrow> runtime_result \<times> (string \<times> string) list" where
  "ApplySentinelRuntime factory cr sentinelPods scr =
     (if spec_mode (cr_spec cr) \<noteq> ModeSentinel then (rt_plain ''sentinel'' ModeNoChange ''sentinel mode disabled'', [])
      else case factory of
        None \<Rightarrow> (rt_plain ''sentinel'' ModeSkipped ''sentinel factory unavailable'', [])
      | Some env \<Rightarrow>
          if sentinelPods = [] then (rt_plain ''sentinel'' ModeSkipped ''no sentinel pods'', [])
          else if \<not> list_all IsPodReady sentinelPods
          then ((rt_plain ''sentinel'' ModeSkipped ''sentinel pods not ready'')\<lparr>rt_requeue := 5 * sec\<rparr>, [])
          else (let tls_err = (case scr of
                      Some s \<Rightarrow> if HasTLS s then (case ClientTLSConfig (sc_ca_ok env) s of Inl e \<Rightarrow> Some e | Inr _ \<Rightarrow> None) else None
                    | None \<Rightarrow> None)
                in case tls_err of
                     Some e \<Rightarrow> (withError ''sentinel'' (RtTLS e) ''build tls client config'', [])
                   | None \<Rightarrow> (case sc_client env of
                       Some e \<Rightarrow> (withError ''sentinel'' (RtSentinelClient e) ''get sentinel client'', [])
                     | None \<Rightarrow> (case sc_master env of
                         Inl e \<Rightarrow> ((rt_plain ''sentinel'' ModeSkipped (''query sentinel master state: '' @ e))\<lparr>rt_requeue := 5 * sec\<rparr>, [])
                       | Inr info \<Rightarrow>
                           (let pending = sentinel_pending cr scr info
                            in if pending = [] then (rt_plain ''sentinel'' ModeNoChange ''sentinel config already in sync'', [])
                               else case sentinel_set env pending [] of
                                      (done, Some r) \<Rightarrow> (r, done)
                                    | (done, None) \<Rightarrow>
                                        (let keys = sort_strings (map fst pending)
                                         in ((rt_plain ''sentinel'' ModeApplied (''sentinel runtime config applied: '' @ Join keys '',''))
                                               \<lparr>rt_changed := keys\<rparr>, done)))))))"
section \<open>Lemmas\<close>

lemma dropWhile_idem: "dropWhile P (dropWhile P xs) = dropWhile P xs"
  by (induction xs) auto

lemma dropWhile_rev_dropWhile:
  "dropWhile P (rev (dropWhile P (rev (dropWhile P xs)))) = rev (dropWhile P (rev (dropWhile P xs)))"
proof (cases "dropWhile P xs")
  case (Cons y ys)
  then have "\<not> P y" by (metis dropWhile_eq_Cons_conv)
  then have "rev (dropWhile P (rev (y # ys))) = y # rev (dropWhile P (rev ys))"
    by (induction ys rule: rev_induct) auto
  then show ?thesis using Cons \<open>\<not> P y\<close> by simp
qed (simp only: dropWhile.simps rev.simps)

lemma TrimSpace_idem [simp]: "TrimSpace (TrimSpace s) = TrimSpace s"
  unfolding TrimSpace_def
  by (metis (no_types, lifting) dropWhile_rev_dropWhile dropWhile_idem rev_rev_ident)

lemma in_sync_desired [simp]: "in_sync k d (TrimSpace d)"
  by (simp add: in_sync_def)

definition current_value :: "string option \<Rightarrow> string" where
  "current_value cur = (case cur of Some c \<Rightarrow> c | None \<Rightarrow> '''')"

lemma scan_keys_ok:
  assumes "scan_keys env pod desired keys pend = ScanPending pend'"
  shows "set pend \<subseteq> set pend'
     \<and> (\<forall>k \<in> set keys. \<exists>cur. rc_get env pod k = Inr cur
          \<and> (in_sync k (gm_str desired k) (current_value cur)
             \<or> k \<in> set redisRuntimeAllow \<and> (k, TrimSpace (gm_str desired k)) \<in> set pend'))
     \<and> (\<forall>(k, v) \<in> set pend'. (k, v) \<in> set pend
          \<or> k \<in> set redisRuntimeAllow \<and> k \<in> set keys \<and> v = TrimSpace (gm_str desired k))"
  using assms
proof (induction keys arbitrary: pend)
  case (Cons key keys)
  obtain cur where cur: "rc_get env pod key = Inr cur"
    using Cons.prems by (cases "rc_get env pod key") auto
  show ?case
  proof (cases "in_sync key (gm_str desired key) (current_value cur)")
    case True
    then have "scan_keys env pod desired keys pend = ScanPending pend'"
      using Cons.prems cur by (simp add: current_value_def)
    from Cons.IH [OF this] show ?thesis using True cur by fastforce
  next
    case False
    then have allow: "key \<in> set redisRuntimeAllow"
      and rest: "scan_keys env pod desired keys (pend @ [(key, TrimSpace (gm_str desired key))]) = ScanPending pend'"
      using Cons.prems cur by (auto simp: current_value_def split: if_splits)
    from Cons.IH [OF rest] show ?thesis using allow cur by fastforce
  qed
qed auto

definition pod_pending :: "(string \<times> (string \<times> string) list) list \<Rightarrow> string \<Rightarrow> (string \<times> string) list" where
  "pod_pending pending n = (case gm_get pending n of Some c \<Rightarrow> c | None \<Rightarrow> [])"

lemma scan_pods_ok:
  assumes "scan_pods env desired keys ps acc = Inr acc'" "distinct (map pod_name ps)"
    and "\<forall>p \<in> set ps. gm_get acc (pod_name p) = None"
  shows "(\<forall>p \<in> set ps. scan_keys env (pod_name p) desired keys [] = ScanPending (pod_pending acc' (pod_name p)))
     \<and> (\<forall>n. n \<notin> pod_name ` set ps \<longrightarrow> gm_get acc' n = gm_get acc n)"
  using assms
proof (induction ps arbitrary: acc)
  case (Cons p ps)
  obtain pend where pend: "scan_keys env (pod_name p) desired keys [] = ScanPending pend"
    and rest: "scan_pods env desired keys ps (if pend = [] then acc else gm_set acc (pod_name p) pend) = Inr acc'"
    using Cons.prems(1) by (auto split: option.splits scan_result.splits)
  have fresh: "\<forall>q \<in> set ps. gm_get (if pend = [] then acc else gm_set acc (pod_name p) pend) (pod_name q) = None"
    using Cons.prems(2,3) by auto
  have dist: "distinct (map pod_name ps)" "pod_name p \<notin> pod_name ` set ps" using Cons.prems(2) by auto
  note ih = Cons.IH [OF rest dist(1) fresh]
  have "gm_get acc' (pod_name p) = (if pend = [] then None else Some pend)"
    using ih dist(2) Cons.prems(3) by auto
  then have "pod_pending acc' (pod_name p) = pend" by (simp add: pod_pending_def)
  moreover have "gm_get acc' n = gm_get acc n" if "n \<notin> pod_name ` set (p # ps)" for n
    using ih that by auto
  ultimately show ?case using ih pend by auto
qed simp

lemma set_keys_cmds:
  assumes "set_keys env pod kvs cmds = (cmds', err)"
  shows "set cmds \<subseteq> set cmds' \<and> set cmds' \<subseteq> set cmds \<union> (\<lambda>(k, v). ConfigSet pod k v) ` set kvs
     \<and> (err = None \<longrightarrow> set cmds' = set cmds \<union> (\<lambda>(k, v). ConfigSet pod k v) ` set kvs)"
  using assms
proof (induction kvs arbitrary: cmds)
  case (Cons kv kvs)
  obtain k v where kv: "kv = (k, v)" by (cases kv)
  show ?case
  proof (cases "rc_set env pod k")
    case None
    then have "set_keys env pod kvs (cmds @ [ConfigSet pod k v]) = (cmds', err)" using Cons.prems kv by simp
    from Cons.IH [OF this] show ?thesis using kv by auto
  next
    case (Some e)
    then show ?thesis using Cons.prems kv by auto
  qed
qed auto

definition pod_sets :: "(string \<times> (string \<times> string) list) list \<Rightarrow> string \<Rightarrow> config_command set" where
  "pod_sets pending n = (\<lambda>(k, v). ConfigSet n k v) ` set (pod_pending pending n)"

lemma apply_pods_cmds:
  assumes "apply_pods env changed pending ps cmds = (cmds', err)"
  shows "set cmds \<subseteq> set cmds'
     \<and> set cmds' \<subseteq> set cmds \<union> (\<Union>p \<in> set ps. pod_sets pending (pod_name p)) \<union> ConfigRewrite ` pod_name ` set ps
     \<and> (err = None \<longrightarrow> (\<Union>p \<in> set ps. pod_sets pending (pod_name p)) \<subseteq> set cmds')"
  using assms
proof (induction ps arbitrary: cmds)
  case (Cons p ps)
  let ?ch = "pod_pending pending (pod_name p)"
  have eq: "apply_pods env changed pending (p # ps) cmds =
     (if ?ch = [] then apply_pods env changed pending ps cmds
      else case rc_client_again env (pod_name p) of
           Some e \<Rightarrow> (cmds, Some (withError ''redis'' (RtClient (pod_name p) e) (''redis client for '' @ pod_name p)))
         | None \<Rightarrow> (case set_keys env (pod_name p) ?ch cmds of
             (cmds', Some r) \<Rightarrow> (cmds', Some r)
           | (cmds', None) \<Rightarrow> (case rc_rewrite env (pod_name p) of
               Some e \<Rightarrow> (cmds', Some (if isReadOnlyConfigRewrite e then rewrite_restart changed
                   else withError ''redis'' (RtConfigRewrite (pod_name p) e) (''CONFIG REWRITE '' @ pod_name p)))
             | None \<Rightarrow> apply_pods env changed pending ps (cmds' @ [ConfigRewrite (pod_name p)]))))"
    by (simp only: apply_pods.simps(2) Let_def pod_pending_def)
  obtain cmds1 err1 where sets: "set_keys env (pod_name p) ?ch cmds = (cmds1, err1)"
    by (cases "set_keys env (pod_name p) ?ch cmds")
  note one = set_keys_cmds [OF sets]
  consider (skip) "?ch = []" "apply_pods env changed pending ps cmds = (cmds', err)"
    | (stop) "cmds' = cmds" "err \<noteq> None" | (stop1) "cmds' = cmds1" "err \<noteq> None"
    | (go) "err1 = None" "apply_pods env changed pending ps (cmds1 @ [ConfigRewrite (pod_name p)]) = (cmds', err)"
    using Cons.prems unfolding eq sets by (auto split: if_splits option.splits)
  then show ?case
  proof cases
    case skip
    from Cons.IH [OF skip(2)] show ?thesis using skip(1) by (auto simp: pod_sets_def)
  next
    case go
    from Cons.IH [OF go(2)] one go(1) show ?thesis by (auto simp: pod_sets_def)
  qed (use one in \<open>auto simp: pod_sets_def\<close>)
qed auto

lemma patchConfigHashAnnotations_ok:
  assumes "patchConfigHashAnnotations env hash ps = (ps', None)" "hash \<noteq> ''''"
  shows "map pod_name ps' = map pod_name ps
     \<and> (\<forall>p \<in> set ps'. gm_get (pod_annotations p) ConfigHashAnnotationKey = Some hash)"
  using assms
proof (induction ps arbitrary: ps')
  case (Cons p ps)
  obtain ps1 err where rest: "patchConfigHashAnnotations env hash ps = (ps1, err)"
    by (cases "patchConfigHashAnnotations env hash ps")
  then have "err = None" "ps' = ps1 \<or> tl ps' = ps1"
    using Cons.prems by (auto split: if_splits option.splits)
  then show ?case using Cons.IH [of ps1] Cons.prems rest by (auto split: if_splits option.splits)
qed simp

section \<open>Effect on the servers\<close>

text \<open>The value of every parameter of every server, and the effect of the accepted commands.\<close>

fun run_config_command :: "(string \<Rightarrow> string \<Rightarrow> string) \<Rightarrow> config_command \<Rightarrow> string \<Rightarrow> string \<Rightarrow> string" where
  "run_config_command conf (ConfigSet p k v) = conf(p := (conf p)(k := v))"
| "run_config_command conf (ConfigRewrite p) = conf"

definition run_config :: "(string \<Rightarrow> string \<Rightarrow> string) \<Rightarrow> config_command list \<Rightarrow> string \<Rightarrow> string \<Rightarrow> string" where
  "run_config conf cmds = foldl run_config_command conf cmds"

lemma run_config_value:
  assumes "\<forall>v. ConfigSet p k v \<in> set cmds \<longrightarrow> v = d"
  shows "run_config conf cmds p k = (if ConfigSet p k d \<in> set cmds then d else conf p k)"
  using assms
proof (induction cmds rule: rev_induct)
  case (snoc c cmds)
  have prev: "run_config conf cmds p k = (if ConfigSet p k d \<in> set cmds then d else conf p k)"
    by (rule snoc.IH) (use snoc.prems in simp)
  have step: "run_config conf (cmds @ [c]) p k = run_config_command (run_config conf cmds) c p k"
    by (simp add: run_config_def)
  show ?case
  proof (cases "\<exists>v. c = ConfigSet p k v")
    case True
    then have "c = ConfigSet p k d" using snoc.prems by fastforce
    then show ?thesis unfolding step by simp
  next
    case False
    then have "run_config_command (run_config conf cmds) c p k = run_config conf cmds p k" by (cases c) auto
    moreover have "c \<noteq> ConfigSet p k d" using False by blast
    ultimately show ?thesis unfolding step using prev by simp
  qed
qed (simp add: run_config_def)

definition config_truthful :: "redis_config_env \<Rightarrow> (string \<Rightarrow> string \<Rightarrow> string) \<Rightarrow> bool" where
  "config_truthful env conf = (\<forall>p k cur. rc_get env p k = Inr cur \<longrightarrow> conf p k = current_value cur)"

definition good_mode :: "runtime_result \<Rightarrow> bool" where
  "good_mode r = (rt_mode r = ModeNoChange \<or> rt_mode r = ModeApplied)"

lemma not_good_modes [simp]:
  "\<not> good_mode (withError c e m)" "\<not> good_mode (rewrite_restart ch)" "\<not> good_mode (patch_failed pe)"
  "\<not> good_mode (rt_plain c ModeNeedsRestart m)" "\<not> good_mode (rt_plain c ModeSkipped m)"
  "\<not> good_mode ((rt_plain c ModeSkipped m)\<lparr>rt_requeue := d\<rparr>)"
  by (simp_all add: good_mode_def withError_def rt_plain_def rewrite_restart_def patch_failed_def Let_def)

lemma scan_pods_mode: "scan_pods env desired keys ps acc = Inl r \<Longrightarrow> \<not> good_mode r"
  by (induction ps arbitrary: acc) (auto split: option.splits scan_result.splits)

lemma set_keys_mode: "set_keys env pod kvs cmds = (cmds', Some r) \<Longrightarrow> \<not> good_mode r"
  by (induction env pod kvs cmds rule: set_keys.induct) (auto split: option.splits)

lemma apply_pods_mode: "apply_pods env changed pending ps cmds = (cmds', Some r) \<Longrightarrow> \<not> good_mode r"
proof (induction ps arbitrary: cmds)
  case (Cons p ps)
  then show ?case by (auto simp: Let_def set_keys_mode split: option.splits if_splits prod.splits)
qed simp

text \<open>The ways a run that sent commands or reported success can have gone.\<close>

lemma ApplyRedisRuntime_cases:
  assumes run: "ApplyRedisRuntime (Some env) cr pods hash scr = (res, cmds, pods')" and ne: "pods \<noteq> []"
    and "good_mode res \<or> cmds \<noteq> []"
  obtains (in_sync) "scan_pods env (EffectiveRedisConfig cr scr) (sort_strings (map fst (EffectiveRedisConfig cr scr))) pods [] = Inr []"
      "cmds = []" "patchConfigHashAnnotations env hash pods = (pods', None)"
  | (applied) pending changed err where
      "scan_pods env (EffectiveRedisConfig cr scr) (sort_strings (map fst (EffectiveRedisConfig cr scr))) pods [] = Inr pending"
      "apply_pods env changed pending pods [] = (cmds, err)"
      "good_mode res \<Longrightarrow> err = None \<and> patchConfigHashAnnotations env hash pods = (pods', None)"
proof (cases "list_all IsPodReady pods")
  case False
  then show ?thesis using run ne assms(3) by (auto simp: ApplyRedisRuntime_def)
next
  case ready: True
  let ?eff = "EffectiveRedisConfig cr scr"
  let ?keys = "sort_strings (map fst ?eff)"
  define tls where "tls = (case scr of
      Some s \<Rightarrow> if HasTLS s then (case ClientTLSConfig (rc_ca_ok env) s of Inl e \<Rightarrow> Some e | Inr _ \<Rightarrow> None) else None
    | None \<Rightarrow> None)"
  have eq: "ApplyRedisRuntime (Some env) cr pods hash scr = (case tls of
       Some e \<Rightarrow> (withError ''redis'' (RtTLS e) ''build tls client config'', [], pods)
     | None \<Rightarrow> (case scan_pods env ?eff ?keys pods [] of
         Inl r \<Rightarrow> (r, [], pods)
       | Inr pending \<Rightarrow>
           if pending = []
           then (case patchConfigHashAnnotations env hash pods of
                   (pods', Some e) \<Rightarrow> (patch_failed e, [], pods')
                 | (pods', None) \<Rightarrow> (rt_plain ''redis'' ModeNoChange ''redis config already in sync'', [], pods'))
           else (let changed = concat (map (map fst \<circ> snd) pending)
                 in case apply_pods env changed pending pods [] of
                      (cmds, Some r) \<Rightarrow> (r, cmds, pods)
                    | (cmds, None) \<Rightarrow> (case patchConfigHashAnnotations env hash pods of
                        (pods', Some e) \<Rightarrow> (patch_failed e, cmds, pods')
                      | (pods', None) \<Rightarrow> (redis_applied changed, cmds, pods')))))"
    using ne ready by (simp add: ApplyRedisRuntime_def Let_def tls_def)
  have tls_none: "tls = None" using run assms(3) unfolding eq by (cases tls) auto
  obtain pending where scan: "scan_pods env ?eff ?keys pods [] = Inr pending"
    using run assms(3) scan_pods_mode unfolding eq tls_none
    by (cases "scan_pods env ?eff ?keys pods []") auto
  obtain pods1 perr where patch: "patchConfigHashAnnotations env hash pods = (pods1, perr)"
    by (cases "patchConfigHashAnnotations env hash pods")
  show ?thesis
  proof (cases "pending = []")
    case True
    then show ?thesis
      using run assms(3) in_sync scan patch unfolding eq tls_none
      by (cases perr) auto
  next
    case False
    define changed where "changed = concat (map (map fst \<circ> snd) pending)"
    obtain cmds1 err where app: "apply_pods env changed pending pods [] = (cmds1, err)"
      by (cases "apply_pods env changed pending pods []")
    have run': "(case err of Some r \<Rightarrow> (r, cmds1, pods)
        | None \<Rightarrow> (case perr of Some e \<Rightarrow> (patch_failed e, cmds1, pods1) | None \<Rightarrow> (redis_applied changed, cmds1, pods1)))
        = (res, cmds, pods')"
      using run False app unfolding eq tls_none scan patch changed_def
      by (cases err; cases perr) (simp_all add: Let_def)
    show ?thesis
      by (rule applied [OF scan, of changed err])
        (use run' app patch apply_pods_mode in \<open>auto split: option.splits\<close>)
  qed
qed

section \<open>Alignment\<close>

lemma scan_outcome:
  assumes "scan_pods env desired keys ps [] = Inr pending" "distinct (map pod_name ps)" "p \<in> set ps"
  shows "\<forall>k \<in> set keys. \<exists>cur. rc_get env (pod_name p) k = Inr cur
        \<and> (in_sync k (gm_str desired k) (current_value cur)
           \<or> k \<in> set redisRuntimeAllow \<and> (k, TrimSpace (gm_str desired k)) \<in> set (pod_pending pending (pod_name p)))"
    and "(k, v) \<in> set (pod_pending pending (pod_name p)) \<Longrightarrow>
        k \<in> set redisRuntimeAllow \<and> k \<in> set keys \<and> v = TrimSpace (gm_str desired k)"
proof -
  have "scan_keys env (pod_name p) desired keys [] = ScanPending (pod_pending pending (pod_name p))"
    using scan_pods_ok [OF assms(1,2)] assms(3) by (simp add: gm_get_def)
  note ok = scan_keys_ok [OF this]
  show "\<forall>k \<in> set keys. \<exists>cur. rc_get env (pod_name p) k = Inr cur
        \<and> (in_sync k (gm_str desired k) (current_value cur)
           \<or> k \<in> set redisRuntimeAllow \<and> (k, TrimSpace (gm_str desired k)) \<in> set (pod_pending pending (pod_name p)))"
    by (rule ok [THEN conjunct2, THEN conjunct1])
  show "k \<in> set redisRuntimeAllow \<and> k \<in> set keys \<and> v = TrimSpace (gm_str desired k)"
    if "(k, v) \<in> set (pod_pending pending (pod_name p))"
    using bspec [OF ok [THEN conjunct2, THEN conjunct2] that] by simp
qed

lemma pending_command:
  assumes "scan_pods env desired keys ps [] = Inr pending" "distinct (map pod_name ps)"
    and "apply_pods env changed pending ps [] = (cmds, err)" "ConfigSet n k v \<in> set cmds"
  shows "n \<in> pod_name ` set ps \<and> k \<in> set redisRuntimeAllow \<and> k \<in> set keys \<and> v = TrimSpace (gm_str desired k)"
proof -
  obtain p where "p \<in> set ps" "ConfigSet n k v \<in> pod_sets pending (pod_name p)"
    using apply_pods_cmds [OF assms(3)] assms(4) by auto
  then show ?thesis using scan_outcome(2) [OF assms(1,2)] by (auto simp: pod_sets_def)
qed

lemma patchConfigHashAnnotations_names:
  "patchConfigHashAnnotations env hash ps = (ps', None) \<Longrightarrow> map pod_name ps' = map pod_name ps"
proof (cases "hash = ''''")
  case True
  then show "patchConfigHashAnnotations env hash ps = (ps', None) \<Longrightarrow> map pod_name ps' = map pod_name ps"
    by (cases ps) simp_all
qed (use patchConfigHashAnnotations_ok in blast)


text \<open>
  C24: The Redis runtime configuration never sends a \<open>CONFIG SET\<close> for a parameter outside the allow list, for a
  parameter the effective configuration does not have, or with another value than the configured one, and it sends
  none at all unless every parameter outside the allow list is already in sync on every pod.
\<close>

theorem redis_runtime_allow_list:
  assumes "ApplyRedisRuntime (Some env) cr pods hash scr = (res, cmds, pods')" "distinct (map pod_name pods)"
    and "ConfigSet n k v \<in> set cmds"
  shows "n \<in> pod_name ` set pods \<and> k \<in> set redisRuntimeAllow \<and> k \<in> set (map fst (EffectiveRedisConfig cr scr))
       \<and> v = TrimSpace (gm_str (EffectiveRedisConfig cr scr) k)
       \<and> (\<forall>p \<in> set pods. \<forall>j \<in> set (map fst (EffectiveRedisConfig cr scr)) - set redisRuntimeAllow.
            \<exists>cur. rc_get env (pod_name p) j = Inr cur
              \<and> in_sync j (gm_str (EffectiveRedisConfig cr scr) j) (current_value cur))"
proof -
  let ?eff = "EffectiveRedisConfig cr scr"
  let ?keys = "sort_strings (map fst ?eff)"
  have ne: "pods \<noteq> []" using assms(1,3) by (auto simp: ApplyRedisRuntime_def)
  obtain pending changed err where scan: "scan_pods env ?eff ?keys pods [] = Inr pending"
    and app: "apply_pods env changed pending pods [] = (cmds, err)"
    by (rule ApplyRedisRuntime_cases [OF assms(1) ne]) (use assms(3) that in fastforce)+
  have rest: "\<exists>cur. rc_get env (pod_name p) j = Inr cur \<and> in_sync j (gm_str ?eff j) (current_value cur)"
    if "p \<in> set pods" "j \<in> set (map fst ?eff) - set redisRuntimeAllow" for p j
    using scan_outcome(1) [OF scan assms(2) that(1)] that(2) by auto
  show ?thesis using pending_command [OF scan assms(2) app assms(3)] rest by simp
qed

text \<open>
  The memory suffixes \<open>k\<close>, \<open>m\<close> and \<open>g\<close> are read as powers of 1024. Redis reads them as powers of 1000 and answers
  \<open>CONFIG GET\<close> in bytes, so such a value never compares as in sync with the server that accepted it.
\<close>

lemma parse_memory_suffix:
  "parseRedisMemory ''1k'' = Some 1024" "parseRedisMemory ''1kb'' = Some 1024"
proof -
  have f: "ParseFloat ''1'' = Some 1"
  proof -
    have "strip_sign ''1'' = (False, ''1'')" "split_at CHR ''e'' ''1'' = (''1'', None)"
      "split_at CHR ''.'' ''1'' = (''1'', None)" "all_digits ''1''" "dec_to_nat ''1'' = 1" by code_simp+
    then show ?thesis by (simp add: ParseFloat_def)
  qed
  have u: "map_of memory_units ''k'' = Some 1024" "map_of memory_units ''kb'' = Some 1024"
    by (simp_all add: memory_units_def)
  have i: "float_to_int64 (1 * of_nat 1024 + 1 / 2) = 1024"
    by (simp add: float_to_int64_def floor_eq_iff)
  have "TrimSpace (ToLower ''1k'') = ''1k''" "TrimSpace (ToLower ''1kb'') = ''1kb''"
    "ParseInt64 ''1k'' = None" "ParseInt64 ''1kb'' = None" "TrimSpace ''1'' = ''1''"
    "TrimSpace ''k'' = ''k''" "TrimSpace ''kb'' = ''kb''"
    "rev (takeWhile (\<lambda>c. \<not> is_digit c) (rev ''1k'')) = ''k''"
    "rev (takeWhile (\<lambda>c. \<not> is_digit c) (rev ''1kb'')) = ''kb''"
    by code_simp+
  then show "parseRedisMemory ''1k'' = Some 1024" "parseRedisMemory ''1kb'' = Some 1024"
    using f u i by (simp_all add: parseRedisMemory_def Let_def)
qed

lemma memory_suffix_never_in_sync:
  "\<not> in_sync ''maxmemory'' ''1k'' ''1000'' \<and> in_sync ''maxmemory'' ''1kb'' ''1024''"
proof -
  have "parseRedisMemory ''1000'' = Some 1000" "parseRedisMemory ''1024'' = Some 1024"
    "TrimSpace ''1k'' = ''1k''" "TrimSpace ''1kb'' = ''1kb''" "TrimSpace ''1000'' = ''1000''"
    "TrimSpace ''1024'' = ''1024''" by code_simp+
  then show ?thesis
    by (simp add: in_sync_def normalizeRedisValue_def parse_memory_suffix) (simp add: dec_eval)
qed

section \<open>A run\<close>

definition demo_config_cluster :: kv_cluster where
  "demo_config_cluster = (cluster0 ''ns'' ''kv'')\<lparr>cr_spec := spec0\<lparr>spec_redis_config := [(''hz'', ''50'')]\<rparr>\<rparr>"

definition demo_config_pods :: "pod list" where
  "demo_config_pods = [(pod0 ''ns'' ''kv-0'')\<lparr>pod_ready_conditions := [True]\<rparr>]"

definition demo_conf :: "string \<Rightarrow> string \<Rightarrow> string" where
  "demo_conf p k = gm_str [(''port'', ''6379''), (''dir'', ''/data''), (''save'', ''''), (''appendonly'', ''yes''), (''hz'', ''10'')] k"

definition demo_config_env :: redis_config_env where
  "demo_config_env = \<lparr>rc_client = \<lambda>_. None, rc_client_again = \<lambda>_. None, rc_get = \<lambda>p k. Inr (Some (demo_conf p k)),
     rc_set = \<lambda>_ _. None, rc_rewrite = \<lambda>_. None, rc_patch = \<lambda>_. None, rc_ca_ok = \<lambda>_. True\<rparr>"

lemma demo_config_run:
  "ApplyRedisRuntime (Some demo_config_env) demo_config_cluster demo_config_pods ''h1'' None =
     (redis_applied [''hz''], [ConfigSet ''kv-0'' ''hz'' ''50'', ConfigRewrite ''kv-0''],
      map (\<lambda>p. p\<lparr>pod_annotations := [(ConfigHashAnnotationKey, ''h1'')]\<rparr>) demo_config_pods)"
  by code_simp


theorem redis_runtime_allow_list_witness:
  "''hz'' \<in> set redisRuntimeAllow
   \<and> (\<exists>cur. rc_get demo_config_env ''kv-0'' ''appendonly'' = Inr cur \<and> in_sync ''appendonly'' ''yes'' (current_value cur))"
proof -
  have d: "distinct (map pod_name demo_config_pods)" by code_simp
  have e: "''appendonly'' \<in> set (map fst (EffectiveRedisConfig demo_config_cluster None)) - set redisRuntimeAllow"
    "gm_str (EffectiveRedisConfig demo_config_cluster None) ''appendonly'' = ''yes''" by code_simp+
  have p: "pod0 ''ns'' ''kv-0''\<lparr>pod_ready_conditions := [True]\<rparr> \<in> set demo_config_pods"
    by (simp add: demo_config_pods_def)
  have c: "ConfigSet ''kv-0'' ''hz'' ''50'' \<in> set [ConfigSet ''kv-0'' ''hz'' ''50'', ConfigRewrite ''kv-0'']" by simp
  note al = redis_runtime_allow_list [OF demo_config_run d c]
  from al have "''hz'' \<in> set redisRuntimeAllow" by blast
  moreover have "\<exists>cur. rc_get demo_config_env (pod_name (pod0 ''ns'' ''kv-0''\<lparr>pod_ready_conditions := [True]\<rparr>)) ''appendonly'' = Inr cur
      \<and> in_sync ''appendonly'' (gm_str (EffectiveRedisConfig demo_config_cluster None) ''appendonly'') (current_value cur)"
    using al p e(1) by blast
  ultimately show ?thesis using e(2) by (simp add: zero_values)
qed

end
