(* ===== verification/KV_Status.thy ===== *)
theory KV_Status
  imports KV_Health KV_Runtime KV_Core
begin

text \<open>
  \<open>src/controllers/internal/ops/status/status.go\<close>: the status of a cluster computed from one reconciliation.

  A nil entry of a Go map of pointers is an absent key. \<open>time.Now\<close> is the argument \<open>now\<close>, the answer of the
  API server to the status patch is the argument \<open>answer\<close>.
\<close>

section \<open>Inputs\<close>

record condition_state =
  cs_status :: condition_status
  cs_reason :: string
  cs_message :: string

type_synonym runtime_condition = condition_state

record cluster_state =
  cl_master :: string
  cl_pods :: "pod list"
  cl_roles :: "(string, pod_role) gomap"
  cl_sentinel_pods :: "pod list"
  cl_health :: "(string, pod_health) gomap"
  cl_lag :: "(string, int) gomap"
  cl_roles_source :: roles_source
  cl_roles_reason :: string
  cl_runtime_config :: "runtime_condition option"
  cl_conditions :: "(condition_type, condition_state) gomap"
  cl_external_import :: "external_import_status option"

definition roles_source_text :: "roles_source \<Rightarrow> string" where
  "roles_source_text s = (case s of RolesSourceUnset \<Rightarrow> '''' | RolesSourceSentinel \<Rightarrow> ''sentinel''
     | RolesSourceProbe \<Rightarrow> ''probe'' | RolesSourceForced \<Rightarrow> ''forced'')"

definition pod_health_text :: "pod_health \<Rightarrow> string" where
  "pod_health_text h = (case h of PodHealthUnset \<Rightarrow> '''' | PodHealthHealthy \<Rightarrow> ''Healthy'' | PodHealthLagging \<Rightarrow> ''Lagging''
     | PodHealthDesynced \<Rightarrow> ''Desynced'' | PodHealthOffline \<Rightarrow> ''Offline'')"

definition condition_type_text :: "condition_type \<Rightarrow> string" where
  "condition_type_text t = (case t of ConditionAvailable \<Rightarrow> ''Available'' | ConditionSentinelQuorum \<Rightarrow> ''SentinelQuorum''
     | ConditionReplicationHealthy \<Rightarrow> ''ReplicationHealthy'' | ConditionFailoverInProgress \<Rightarrow> ''FailoverInProgress''
     | ConditionDisruptionsPaused \<Rightarrow> ''DisruptionsPaused'' | ConditionUpgradeInProgress \<Rightarrow> ''UpgradeInProgress''
     | ConditionBootstrapInProgress \<Rightarrow> ''BootstrapInProgress'' | ConditionRuntimeConfigApplied \<Rightarrow> ''RuntimeConfigApplied''
     | ConditionReconciled \<Rightarrow> ''Reconciled'' | ConditionStorageCleanup \<Rightarrow> ''StorageCleanup''
     | ConditionExternalImport \<Rightarrow> ''ExternalImport'')"

text \<open>The map a loop \<open>m[f(x)] = x\<close> builds.\<close>

definition index_by :: "('a \<Rightarrow> 'k) \<Rightarrow> 'a list \<Rightarrow> ('k, 'a) gomap" where
  "index_by f xs = foldl (\<lambda>m x. gm_set m (f x) x) [] xs"

section \<open>Roles of the pods\<close>

definition resolved_role :: "cluster_state \<Rightarrow> string \<Rightarrow> pod_role" where
  "resolved_role st n = (case gm_get (cl_roles st) n of
      Some r \<Rightarrow> r
    | None \<Rightarrow> if cl_master st \<noteq> '''' \<and> n = cl_master st then PodRoleMaster else PodRoleReplica)"

definition health_of :: "(string, pod_health) gomap \<Rightarrow> string \<Rightarrow> pod_health" where
  "health_of m n = (case gm_get m n of Some h \<Rightarrow> h | None \<Rightarrow> PodHealthUnset)"

definition entry_health :: "cluster_state \<Rightarrow> pod \<Rightarrow> pod_health" where
  "entry_health st p =
     (let health = health_of (cl_health st) (pod_name p)
      in if health = PodHealthUnset then (if IsPodReady p then PodHealthHealthy else PodHealthOffline) else health)"

definition role_entry ::
  "time \<Rightarrow> (string, pod_role_status) gomap \<Rightarrow> cluster_state \<Rightarrow> pod_role \<Rightarrow> pod \<Rightarrow> pod_role_status" where
  "role_entry now prevByName st r p =
     (let entry = \<lparr>prs_name = pod_name p, prs_role = r, prs_ready = IsPodReady p, prs_health = entry_health st p,
            prs_lag_seconds = gm_get (cl_lag st) (pod_name p), prs_last_transition = None\<rparr>
      in case gm_get prevByName (pod_name p) of
           Some prev \<Rightarrow>
             if prs_role prev = r \<and> prs_ready prev = IsPodReady p
             then (if prs_health prev = prs_health entry \<and> prs_lag_seconds prev = prs_lag_seconds entry
                   then entry\<lparr>prs_last_transition := prs_last_transition prev\<rparr> else entry)
             else entry\<lparr>prs_last_transition := Some now\<rparr>
         | None \<Rightarrow> entry\<lparr>prs_last_transition := Some now\<rparr>)"

definition redis_entries :: "time \<Rightarrow> kv_cluster \<Rightarrow> cluster_state \<Rightarrow> pod_role_status list" where
  "redis_entries now cr st =
     (let prevByName = index_by prs_name (status_roles (cr_status cr))
      in map (\<lambda>p. role_entry now prevByName st (resolved_role st (pod_name p)) p) (cl_pods st))"

definition sentinel_entries :: "time \<Rightarrow> kv_cluster \<Rightarrow> cluster_state \<Rightarrow> pod_role_status list" where
  "sentinel_entries now cr st =
     (let prevByName = index_by prs_name (status_roles (cr_status cr))
      in map (role_entry now prevByName st PodRoleSentinel) (cl_sentinel_pods st))"

text \<open>The number of masters, and the readiness and health of the last one.\<close>

definition master_step :: "nat \<times> bool \<times> pod_health \<Rightarrow> pod_role_status \<Rightarrow> nat \<times> bool \<times> pod_health" where
  "master_step acc e = (case acc of (masters, masterReady, masterHealth) \<Rightarrow>
     if prs_role e = PodRoleMaster then (Suc masters, prs_ready e, prs_health e) else (masters, masterReady, masterHealth))"

definition master_scan :: "pod_role_status list \<Rightarrow> nat \<times> bool \<times> pod_health" where
  "master_scan es = foldl master_step (0, False, PodHealthHealthy) es"

section \<open>Conditions\<close>

definition augmentReplicationMessage :: "string \<Rightarrow> cluster_state \<Rightarrow> string" where
  "augmentReplicationMessage msg st =
     (if cl_roles_source st = RolesSourceUnset then msg
      else let detail = ''rolesSource='' @ roles_source_text (cl_roles_source st)
                 @ (if cl_roles_reason st \<noteq> '''' then '' reason='' @ cl_roles_reason st else '''')
           in if msg = '''' then detail
              else if Contains msg detail then msg
              else msg @ ''; '' @ detail)"

definition cstate :: "condition_status \<Rightarrow> string \<Rightarrow> string \<Rightarrow> condition_state" where
  "cstate s r m = \<lparr>cs_status = s, cs_reason = r, cs_message = m\<rparr>"

definition computeAvailableCondition :: "cluster_state \<Rightarrow> nat \<Rightarrow> bool \<Rightarrow> condition_state" where
  "computeAvailableCondition st masters masterReady =
     (if cl_pods st = [] then cstate StatusUnknown ''NoPods'' (augmentReplicationMessage ''redis pods have not been created yet'' st)
      else if cl_master st = '''' then cstate StatusFalse ''MasterUnknown'' ''master pod undetermined''
      else if masters \<noteq> 1
      then cstate StatusFalse ''MasterElection'' (''observed '' @ int_to_dec (int masters) @ '' master candidates'')
      else if \<not> masterReady
      then cstate StatusFalse ''MasterNotReady'' (''master pod '' @ cl_master st @ '' is not Ready'')
      else cstate StatusTrue ''MasterReady'' (''master pod '' @ cl_master st @ '' is ready''))"

definition expected_sentinels :: "kv_cluster \<Rightarrow> int" where
  "expected_sentinels cr = (case spec_sentinel_count (cr_spec cr) of Some n \<Rightarrow> if n > 0 then n else 3 | None \<Rightarrow> 3)"

definition live_sentinels :: "cluster_state \<Rightarrow> pod list" where
  "live_sentinels st = filter (\<lambda>p. pod_deletion p = None) (cl_sentinel_pods st)"

definition computeSentinelCondition :: "kv_cluster \<Rightarrow> cluster_state \<Rightarrow> condition_state" where
  "computeSentinelCondition cr st =
     (if spec_mode (cr_spec cr) \<noteq> ModeSentinel
      then cstate StatusTrue ''SentinelNotRequired'' ''sentinel quorum not required in Standalone mode''
      else let expected = expected_sentinels cr; observed = int (length (live_sentinels st));
               ready = int (length (filter IsPodReady (live_sentinels st))); quorum = expected div 2 + 1
           in if observed < expected
              then cstate StatusFalse ''InsufficientSentinels''
                     (''observed '' @ int_to_dec observed @ ''/'' @ int_to_dec expected @ '' sentinel pods'')
              else if ready < quorum
              then cstate StatusFalse ''SentinelQuorumNotReady''
                     (''ready sentinel pods '' @ int_to_dec ready @ '', quorum '' @ int_to_dec quorum)
              else cstate StatusTrue ''SentinelQuorumAchieved''
                     (''ready sentinel pods '' @ int_to_dec ready @ ''/'' @ int_to_dec expected))"

definition listed_replicas :: "cluster_state \<Rightarrow> pod list" where
  "listed_replicas st = filter (\<lambda>p. gm_get (cl_roles st) (pod_name p) = Some PodRoleReplica) (cl_pods st)"

definition replica_health :: "cluster_state \<Rightarrow> pod \<Rightarrow> pod_health" where
  "replica_health st p =
     (let health = health_of (cl_health st) (pod_name p) in if health = PodHealthUnset then PodHealthOffline else health)"

definition computeReplicationHealthyCondition ::
  "kv_cluster \<Rightarrow> cluster_state \<Rightarrow> pod_health \<Rightarrow> int \<Rightarrow> condition_state" where
  "computeReplicationHealthyCondition cr st masterHealth requiredMembers =
     (if cl_pods st = [] then cstate StatusUnknown ''NoPods'' ''redis pods have not been created yet''
      else let master_ok = (cl_master st \<noteq> '''' \<and> masterHealth = PodHealthHealthy);
               replicas = listed_replicas st;
               healthyMembers = (if master_ok then 1 else 0)
                 + int (length (filter (\<lambda>p. replica_health st p = PodHealthHealthy) replicas));
               issues = (if cl_master st \<noteq> '''' \<and> \<not> master_ok
                         then [''master '' @ cl_master st @ '' health='' @ pod_health_text masterHealth] else [])
                 @ map (\<lambda>p. ''replica '' @ pod_name p @ '' health='' @ pod_health_text (replica_health st p))
                     (filter (\<lambda>p. replica_health st p \<noteq> PodHealthHealthy) replicas)
                 @ (if replicas = [] \<and> spec_mode (cr_spec cr) \<noteq> ModeStandalone then [''no replica pods available''] else [])
           in if healthyMembers < requiredMembers
              then let message = ''healthy members '' @ int_to_dec healthyMembers @ '' below safety threshold ''
                         @ int_to_dec requiredMembers
                   in cstate StatusFalse ''InsufficientHealthyMembers''
                        (augmentReplicationMessage
                          (if issues \<noteq> [] then message @ ''; '' @ Join issues ''; '' else message) st)
              else if issues \<noteq> []
              then cstate StatusFalse ''ReplicaUnhealthy'' (augmentReplicationMessage (Join issues ''; '') st)
              else cstate StatusTrue ''ReplicationAligned''
                     (augmentReplicationMessage (int_to_dec healthyMembers @ '' healthy members'') st))"

definition computeFailoverCondition :: "nat \<Rightarrow> condition_state" where
  "computeFailoverCondition masters =
     (if masters = 1 then cstate StatusFalse ''Stable'' ''single master observed''
      else if masters = 0 then cstate StatusTrue ''NoMaster'' ''master election in progress''
      else cstate StatusTrue ''MultipleMasters'' (''observed '' @ int_to_dec (int masters) @ '' masters''))"

definition conditionSatisfied :: "condition option \<Rightarrow> bool \<Rightarrow> bool" where
  "conditionSatisfied cond wantTrue = (case cond of
      None \<Rightarrow> False
    | Some c \<Rightarrow> if cond_status c = StatusUnknown then False
               else if wantTrue then cond_status c = StatusTrue else cond_status c = StatusFalse)"

definition required_members :: "kv_cluster \<Rightarrow> int" where
  "required_members cr =
     (let r = hset_min_replicas (SettingsFor cr);
          r' = (if spec_mode (cr_spec cr) = ModeStandalone \<and> r > 1 then 1 else r)
      in if r' < 1 then 1 else r')"

definition storage_state :: "kv_cluster \<Rightarrow> condition_state" where
  "storage_state cr =
     (if \<not> HasPersistentData cr
      then cstate StatusTrue ''EphemeralStorage'' ''Ephemeral storage configured; no PVC cleanup required''
      else if StorageCleanupEnabled cr
      then cstate StatusTrue ''CleanupEnabled'' ''PVCs will be deleted when the cluster is removed''
      else cstate StatusTrue ''RetentionPolicy'' ''PVC cleanup disabled; resources retained after deletion'')"

text \<open>The conditions in the order they are built, before the overrides.\<close>

definition default_states ::
  "kv_cluster \<Rightarrow> cluster_state \<Rightarrow> pod_role_status list \<Rightarrow> (condition_type \<times> condition_state) list" where
  "default_states cr st entries =
     (let (masters, masterReady, masterHealth) = master_scan entries
      in [(ConditionReconciled, cstate StatusTrue ''Success'' ''Reconcile completed''),
          (ConditionAvailable, computeAvailableCondition st masters masterReady),
          (ConditionSentinelQuorum, computeSentinelCondition cr st),
          (ConditionReplicationHealthy, computeReplicationHealthyCondition cr st masterHealth (required_members cr)),
          (ConditionFailoverInProgress, computeFailoverCondition masters),
          (ConditionDisruptionsPaused, cstate StatusFalse ''DisruptionsAllowed'' ''no disruption pause requested''),
          (ConditionUpgradeInProgress, cstate StatusFalse ''Idle'' ''no upgrade in progress''),
          (ConditionBootstrapInProgress, cstate StatusFalse ''Idle'' ''bootstrap complete''),
          (ConditionExternalImport, cstate StatusTrue ''Disabled'' ''external import not configured''),
          (ConditionStorageCleanup, storage_state cr)])"

definition with_override :: "cluster_state \<Rightarrow> condition_type \<times> condition_state \<Rightarrow> condition_type \<times> condition_state" where
  "with_override st ts = (case gm_get (cl_conditions st) (fst ts) of Some cs \<Rightarrow> (fst ts, cs) | None \<Rightarrow> ts)"

definition build_condition ::
  "time \<Rightarrow> int \<Rightarrow> (condition_type, condition) gomap \<Rightarrow> condition_type \<times> condition_state \<Rightarrow> condition" where
  "build_condition now gen prevConds ts =
     (let (typ, cs) = ts;
          cond = \<lparr>cond_type = typ, cond_status = cs_status cs, cond_reason = cs_reason cs, cond_message = cs_message cs,
                  cond_observed_generation = gen, cond_last_transition = now\<rparr>
      in case gm_get prevConds typ of
           Some prev \<Rightarrow>
             if cond_status prev = cond_status cond \<and> cond_reason prev = cond_reason cond
             then cond\<lparr>cond_last_transition := cond_last_transition prev\<rparr> else cond
         | None \<Rightarrow> cond)"

definition runtime_conditions ::
  "time \<Rightarrow> int \<Rightarrow> (condition_type, condition) gomap \<Rightarrow> cluster_state \<Rightarrow> condition list" where
  "runtime_conditions now gen prevConds st = (case cl_runtime_config st of
      Some rc \<Rightarrow> [build_condition now gen prevConds (ConditionRuntimeConfigApplied, rc)]
    | None \<Rightarrow> (case gm_get prevConds ConditionRuntimeConfigApplied of Some prev \<Rightarrow> [prev] | None \<Rightarrow> []))"

definition health_gate :: "condition list \<Rightarrow> bool" where
  "health_gate conds =
     (let built = gm_get (index_by cond_type conds)
      in conditionSatisfied (built ConditionAvailable) True
       \<and> conditionSatisfied (built ConditionSentinelQuorum) True
       \<and> conditionSatisfied (built ConditionReplicationHealthy) True
       \<and> conditionSatisfied (built ConditionFailoverInProgress) False
       \<and> conditionSatisfied (built ConditionDisruptionsPaused) False
       \<and> conditionSatisfied (built ConditionUpgradeInProgress) False
       \<and> conditionSatisfied (built ConditionBootstrapInProgress) False
       \<and> conditionSatisfied (built ConditionExternalImport) True)"

definition ComputeStatus :: "time \<Rightarrow> kv_cluster \<Rightarrow> cluster_state \<Rightarrow> kv_status" where
  "ComputeStatus now cr st =
     (let entries = redis_entries now cr st;
          prevConds = index_by cond_type (status_conditions (cr_status cr));
          conds = map (build_condition now (cr_generation cr) prevConds \<circ> with_override st) (default_states cr st entries)
      in \<lparr>status_master_pod = cl_master st,
          status_replicas = spec_redis_replicas (cr_spec cr),
          status_roles_source = cl_roles_source st,
          status_ready_replicas = int (length (filter prs_ready entries)),
          status_roles = entries @ sentinel_entries now cr st,
          status_conditions = conds @ runtime_conditions now (cr_generation cr) prevConds st,
          status_health_gate = Some (health_gate conds),
          status_external_import = cl_external_import st\<rparr>)"

section \<open>Persisting the status\<close>

text \<open>
  The cluster in memory afterwards, the error and whether a patch was sent. The cluster in memory already carries
  the new status when the patch fails.
\<close>

definition UpdateStatus ::
  "time \<Rightarrow> string option \<Rightarrow> kv_cluster \<Rightarrow> cluster_state \<Rightarrow> kv_cluster \<times> string option \<times> bool" where
  "UpdateStatus now answer cr st =
     (let want = ComputeStatus now cr st
      in if cr_status cr = want then (cr, None, False)
         else (cr\<lparr>cr_status := want\<rparr>, answer, True))"

section \<open>Summary of the changes\<close>

definition describeConditionChange :: "condition \<Rightarrow> condition \<Rightarrow> string" where
  "describeConditionChange prev nxt =
     Join ((if cond_status prev \<noteq> cond_status nxt then [''status''] else [])
         @ (if cond_reason prev \<noteq> cond_reason nxt then [''reason''] else [])
         @ (if cond_message prev \<noteq> cond_message nxt then [''message''] else [])
         @ (if cond_last_transition prev \<noteq> cond_last_transition nxt then [''lastTransitionTime''] else [])
         @ (if cond_observed_generation prev \<noteq> cond_observed_generation nxt then [''observedGeneration''] else [])) ''|''"

definition diffConditions :: "condition list \<Rightarrow> condition list \<Rightarrow> string list" where
  "diffConditions prev nxt =
     (let prevMap = index_by cond_type prev;
          changed = concat (map (\<lambda>c. let t = condition_type_text (cond_type c) in
              case gm_get prevMap (cond_type c) of
                Some pc \<Rightarrow> (let d = describeConditionChange pc c in if d \<noteq> '''' then [''condition:'' @ t @ ''['' @ d @ '']''] else [])
              | None \<Rightarrow> [''condition:'' @ t @ ''[new]'']) nxt);
          removed = map (\<lambda>t. ''condition:'' @ condition_type_text t @ ''[removed]'')
              (filter (\<lambda>t. t \<notin> cond_type ` set nxt) (map fst prevMap))
      in sort_strings (changed @ removed))"

definition rolesEqual :: "pod_role_status \<Rightarrow> pod_role_status \<Rightarrow> bool" where
  "rolesEqual a b =
     (if prs_role a \<noteq> prs_role b \<or> prs_ready a \<noteq> prs_ready b \<or> prs_health a \<noteq> prs_health b then False
      else prs_lag_seconds a = prs_lag_seconds b)"

definition diffRoles :: "pod_role_status list \<Rightarrow> pod_role_status list \<Rightarrow> string list" where
  "diffRoles prev nxt =
     (let prevMap = index_by prs_name prev;
          changed = concat (map (\<lambda>r. case gm_get prevMap (prs_name r) of
                Some pr \<Rightarrow> if rolesEqual pr r then [] else [prs_name r]
              | None \<Rightarrow> [prs_name r @ ''[new]'']) nxt);
          removed = map (\<lambda>n. n @ ''[removed]'') (filter (\<lambda>n. n \<notin> prs_name ` set nxt) (map fst prevMap))
      in sort_strings (changed @ removed))"

definition bool_text :: "bool \<Rightarrow> string" where
  "bool_text b = (if b then ''true'' else ''false'')"

definition summarizeStatusChanges :: "kv_status \<Rightarrow> kv_status \<Rightarrow> string list" where
  "summarizeStatusChanges prev nxt =
     (let changes =
        (if status_master_pod prev \<noteq> status_master_pod nxt
         then [''master:'' @ status_master_pod prev @ ''->'' @ status_master_pod nxt] else [])
        @ (if status_roles_source prev \<noteq> status_roles_source nxt
           then [''rolesSource:'' @ roles_source_text (status_roles_source prev) @ ''->''
                  @ roles_source_text (status_roles_source nxt)] else [])
        @ (if status_ready_replicas prev \<noteq> status_ready_replicas nxt
           then [''readyReplicas:'' @ int_to_dec (status_ready_replicas prev) @ ''->''
                  @ int_to_dec (status_ready_replicas nxt)] else [])
        @ diffConditions (status_conditions prev) (status_conditions nxt)
        @ (let roleChanges = diffRoles (status_roles prev) (status_roles nxt)
           in if roleChanges \<noteq> [] then [''roles['' @ Join roleChanges '','' @ '']''] else [])
        @ (case (status_health_gate prev, status_health_gate nxt) of
             (None, Some _) \<Rightarrow> [''healthGate:new'']
           | (Some a, Some b) \<Rightarrow>
               if a \<noteq> b then [''healthGate.allowDisruptions:'' @ bool_text a @ ''->'' @ bool_text b] else []
           | _ \<Rightarrow> [])
      in if changes = [] then [''conditions''] else changes)"

section \<open>Lemmas\<close>

lemma index_by_Nil [simp]: "gm_get (index_by f []) k = None"
  by (simp add: index_by_def)

lemma index_by_snoc [simp]: "gm_get (index_by f (xs @ [x])) k = (if f x = k then Some x else gm_get (index_by f xs) k)"
  by (simp add: index_by_def)

lemma index_by_None: "gm_get (index_by f xs) k = None \<longleftrightarrow> k \<notin> f ` set xs"
  by (induction xs rule: rev_induct) auto

lemma index_by_Some: "gm_get (index_by f xs) k = Some x \<Longrightarrow> x \<in> set xs \<and> f x = k"
  by (induction xs rule: rev_induct) (auto split: if_splits)

lemma index_by_get: "distinct (map f xs) \<Longrightarrow> x \<in> set xs \<Longrightarrow> gm_get (index_by f xs) (f x) = Some x"
  by (induction xs rule: rev_induct) (auto simp: image_iff)

lemma role_entry_fields [simp]:
  "prs_name (role_entry now prev st r p) = pod_name p" "prs_role (role_entry now prev st r p) = r"
  "prs_ready (role_entry now prev st r p) = IsPodReady p" "prs_health (role_entry now prev st r p) = entry_health st p"
  "prs_lag_seconds (role_entry now prev st r p) = gm_get (cl_lag st) (pod_name p)"
  by (simp_all add: role_entry_def Let_def split: option.splits)

lemma role_entry_again:
  "gm_get prev' (pod_name p) = Some (role_entry now prev st r p) \<Longrightarrow> role_entry later prev' st r p = role_entry now prev st r p"
  by (simp add: role_entry_def [of later] Let_def)

lemma build_condition_fields [simp]:
  "cond_type (build_condition now gen prev ts) = fst ts" "cond_status (build_condition now gen prev ts) = cs_status (snd ts)"
  "cond_reason (build_condition now gen prev ts) = cs_reason (snd ts)"
  "cond_message (build_condition now gen prev ts) = cs_message (snd ts)"
  "cond_observed_generation (build_condition now gen prev ts) = gen"
  by (simp_all add: build_condition_def Let_def split: option.splits prod.splits)

lemma build_condition_again:
  "gm_get prev' (fst ts) = Some (build_condition now gen prev ts)
    \<Longrightarrow> build_condition later gen prev' ts = build_condition now gen prev ts"
  by (cases ts) (auto simp: build_condition_def Let_def split: option.splits)

lemma with_override_type [simp]: "fst (with_override st ts) = fst ts"
  by (simp add: with_override_def split: option.splits)

lemma default_states_types:
  "map fst (default_states cr st es) =
     [ConditionReconciled, ConditionAvailable, ConditionSentinelQuorum, ConditionReplicationHealthy,
      ConditionFailoverInProgress, ConditionDisruptionsPaused, ConditionUpgradeInProgress, ConditionBootstrapInProgress,
      ConditionExternalImport, ConditionStorageCleanup]"
  by (simp add: default_states_def split: prod.splits)

lemma cr_spec_status: "cr_spec (cr\<lparr>cr_status := s\<rparr>) = cr_spec cr"
  by simp

lemma spec_only [simp]:
  "SettingsFor (cr\<lparr>cr_status := s\<rparr>) = SettingsFor cr" "HasPersistentData (cr\<lparr>cr_status := s\<rparr>) = HasPersistentData cr"
  "StorageCleanupEnabled (cr\<lparr>cr_status := s\<rparr>) = StorageCleanupEnabled cr"
  "expected_sentinels (cr\<lparr>cr_status := s\<rparr>) = expected_sentinels cr"
  by (simp_all only: SettingsFor_def HasPersistentData_def StorageCleanupEnabled_def expected_sentinels_def cr_spec_status)

lemma default_states_status: "default_states (cr\<lparr>cr_status := s\<rparr>) st es = default_states cr st es"
  by (simp only: default_states_def computeSentinelCondition_def computeReplicationHealthyCondition_def required_members_def
      storage_state_def spec_only cr_spec_status)

lemma master_scan_snoc: "master_scan (es @ [e]) = master_step (master_scan es) e"
  by (simp add: master_scan_def)

lemma master_scan_count: "fst (master_scan es) = length (filter (\<lambda>e. prs_role e = PodRoleMaster) es)"
  by (induction es rule: rev_induct) (auto simp: master_scan_snoc master_step_def master_scan_def [of "[]"] split: prod.splits)

lemma master_scan_last:
  "filter (\<lambda>e. prs_role e = PodRoleMaster) es = ms @ [m] \<Longrightarrow> snd (master_scan es) = (prs_ready m, prs_health m)"
  by (induction es arbitrary: ms rule: rev_induct) (auto simp: master_scan_snoc master_step_def split: prod.splits if_splits)

section \<open>The status settles\<close>

lemma entries_again:
  assumes "distinct (map pod_name (cl_pods st @ cl_sentinel_pods st))"
    and roles: "status_roles (cr_status cr') = redis_entries now cr st @ sentinel_entries now cr st"
  shows "redis_entries later cr' st = redis_entries now cr st \<and> sentinel_entries later cr' st = sentinel_entries now cr st"
proof -
  define es where "es = redis_entries now cr st @ sentinel_entries now cr st"
  define prev where "prev = index_by prs_name (status_roles (cr_status cr))"
  have names: "map prs_name es = map pod_name (cl_pods st @ cl_sentinel_pods st)"
    by (simp add: es_def redis_entries_def sentinel_entries_def Let_def)
  then have dist: "distinct (map prs_name es)" using assms(1) by simp
  have redis: "gm_get (index_by prs_name es) (pod_name p) = Some (role_entry now prev st (resolved_role st (pod_name p)) p)"
    if "p \<in> set (cl_pods st)" for p
    using index_by_get [OF dist, of "role_entry now prev st (resolved_role st (pod_name p)) p"] that
    by (auto simp: es_def redis_entries_def prev_def Let_def)
  have sentinel: "gm_get (index_by prs_name es) (pod_name p) = Some (role_entry now prev st PodRoleSentinel p)"
    if "p \<in> set (cl_sentinel_pods st)" for p
    using index_by_get [OF dist, of "role_entry now prev st PodRoleSentinel p"] that
    by (auto simp: es_def sentinel_entries_def prev_def Let_def)
  show ?thesis
    unfolding redis_entries_def [of later] sentinel_entries_def [of later] roles es_def [symmetric] Let_def
    unfolding redis_entries_def [of now] sentinel_entries_def [of now] prev_def [symmetric] Let_def
    using redis sentinel by (auto intro: role_entry_again)
qed

lemma conditions_again:
  fixes now later :: time and gen :: int
  assumes "distinct (map fst tss)" "\<forall>ts \<in> set tss. fst ts \<noteq> ConditionRuntimeConfigApplied"
    and prev: "prev = index_by cond_type cs"
    and conds: "conds = map (build_condition now gen prev \<circ> with_override st) tss @ runtime_conditions now gen prev st"
  shows "map (build_condition later gen (index_by cond_type conds) \<circ> with_override st) tss
           = map (build_condition now gen prev \<circ> with_override st) tss"
    and "runtime_conditions later gen (index_by cond_type conds) st = runtime_conditions now gen prev st"
proof -
  have rt_cases: "runtime_conditions now gen prev st = []
      \<or> (\<exists>c. runtime_conditions now gen prev st = [c] \<and> cond_type c = ConditionRuntimeConfigApplied)"
  proof (cases "cl_runtime_config st")
    case None
    then show ?thesis
      using index_by_Some [of cond_type cs ConditionRuntimeConfigApplied]
      by (cases "gm_get prev ConditionRuntimeConfigApplied") (simp_all add: runtime_conditions_def prev)
  qed (simp add: runtime_conditions_def)
  have types: "map cond_type conds = map fst tss @ map cond_type (runtime_conditions now gen prev st)"
    by (simp add: conds)
  have dist: "distinct (map cond_type conds)"
    using rt_cases
  proof
    assume "runtime_conditions now gen prev st = []"
    then show ?thesis unfolding types using assms(1) by simp
  next
    assume "\<exists>c. runtime_conditions now gen prev st = [c] \<and> cond_type c = ConditionRuntimeConfigApplied"
    then have rt: "map cond_type (runtime_conditions now gen prev st) = [ConditionRuntimeConfigApplied]" by auto
    have "ConditionRuntimeConfigApplied \<notin> set (map fst tss)" using assms(2) by auto
    then show ?thesis unfolding types rt using assms(1) by simp
  qed
  have get: "gm_get (index_by cond_type conds) (cond_type c) = Some c" if "c \<in> set conds" for c
    by (rule index_by_get [OF dist that])
  show "map (build_condition later gen (index_by cond_type conds) \<circ> with_override st) tss
      = map (build_condition now gen prev \<circ> with_override st) tss"
  proof (rule map_cong [OF refl])
    fix ts assume "ts \<in> set tss"
    then have "build_condition now gen prev (with_override st ts) \<in> set conds" by (auto simp: conds)
    from get [OF this] have "gm_get (index_by cond_type conds) (fst (with_override st ts))
        = Some (build_condition now gen prev (with_override st ts))" by simp
    then show "(build_condition later gen (index_by cond_type conds) \<circ> with_override st) ts
        = (build_condition now gen prev \<circ> with_override st) ts"
      by (simp add: build_condition_again)
  qed
  show "runtime_conditions later gen (index_by cond_type conds) st = runtime_conditions now gen prev st"
  proof (cases "cl_runtime_config st")
    case (Some rc)
    then have rt: "runtime_conditions now gen prev st = [build_condition now gen prev (ConditionRuntimeConfigApplied, rc)]"
      by (simp add: runtime_conditions_def)
    then have "build_condition now gen prev (ConditionRuntimeConfigApplied, rc) \<in> set conds" by (simp add: conds)
    from get [OF this] show ?thesis unfolding rt using Some by (simp add: runtime_conditions_def build_condition_again)
  next
    case None
    show ?thesis
    proof (cases "gm_get prev ConditionRuntimeConfigApplied")
      case None': None
      then have rt: "runtime_conditions now gen prev st = []" using None by (simp add: runtime_conditions_def)
      have "ConditionRuntimeConfigApplied \<notin> set (map cond_type conds)" using assms(2) unfolding types rt by auto
      then have "gm_get (index_by cond_type conds) ConditionRuntimeConfigApplied = None" by (simp add: index_by_None)
      then show ?thesis unfolding rt using None by (simp add: runtime_conditions_def)
    next
      case (Some c)
      then have rt: "runtime_conditions now gen prev st = [c]" using None by (simp add: runtime_conditions_def)
      have "cond_type c = ConditionRuntimeConfigApplied" 
        using index_by_Some [OF Some [unfolded prev]] by simp
      moreover have "c \<in> set conds" by (simp add: conds rt)
      ultimately have "gm_get (index_by cond_type conds) ConditionRuntimeConfigApplied = Some c" using get [of c] by simp
      then show ?thesis unfolding rt using None by (simp add: runtime_conditions_def)
    qed
  qed
qed

lemma ComputeStatus_again:
  assumes "distinct (map pod_name (cl_pods st @ cl_sentinel_pods st))"
  shows "ComputeStatus later (cr\<lparr>cr_status := ComputeStatus now cr st\<rparr>) st = ComputeStatus now cr st"
proof -
  let ?cr = "cr\<lparr>cr_status := ComputeStatus now cr st\<rparr>"
  let ?tss = "default_states cr st (redis_entries now cr st)"
  define prev where "prev = index_by cond_type (status_conditions (cr_status cr))"
  define conds where "conds = map (build_condition now (cr_generation cr) prev \<circ> with_override st) ?tss
      @ runtime_conditions now (cr_generation cr) prev st"
  have roles: "status_roles (cr_status ?cr) = redis_entries now cr st @ sentinel_entries now cr st"
    by (simp add: ComputeStatus_def Let_def)
  have es: "redis_entries later ?cr st = redis_entries now cr st" "sentinel_entries later ?cr st = sentinel_entries now cr st"
    using entries_again [OF assms roles, of later] by blast+
  have types: "distinct (map fst ?tss)" "\<forall>ts \<in> set ?tss. fst ts \<noteq> ConditionRuntimeConfigApplied"
  proof -
    show "distinct (map fst ?tss)" unfolding default_states_types by simp
    have "ConditionRuntimeConfigApplied \<notin> set (map fst ?tss)" unfolding default_states_types by simp
    then show "\<forall>ts \<in> set ?tss. fst ts \<noteq> ConditionRuntimeConfigApplied" by (auto simp: image_iff)
  qed
  have st: "ComputeStatus now cr st = \<lparr>status_master_pod = cl_master st,
          status_replicas = spec_redis_replicas (cr_spec cr), status_roles_source = cl_roles_source st,
          status_ready_replicas = int (length (filter prs_ready (redis_entries now cr st))),
          status_roles = redis_entries now cr st @ sentinel_entries now cr st,
          status_conditions = conds,
          status_health_gate = Some (health_gate (map (build_condition now (cr_generation cr) prev \<circ> with_override st) ?tss)),
          status_external_import = cl_external_import st\<rparr>"
    by (simp add: ComputeStatus_def Let_def conds_def prev_def)
  then have cs: "status_conditions (cr_status ?cr) = conds" by simp
  note again = conditions_again [OF types prev_def conds_def]
  have gen: "cr_generation ?cr = cr_generation cr" "cr_spec ?cr = cr_spec cr" by simp_all
  show ?thesis
    unfolding ComputeStatus_def [of later] Let_def es default_states_status cs gen again
    unfolding st conds_def ..
qed

section \<open>The health gate\<close>

lemma built_status:
  assumes "(t, cs) \<in> set (default_states cr st es)"
  shows "conditionSatisfied (gm_get (index_by cond_type
        (map (build_condition now gen prev \<circ> with_override st) (default_states cr st es))) t) w
      \<longleftrightarrow> cs_status (snd (with_override st (t, cs))) = (if w then StatusTrue else StatusFalse)"
proof -
  let ?conds = "map (build_condition now gen prev \<circ> with_override st) (default_states cr st es)"
  have "map cond_type ?conds = map fst (default_states cr st es)" by simp
  then have "distinct (map cond_type ?conds)" unfolding default_states_types by simp
  moreover have "build_condition now gen prev (with_override st (t, cs)) \<in> set ?conds" using assms by force
  ultimately have "gm_get (index_by cond_type ?conds) t = Some (build_condition now gen prev (with_override st (t, cs)))"
    using index_by_get by fastforce
  then show ?thesis
    by (cases "cs_status (snd (with_override st (t, cs)))") (simp_all add: conditionSatisfied_def)
qed

definition override_status :: "cluster_state \<Rightarrow> condition_type \<Rightarrow> condition_status \<Rightarrow> condition_status" where
  "override_status st t d = (case gm_get (cl_conditions st) t of Some cs \<Rightarrow> cs_status cs | None \<Rightarrow> d)"

lemma with_override_status: "cs_status (snd (with_override st (t, cs))) = override_status st t (cs_status cs)"
  by (simp add: with_override_def override_status_def split: option.splits)

lemma health_gate_iff:
  assumes "master_scan (redis_entries now cr st) = (masters, masterReady, masterHealth)"
  shows "status_health_gate (ComputeStatus now cr st) = Some
    (override_status st ConditionAvailable (cs_status (computeAvailableCondition st masters masterReady)) = StatusTrue
     \<and> override_status st ConditionSentinelQuorum (cs_status (computeSentinelCondition cr st)) = StatusTrue
     \<and> override_status st ConditionReplicationHealthy
          (cs_status (computeReplicationHealthyCondition cr st masterHealth (required_members cr))) = StatusTrue
     \<and> override_status st ConditionFailoverInProgress (cs_status (computeFailoverCondition masters)) = StatusFalse
     \<and> override_status st ConditionDisruptionsPaused StatusFalse = StatusFalse
     \<and> override_status st ConditionUpgradeInProgress StatusFalse = StatusFalse
     \<and> override_status st ConditionBootstrapInProgress StatusFalse = StatusFalse
     \<and> override_status st ConditionExternalImport StatusTrue = StatusTrue)"
proof -
  let ?es = "redis_entries now cr st"
  have mem: "(ConditionAvailable, computeAvailableCondition st masters masterReady) \<in> set (default_states cr st ?es)"
    "(ConditionSentinelQuorum, computeSentinelCondition cr st) \<in> set (default_states cr st ?es)"
    "(ConditionReplicationHealthy, computeReplicationHealthyCondition cr st masterHealth (required_members cr))
       \<in> set (default_states cr st ?es)"
    "(ConditionFailoverInProgress, computeFailoverCondition masters) \<in> set (default_states cr st ?es)"
    "(ConditionDisruptionsPaused, cstate StatusFalse ''DisruptionsAllowed'' ''no disruption pause requested'')
       \<in> set (default_states cr st ?es)"
    "(ConditionUpgradeInProgress, cstate StatusFalse ''Idle'' ''no upgrade in progress'') \<in> set (default_states cr st ?es)"
    "(ConditionBootstrapInProgress, cstate StatusFalse ''Idle'' ''bootstrap complete'') \<in> set (default_states cr st ?es)"
    "(ConditionExternalImport, cstate StatusTrue ''Disabled'' ''external import not configured'') \<in> set (default_states cr st ?es)"
    unfolding default_states_def assms by simp_all
  have plain: "cs_status (cstate s r m) = s" for s r m by (simp add: cstate_def)
  show ?thesis
    unfolding ComputeStatus_def Let_def kv_status.simps health_gate_def
    by (simp only: built_status [OF mem(1)] built_status [OF mem(2)] built_status [OF mem(3)] built_status [OF mem(4)]
        built_status [OF mem(5)] built_status [OF mem(6)] built_status [OF mem(7)] built_status [OF mem(8)]
        with_override_status plain if_True if_False kv_status.simps)
qed

lemma available_true:
  "cs_status (computeAvailableCondition st masters masterReady) = StatusTrue
     \<Longrightarrow> cl_pods st \<noteq> [] \<and> cl_master st \<noteq> '''' \<and> masters = 1 \<and> masterReady"
  by (simp add: computeAvailableCondition_def cstate_def split: if_splits)

lemma sentinel_true:
  assumes "cs_status (computeSentinelCondition cr st) = StatusTrue" "spec_mode (cr_spec cr) = ModeSentinel"
  shows "expected_sentinels cr \<le> int (length (live_sentinels st))
       \<and> expected_sentinels cr < 2 * int (length (filter IsPodReady (live_sentinels st)))"
  using assms by (auto simp: computeSentinelCondition_def cstate_def Let_def split: if_splits)

lemma replication_true:
  assumes "cs_status (computeReplicationHealthyCondition cr st mh req) = StatusTrue" "cl_master st \<noteq> ''''"
  shows "mh = PodHealthHealthy \<and> (\<forall>p \<in> set (listed_replicas st). replica_health st p = PodHealthHealthy)
     \<and> req \<le> 1 + int (length (listed_replicas st))
     \<and> (spec_mode (cr_spec cr) = ModeSentinel \<longrightarrow> listed_replicas st \<noteq> [])"
proof -
  let ?bad = "filter (\<lambda>p. replica_health st p \<noteq> PodHealthHealthy) (listed_replicas st)"
  have h: "mh = PodHealthHealthy" "?bad = []" "\<not> (listed_replicas st = [] \<and> spec_mode (cr_spec cr) \<noteq> ModeStandalone)"
    and le: "req \<le> 1 + int (length (filter (\<lambda>p. replica_health st p = PodHealthHealthy) (listed_replicas st)))"
    using assms by (auto simp: computeReplicationHealthyCondition_def cstate_def Let_def split: if_splits)
  have "int (length (filter (\<lambda>p. replica_health st p = PodHealthHealthy) (listed_replicas st))) \<le> int (length (listed_replicas st))"
    by simp
  with le have "req \<le> 1 + int (length (listed_replicas st))" by linarith
  then show ?thesis using h by (auto simp: filter_empty_conv)
qed



text \<open>
  A change of health or lag at the same role and readiness clears the transition time of a pod instead of setting
  it, and it stays empty until the role or the readiness changes.
\<close>

lemma transition_time_lost:
  assumes "gm_get prev (pod_name p) = Some e" "prs_role e = r" "prs_ready e = IsPodReady p"
    and "prs_health e \<noteq> entry_health st p"
  shows "prs_last_transition (role_entry now prev st r p) = None"
  using assms by (simp add: role_entry_def Let_def)

section \<open>A healthy Sentinel cluster\<close>

definition demo_status_pod :: "string \<Rightarrow> pod" where
  "demo_status_pod n = (pod0 ''ns'' n)\<lparr>pod_ready_conditions := [True]\<rparr>"

definition demo_status_cluster :: kv_cluster where
  "demo_status_cluster = (cluster0 ''ns'' ''kv'')\<lparr>cr_spec := spec0\<lparr>spec_mode := ModeSentinel, spec_redis_replicas := 2\<rparr>\<rparr>"

definition demo_cluster_state :: cluster_state where
  "demo_cluster_state = \<lparr>cl_master = ''kv-0'', cl_pods = map demo_status_pod [''kv-0'', ''kv-1''],
     cl_roles = [(''kv-0'', PodRoleMaster), (''kv-1'', PodRoleReplica)],
     cl_sentinel_pods = map demo_status_pod [''s-0'', ''s-1'', ''s-2''],
     cl_health = [(''kv-0'', PodHealthHealthy), (''kv-1'', PodHealthHealthy)], cl_lag = [],
     cl_roles_source = RolesSourceSentinel, cl_roles_reason = '''', cl_runtime_config = None, cl_conditions = [],
     cl_external_import = None\<rparr>"



end
