(* ===== verification/KV_RuntimePhase.thy ===== *)
theory KV_RuntimePhase
  imports KV_Topology KV_Labels KV_Bootstrap KV_RuntimeConfig KV_Status
begin

text \<open>
  \<open>src/controllers/internal/reconcile/phases/runtime.go\<close>: the phase that decides who the master is, evaluates the
  health of every pod and aligns the runtime configuration, with the part of the reconcile state
  (\<open>src/controllers/internal/reconcile/pipeline.go\<close>) it reads and writes.

  The dependencies are represented by their answers, separately for the two calls of \<open>EnsureTopology\<close> the phase may
  make. Log output and metrics are left out, events are recorded.
\<close>

section \<open>State\<close>

record ensure_answers =
  ea_replies :: "string \<Rightarrow> pod_replies"
  ea_sentinels :: "(string \<Rightarrow> sentinel_replies) option"
  ea_calls :: cache_calls

record runtime_env =
  re_factory :: bool
  re_client :: "(string \<Rightarrow> string \<Rightarrow> pvc option) option"
  re_parse :: "string \<Rightarrow> time option"
  re_ca_ok :: "string \<Rightarrow> bool"
  re_first :: ensure_answers
  re_forced :: ensure_answers
  re_remember :: cache_calls
  re_config :: redis_config_env
  re_sentinel_config :: "sentinel_config_env option"

record phase_input =
  pi_cluster :: kv_cluster
  pi_pods :: "pod list"
  pi_sentinel_pods :: "pod list"
  pi_security :: security_settings
  pi_config_hash :: string
  pi_overrides :: "(condition_type, condition_state) gomap"
  pi_requeue :: requeue_acc
  pi_cache :: "master_cache option"

record runtime_state =
  rs_master :: string
  rs_roles :: "(string, pod_role) gomap"
  rs_infos :: "(string, replication_info) gomap"
  rs_topology :: ensure_result
  rs_candidate :: candidate
  rs_error :: "repl_error option"
  rs_need_reset :: bool
  rs_health :: "(string, pod_health) gomap"
  rs_lag :: "(string, int) gomap"
  rs_results :: "runtime_result list"
  rs_any_not_ready :: bool
  rs_need_retry :: bool
  rs_ready_count :: nat
  rs_active_pods :: nat
  rs_healthy_replicas :: nat

datatype runtime_event =
    EvReplicationAligned string
  | EvReplicationDrift "string list"
  | EvReplicaLagging string "int option"
  | EvReplicaDesynced string
  | EvReplicaRecovered string
  | EvRuntimeConfigFailed string
  | EvBootstrapFailure

record runtime_run =
  ro_state :: runtime_state
  ro_overrides :: "(condition_type, condition_state) gomap"
  ro_requeue :: requeue_acc
  ro_cache :: "master_cache option"
  ro_pods :: "pod list"
  ro_commands :: "redis_command list"
  ro_config :: "config_command list"
  ro_sentinel_sets :: "(string \<times> string) list"
  ro_events :: "runtime_event list"

section \<open>Topology\<close>

definition ready_count :: "pod list \<Rightarrow> nat" where
  "ready_count pods = length (filter IsPodReady pods)"

definition active_count :: "pod list \<Rightarrow> nat" where
  "active_count pods = length (filter (\<lambda>p. pod_deletion p = None) pods)"

definition topology_request :: "runtime_env \<Rightarrow> phase_input \<Rightarrow> ensure_answers \<Rightarrow> string \<Rightarrow> string \<Rightarrow> ensure_request" where
  "topology_request env inp ans force reason =
     \<lparr>rq_cluster = pi_cluster inp, rq_redis_pods = pi_pods inp, rq_sentinel_pods = pi_sentinel_pods inp,
      rq_replies = ea_replies ans, rq_sentinels = ea_sentinels ans, rq_security = Some (pi_security inp),
      rq_ca_ok = re_ca_ok env, rq_force_master = force, rq_force_reason = reason, rq_wait_timeout = 0,
      rq_wait_interval = 0\<rparr>"

record topology_outcome =
  to_result :: ensure_result
  to_error :: "repl_error option"
  to_candidate :: candidate
  to_need_reset :: bool
  to_overrides :: "(condition_type, condition_state) gomap"
  to_cache :: "master_cache option"
  to_commands :: "redis_command list"

definition bootstrap_overrides ::
  "candidate \<Rightarrow> (condition_type, condition_state) gomap \<Rightarrow> (condition_type, condition_state) gomap" where
  "bootstrap_overrides cand ov =
     gm_set (gm_set ov ConditionBootstrapInProgress
        (cstate StatusTrue ''BootstrapSelectingMaster'' (''promoting '' @ cand_name cand @ '' via '' @ cand_source cand)))
       ConditionDisruptionsPaused (cstate StatusTrue ''Bootstrap'' ''bootstrap master selection in progress'')"

definition run_topology :: "nat \<Rightarrow> runtime_env \<Rightarrow> phase_input \<Rightarrow> topology_outcome option" where
  "run_topology fuel env inp =
     (case EnsureTopology fuel (ea_calls (re_first env)) (topology_request env inp (re_first env) '''' '''') (pi_cache inp) of
        None \<Rightarrow> None
      | Some (res, cmds, err, cache) \<Rightarrow>
          (let first = \<lparr>to_result = res, to_error = err, to_candidate = no_candidate, to_need_reset = False,
                        to_overrides = pi_overrides inp, to_cache = cache, to_commands = cmds\<rparr>;
               cand = SelectCandidate (re_client env) (re_parse env) (pi_cluster inp) (pi_pods inp)
           in if err \<noteq> None \<and> ready_count (pi_pods inp) = 0 \<and> re_client env \<noteq> None \<and> cand_name cand \<noteq> ''''
              then (case EnsureTopology fuel (ea_calls (re_forced env))
                          (topology_request env inp (re_forced env) (cand_name cand) (cand_source cand)) cache of
                      None \<Rightarrow> None
                    | Some (res2, cmds2, err2, cache2) \<Rightarrow>
                        Some \<lparr>to_result = res2, to_error = err2, to_candidate = cand, to_need_reset = (err2 = None),
                              to_overrides = (if err2 = None then bootstrap_overrides cand (pi_overrides inp) else pi_overrides inp),
                              to_cache = cache2, to_commands = cmds @ cmds2\<rparr>)
              else Some first))"

text \<open>Handling of the outcome: the roles of the pods, the reset request, events and the cache.\<close>

definition phase_cache :: "runtime_env \<Rightarrow> phase_input \<Rightarrow> ensure_result \<Rightarrow> master_cache option \<Rightarrow> master_cache option" where
  "phase_cache env inp res cache =
     (let key = CacheKeyForCluster (pi_cluster inp)
      in if er_drift res \<noteq> [] then cache_invalidate cache key
         else if er_master res \<noteq> '''' then cache_remember (re_remember env) cache key (er_master res) (er_reason res)
         else cache)"

definition topology_events :: "topology_outcome \<Rightarrow> runtime_event list" where
  "topology_events out = (case to_error out of
      Some _ \<Rightarrow> if gm_get (to_overrides out) ConditionBootstrapInProgress \<noteq> None then [EvBootstrapFailure] else []
    | None \<Rightarrow>
        (if er_changed (to_result out) then [EvReplicationAligned (er_master (to_result out))] else [])
        @ (if er_drift (to_result out) \<noteq> [] then [EvReplicationDrift (er_drift (to_result out))] else []))"

definition needs_sentinel_reset :: "phase_input \<Rightarrow> topology_outcome \<Rightarrow> bool" where
  "needs_sentinel_reset inp out =
     (to_need_reset out
      \<or> to_error out = None
        \<and> (er_changed (to_result out) \<and> spec_mode (cr_spec (pi_cluster inp)) = ModeSentinel
           \<or> er_source (to_result out) = EnsureSourceForced))"

text \<open>Without a topology the first pod is taken as the master.\<close>

definition fallback_master :: "pod list \<Rightarrow> string" where
  "fallback_master pods = (case pods of [] \<Rightarrow> '''' | p # _ \<Rightarrow> pod_name p)"

definition fallback_roles :: "pod list \<Rightarrow> (string, pod_role) gomap" where
  "fallback_roles pods =
     foldl (\<lambda>m p. gm_set m (pod_name p) (if pod_name p = fallback_master pods then PodRoleMaster else PodRoleReplica)) [] pods"

record topology_view =
  tv_master :: string
  tv_roles :: "(string, pod_role) gomap"
  tv_infos :: "(string, replication_info) gomap"
  tv_topology :: ensure_result
  tv_candidate :: candidate
  tv_error :: "repl_error option"
  tv_need_reset :: bool
  tv_overrides :: "(condition_type, condition_state) gomap"
  tv_cache :: "master_cache option"
  tv_commands :: "redis_command list"
  tv_events :: "runtime_event list"

definition fallback_view :: "phase_input \<Rightarrow> topology_view" where
  "fallback_view inp =
     \<lparr>tv_master = fallback_master (pi_pods inp), tv_roles = fallback_roles (pi_pods inp), tv_infos = [],
      tv_topology = er0 '''', tv_candidate = no_candidate, tv_error = None, tv_need_reset = False,
      tv_overrides = pi_overrides inp, tv_cache = pi_cache inp, tv_commands = [], tv_events = []\<rparr>"

definition view_of :: "runtime_env \<Rightarrow> phase_input \<Rightarrow> topology_outcome \<Rightarrow> topology_view" where
  "view_of env inp out =
     (let common = (fallback_view inp)\<lparr>tv_candidate := to_candidate out, tv_error := to_error out,
            tv_need_reset := needs_sentinel_reset inp out, tv_overrides := to_overrides out, tv_cache := to_cache out,
            tv_commands := to_commands out, tv_events := topology_events out\<rparr>
      in if to_error out \<noteq> None then common
         else common\<lparr>tv_master := er_master (to_result out), tv_roles := er_roles (to_result out),
                tv_infos := er_infos (to_result out), tv_topology := to_result out,
                tv_cache := phase_cache env inp (to_result out) (to_cache out)\<rparr>)"

definition topology_view_of :: "nat \<Rightarrow> runtime_env \<Rightarrow> phase_input \<Rightarrow> topology_view option" where
  "topology_view_of fuel env inp =
     (if re_factory env then map_option (view_of env inp) (run_topology fuel env inp) else Some (fallback_view inp))"

section \<open>Health\<close>

record health_scan =
  hc_health :: "(string, pod_health) gomap"
  hc_lag :: "(string, int) gomap"
  hc_need_retry :: bool
  hc_healthy :: nat
  hc_events :: "runtime_event list"

definition scan_role :: "topology_view \<Rightarrow> string \<Rightarrow> pod_role" where
  "scan_role v n = (case gm_get (tv_roles v) n of
      Some r \<Rightarrow> r | None \<Rightarrow> if n = tv_master v then PodRoleMaster else PodRoleReplica)"

definition info_of :: "(string, replication_info) gomap \<Rightarrow> string \<Rightarrow> replication_info" where
  "info_of infos n = (case gm_get infos n of Some i \<Rightarrow> i | None \<Rightarrow> ri0)"

definition health_event :: "pod_health \<Rightarrow> pod_health \<Rightarrow> string \<Rightarrow> int option \<Rightarrow> runtime_event list" where
  "health_event prev health n lag = (case health of
      PodHealthLagging \<Rightarrow> if prev \<noteq> PodHealthLagging then [EvReplicaLagging n lag] else []
    | PodHealthDesynced \<Rightarrow> if prev \<noteq> PodHealthDesynced then [EvReplicaDesynced n] else []
    | PodHealthHealthy \<Rightarrow> if prev = PodHealthLagging \<or> prev = PodHealthDesynced then [EvReplicaRecovered n] else []
    | _ \<Rightarrow> [])"

definition set_lag :: "(string, int) gomap \<Rightarrow> string \<Rightarrow> int option \<Rightarrow> (string, int) gomap" where
  "set_lag m n lag = (case lag of Some v \<Rightarrow> gm_set m n v | None \<Rightarrow> m)"

definition redis_health_step ::
  "int \<Rightarrow> (string, pod_health) gomap \<Rightarrow> topology_view \<Rightarrow> health_scan \<Rightarrow> pod \<Rightarrow> health_scan" where
  "redis_health_step threshold prevHealth v hc p =
     (let n = pod_name p; role = scan_role v n;
          (health, lag) = EvaluatePodHealth role (info_of (tv_infos v) n) (IsPodReady p) threshold;
          lags = set_lag (hc_lag hc) n lag
      in \<lparr>hc_health = gm_set (hc_health hc) n health, hc_lag = lags,
          hc_need_retry = (hc_need_retry hc \<or> role = PodRoleReplica \<and> health \<noteq> PodHealthHealthy),
          hc_healthy = hc_healthy hc + (if role = PodRoleReplica \<and> health = PodHealthHealthy then 1 else 0),
          hc_events = hc_events hc @ health_event (health_of prevHealth n) health n (gm_get lags n)\<rparr>)"

definition sentinel_health_step :: "int \<Rightarrow> health_scan \<Rightarrow> pod \<Rightarrow> health_scan" where
  "sentinel_health_step threshold hc p =
     (let n = pod_name p; (health, lag) = EvaluatePodHealth PodRoleSentinel ri0 (IsPodReady p) threshold
      in hc\<lparr>hc_health := gm_set (hc_health hc) n health, hc_lag := set_lag (hc_lag hc) n lag\<rparr>)"

definition scan_health :: "phase_input \<Rightarrow> topology_view \<Rightarrow> health_scan" where
  "scan_health inp v =
     (let threshold = LagThresholdSeconds (pi_cluster inp);
          prevHealth = foldl (\<lambda>m r. gm_set m (prs_name r) (prs_health r)) [] (status_roles (cr_status (pi_cluster inp)));
          hc0 = \<lparr>hc_health = [], hc_lag = [], hc_need_retry = False, hc_healthy = 0, hc_events = []\<rparr>
      in foldl (sentinel_health_step threshold)
           (foldl (redis_health_step threshold prevHealth v) hc0 (pi_pods inp)) (pi_sentinel_pods inp))"

section \<open>The phase\<close>

definition health_requeue :: "phase_input \<Rightarrow> topology_view \<Rightarrow> health_scan \<Rightarrow> requeue_acc" where
  "health_requeue inp v hc =
     (let pods = pi_pods inp;
          a0 = pi_requeue inp;
          a1 = (if pods \<noteq> [] \<and> ready_count pods < length pods then requeue_step a0 (RequeueAfter (4 * sec)) else a0);
          a2 = (if tv_error v = None \<and> er_pending (tv_topology v) \<noteq> [] then requeue_step a1 (RequeueAfter (4 * sec)) else a1);
          a3 = (if tv_error v \<noteq> None then requeue_step a2 (RequeueAfter (3 * sec)) else a2)
      in if hc_need_retry hc \<and> ra_Result a3 = 0 then requeue_step a3 (RequeueAfter (5 * sec)) else a3)"

definition config_failed :: "runtime_result \<Rightarrow> runtime_event list" where
  "config_failed r = (if rt_mode r = ModeFailed then [EvRuntimeConfigFailed (rt_component r)] else [])"

definition Runtime :: "nat \<Rightarrow> runtime_env \<Rightarrow> phase_input \<Rightarrow> runtime_run option" where
  "Runtime fuel env inp = (case topology_view_of fuel env inp of
      None \<Rightarrow> None
    | Some v \<Rightarrow>
        (let cr = pi_cluster inp; pods = pi_pods inp; sents = pi_sentinel_pods inp; scr = Some (pi_security inp);
             hc = scan_health inp v;
             acc = health_requeue inp v hc;
             (redis, config, pods') = ApplyRedisRuntime (if re_factory env then Some (re_config env) else None) cr pods
                                        (pi_config_hash inp) scr;
             acc' = requeue_step acc (RequeueAfter (rt_requeue redis));
             (sentinel, sets) = (if spec_mode (cr_spec cr) = ModeSentinel
                then (let (r, s) = ApplySentinelRuntime (re_sentinel_config env) cr sents scr in ([r], s)) else ([], []))
         in Some \<lparr>ro_state = \<lparr>rs_master = tv_master v, rs_roles = tv_roles v, rs_infos = tv_infos v,
                     rs_topology = tv_topology v, rs_candidate = tv_candidate v, rs_error = tv_error v,
                     rs_need_reset = tv_need_reset v, rs_health = hc_health hc, rs_lag = hc_lag hc,
                     rs_results = redis # sentinel,
                     rs_any_not_ready = (pods \<noteq> [] \<and> ready_count pods < length pods),
                     rs_need_retry = hc_need_retry hc, rs_ready_count = ready_count pods,
                     rs_active_pods = active_count pods, rs_healthy_replicas = hc_healthy hc\<rparr>,
                  ro_overrides = tv_overrides v, ro_requeue = acc', ro_cache = tv_cache v, ro_pods = pods',
                  ro_commands = tv_commands v, ro_config = config, ro_sentinel_sets = sets,
                  ro_events = tv_events v @ hc_events hc @ concat (map config_failed (redis # sentinel))\<rparr>))"

section \<open>Who becomes the master\<close>

lemma topology_request_simps [simp]:
  "rq_redis_pods (topology_request env inp ans f r) = pi_pods inp" "rq_force_master (topology_request env inp ans f r) = f"
  "rq_replies (topology_request env inp ans f r) = ea_replies ans"
  by (simp_all add: topology_request_def)

lemma SelectCandidate_in:
  assumes "pods \<noteq> []"
  shows "cand_name (SelectCandidate client parse cr pods) \<in> pod_name ` set pods"
proof -
  let ?rs = "loadFreshnessRecords client parse cr pods"
  have mem: "fr_pod (hd (sortRecords (filter P ?rs))) \<in> pod_name ` set pods" if "filter P ?rs \<noteq> []" for P
  proof -
    have "sortRecords (filter P ?rs) \<noteq> []" using that unfolding sortRecords_def by (metis length_sort_by length_0_conv)
    then have "hd (sortRecords (filter P ?rs)) \<in> set (filter P ?rs)" unfolding sortRecords_def by (metis hd_in_set set_sort_by)
    then show ?thesis by (auto simp: loadFreshnessRecords_def)
  qed
  have "hd (SortedPodsByName pods) \<in> set pods" using assms SortedPodsByName_Nil hd_in_set set_SortedPodsByName by metis
  then show ?thesis
    using mem [of fr_force] mem [of "\<lambda>_. True"] assms
    by (auto simp: SelectCandidate_def Let_def candidate_of_def)
qed

text \<open>
  The evidence for the master of a run: either that of the ordinary request, or, with no pod ready and that
  request failed, that of the request forcing the bootstrap candidate, with disruptions paused.
\<close>

definition runtime_choice :: "runtime_env \<Rightarrow> phase_input \<Rightarrow> runtime_run \<Rightarrow> bool" where
  "runtime_choice env inp run =
     (let src = er_source (rs_topology (ro_state run)); m = rs_master (ro_state run);
          cand = SelectCandidate (re_client env) (re_parse env) (pi_cluster inp) (pi_pods inp)
      in topology_choice (ea_calls (re_first env)) (topology_request env inp (re_first env) '''' '''') (pi_cache inp) src m
       \<or> ready_count (pi_pods inp) = 0 \<and> re_client env \<noteq> None \<and> rs_candidate (ro_state run) = cand
         \<and> (\<exists>cache. topology_choice (ea_calls (re_forced env))
                (topology_request env inp (re_forced env) (cand_name cand) (cand_source cand)) cache src m)
         \<and> gm_get (ro_overrides run) ConditionBootstrapInProgress \<noteq> None
         \<and> gm_get (ro_overrides run) ConditionDisruptionsPaused \<noteq> None)"

lemma run_topology_cases:
  assumes "run_topology fuel env inp = Some out" "to_error out = None"
  defines "cand \<equiv> SelectCandidate (re_client env) (re_parse env) (pi_cluster inp) (pi_pods inp)"
  obtains (first) cmds cache where
      "EnsureTopology fuel (ea_calls (re_first env)) (topology_request env inp (re_first env) '''' '''') (pi_cache inp)
        = Some (to_result out, cmds, None, cache)"
  | (forced) cache cmds2 cache2 where
      "ready_count (pi_pods inp) = 0" "re_client env \<noteq> None" "cand_name cand \<noteq> ''''" "to_candidate out = cand"
      "EnsureTopology fuel (ea_calls (re_forced env))
         (topology_request env inp (re_forced env) (cand_name cand) (cand_source cand)) cache
        = Some (to_result out, cmds2, None, cache2)"
      "to_overrides out = bootstrap_overrides cand (pi_overrides inp)"
proof -
  obtain res cmds err cache where one:
    "EnsureTopology fuel (ea_calls (re_first env)) (topology_request env inp (re_first env) '''' '''') (pi_cache inp)
      = Some (res, cmds, err, cache)"
    using assms(1) by (cases "EnsureTopology fuel (ea_calls (re_first env)) (topology_request env inp (re_first env) '''' '''') (pi_cache inp)")
      (auto simp: run_topology_def)
  show ?thesis
  proof (cases "err \<noteq> None \<and> ready_count (pi_pods inp) = 0 \<and> re_client env \<noteq> None \<and> cand_name cand \<noteq> ''''")
    case False
    then have "out = \<lparr>to_result = res, to_error = err, to_candidate = no_candidate, to_need_reset = False,
                to_overrides = pi_overrides inp, to_cache = cache, to_commands = cmds\<rparr>"
      using assms(1) by (auto simp: run_topology_def one Let_def cand_def)
    then show ?thesis using one assms(2) by (intro first) auto
  next
    case True
    obtain res2 cmds2 err2 cache2 where two: "EnsureTopology fuel (ea_calls (re_forced env))
         (topology_request env inp (re_forced env) (cand_name cand) (cand_source cand)) cache = Some (res2, cmds2, err2, cache2)"
      and out: "out = \<lparr>to_result = res2, to_error = err2, to_candidate = cand, to_need_reset = (err2 = None),
         to_overrides = (if err2 = None then bootstrap_overrides cand (pi_overrides inp) else pi_overrides inp),
         to_cache = cache2, to_commands = cmds @ cmds2\<rparr>"
      using assms(1) True
      by (cases "EnsureTopology fuel (ea_calls (re_forced env))
           (topology_request env inp (re_forced env) (cand_name cand) (cand_source cand)) cache")
        (auto simp: run_topology_def one Let_def cand_def)
    show ?thesis
      by (rule forced [of cache cmds2 cache2]) (use True two out assms(2) in auto)
  qed
qed

lemma Runtime_view:
  assumes "Runtime fuel env inp = Some run"
  obtains v where "topology_view_of fuel env inp = Some v"
    "rs_master (ro_state run) = tv_master v" "rs_roles (ro_state run) = tv_roles v" "rs_error (ro_state run) = tv_error v"
    "rs_topology (ro_state run) = tv_topology v" "rs_candidate (ro_state run) = tv_candidate v"
    "ro_overrides run = tv_overrides v" "rs_need_retry (ro_state run) = hc_need_retry (scan_health inp v)"
    "rs_health (ro_state run) = hc_health (scan_health inp v)" "rs_infos (ro_state run) = tv_infos v"
    "ro_requeue run = requeue_step (health_requeue inp v (scan_health inp v))
       (RequeueAfter (rt_requeue (hd (rs_results (ro_state run)))))"
  using assms by (auto simp: Runtime_def Let_def simp del: requeue_step.simps split: option.splits prod.splits)


section \<open>A degraded cluster is looked at again\<close>

definition acc_ok :: "requeue_acc \<Rightarrow> bool" where
  "acc_ok a = (0 \<le> ra_min a \<and> 0 \<le> ra_next a \<and> (ra_next a = 0 \<or> ra_min a \<le> ra_next a))"

lemma acc_ok_step: "acc_ok a \<Longrightarrow> acc_ok (requeue_step a op)"
  by (cases op) (auto simp: acc_ok_def ra_Set_def ra_SetMin_def Let_def)

lemma acc_ok_run: "acc_ok (foldl requeue_step ra_empty ops)"
  by (induction ops rule: rev_induct) (simp_all add: acc_ok_step del: requeue_step.simps, simp add: acc_ok_def ra_empty_def)

text \<open>How one request changes the delay an accumulator would report.\<close>

lemma requeue_after:
  assumes "acc_ok a"
  shows "ra_min (requeue_step a (RequeueAfter d)) = ra_min a"
    and "0 < d \<Longrightarrow> 0 < ra_Result (requeue_step a (RequeueAfter d))"
    and "0 < d \<Longrightarrow> ra_Result (requeue_step a (RequeueAfter d)) \<le> max d (ra_min a)"
    and "0 < ra_Result a \<Longrightarrow> 0 < ra_Result (requeue_step a (RequeueAfter d))"
    and "0 < ra_next a \<Longrightarrow> 0 < ra_next (requeue_step a (RequeueAfter d)) \<and> ra_Result (requeue_step a (RequeueAfter d)) \<le> ra_Result a"
    and "0 < d \<Longrightarrow> 0 < ra_next (requeue_step a (RequeueAfter d))"
  using assms by (auto simp: acc_ok_def ra_Set_def ra_Result_def Let_def)

lemma scan_need_retry:
  "hc_need_retry (scan_health inp v) \<longleftrightarrow>
     (\<exists>p \<in> set (pi_pods inp). scan_role v (pod_name p) = PodRoleReplica
        \<and> fst (EvaluatePodHealth PodRoleReplica (info_of (tv_infos v) (pod_name p)) (IsPodReady p)
                (LagThresholdSeconds (pi_cluster inp))) \<noteq> PodHealthHealthy)"
proof -
  have sent: "hc_need_retry (foldl (sentinel_health_step t) hc ps) = hc_need_retry hc" for t hc ps
    by (induction ps arbitrary: hc) (simp_all add: sentinel_health_step_def Let_def split: prod.splits)
  have redis: "hc_need_retry (foldl (redis_health_step t prev v) hc ps) \<longleftrightarrow> hc_need_retry hc
      \<or> (\<exists>p \<in> set ps. scan_role v (pod_name p) = PodRoleReplica
        \<and> fst (EvaluatePodHealth PodRoleReplica (info_of (tv_infos v) (pod_name p)) (IsPodReady p) t) \<noteq> PodHealthHealthy)"
    for t prev hc ps
    by (induction ps arbitrary: hc) (auto simp: redis_health_step_def Let_def split: prod.splits)
  show ?thesis by (simp add: scan_health_def Let_def sent redis)
qed

lemma scan_health_of:
  assumes "distinct (map pod_name (pi_pods inp @ pi_sentinel_pods inp))" "p \<in> set (pi_pods inp)"
  shows "gm_get (hc_health (scan_health inp v)) (pod_name p) =
     Some (fst (EvaluatePodHealth (scan_role v (pod_name p)) (info_of (tv_infos v) (pod_name p)) (IsPodReady p)
            (LagThresholdSeconds (pi_cluster inp))))"
proof -
  have sent: "n \<notin> pod_name ` set ps \<Longrightarrow> gm_get (hc_health (foldl (sentinel_health_step t) hc ps)) n = gm_get (hc_health hc) n"
    for t hc ps n
    by (induction ps arbitrary: hc) (auto simp: sentinel_health_step_def Let_def split: prod.splits)
  have frame: "n \<notin> pod_name ` set ps \<Longrightarrow> gm_get (hc_health (foldl (redis_health_step t prev v) hc ps)) n = gm_get (hc_health hc) n"
    for t prev hc ps n
    by (induction ps arbitrary: hc) (auto simp: redis_health_step_def Let_def split: prod.splits)
  have redis: "distinct (map pod_name ps) \<Longrightarrow> p \<in> set ps \<Longrightarrow>
      gm_get (hc_health (foldl (redis_health_step t prev v) hc ps)) (pod_name p) =
        Some (fst (EvaluatePodHealth (scan_role v (pod_name p)) (info_of (tv_infos v) (pod_name p)) (IsPodReady p) t))"
    for t prev hc ps
  proof (induction ps arbitrary: hc)
    case (Cons q ps)
    show ?case
    proof (cases "p = q")
      case True
      then have "pod_name p \<notin> pod_name ` set ps" using Cons.prems(1) by simp
      then show ?thesis using True by (simp add: frame) (simp add: redis_health_step_def Let_def split: prod.splits)
    qed (use Cons in simp)
  qed simp
  have "pod_name p \<notin> pod_name ` set (pi_sentinel_pods inp)" using assms by auto
  then show ?thesis using assms by (simp add: scan_health_def Let_def sent redis)
qed

lemma step_if:
  assumes "acc_ok a"
  shows "acc_ok (if b then requeue_step a (RequeueAfter d) else a)" "ra_min (if b then requeue_step a (RequeueAfter d) else a) = ra_min a"
  using acc_ok_step [OF assms, of "RequeueAfter d"] requeue_after(1) [OF assms, of d] assms by (simp_all del: requeue_step.simps)

lemma health_requeue_ok:
  assumes ok: "acc_ok (pi_requeue inp)"
  shows "acc_ok (health_requeue inp v hc)" "ra_min (health_requeue inp v hc) = ra_min (pi_requeue inp)"
    and "(\<exists>p \<in> set (pi_pods inp). \<not> IsPodReady p) \<or> tv_error v \<noteq> None \<Longrightarrow>
      0 < ra_next (health_requeue inp v hc) \<and> ra_Result (health_requeue inp v hc) \<le> max (4 * sec) (ra_min (pi_requeue inp))"
    and "hc_need_retry hc \<Longrightarrow> 0 < ra_Result (health_requeue inp v hc)"
proof -
  let ?low = "pi_pods inp \<noteq> [] \<and> ready_count (pi_pods inp) < length (pi_pods inp)"
  let ?pend = "tv_error v = None \<and> er_pending (tv_topology v) \<noteq> []"
  define a1 where "a1 = (if ?low then requeue_step (pi_requeue inp) (RequeueAfter (4 * sec)) else pi_requeue inp)"
  define a2 where "a2 = (if ?pend then requeue_step a1 (RequeueAfter (4 * sec)) else a1)"
  define a3 where "a3 = (if tv_error v \<noteq> None then requeue_step a2 (RequeueAfter (3 * sec)) else a2)"
  define a4 where "a4 = (if hc_need_retry hc \<and> ra_Result a3 = 0 then requeue_step a3 (RequeueAfter (5 * sec)) else a3)"
  have eq: "health_requeue inp v hc = a4"
    by (simp add: health_requeue_def a1_def a2_def a3_def a4_def Let_def del: requeue_step.simps)
  have ok1: "acc_ok a1" "ra_min a1 = ra_min (pi_requeue inp)"
    unfolding a1_def using ok by (simp_all only: step_if)
  have ok2: "acc_ok a2" "ra_min a2 = ra_min (pi_requeue inp)"
    unfolding a2_def using ok1 by (simp_all only: step_if)
  have ok3: "acc_ok a3" "ra_min a3 = ra_min (pi_requeue inp)"
    unfolding a3_def using ok2 by (simp_all only: step_if)
  show "acc_ok (health_requeue inp v hc)" "ra_min (health_requeue inp v hc) = ra_min (pi_requeue inp)"
    unfolding eq a4_def using ok3 by (simp_all only: step_if)
  have nonneg: "0 \<le> ra_Result a3" using ok3(1) by (auto simp: acc_ok_def ra_Result_def)
  show "0 < ra_Result (health_requeue inp v hc)" if "hc_need_retry hc"
    using that nonneg requeue_after(2) [OF ok3(1), of "5 * sec"] unfolding eq a4_def
    by (cases "ra_Result a3 = 0") (simp_all del: requeue_step.simps)
  assume deg: "(\<exists>p \<in> set (pi_pods inp). \<not> IsPodReady p) \<or> tv_error v \<noteq> None"
  have keep: "0 < ra_next (requeue_step a (RequeueAfter d)) \<and> ra_Result (requeue_step a (RequeueAfter d)) \<le> max (4 * sec) (ra_min (pi_requeue inp))"
    if "acc_ok a" "0 < ra_next a \<and> ra_Result a \<le> max (4 * sec) (ra_min (pi_requeue inp))" for a d
    using requeue_after(5) [OF that(1), of d] that(2) by linarith
  have set: "0 < ra_next (requeue_step a (RequeueAfter d)) \<and> ra_Result (requeue_step a (RequeueAfter d)) \<le> max (4 * sec) (ra_min (pi_requeue inp))"
    if "acc_ok a" "ra_min a = ra_min (pi_requeue inp)" "0 < d" "d \<le> 4 * sec" for a d
  proof
    show "0 < ra_next (requeue_step a (RequeueAfter d))" by (rule requeue_after(6) [OF that(1,3)])
    have "ra_Result (requeue_step a (RequeueAfter d)) \<le> max d (ra_min (pi_requeue inp))"
      using requeue_after(3) [OF that(1,3)] unfolding that(2) .
    also have "\<dots> \<le> max (4 * sec) (ra_min (pi_requeue inp))" using that(4) by (rule max.mono) simp
    finally show "ra_Result (requeue_step a (RequeueAfter d)) \<le> max (4 * sec) (ra_min (pi_requeue inp))" .
  qed
  have "0 < ra_next a3 \<and> ra_Result a3 \<le> max (4 * sec) (ra_min (pi_requeue inp))"
  proof (cases "tv_error v = None")
    case False
    then show ?thesis unfolding a3_def using set [OF ok2, of "3 * sec"] by (simp del: requeue_step.simps)
  next
    case True
    then obtain p where p: "p \<in> set (pi_pods inp)" "\<not> IsPodReady p" using deg by blast
    then have "length (filter IsPodReady (pi_pods inp)) < length (pi_pods inp)" by (rule length_filter_less)
    then have low: ?low using p by (auto simp: ready_count_def)
    then have "0 < ra_next a1 \<and> ra_Result a1 \<le> max (4 * sec) (ra_min (pi_requeue inp))"
      unfolding a1_def using set [OF ok refl, of "4 * sec"] by (simp del: requeue_step.simps)
    then have "0 < ra_next a2 \<and> ra_Result a2 \<le> max (4 * sec) (ra_min (pi_requeue inp))"
      unfolding a2_def using keep [OF ok1(1), of "4 * sec"] by (simp del: requeue_step.simps)
    then show ?thesis unfolding a3_def using True by simp
  qed
  then show "0 < ra_next (health_requeue inp v hc) \<and> ra_Result (health_requeue inp v hc) \<le> max (4 * sec) (ra_min (pi_requeue inp))"
    unfolding eq a4_def using keep [OF ok3(1), of "5 * sec"] by (simp del: requeue_step.simps)
qed

lemma topology_request_opts:
  "ensure_opts (topology_request env inp ans f r) = Inr opts \<Longrightarrow> eo_wait_interval opts = sec \<and> wait_fuel opts = 32"
  by (auto simp: ensure_opts_def topology_request_def wait_fuel_def Let_def split: prod.splits option.splits if_splits sum.splits)

lemma run_topology_returns:
  assumes "32 \<le> fuel" "\<forall>ans \<in> {re_first env, re_forced env}. \<forall>p \<in> set (pi_pods inp). ticks (ea_replies ans (pod_name p)) sec"
  shows "\<exists>out. run_topology fuel env inp = Some out"
proof -
  have "\<exists>y. EnsureTopology fuel cc (topology_request env inp ans f r) oc = Some y" if "ans \<in> {re_first env, re_forced env}"
    for ans f r cc oc
  proof (rule EnsureTopology_returns, intro allI impI)
    fix opts assume "ensure_opts (topology_request env inp ans f r) = Inr opts"
    then have "eo_wait_interval opts = sec" "wait_fuel opts = 32" using topology_request_opts by blast+
    then show "wait_fuel opts \<le> fuel \<and> (\<forall>p \<in> set (rq_redis_pods (topology_request env inp ans f r)).
        ticks (rq_replies (topology_request env inp ans f r) (pod_name p)) (eo_wait_interval opts))"
      using assms that by auto
  qed
  then have ne: "EnsureTopology fuel cc (topology_request env inp ans f r) oc \<noteq> None" if "ans \<in> {re_first env, re_forced env}"
    for ans f r cc oc using that by fastforce
  have "run_topology fuel env inp \<noteq> None"
    using ne [of "re_first env"] ne [of "re_forced env"]
    by (simp add: run_topology_def Let_def split: option.split prod.split del: not_None_eq)
  then show ?thesis by simp
qed

lemma Runtime_Some: "topology_view_of fuel env inp = Some v \<Longrightarrow> \<exists>run. Runtime fuel env inp = Some run"
  by (simp add: Runtime_def Let_def split: prod.split)

text \<open>
  C15: The runtime phase always returns, and a cluster it finds degraded is reconciled again: if a pod is not ready,
  the topology could not be established or a replica is not healthy, a requeue is scheduled; in the first two cases
  after at most four seconds, or the minimum delay an earlier phase asked for.
\<close>

theorem runtime_degraded_requeues:
  assumes "32 \<le> fuel" "\<forall>ans \<in> {re_first env, re_forced env}. \<forall>p \<in> set (pi_pods inp). ticks (ea_replies ans (pod_name p)) sec"
    and "pi_requeue inp = foldl requeue_step ra_empty ops"
    and "distinct (map pod_name (pi_pods inp @ pi_sentinel_pods inp))"
  shows "\<exists>run. Runtime fuel env inp = Some run
     \<and> ((\<exists>p \<in> set (pi_pods inp). \<not> IsPodReady p) \<or> rs_error (ro_state run) \<noteq> None \<longrightarrow>
          0 < ra_Result (ro_requeue run) \<and> ra_Result (ro_requeue run) \<le> max (4 * sec) (ra_min (pi_requeue inp)))
     \<and> ((\<exists>p \<in> set (pi_pods inp). gm_get (rs_roles (ro_state run)) (pod_name p) = Some PodRoleReplica
            \<and> gm_get (rs_health (ro_state run)) (pod_name p) \<noteq> Some PodHealthHealthy) \<longrightarrow> 0 < ra_Result (ro_requeue run))"
proof -
  obtain v0 where "topology_view_of fuel env inp = Some v0"
    using run_topology_returns [OF assms(1,2)] by (cases "re_factory env") (auto simp: topology_view_of_def)
  then obtain run where run: "Runtime fuel env inp = Some run" using Runtime_Some by blast
  obtain v where eqs: "rs_roles (ro_state run) = tv_roles v" "rs_error (ro_state run) = tv_error v"
    "rs_need_retry (ro_state run) = hc_need_retry (scan_health inp v)" "rs_health (ro_state run) = hc_health (scan_health inp v)"
    and acc: "ro_requeue run = requeue_step (health_requeue inp v (scan_health inp v))
       (RequeueAfter (rt_requeue (hd (rs_results (ro_state run)))))"
    by (rule Runtime_view [OF run])
  have ok: "acc_ok (pi_requeue inp)" unfolding assms(3) by (rule acc_ok_run)
  note h = health_requeue_ok [OF ok, where v = v and hc = "scan_health inp v"]
  have degraded: "0 < ra_Result (ro_requeue run) \<and> ra_Result (ro_requeue run) \<le> max (4 * sec) (ra_min (pi_requeue inp))"
    if "(\<exists>p \<in> set (pi_pods inp). \<not> IsPodReady p) \<or> rs_error (ro_state run) \<noteq> None"
  proof -
    have n: "0 < ra_next (health_requeue inp v (scan_health inp v))"
      and le: "ra_Result (health_requeue inp v (scan_health inp v)) \<le> max (4 * sec) (ra_min (pi_requeue inp))"
      using h(3) that unfolding eqs by blast+
    then have "0 < ra_Result (health_requeue inp v (scan_health inp v))" using h(1) by (auto simp: acc_ok_def ra_Result_def)
    then show ?thesis unfolding acc
      using requeue_after(4,5) [OF h(1)] n le by (meson order_trans)
  qed
  have replica: "0 < ra_Result (ro_requeue run)"
    if "p \<in> set (pi_pods inp)" "gm_get (rs_roles (ro_state run)) (pod_name p) = Some PodRoleReplica"
      "gm_get (rs_health (ro_state run)) (pod_name p) \<noteq> Some PodHealthHealthy" for p
  proof -
    have "scan_role v (pod_name p) = PodRoleReplica" using that(2) unfolding eqs by (simp add: scan_role_def)
    then have "hc_need_retry (scan_health inp v)"
      using that(1,3) scan_health_of [OF assms(4) that(1), of v] unfolding eqs scan_need_retry by auto
    then show ?thesis unfolding acc using requeue_after(4) [OF h(1)] h(4) by blast
  qed
  show ?thesis using run degraded replica by blast
qed

section \<open>The fallback master\<close>

text \<open>
  When the topology cannot be established the phase still names a master, the first pod of the list, and the labels
  phase that follows moves the master label, and with it the traffic of the master Service, to that pod, whatever the
  servers' roles are.
\<close>

lemma blind_master_labels:
  assumes "Runtime fuel env inp = Some run" "rs_error (ro_state run) \<noteq> None" "pi_pods inp \<noteq> []"
    and "\<forall>n k. le_patch lenv n k = PatchOk" "le_client lenv" "distinct (map pod_name (pi_pods inp))"
  shows "rs_master (ro_state run) = pod_name (hd (pi_pods inp))
    \<and> (\<exists>lrun. Labels lenv acc (pi_pods inp) (rs_master (ro_state run)) = (lrun, None)
         \<and> (\<forall>i < length (pi_pods inp). pod_role_label (lr_pods lrun ! i) = (if i = 0 then ''master'' else ''replica'')))"
proof -
  obtain v where v: "topology_view_of fuel env inp = Some v" and eqs: "rs_master (ro_state run) = tv_master v"
    "rs_error (ro_state run) = tv_error v"
    by (rule Runtime_view [OF assms(1)])
  have "tv_master v = fallback_master (pi_pods inp)"
    using v assms(2) eqs(2)
    by (auto simp: topology_view_of_def view_of_def fallback_view_def Let_def split: if_splits)
  then have m: "rs_master (ro_state run) = pod_name (hd (pi_pods inp))"
    using assms(3) eqs(1) by (cases "pi_pods inp") (simp_all add: fallback_master_def)
  have label: "wanted_label (pod_name (hd (pi_pods inp))) (pod_name (pi_pods inp ! i)) = (if i = 0 then ''master'' else ''replica'')"
    if "i < length (pi_pods inp)" for i
  proof -
    have "pod_name (pi_pods inp ! i) = pod_name (hd (pi_pods inp)) \<longleftrightarrow> i = 0"
      using nth_eq_iff_index_eq [OF assms(6), of i 0] that assms(3) by (simp add: hd_conv_nth)
    then show ?thesis by (simp add: wanted_label_def role_label_def)
  qed
  show ?thesis
    using Labels_accepted [OF assms(4,5,3) refl, of acc "pod_name (hd (pi_pods inp))"] m label by fastforce
qed

section \<open>A run\<close>

definition demo_phase_env :: runtime_env where
  "demo_phase_env = \<lparr>re_factory = True, re_client = None, re_parse = (\<lambda>_. None), re_ca_ok = (\<lambda>_. True),
     re_first = \<lparr>ea_replies = (\<lambda>_. demo_reply (Inr (demo_info Primary))), ea_sentinels = None, ea_calls = demo_calls\<rparr>,
     re_forced = \<lparr>ea_replies = (\<lambda>_. demo_reply (Inr (demo_info Primary))), ea_sentinels = None, ea_calls = demo_calls\<rparr>,
     re_remember = demo_calls, re_config = demo_config_env, re_sentinel_config = None\<rparr>"

definition demo_phase_input :: phase_input where
  "demo_phase_input = \<lparr>pi_cluster = demo_cluster, pi_pods = [pod0 ''ns'' ''kv-0''], pi_sentinel_pods = [],
     pi_security = no_security, pi_config_hash = '''', pi_overrides = [], pi_requeue = ra_empty,
     pi_cache = Some \<lparr>mc_ttl = sec, mc_max = 8,
       mc_entries = [((''ns'', ''kv''), \<lparr>ce_master = ''kv-0'', ce_detail = ''probe'', ce_expires = sec\<rparr>)]\<rparr>\<rparr>"

lemma demo_phase_topology:
  "\<exists>v. topology_view_of 0 demo_phase_env demo_phase_input = Some v \<and> tv_error v = None \<and> tv_master v = ''kv-0''"
proof -
  let ?rq = "topology_request demo_phase_env demo_phase_input (re_first demo_phase_env) '''' ''''"
  have auth: "ResolveAuth demo_cluster (Some no_security) = ('''', '''')" by code_simp
  have opts: "ensure_opts ?rq = Inr \<lparr>eo_username = '''', eo_password = '''', eo_tls = False,
      eo_threshold = LagThresholdSeconds demo_cluster, eo_wait_timeout = 30 * sec, eo_wait_interval = sec\<rparr>"
    using auth by (simp add: ensure_opts_def topology_request_def demo_phase_input_def HasTLS_def no_security_def)
  have look: "fst (cache_lookup demo_calls (pi_cache demo_phase_input) (CacheKeyForCluster demo_cluster)) = Some (''kv-0'', ''probe'')"
    by (simp add: cache_lookup_def demo_phase_input_def Lookup_def demo_calls_def CacheKeyForCluster_def demo_cluster_def
        cluster0_def gm_get_def)
  then obtain oc where look': "cache_lookup demo_calls (pi_cache demo_phase_input) (CacheKeyForCluster demo_cluster)
      = (Some (''kv-0'', ''probe''), oc)" by (cases "cache_lookup demo_calls (pi_cache demo_phase_input) (CacheKeyForCluster demo_cluster)") auto
  have sorted: "SortedPodsByName [p] = [p]" for p by (simp add: SortedPodsByName_def)
  have fields: "rq_cluster ?rq = demo_cluster" "pi_pods demo_phase_input = [pod0 ''ns'' ''kv-0'']"
    "ea_replies (re_first demo_phase_env) = (\<lambda>_. demo_reply (Inr (demo_info Primary)))"
    by (simp_all add: topology_request_def demo_phase_input_def demo_phase_env_def)
  have "\<exists>res cache. EnsureTopology 0 demo_calls ?rq (pi_cache demo_phase_input) = Some (res, [], None, cache) \<and> er_master res = ''kv-0''"
    by (simp add: EnsureTopology_def opts fields look' hasRedisPod_def ensureWithMaster_def sorted ensure_master_pod_def demo_info_def
        pod0_def er0_def Let_def)
  then obtain res cache where "EnsureTopology 0 demo_calls ?rq (pi_cache demo_phase_input) = Some (res, [], None, cache)"
    "er_master res = ''kv-0''" by blast
  moreover have env: "ea_calls (re_first demo_phase_env) = demo_calls" "re_factory demo_phase_env"
    by (simp_all add: demo_phase_env_def)
  ultimately obtain out where "run_topology 0 demo_phase_env demo_phase_input = Some out" "to_error out = None"
    "er_master (to_result out) = ''kv-0''" by (simp add: run_topology_def)
  then show ?thesis using env by (simp add: topology_view_of_def view_of_def Let_def)
qed


theorem runtime_degraded_requeues_witness:
  "\<exists>run. Runtime 32 demo_phase_env demo_phase_input = Some run \<and> 0 < ra_Result (ro_requeue run)
     \<and> ra_Result (ro_requeue run) \<le> 4 * sec"
proof -
  have "\<forall>ans \<in> {re_first demo_phase_env, re_forced demo_phase_env}. \<forall>p \<in> set (pi_pods demo_phase_input).
      ticks (ea_replies ans (pod_name p)) sec"
    by (simp add: demo_phase_env_def ticks_def demo_reply_def)
  moreover have "pi_requeue demo_phase_input = foldl requeue_step ra_empty []" by (simp add: demo_phase_input_def)
  moreover have "distinct (map pod_name (pi_pods demo_phase_input @ pi_sentinel_pods demo_phase_input))"
    "ra_min (pi_requeue demo_phase_input) = 0" "\<exists>p \<in> set (pi_pods demo_phase_input). \<not> IsPodReady p"
    by (simp_all add: demo_phase_input_def ra_empty_def IsPodReady_def pod0_def)
  ultimately show ?thesis using runtime_degraded_requeues [of 32 demo_phase_env demo_phase_input "[]"] by auto
qed

end
