(* ===== verification/KV_Workload.thy ===== *)
theory KV_Workload
  imports KV_Config
begin

text \<open>
  The StatefulSets the operator applies: \<open>src/controllers/internal/resources/statefulset_redis.go\<close>,
  \<open>statefulset_sentinel.go\<close>, \<open>metrics.go\<close>, \<open>topology.go\<close> and \<open>security_context.go\<close>.

  A nil map and an empty map are the same association list. The text of the stop hook is an argument; quantities are
  counted in billionths.
\<close>

section \<open>Objects\<close>

datatype env_source = EnvValue string | EnvField string | EnvSecret string string

record env_var =
  ev_name :: string
  ev_source :: env_source

record volume_mount =
  vm_name :: string
  vm_path :: string
  vm_read_only :: bool

datatype volume_source = VolEmptyDir | VolConfigMap string | VolSecret string

record volume =
  vol_name :: string
  vol_source :: volume_source

datatype probe_handler = ProbeExec "string list" | ProbeHTTP string int

record probe =
  pb_handler :: probe_handler
  pb_initial_delay :: int
  pb_timeout :: int
  pb_period :: int
  pb_failures :: int

record security_context =
  sx_allow_escalation :: bool
  sx_drop :: "string list"
  sx_non_root :: bool
  sx_read_only :: "bool option"

record pod_security_context =
  px_non_root :: bool
  px_user :: int
  px_group :: int
  px_fs_group :: int
  px_fs_change :: string

record full_container = container +
  fc_env :: "env_var list"
  fc_mounts :: "volume_mount list"
  fc_liveness :: "probe option"
  fc_readiness :: "probe option"
  fc_pre_stop :: "string list option"
  fc_security :: security_context

record spread_constraint =
  sc_max_skew :: int
  sc_key :: string
  sc_when :: string
  sc_selector :: "label_selector option"

record pod_spec =
  ps_init :: "full_container list"
  ps_containers :: "full_container list"
  ps_volumes :: "volume list"
  ps_node_selector :: strmap
  ps_tolerations :: "string list"
  ps_affinity :: "affinity option"
  ps_spread :: "spread_constraint list"
  ps_security :: pod_security_context
  ps_grace :: int

record claim_template =
  ct_name :: string
  ct_labels :: strmap
  ct_access_modes :: "string list"
  ct_request :: quantity
  ct_class :: "string option"

record stateful_set =
  sts_name :: string
  sts_namespace :: string
  sts_labels :: strmap
  sts_replicas :: int
  sts_service :: string
  sts_selector :: strmap
  sts_on_delete :: bool
  sts_tpl_labels :: strmap
  sts_tpl_annotations :: strmap
  sts_pod :: pod_spec
  sts_claims :: "claim_template list"

definition env_val :: "string \<Rightarrow> string \<Rightarrow> env_var" where
  "env_val n v = \<lparr>ev_name = n, ev_source = EnvValue v\<rparr>"

definition env_field :: "string \<Rightarrow> string \<Rightarrow> env_var" where
  "env_field n p = \<lparr>ev_name = n, ev_source = EnvField p\<rparr>"

definition env_secret :: "string \<Rightarrow> security_settings \<Rightarrow> env_var" where
  "env_secret n s = \<lparr>ev_name = n, ev_source = EnvSecret (as_secret_name (ss_auth s)) (as_secret_key (ss_auth s))\<rparr>"

definition mount :: "string \<Rightarrow> string \<Rightarrow> bool \<Rightarrow> volume_mount" where
  "mount n p ro = \<lparr>vm_name = n, vm_path = p, vm_read_only = ro\<rparr>"

definition vol :: "string \<Rightarrow> volume_source \<Rightarrow> volume" where
  "vol n s = \<lparr>vol_name = n, vol_source = s\<rparr>"

section \<open>Security contexts\<close>

definition podSecurityContext :: pod_security_context where
  "podSecurityContext = \<lparr>px_non_root = True, px_user = 1000, px_group = 1000, px_fs_group = 1000,
     px_fs_change = ''OnRootMismatch''\<rparr>"

definition containerSecurityContext :: "bool \<Rightarrow> security_context" where
  "containerSecurityContext readOnly = \<lparr>sx_allow_escalation = False, sx_drop = [''ALL''], sx_non_root = True,
     sx_read_only = (if readOnly then Some True else None)\<rparr>"

section \<open>Metrics exporter\<close>

definition metricsEnabled :: "kv_cluster \<Rightarrow> bool" where
  "metricsEnabled cr = (case spec_metrics (cr_spec cr) of
      None \<Rightarrow> True | Some m \<Rightarrow> (case ms_enabled m of None \<Rightarrow> True | Some b \<Rightarrow> b))"

definition metricsExporterImage :: "kv_cluster \<Rightarrow> string" where
  "metricsExporterImage cr = (case spec_metrics (cr_spec cr) of
      Some m \<Rightarrow> if ms_image m \<noteq> '''' then ms_image m else ''ghcr.io/oliver006/redis_exporter:v1.75.0''
    | None \<Rightarrow> ''ghcr.io/oliver006/redis_exporter:v1.75.0'')"

definition metricsExporterPort :: "kv_cluster \<Rightarrow> int \<times> string" where
  "metricsExporterPort cr =
     (let port = (case spec_metrics (cr_spec cr) of Some m \<Rightarrow> if ms_port m \<noteq> 0 then ms_port m else 9121 | None \<Rightarrow> 9121)
      in (port, int_to_dec port))"

definition ValueOrEmptyResources :: "resource_requirements option \<Rightarrow> resource_requirements" where
  "ValueOrEmptyResources r = (case r of None \<Rightarrow> rr0 | Some q \<Rightarrow> q)"

definition milli :: quantity where "milli = 1000000"
definition mebi :: quantity where "mebi = 1048576 * 1000000000"

definition defaultMetricsResources :: resource_requirements where
  "defaultMetricsResources = \<lparr>rr_limits = [], rr_requests = [(''cpu'', 20 * milli), (''memory'', 64 * mebi)]\<rparr>"

definition desiredMetricsResources :: "kv_cluster \<Rightarrow> resource_requirements" where
  "desiredMetricsResources cr = (case spec_metrics (cr_spec cr) of
      Some m \<Rightarrow> (case ms_resources m of Some r \<Rightarrow> ValueOrEmptyResources (Some r) | None \<Rightarrow> defaultMetricsResources)
    | None \<Rightarrow> defaultMetricsResources)"

definition TLSVolumeName :: string where "TLSVolumeName = ''tls-certificates''"
definition RuntimeConfigVolumeName :: string where "RuntimeConfigVolumeName = ''runtime-conf''"

definition tls_on :: "security_settings option \<Rightarrow> bool" where
  "tls_on scr = (case scr of Some s \<Rightarrow> ts_enabled (ss_tls s) | None \<Rightarrow> False)"

definition http_probe :: "int \<Rightarrow> int \<Rightarrow> int \<Rightarrow> int \<Rightarrow> probe" where
  "http_probe port initial period failures = \<lparr>pb_handler = ProbeHTTP ''/metrics'' port, pb_initial_delay = initial,
     pb_timeout = 3, pb_period = period, pb_failures = failures\<rparr>"

definition metrics_auth_envs :: "kv_cluster \<Rightarrow> security_settings option \<Rightarrow> env_var list" where
  "metrics_auth_envs cr scr =
     (let (user, password) = ResolveAuth cr scr;
          plain = (if password \<noteq> '''' then [env_val ''REDIS_PASSWORD'' password] else [])
                  @ (if user \<noteq> '''' then [env_val ''REDIS_USER'' user] else [])
      in case scr of
           Some s \<Rightarrow>
             if as_enabled (ss_auth s)
             then env_secret ''REDIS_PASSWORD'' s
                  # (if as_username (ss_auth s) \<noteq> '''' then [env_val ''REDIS_USER'' (as_username (ss_auth s))] else [])
             else plain
         | None \<Rightarrow> plain)"

definition metrics_tls_envs :: "security_settings option \<Rightarrow> env_var list" where
  "metrics_tls_envs scr = (case scr of
      Some s \<Rightarrow>
        if ts_enabled (ss_tls s)
        then env_val ''REDIS_EXPORTER_TLS_CA_CERT_FILE'' (tls_path (ts_ca_key (ss_tls s)))
             # (if ts_require_client_auth (ss_tls s)
                then [env_val ''REDIS_EXPORTER_TLS_CLIENT_CERT_FILE'' (tls_path (ts_cert_key (ss_tls s))),
                      env_val ''REDIS_EXPORTER_TLS_CLIENT_KEY_FILE'' (tls_path (ts_key_key (ss_tls s)))]
                else [])
        else []
    | None \<Rightarrow> [])"

definition buildMetricsContainer :: "kv_cluster \<Rightarrow> security_settings option \<Rightarrow> string \<Rightarrow> int \<Rightarrow> full_container" where
  "buildMetricsContainer cr scr redisPort metricsPort =
     (let addr = (if tls_on scr then ''rediss'' else ''redis'') @ ''://127.0.0.1:'' @ redisPort
      in \<lparr>c_name = MetricsContainerName, c_image = metricsExporterImage cr,
          c_ports = [\<lparr>cp_name = ''metrics'', cp_container_port = metricsPort\<rparr>],
          c_resources = desiredMetricsResources cr, c_command = [],
          c_args = [''--redis.addr='' @ addr, ''--web.listen-address=:'' @ int_to_dec metricsPort],
          fc_env = env_val ''REDIS_ADDR'' addr # metrics_auth_envs cr scr @ metrics_tls_envs scr,
          fc_mounts = (if tls_on scr then [mount TLSVolumeName TLSMountPath True] else []),
          fc_liveness = Some (http_probe metricsPort 15 30 5), fc_readiness = Some (http_probe metricsPort 5 5 3),
          fc_pre_stop = None, fc_security = containerSecurityContext True\<rparr>)"

section \<open>Redis pods\<close>

definition redisAuthEnvs :: "security_settings option \<Rightarrow> env_var list" where
  "redisAuthEnvs scr = (case scr of
      Some s \<Rightarrow>
        if as_enabled (ss_auth s)
        then [env_secret ''MASTER_AUTH'' s, env_secret ''REDISCLI_AUTH'' s]
             @ (if as_username (ss_auth s) \<noteq> '''' then [env_val ''MASTER_USER'' (as_username (ss_auth s))] else [])
        else []
    | None \<Rightarrow> [])"

definition redisTLSEnvs :: "security_settings option \<Rightarrow> env_var list" where
  "redisTLSEnvs scr = (case scr of
      Some s \<Rightarrow>
        if ts_enabled (ss_tls s)
        then [env_val ''TLS_ENABLED'' ''true'', env_val ''TLS_CA_FILE'' (tls_path (ts_ca_key (ss_tls s))),
              env_val ''TLS_CERT_FILE'' (tls_path (ts_cert_key (ss_tls s))), env_val ''TLS_KEY_FILE'' (tls_path (ts_key_key (ss_tls s)))]
        else []
    | None \<Rightarrow> [])"

definition redisLifecycle :: "string \<Rightarrow> string list" where
  "redisLifecycle preStop = [''sh'', ''-c'', preStop]"

definition tls_mounts :: "security_settings option \<Rightarrow> volume_mount list" where
  "tls_mounts scr = (if tls_on scr then [mount TLSVolumeName TLSMountPath True] else [])"

definition tls_volumes :: "security_settings option \<Rightarrow> volume list" where
  "tls_volumes scr = (case scr of
      Some s \<Rightarrow> if ts_enabled (ss_tls s) then [vol TLSVolumeName (VolSecret (ts_secret_name (ss_tls s)))] else []
    | None \<Rightarrow> [])"

definition bootstrapInitContainer :: "kv_cluster \<Rightarrow> security_settings option \<Rightarrow> string \<Rightarrow> full_container" where
  "bootstrapInitContainer cr scr redisPort =
     (let svc = (\<lambda>n. n @ ''.'' @ cr_namespace cr @ ''.svc'')
      in \<lparr>c_name = ''kv-bootstrap-role'', c_image = ResolveImage (cr_spec cr), c_ports = [], c_resources = rr0,
          c_command = [''sh'', ''/conf/bootstrap.sh''], c_args = [],
          fc_env = [env_field ''POD_NAME'' ''metadata.name'', env_field ''POD_NAMESPACE'' ''metadata.namespace'',
             env_field ''POD_IP'' ''status.podIP'',
             env_val ''CLUSTER_MODE'' (case spec_mode (cr_spec cr) of ModeStandalone \<Rightarrow> ''Standalone'' | ModeSentinel \<Rightarrow> ''Sentinel''),
             env_val ''HEADLESS_SERVICE'' (HeadlessName cr), env_val ''SEED_HOST'' (PodFQDN cr 0), env_val ''REDIS_PORT'' redisPort,
             env_val ''SENTINEL_SVC'' (if spec_mode (cr_spec cr) = ModeSentinel then svc (SentinelServiceName cr) else ''''),
             env_val ''SENTINEL_PORT'' (snd (SentinelPort cr)), env_val ''MONITOR_NAME'' (cr_name cr),
             env_val ''MASTER_SERVICE_HOST'' (svc (MasterServiceName cr)),
             env_field ''FORCE_MASTER'' (''metadata.annotations['' @ [CHR 0x27] @ AnnotationForceMaster @ [CHR 0x27] @ '']'')]
             @ redisAuthEnvs scr @ redisTLSEnvs scr,
          fc_mounts = [mount RuntimeConfigVolumeName ''/runtime-conf'' False, mount ''config'' ''/conf'' True] @ tls_mounts scr,
          fc_liveness = None, fc_readiness = None, fc_pre_stop = None, fc_security = containerSecurityContext False\<rparr>)"

definition exec_probe :: "string list \<Rightarrow> int \<Rightarrow> int \<Rightarrow> int \<Rightarrow> probe" where
  "exec_probe cmd initial period failures = \<lparr>pb_handler = ProbeExec cmd, pb_initial_delay = initial, pb_timeout = 3,
     pb_period = period, pb_failures = failures\<rparr>"

definition redis_container :: "string \<Rightarrow> kv_cluster \<Rightarrow> security_settings option \<Rightarrow> full_container" where
  "redis_container preStop cr scr =
     \<lparr>c_name = RedisContainerName, c_image = ResolveImage (cr_spec cr),
      c_ports = [\<lparr>cp_name = ''redis'', cp_container_port = wrap32 (fst (RedisPort cr))\<rparr>],
      c_resources = ValueOrEmptyResources (spec_resources (cr_spec cr)),
      c_command = ServerCommandForEngine (EffectiveServerEngine (cr_spec cr)), c_args = [''/runtime-conf/redis.conf''],
      fc_env = [env_val ''REDIS_PORT'' (snd (RedisPort cr)), env_val ''REDIS_PROBE_TIMEOUT'' ''3'']
        @ redisAuthEnvs scr @ redisTLSEnvs scr,
      fc_mounts = [mount DataVolumeName ''/data'' False, mount ''config'' ''/conf'' False,
        mount RuntimeConfigVolumeName ''/runtime-conf'' False] @ tls_mounts scr,
      fc_liveness = Some (exec_probe [''sh'', ''/conf/liveness.sh''] 15 20 5),
      fc_readiness = Some (exec_probe [''sh'', ''/conf/readiness.sh''] 5 10 3),
      fc_pre_stop = Some (redisLifecycle preStop), fc_security = containerSecurityContext True\<rparr>"

definition buildPodSpec :: "string \<Rightarrow> kv_cluster \<Rightarrow> security_settings option \<Rightarrow> pod_spec" where
  "buildPodSpec preStop cr scr =
     \<lparr>ps_init = [bootstrapInitContainer cr scr (snd (RedisPort cr))],
      ps_containers = redis_container preStop cr scr
        # (if metricsEnabled cr then [buildMetricsContainer cr scr (snd (RedisPort cr)) (fst (metricsExporterPort cr))] else []),
      ps_volumes = vol RuntimeConfigVolumeName VolEmptyDir # tls_volumes scr,
      ps_node_selector = [], ps_tolerations = [], ps_affinity = None, ps_spread = [],
      ps_security = podSecurityContext, ps_grace = 25\<rparr>"

section \<open>Topology\<close>

definition hostname_key :: string where "hostname_key = ''kubernetes.io/hostname''"

definition defaultTopologyKeys :: "string list" where
  "defaultTopologyKeys = [''topology.kubernetes.io/zone'', hostname_key]"

definition matchLabelsEqual :: "strmap \<Rightarrow> strmap \<Rightarrow> bool" where
  "matchLabelsEqual a b =
     (length a = length b \<and> list_all (\<lambda>(k, v). gm_str b k = v) a \<and> list_all (\<lambda>(k, _). gm_has a k) b)"

definition labelSelectorMatches :: "label_selector option \<Rightarrow> strmap \<Rightarrow> bool" where
  "labelSelectorMatches sel selector = (case sel of
      None \<Rightarrow> False
    | Some s \<Rightarrow> if ls_expressions s \<noteq> [] then False else matchLabelsEqual (ls_labels s) selector)"

fun filter_keys :: "string list \<Rightarrow> string list \<Rightarrow> string list" where
  "filter_keys seen [] = []"
| "filter_keys seen (k # ks) =
     (let key = TrimSpace k
      in if key = '''' \<or> key \<in> set seen then filter_keys seen ks else key # filter_keys (key # seen) ks)"

definition topologySpreadKeys :: "topology_spread_spec option \<Rightarrow> string list" where
  "topologySpreadKeys cfg = (case cfg of
      None \<Rightarrow> defaultTopologyKeys
    | Some c \<Rightarrow> if tss_topology_keys c = [] then defaultTopologyKeys
               else let filtered = filter_keys [] (tss_topology_keys c)
                    in if filtered = [] then defaultTopologyKeys else filtered)"

definition isOperatorConstraint :: "strmap \<Rightarrow> string list \<Rightarrow> spread_constraint \<Rightarrow> bool" where
  "isOperatorConstraint selector keys c =
     (labelSelectorMatches (sc_selector c) selector \<and> (keys = [] \<or> sc_key c \<in> set keys))"

definition pruneTopologyConstraints :: "spread_constraint list \<Rightarrow> strmap \<Rightarrow> string list \<Rightarrow> spread_constraint list" where
  "pruneTopologyConstraints existing selector keys = filter (\<lambda>c. \<not> isOperatorConstraint selector keys c) existing"

definition buildTopologySpreadConstraints ::
  "topology_spread_spec option \<Rightarrow> strmap \<Rightarrow> string list \<Rightarrow> spread_constraint list" where
  "buildTopologySpreadConstraints cfg selector keys =
     (case cfg of
        Some c \<Rightarrow>
          if tss_disabled c then []
          else map (\<lambda>key. \<lparr>sc_max_skew = (case tss_max_skew c of Some s \<Rightarrow> if s > 0 then s else 1 | None \<Rightarrow> 1), sc_key = key,
                 sc_when = (if tss_when_unsatisfiable c \<noteq> '''' then tss_when_unsatisfiable c else ''ScheduleAnyway''),
                 sc_selector = Some \<lparr>ls_labels = selector, ls_expressions = []\<rparr>\<rparr>) keys
      | None \<Rightarrow> map (\<lambda>key. \<lparr>sc_max_skew = 1, sc_key = key, sc_when = ''ScheduleAnyway'',
                 sc_selector = Some \<lparr>ls_labels = selector, ls_expressions = []\<rparr>\<rparr>) keys)"

definition mergeTopologyConstraints ::
  "spread_constraint list \<Rightarrow> spread_constraint list \<Rightarrow> strmap \<Rightarrow> string list \<Rightarrow> spread_constraint list" where
  "mergeTopologyConstraints existing defaults selector keys = pruneTopologyConstraints existing selector keys @ defaults"

definition operator_term :: "strmap \<Rightarrow> affinity_term \<Rightarrow> bool" where
  "operator_term selector t = (at_key t = hostname_key \<and> labelSelectorMatches (at_selector t) selector)"

definition new_term :: "strmap \<Rightarrow> affinity_term" where
  "new_term selector = \<lparr>at_key = hostname_key, at_selector = Some \<lparr>ls_labels = selector, ls_expressions = []\<rparr>\<rparr>"

definition ensurePreferredAntiAffinity :: "strmap \<Rightarrow> anti_affinity \<Rightarrow> anti_affinity" where
  "ensurePreferredAntiAffinity selector paa =
     (if list_ex (\<lambda>(w, t). operator_term selector t) (aa_preferred paa) then paa
      else paa\<lparr>aa_preferred := aa_preferred paa @ [(100, new_term selector)]\<rparr>)"

definition ensureRequiredAntiAffinity :: "strmap \<Rightarrow> anti_affinity \<Rightarrow> anti_affinity" where
  "ensureRequiredAntiAffinity selector paa =
     (if list_ex (operator_term selector) (aa_required paa) then paa
      else paa\<lparr>aa_required := aa_required paa @ [new_term selector]\<rparr>)"

definition removeRequiredAntiAffinity :: "strmap \<Rightarrow> anti_affinity \<Rightarrow> anti_affinity" where
  "removeRequiredAntiAffinity selector paa =
     paa\<lparr>aa_required := filter (\<lambda>t. \<not> operator_term selector t) (aa_required paa)\<rparr>"

definition applyPodAntiAffinity :: "topology_anti_affinity_spec option \<Rightarrow> strmap \<Rightarrow> pod_spec \<Rightarrow> pod_spec" where
  "applyPodAntiAffinity cfg selector tpl =
     (let aff = (case ps_affinity tpl of Some a \<Rightarrow> a | None \<Rightarrow> \<lparr>af_anti = None, af_pod = False, af_node = False\<rparr>);
          paa = (case af_anti aff of Some p \<Rightarrow> p | None \<Rightarrow> \<lparr>aa_preferred = [], aa_required = []\<rparr>);
          paa1 = ensurePreferredAntiAffinity selector paa;
          required = (case cfg of Some c \<Rightarrow> taa_required c | None \<Rightarrow> False);
          paa2 = (if required then ensureRequiredAntiAffinity selector paa1 else removeRequiredAntiAffinity selector paa1)
      in tpl\<lparr>ps_affinity := Some (aff\<lparr>af_anti := Some paa2\<rparr>)\<rparr>)"

definition prunePodAntiAffinity :: "strmap \<Rightarrow> pod_spec \<Rightarrow> pod_spec" where
  "prunePodAntiAffinity selector tpl = (case ps_affinity tpl of
      None \<Rightarrow> tpl
    | Some aff \<Rightarrow> (case af_anti aff of
        None \<Rightarrow> tpl
      | Some paa \<Rightarrow>
          (let paa1 = removeRequiredAntiAffinity selector
                 (paa\<lparr>aa_preferred := filter (\<lambda>(w, t). \<not> operator_term selector t) (aa_preferred paa)\<rparr>)
           in if aa_preferred paa1 = [] \<and> aa_required paa1 = []
              then if \<not> af_pod aff \<and> \<not> af_node aff then tpl\<lparr>ps_affinity := None\<rparr>
                   else tpl\<lparr>ps_affinity := Some (aff\<lparr>af_anti := None\<rparr>)\<rparr>
              else tpl\<lparr>ps_affinity := Some (aff\<lparr>af_anti := Some paa1\<rparr>)\<rparr>)))"

definition topology_selector :: "kv_cluster \<Rightarrow> string \<Rightarrow> strmap" where
  "topology_selector cr component =
     (if component \<noteq> '''' then gm_set [(LabelClusterKey, cr_name cr)] LabelAppKey component else [(LabelClusterKey, cr_name cr)])"

definition applyTopologySettings :: "kv_cluster \<Rightarrow> string \<Rightarrow> pod_spec \<Rightarrow> pod_spec" where
  "applyTopologySettings cr component tpl =
     (let selector = topology_selector cr component;
          spread = (case spec_topology (cr_spec cr) of Some t \<Rightarrow> topo_spread t | None \<Rightarrow> None);
          keys = topologySpreadKeys spread;
          disabled = (case spread of Some c \<Rightarrow> tss_disabled c | None \<Rightarrow> False);
          tpl1 = (if disabled then tpl\<lparr>ps_spread := pruneTopologyConstraints (ps_spread tpl) selector keys\<rparr>
                  else tpl\<lparr>ps_spread := mergeTopologyConstraints (ps_spread tpl)
                              (buildTopologySpreadConstraints spread selector keys) selector keys\<rparr>);
          anti = (case spec_topology (cr_spec cr) of Some t \<Rightarrow> topo_anti_affinity t | None \<Rightarrow> None);
          anti_disabled = (case anti of Some c \<Rightarrow> taa_disabled c | None \<Rightarrow> False)
      in if anti_disabled then prunePodAntiAffinity selector tpl1 else applyPodAntiAffinity anti selector tpl1)"

section \<open>StatefulSets\<close>

definition hash_annotations :: "string \<Rightarrow> string \<Rightarrow> strmap \<Rightarrow> strmap" where
  "hash_annotations configHash tlsHash ann =
     (let a1 = (if configHash \<noteq> '''' then gm_set ann ConfigHashAnnotationKey configHash else ann)
      in if tlsHash \<noteq> '''' then gm_set a1 TLSSecretHashAnnotationKey tlsHash else a1)"

definition selector_labels :: "strmap \<Rightarrow> strmap" where
  "selector_labels labels = [(LabelAppKey, gm_str labels LabelAppKey), (LabelClusterKey, gm_str labels LabelClusterKey)]"

definition storageClassName :: "kv_cluster \<Rightarrow> string option" where
  "storageClassName cr = (case spec_storage (cr_spec cr) of Some st \<Rightarrow> st_storage_class st | None \<Rightarrow> None)"

definition StatefulSet ::
  "(string \<Rightarrow> quantity option) \<Rightarrow> quantity \<Rightarrow> string \<Rightarrow> kv_cluster \<Rightarrow> string \<Rightarrow> string \<Rightarrow> security_settings option
    \<Rightarrow> stateful_set" where
  "StatefulSet parse_quantity def preStop cr configHash tlsHash scr =
     (let labels = [(LabelAppKey, AppLabel cr), (LabelClusterKey, cr_name cr)];
          replicas = spec_redis_replicas (cr_spec cr);
          tmplLabels = foldl (\<lambda>m (k, v). if gm_has labels k then m else gm_set m k v) labels (spec_pod_labels (cr_spec cr));
          persistent = HasPersistentData cr;
          pod = buildPodSpec preStop cr scr;
          pod1 = pod\<lparr>ps_volumes := ps_volumes pod @ (if persistent then [] else [vol DataVolumeName VolEmptyDir])
                   @ [vol ''config'' (VolConfigMap (ConfigMapName cr))]\<rparr>
      in \<lparr>sts_name = cr_name cr, sts_namespace = cr_namespace cr, sts_labels = labels,
          sts_replicas = (if replicas < 1 then 1 else replicas), sts_service = HeadlessName cr,
          sts_selector = selector_labels labels, sts_on_delete = True, sts_tpl_labels = tmplLabels,
          sts_tpl_annotations = hash_annotations configHash tlsHash (spec_pod_annotations (cr_spec cr)),
          sts_pod = applyTopologySettings cr (AppLabel cr) pod1,
          sts_claims = (if persistent
             then [\<lparr>ct_name = DataVolumeName, ct_labels = selector_labels labels, ct_access_modes = StorageAccessModes cr,
                    ct_request = DesiredStorageQuantity parse_quantity def cr, ct_class = storageClassName cr\<rparr>]
             else [])\<rparr>)"

definition defaultSentinelResources :: resource_requirements where
  "defaultSentinelResources = \<lparr>rr_limits = [], rr_requests = [(''cpu'', 50 * milli), (''memory'', 128 * mebi)]\<rparr>"

definition DesiredSentinelResources :: "kv_cluster \<Rightarrow> resource_requirements" where
  "DesiredSentinelResources cr = (case spec_sentinel_resources (cr_spec cr) of
      Some r \<Rightarrow> ValueOrEmptyResources (Some r)
    | None \<Rightarrow> if spec_mode (cr_spec cr) \<noteq> ModeSentinel then rr0 else defaultSentinelResources)"

definition sentinel_image :: "kv_cluster \<Rightarrow> string" where
  "sentinel_image cr = (case spec_sentinel_image (cr_spec cr) of
      Some i \<Rightarrow> if i \<noteq> '''' then i else ResolveImage (cr_spec cr) | None \<Rightarrow> ResolveImage (cr_spec cr))"

definition sentinel_probe_cmd :: "security_settings option \<Rightarrow> int \<Rightarrow> string" where
  "sentinel_probe_cmd scr port =
     (let q = [CHR 0x22]
      in if tls_on scr
         then ''redis-cli --tls --cacert '' @ q @ ''$TLS_CA_FILE'' @ q @ '' --cert '' @ q @ ''$TLS_CERT_FILE'' @ q
              @ '' --key '' @ q @ ''$TLS_KEY_FILE'' @ q @ '' -p '' @ int_to_dec port @ '' PING''
         else ''redis-cli -p '' @ int_to_dec port @ '' PING'')"

definition buildSentinelPodSpec :: "string \<Rightarrow> kv_cluster \<Rightarrow> security_settings option \<Rightarrow> pod_spec" where
  "buildSentinelPodSpec preStop cr scr =
     (let sport = fst (SentinelPort cr); probeCmd = [''sh'', ''-c'', sentinel_probe_cmd scr sport];
          init = \<lparr>c_name = ''init-copy-config'', c_image = ''busybox:1.36'', c_ports = [], c_resources = rr0,
             c_command = [''sh'', ''-c''],
             c_args = [''cp /conf-src/sentinel.conf /conf/sentinel.conf && chmod 0644 /conf/sentinel.conf''],
             fc_env = redisTLSEnvs scr,
             fc_mounts = [mount ''config-src'' ''/conf-src'' False, mount ''config'' ''/conf'' False] @ tls_mounts scr,
             fc_liveness = None, fc_readiness = None, fc_pre_stop = None, fc_security = containerSecurityContext False\<rparr>;
          main = \<lparr>c_name = SentinelContainerName, c_image = sentinel_image cr,
             c_ports = [\<lparr>cp_name = ''sentinel'', cp_container_port = wrap32 sport\<rparr>],
             c_resources = DesiredSentinelResources cr,
             c_command = SentinelCommandForEngine (EffectiveSentinelEngine (cr_spec cr)), c_args = [''/conf/sentinel.conf''],
             fc_env = env_val ''REDIS_PORT'' (int_to_dec sport) # redisTLSEnvs scr,
             fc_mounts = [mount ''config'' ''/conf'' False, mount DataVolumeName ''/data'' False] @ tls_mounts scr,
             fc_liveness = Some (exec_probe probeCmd 5 10 5), fc_readiness = Some (exec_probe probeCmd 5 5 3),
             fc_pre_stop = Some (redisLifecycle preStop), fc_security = containerSecurityContext True\<rparr>
      in \<lparr>ps_init = [init], ps_containers = [main],
          ps_volumes = [vol ''config-src'' (VolConfigMap (ConfigMapName cr)), vol ''config'' VolEmptyDir,
            vol DataVolumeName VolEmptyDir] @ tls_volumes scr,
          ps_node_selector = (case spec_sentinel_pod (cr_spec cr) of Some sp \<Rightarrow> spod_node_selector sp | None \<Rightarrow> []),
          ps_tolerations = (case spec_sentinel_pod (cr_spec cr) of Some sp \<Rightarrow> spod_tolerations sp | None \<Rightarrow> []),
          ps_affinity = (case spec_sentinel_pod (cr_spec cr) of Some sp \<Rightarrow> spod_affinity sp | None \<Rightarrow> None),
          ps_spread = [], ps_security = podSecurityContext, ps_grace = 25\<rparr>)"

definition SentinelStatefulSet :: "string \<Rightarrow> kv_cluster \<Rightarrow> string \<Rightarrow> string \<Rightarrow> security_settings option \<Rightarrow> stateful_set" where
  "SentinelStatefulSet preStop cr configHash tlsHash scr =
     (let labels = SentinelLabelsFor cr;
          pod_labels = (case spec_sentinel_pod (cr_spec cr) of Some sp \<Rightarrow> spod_labels sp | None \<Rightarrow> []);
          pod_ann = (case spec_sentinel_pod (cr_spec cr) of Some sp \<Rightarrow> spod_annotations sp | None \<Rightarrow> [])
      in \<lparr>sts_name = cr_name cr @ ''-sentinel'', sts_namespace = cr_namespace cr, sts_labels = labels,
          sts_replicas = (case spec_sentinel_count (cr_spec cr) of Some n \<Rightarrow> n | None \<Rightarrow> 0),
          sts_service = SentinelHeadlessName cr, sts_selector = selector_labels labels, sts_on_delete = True,
          sts_tpl_labels = foldl (\<lambda>m (k, v). gm_set m k v) (gm_set labels RoleLabelKey ''sentinel'') pod_labels,
          sts_tpl_annotations = hash_annotations configHash tlsHash pod_ann,
          sts_pod = applyTopologySettings cr (gm_str labels LabelAppKey) (buildSentinelPodSpec preStop cr scr),
          sts_claims = []\<rparr>)"

section \<open>Well-formed workloads\<close>

definition mounts_declared :: "stateful_set \<Rightarrow> bool" where
  "mounts_declared s = (\<forall>c \<in> set (ps_init (sts_pod s) @ ps_containers (sts_pod s)). \<forall>m \<in> set (fc_mounts c).
     vm_name m \<in> vol_name ` set (ps_volumes (sts_pod s)) \<union> ct_name ` set (sts_claims s))"

definition selects_its_pods :: "stateful_set \<Rightarrow> bool" where
  "selects_its_pods s = (\<forall>(k, v) \<in> set (sts_selector s). gm_get (sts_tpl_labels s) k = Some v)"

definition hardened :: "full_container \<Rightarrow> bool" where
  "hardened c = (sx_non_root (fc_security c) \<and> \<not> sx_allow_escalation (fc_security c) \<and> sx_drop (fc_security c) = [''ALL''])"

definition wf_stateful_set :: "stateful_set \<Rightarrow> bool" where
  "wf_stateful_set s =
     (selects_its_pods s \<and> mounts_declared s
      \<and> distinct (map c_name (ps_init (sts_pod s) @ ps_containers (sts_pod s)))
      \<and> distinct (map vol_name (ps_volumes (sts_pod s)) @ map ct_name (sts_claims s))
      \<and> px_non_root (ps_security (sts_pod s))
      \<and> (\<forall>c \<in> set (ps_init (sts_pod s) @ ps_containers (sts_pod s)). hardened c))"

lemma applyTopologySettings_frame [simp]:
  "ps_init (applyTopologySettings cr l t) = ps_init t" "ps_containers (applyTopologySettings cr l t) = ps_containers t"
  "ps_volumes (applyTopologySettings cr l t) = ps_volumes t" "ps_security (applyTopologySettings cr l t) = ps_security t"
  "ps_node_selector (applyTopologySettings cr l t) = ps_node_selector t"
  by (simp_all add: applyTopologySettings_def prunePodAntiAffinity_def applyPodAntiAffinity_def Let_def split: option.splits)

lemma hardened_context: "fc_security c = containerSecurityContext b \<Longrightarrow> hardened c"
  by (simp add: hardened_def containerSecurityContext_def)

lemma foldl_guarded_labels:
  "gm_has labels k \<Longrightarrow> gm_get (foldl (\<lambda>m (k, v). if gm_has labels k then m else gm_set m k v) m kvs) k = gm_get m k"
  by (induction kvs arbitrary: m) auto

lemma foldl_labels_other:
  "gm_get kvs k = None \<Longrightarrow> gm_get (foldl (\<lambda>m (k, v). gm_set m k v) m kvs) k = gm_get m k"
proof (induction kvs arbitrary: m)
  case (Cons kv kvs)
  obtain j v where kv: "kv = (j, v)" by (cases kv)
  have "j \<noteq> k" "gm_get kvs k = None" using Cons.prems by (auto simp: kv gm_get_def split: if_splits)
  then show ?case using Cons.IH by (simp add: kv)
qed simp

lemma tls_mounts_declared: "m \<in> set (tls_mounts scr) \<Longrightarrow> vm_name m \<in> vol_name ` set (tls_volumes scr)"
  by (auto simp: tls_mounts_def tls_volumes_def tls_on_def mount_def vol_def split: option.splits if_splits)

lemma tls_volume_name: "vol_name ` set (tls_volumes scr) \<subseteq> {TLSVolumeName}" "distinct (map vol_name (tls_volumes scr))"
  by (auto simp: tls_volumes_def vol_def split: option.splits)

lemmas volume_names = TLSVolumeName_def RuntimeConfigVolumeName_def DataVolumeName_def
lemmas container_names = RedisContainerName_def SentinelContainerName_def MetricsContainerName_def

lemma redis_workload_parts:
  assumes s_def: "s = StatefulSet parse_quantity def preStop cr configHash tlsHash scr"
  shows "ps_init (sts_pod s) = [bootstrapInitContainer cr scr (snd (RedisPort cr))]"
    and "ps_containers (sts_pod s) = redis_container preStop cr scr
        # (if metricsEnabled cr then [buildMetricsContainer cr scr (snd (RedisPort cr)) (fst (metricsExporterPort cr))] else [])"
    and "ps_volumes (sts_pod s) = vol RuntimeConfigVolumeName VolEmptyDir # tls_volumes scr
        @ (if HasPersistentData cr then [] else [vol DataVolumeName VolEmptyDir]) @ [vol ''config'' (VolConfigMap (ConfigMapName cr))]"
    and "ps_security (sts_pod s) = podSecurityContext"
    and "map ct_name (sts_claims s) = (if HasPersistentData cr then [DataVolumeName] else [])"
    and "ps_node_selector (sts_pod s) = []"
  by (simp_all add: s_def StatefulSet_def Let_def buildPodSpec_def)

lemma sentinel_workload_parts:
  assumes s_def: "s = SentinelStatefulSet preStop cr configHash tlsHash scr"
  shows "ps_init (sts_pod s) = ps_init (buildSentinelPodSpec preStop cr scr)"
    and "ps_containers (sts_pod s) = ps_containers (buildSentinelPodSpec preStop cr scr)"
    and "ps_volumes (sts_pod s) = [vol ''config-src'' (VolConfigMap (ConfigMapName cr)), vol ''config'' VolEmptyDir,
            vol DataVolumeName VolEmptyDir] @ tls_volumes scr"
    and "ps_security (sts_pod s) = podSecurityContext" "sts_claims s = []"
  by (simp_all add: s_def SentinelStatefulSet_def Let_def buildSentinelPodSpec_def)

lemma label_keys: "LabelAppKey \<noteq> LabelClusterKey" "RoleLabelKey \<noteq> LabelAppKey" "RoleLabelKey \<noteq> LabelClusterKey"
  by (simp_all add: LabelAppKey_def LabelClusterKey_def RoleLabelKey_def)

lemma redis_selects: "selects_its_pods (StatefulSet parse_quantity def preStop cr configHash tlsHash scr)"
proof -
  let ?l = "[(LabelAppKey, AppLabel cr), (LabelClusterKey, cr_name cr)]"
  have get: "gm_get ?l LabelAppKey = Some (AppLabel cr)" "gm_get ?l LabelClusterKey = Some (cr_name cr)"
    using label_keys(1) by (simp_all add: gm_get_def)
  then have has: "gm_has ?l LabelAppKey" "gm_has ?l LabelClusterKey" by (simp_all add: gm_has_def)
  show ?thesis
    using foldl_guarded_labels [OF has(1), of ?l] foldl_guarded_labels [OF has(2), of ?l] get
    by (simp add: selects_its_pods_def StatefulSet_def Let_def selector_labels_def gm_str_def)
qed

lemma sentinel_selects:
  assumes "\<forall>sp. spec_sentinel_pod (cr_spec cr) = Some sp \<longrightarrow>
          gm_get (spod_labels sp) LabelAppKey = None \<and> gm_get (spod_labels sp) LabelClusterKey = None"
  shows "selects_its_pods (SentinelStatefulSet preStop cr configHash tlsHash scr)"
proof -
  let ?l = "SentinelLabelsFor cr" and ?p = "case spec_sentinel_pod (cr_spec cr) of Some sp \<Rightarrow> spod_labels sp | None \<Rightarrow> []"
  have get: "gm_get ?l LabelAppKey = Some (SentinelAppLabel cr)" "gm_get ?l LabelClusterKey = Some (cr_name cr)"
    using label_keys(1) by (simp_all add: gm_get_def SentinelLabelsFor_def)
  have none: "gm_get ?p LabelAppKey = None" "gm_get ?p LabelClusterKey = None" using assms by (auto split: option.splits)
  show ?thesis
    using foldl_labels_other [OF none(1), of "gm_set ?l RoleLabelKey ''sentinel''"]
      foldl_labels_other [OF none(2), of "gm_set ?l RoleLabelKey ''sentinel''"] get label_keys
    by (simp add: selects_its_pods_def SentinelStatefulSet_def Let_def selector_labels_def gm_str_def)
qed

lemma redis_mounts: "mounts_declared (StatefulSet parse_quantity def preStop cr configHash tlsHash scr)"
proof -
  have claims: "ct_name ` set (sts_claims (StatefulSet parse_quantity def preStop cr configHash tlsHash scr))
      = (if HasPersistentData cr then {DataVolumeName} else {})"
    by (simp add: StatefulSet_def Let_def)
  show ?thesis
    unfolding mounts_declared_def redis_workload_parts [OF refl] claims
    using tls_mounts_declared [of _ scr]
    by (auto simp: bootstrapInitContainer_def redis_container_def buildMetricsContainer_def Let_def mount_def vol_def
        tls_mounts_def split: if_splits)
qed

lemma sentinel_mounts: "mounts_declared (SentinelStatefulSet preStop cr configHash tlsHash scr)"
  unfolding mounts_declared_def sentinel_workload_parts [OF refl]
  using tls_mounts_declared [of _ scr]
  by (auto simp: buildSentinelPodSpec_def Let_def mount_def vol_def)

lemma distinct_volumes:
  assumes "distinct xs" "TLSVolumeName \<notin> set xs"
  shows "distinct (xs @ map vol_name (tls_volumes scr))" "distinct (map vol_name (tls_volumes scr) @ xs)"
  using assms tls_volume_name [of scr] by auto



text \<open>
  A label of \<open>spec.sentinelPod.labels\<close> replaces the selector label of the same name, so that the StatefulSet no
  longer selects its own pods and the API server rejects it.
\<close>

lemma sentinel_labels_override:
  "\<not> selects_its_pods (SentinelStatefulSet preStop ((cluster0 ''ns'' ''kv'')\<lparr>cr_spec := spec0\<lparr>spec_sentinel_pod :=
     Some \<lparr>spod_labels = [(LabelAppKey, ''mine'')], spod_annotations = [], spod_node_selector = [], spod_tolerations = [],
           spod_affinity = None\<rparr>\<rparr>\<rparr>) ch th scr)"
  using label_keys
  by (simp add: selects_its_pods_def SentinelStatefulSet_def Let_def selector_labels_def gm_str_def SentinelLabelsFor_def
      SentinelAppLabel_def SentinelAppLabelForName_def cluster0_def gm_get_def [of "[_, _]"])

end
