(* ===== verification/KV_Eviction.thy ===== *)
theory KV_Eviction
  imports KV_Api
begin

text \<open>
  \<open>src/controllers/internal/ops/eviction/eviction.go\<close>: evicting a pod with retries and exponential backoff.

  The answers of the API server and of the context are arguments, indexed by the attempt; the attempts and the
  waits are recorded. \<open>time.Duration\<close> arithmetic wraps at 64 bits.
\<close>

section \<open>Settings and backoff\<close>

record eviction_settings =
  evs_max_attempts :: int
  evs_per_attempt_timeout :: duration
  evs_initial_backoff :: duration
  evs_max_backoff :: duration

definition applyDefaults :: "eviction_settings \<Rightarrow> eviction_settings" where
  "applyDefaults s =
     (let s1 = (if evs_max_attempts s \<le> 0 then s\<lparr>evs_max_attempts := 3\<rparr> else s);
          s2 = (if evs_per_attempt_timeout s1 < 0 then s1\<lparr>evs_per_attempt_timeout := 0\<rparr> else s1);
          s3 = (if evs_initial_backoff s2 < 0 then s2\<lparr>evs_initial_backoff := sec\<rparr> else s2);
          s4 = (if evs_max_backoff s3 < 0 then s3\<lparr>evs_max_backoff := 5 * sec\<rparr> else s3)
      in if evs_max_backoff s4 < evs_initial_backoff s4 then s4\<lparr>evs_max_backoff := evs_initial_backoff s4\<rparr> else s4)"

text \<open>Division of Go, which truncates.\<close>

definition go_div :: "int \<Rightarrow> int \<Rightarrow> int" where
  "go_div a b = (if 0 \<le> a then a div b else - ((- a) div b))"

definition eviction_nextBackoff :: "eviction_settings \<Rightarrow> nat \<Rightarrow> duration" where
  "eviction_nextBackoff s attempt =
     (if evs_initial_backoff s = 0 then 0
      else if attempt = 0 then evs_initial_backoff s
      else let multiplier = wrap64 (2 ^ (attempt - 1)); candidate = wrap64 (evs_initial_backoff s * multiplier)
           in if 0 < multiplier \<and> go_div candidate multiplier \<noteq> evs_initial_backoff s then evs_max_backoff s
              else if evs_max_backoff s < candidate then evs_max_backoff s
              else candidate)"

section \<open>Eviction\<close>

datatype evict_answer =
    EvictOk
  | EvictNotFound
  | EvictDeadline string
  | EvictTooManyRequests string
  | EvictForbidden string
  | EvictOther string

datatype evict_result =
  ResultAttempt | ResultSuccess | ResultRejected | ResultTimeout | ResultError | ResultForbidden | ResultCancelled

datatype evict_error =
    ErrPodNil
  | ErrCancelled string
  | ErrTimedOut string
  | ErrRejected string
  | ErrForbidden string
  | ErrAttemptFailed string
  | ErrInterrupted string
  | ErrNoError

record evict_env =
  vk_ctx :: "nat \<Rightarrow> string option"
  vk_evict :: "nat \<Rightarrow> evict_answer"
  vk_wait :: "nat \<Rightarrow> string option"

record evict_log =
  vl_attempts :: "(nat \<times> evict_result) list"
  vl_backoffs :: "(nat \<times> duration) list"

definition log_attempt :: "nat \<Rightarrow> evict_result \<Rightarrow> evict_log \<Rightarrow> evict_log" where
  "log_attempt k r l = l\<lparr>vl_attempts := vl_attempts l @ [(k, r)]\<rparr>"

text \<open>The error and the result an answer that does not end the loop is recorded with.\<close>

fun retry_error :: "evict_answer \<Rightarrow> (evict_error \<times> evict_result) option" where
  "retry_error (EvictDeadline e) = Some (ErrTimedOut e, ResultTimeout)"
| "retry_error (EvictTooManyRequests e) = Some (ErrRejected e, ResultRejected)"
| "retry_error (EvictOther e) = Some (ErrAttemptFailed e, ResultError)"
| "retry_error _ = None"

fun evict_loop ::
  "eviction_settings \<Rightarrow> evict_env \<Rightarrow> nat \<Rightarrow> nat \<Rightarrow> evict_log \<Rightarrow> evict_error option \<times> evict_log" where
  "evict_loop s env 0 k l = (Some ErrNoError, l)"
| "evict_loop s env (Suc n) k l = (case vk_ctx env k of
      Some e \<Rightarrow> (Some (ErrCancelled e), log_attempt k ResultCancelled l)
    | None \<Rightarrow>
        (let l1 = log_attempt k ResultAttempt l
         in case vk_evict env k of
              EvictOk \<Rightarrow> (None, log_attempt k ResultSuccess l1)
            | EvictNotFound \<Rightarrow> (None, log_attempt k ResultSuccess l1)
            | EvictForbidden e \<Rightarrow> (Some (ErrForbidden e), log_attempt k ResultForbidden l1)
            | ans \<Rightarrow>
                (let (err, res) = the (retry_error ans); l2 = log_attempt k res l1
                 in if n = 0 then (Some err, l2)
                    else let backoff = eviction_nextBackoff s k; l3 = l2\<lparr>vl_backoffs := vl_backoffs l2 @ [(k, backoff)]\<rparr>
                         in case if 0 < backoff then vk_wait env k else None of
                              Some e \<Rightarrow> (Some (ErrInterrupted e), log_attempt k ResultCancelled l3)
                            | None \<Rightarrow> evict_loop s env n (Suc k) l3)))"

definition Evict :: "eviction_settings \<Rightarrow> evict_env \<Rightarrow> pod option \<Rightarrow> evict_error option \<times> evict_log" where
  "Evict settings env p = (case p of
      None \<Rightarrow> (Some ErrPodNil, \<lparr>vl_attempts = [], vl_backoffs = []\<rparr>)
    | Some _ \<Rightarrow> (let s = applyDefaults settings
                in evict_loop s env (nat (evs_max_attempts s)) 1 \<lparr>vl_attempts = [], vl_backoffs = []\<rparr>))"

section \<open>Backoff\<close>

lemma go_div_nonneg_le: "0 < b \<Longrightarrow> 0 \<le> a \<Longrightarrow> go_div a b * b \<le> a"
  by (simp add: go_div_def) (metis mult.commute div_mult_mod_eq le_add_same_cancel1 pos_mod_sign add.commute)

lemma applyDefaults_ok:
  "0 < evs_max_attempts (applyDefaults s)" "0 \<le> evs_initial_backoff (applyDefaults s)"
  "evs_initial_backoff (applyDefaults s) \<le> evs_max_backoff (applyDefaults s)"
  "evs_initial_backoff s \<le> int64_max \<Longrightarrow> evs_max_backoff s \<le> int64_max \<Longrightarrow> evs_max_backoff (applyDefaults s) \<le> int64_max"
  by (simp_all add: applyDefaults_def Let_def)

text \<open>The delay doubles up to the cap; the overflow check is exact.\<close>

lemma nextBackoff_capped:
  assumes "0 \<le> evs_initial_backoff s" "evs_initial_backoff s \<le> evs_max_backoff s" "evs_max_backoff s \<le> int64_max"
    and "0 < attempt" "attempt \<le> 63"
  shows "eviction_nextBackoff s attempt = min (evs_initial_backoff s * 2 ^ (attempt - 1)) (evs_max_backoff s)"
proof -
  let ?i = "evs_initial_backoff s" and ?m = "(2 :: int) ^ (attempt - 1)"
  have "?m \<le> 2 ^ 62" using assms(5) by (intro power_increasing) auto
  have m2: "0 < ?m" by simp
  then have "int64_min \<le> ?m" by linarith
  then have m: "wrap64 ?m = ?m" "0 < ?m" using \<open>?m \<le> 2 ^ 62\<close> m2 by (auto intro!: wrap64_id)
  show ?thesis
  proof (cases "?i = 0")
    case True
    then show ?thesis using assms by (simp add: eviction_nextBackoff_def)
  next
    case pos: False
    show ?thesis
    proof (cases "?i * ?m \<le> int64_max")
      case True
      have "0 \<le> ?i * ?m" using assms(1) m(2) by simp
      then have c: "wrap64 (?i * ?m) = ?i * ?m" using True by (intro wrap64_id) auto
      have "go_div (?i * ?m) ?m = ?i" using \<open>0 \<le> ?i * ?m\<close> m(2) by (simp add: go_div_def)
      then show ?thesis using pos assms(4) m c by (simp add: eviction_nextBackoff_def Let_def min_def)
    next
      case False
      define c where "c = wrap64 (?i * ?m)"
      have ne: "go_div c ?m \<noteq> ?i"
      proof
        assume eq: "go_div c ?m = ?i"
        have "c \<le> int64_max" using wrap64_range c_def by simp
        show False
        proof (cases "0 \<le> c")
          case True
          then have "?i * ?m \<le> c" using go_div_nonneg_le [OF m(2) True] eq by simp
          then show False using False \<open>c \<le> int64_max\<close> by simp
        next
          case neg: False
          then have "0 \<le> (- c) div ?m" using m(2) by (simp add: pos_imp_zdiv_nonneg_iff)
          then have "go_div c ?m \<le> 0" using neg by (simp add: go_div_def)
          then show False using eq pos assms(1) by simp
        qed
      qed
      then show ?thesis using pos assms(3,4) m False 
        by (auto simp add: eviction_nextBackoff_def Let_def c_def min_def)
    qed
  qed
qed

text \<open>
  From the 65th attempt on the multiplier overflows to zero and the check does not apply: the backoff is zero,
  whatever the initial backoff and the cap.
\<close>

lemma nextBackoff_overflow:
  assumes "64 < attempt" "0 \<le> evs_max_backoff s"
  shows "eviction_nextBackoff s attempt = 0"
proof -
  have "attempt - 1 = 64 + (attempt - 65)" using assms(1) by simp
  then have "(2 :: int) ^ (attempt - 1) = 18446744073709551616 * 2 ^ (attempt - 65)" by (simp only: power_add) simp
  then have "wrap64 (2 ^ (attempt - 1)) = 0" by (simp only: wrap64_def) simp
  moreover have "wrap64 0 = 0" by (simp add: wrap64_def)
  ultimately show ?thesis using assms by (simp add: eviction_nextBackoff_def Let_def)
qed


text \<open>
  For every settings with backoffs in the range of \<open>time.Duration\<close>, the delay before retry k, up to the 63rd, is
  the initial backoff times 2 to the k - 1, capped at the maximum. The product is computed at 64 bits, and the
  overflow check of \<open>nextBackoff\<close> catches every overflow.
\<close>

lemma eviction_backoff_capped:
  assumes "evs_initial_backoff s \<le> int64_max" "evs_max_backoff s \<le> int64_max" "1 \<le> k" "k \<le> 63"
  shows "eviction_nextBackoff (applyDefaults s) k
         = min (evs_initial_backoff (applyDefaults s) * 2 ^ (k - 1)) (evs_max_backoff (applyDefaults s))"
  by (rule nextBackoff_capped) (use assms applyDefaults_ok [of s] in auto)

section \<open>Outcome\<close>

text \<open>What the answer of the last attempt makes of the eviction.\<close>

fun answer_outcome :: "evict_answer \<Rightarrow> evict_error option \<times> evict_result" where
  "answer_outcome EvictOk = (None, ResultSuccess)"
| "answer_outcome EvictNotFound = (None, ResultSuccess)"
| "answer_outcome (EvictForbidden e) = (Some (ErrForbidden e), ResultForbidden)"
| "answer_outcome (EvictDeadline e) = (Some (ErrTimedOut e), ResultTimeout)"
| "answer_outcome (EvictTooManyRequests e) = (Some (ErrRejected e), ResultRejected)"
| "answer_outcome (EvictOther e) = (Some (ErrAttemptFailed e), ResultError)"

fun retryable :: "evict_answer \<Rightarrow> bool" where
  "retryable (EvictDeadline _) = True"
| "retryable (EvictTooManyRequests _) = True"
| "retryable (EvictOther _) = True"
| "retryable _ = False"

lemma evict_loop_final:
  assumes "vk_ctx env k = None" "\<not> retryable (vk_evict env k) \<or> n = 0"
  shows "evict_loop s env (Suc n) k l = (fst (answer_outcome (vk_evict env k)),
           log_attempt k (snd (answer_outcome (vk_evict env k))) (log_attempt k ResultAttempt l))"
  using assms by (cases "vk_evict env k") (simp_all add: Let_def)

lemma evict_loop_retry:
  assumes "vk_ctx env k = None" "vk_wait env k = None" "retryable (vk_evict env k)" "n \<noteq> 0"
  shows "evict_loop s env (Suc n) k l = evict_loop s env n (Suc k)
           ((log_attempt k (snd (answer_outcome (vk_evict env k))) (log_attempt k ResultAttempt l))
              \<lparr>vl_backoffs := vl_backoffs l @ [(k, eviction_nextBackoff s k)]\<rparr>)"
  using assms by (cases "vk_evict env k") (simp_all add: Let_def log_attempt_def)

lemma evict_loop_outcome:
  assumes "\<And>i. vk_ctx env i = None" "\<And>i. vk_wait env i = None"
  shows "\<exists>j. k \<le> j \<and> j \<le> k + n \<and> (\<forall>i. k \<le> i \<and> i < j \<longrightarrow> retryable (vk_evict env i))
           \<and> (retryable (vk_evict env j) \<longrightarrow> j = k + n)
           \<and> evict_loop s env (Suc n) k l = (fst (answer_outcome (vk_evict env j)),
               \<lparr>vl_attempts = vl_attempts l
                  @ concat (map (\<lambda>i. [(i, ResultAttempt), (i, snd (answer_outcome (vk_evict env i)))]) [k..<Suc j]),
                vl_backoffs = vl_backoffs l @ map (\<lambda>i. (i, eviction_nextBackoff s i)) [k..<j]\<rparr>)"
proof (induction n arbitrary: k l)
  case 0
  show ?case by (intro exI [of _ k]) (auto simp: evict_loop_final assms log_attempt_def simp del: evict_loop.simps)
next
  case (Suc n)
  show ?case
  proof (cases "retryable (vk_evict env k)")
    case False
    then show ?thesis by (intro exI [of _ k]) (auto simp: evict_loop_final assms log_attempt_def simp del: evict_loop.simps)
  next
    case True
    obtain j where j: "Suc k \<le> j" "j \<le> Suc k + n" "\<And>i. Suc k \<le> i \<Longrightarrow> i < j \<Longrightarrow> retryable (vk_evict env i)"
        "retryable (vk_evict env j) \<longrightarrow> j = Suc k + n"
      and run: "evict_loop s env (Suc (Suc n)) k l = (fst (answer_outcome (vk_evict env j)),
               \<lparr>vl_attempts = vl_attempts l @ [(k, ResultAttempt), (k, snd (answer_outcome (vk_evict env k)))]
                  @ concat (map (\<lambda>i. [(i, ResultAttempt), (i, snd (answer_outcome (vk_evict env i)))]) [Suc k..<Suc j]),
                vl_backoffs = vl_backoffs l @ (k, eviction_nextBackoff s k) # map (\<lambda>i. (i, eviction_nextBackoff s i)) [Suc k..<j]\<rparr>)"
      using Suc.IH [of "Suc k" "(log_attempt k (snd (answer_outcome (vk_evict env k))) (log_attempt k ResultAttempt l))
              \<lparr>vl_backoffs := vl_backoffs l @ [(k, eviction_nextBackoff s k)]\<rparr>"]
        evict_loop_retry [OF assms(1) assms(2) True, of "Suc n" s l]
      by (auto simp: log_attempt_def simp del: evict_loop.simps upt_Suc)
    have "[k..<Suc j] = k # [Suc k..<Suc j]" "[k..<j] = k # [Suc k..<j]" using j(1) by (simp_all add: upt_conv_Cons)
    moreover have "retryable (vk_evict env i)" if "k \<le> i" "i < j" for i
      using that j(3) [of i] True by (cases "i = k") simp_all
    ultimately show ?thesis using j(1,2,4) run by (intro exI [of _ j]) (simp del: evict_loop.simps upt_Suc)
  qed
qed

lemma Evict_outcome:
  assumes "\<And>i. vk_ctx env i = None" "\<And>i. vk_wait env i = None"
  shows "\<exists>j. 1 \<le> j \<and> j \<le> nat (evs_max_attempts (applyDefaults s)) \<and> (\<forall>i. 1 \<le> i \<and> i < j \<longrightarrow> retryable (vk_evict env i))
           \<and> (retryable (vk_evict env j) \<longrightarrow> j = nat (evs_max_attempts (applyDefaults s)))
           \<and> Evict s env (Some p) = (fst (answer_outcome (vk_evict env j)),
               \<lparr>vl_attempts = concat (map (\<lambda>i. [(i, ResultAttempt), (i, snd (answer_outcome (vk_evict env i)))]) [1..<Suc j]),
                vl_backoffs = map (\<lambda>i. (i, eviction_nextBackoff (applyDefaults s) i)) [1..<j]\<rparr>)"
proof -
  obtain n where n: "nat (evs_max_attempts (applyDefaults s)) = Suc n"
    using applyDefaults_ok(1) [of s] by (metis gr0_implies_Suc zero_less_nat_eq)
  show ?thesis
    using evict_loop_outcome [of env 1 n "applyDefaults s" "\<lparr>vl_attempts = [], vl_backoffs = []\<rparr>", OF assms]
    by (simp add: Evict_def Let_def n del: evict_loop.simps upt_Suc)
qed

text \<open>
  C27: As long as its context lives, an eviction makes between one and the configured number of attempts: it
  goes on exactly while the answers are timeouts, rejections or transient failures, stops at the first success,
  missing pod or prohibition, and otherwise at the last attempt. It succeeds iff the last attempt found the pod
  gone or removed it, and every failure is reported as what the last attempt was answered: rejected by a
  disruption budget, forbidden, timed out or failed. Every attempt is announced and its result recorded, and
  between two attempts lies one backoff.
\<close>

theorem evict_outcome:
  assumes "\<And>i. vk_ctx env i = None" "\<And>i. vk_wait env i = None"
  shows "\<exists>j. 1 \<le> j \<and> j \<le> nat (evs_max_attempts (applyDefaults s)) \<and> (\<forall>i. 1 \<le> i \<and> i < j \<longrightarrow> retryable (vk_evict env i))
           \<and> (retryable (vk_evict env j) \<longrightarrow> j = nat (evs_max_attempts (applyDefaults s)))
           \<and> Evict s env (Some p) = (fst (answer_outcome (vk_evict env j)),
               \<lparr>vl_attempts = concat (map (\<lambda>i. [(i, ResultAttempt), (i, snd (answer_outcome (vk_evict env i)))]) [1..<Suc j]),
                vl_backoffs = map (\<lambda>i. (i, eviction_nextBackoff (applyDefaults s) i)) [1..<j]\<rparr>)"
  using Evict_outcome [OF assms] by blast

definition demo_evict_env :: evict_env where
  "demo_evict_env = \<lparr>vk_ctx = (\<lambda>_. None), vk_evict = (\<lambda>i. if i < 2 then EvictTooManyRequests ''budget'' else EvictOk), vk_wait = (\<lambda>_. None)\<rparr>"

theorem evict_outcome_witness:
  "\<forall>p. fst (Evict \<lparr>evs_max_attempts = 3, evs_per_attempt_timeout = 0, evs_initial_backoff = sec, evs_max_backoff = 5 * sec\<rparr>
        demo_evict_env (Some p)) = None"
proof
  fix p
  let ?s = "\<lparr>evs_max_attempts = 3, evs_per_attempt_timeout = 0, evs_initial_backoff = sec, evs_max_backoff = 5 * sec\<rparr>"
  obtain j where j: "1 \<le> j" "retryable (vk_evict demo_evict_env j) \<longrightarrow> j = nat (evs_max_attempts (applyDefaults ?s))"
    and r: "fst (Evict ?s demo_evict_env (Some p)) = fst (answer_outcome (vk_evict demo_evict_env j))"
    using evict_outcome [of demo_evict_env ?s p] by (auto simp: demo_evict_env_def)
  have "j \<noteq> 1" using j(2) by (auto simp: demo_evict_env_def applyDefaults_def)
  then show "fst (Evict ?s demo_evict_env (Some p)) = None" using j(1) r by (simp add: demo_evict_env_def)
qed

end
