(* ===== verification/KV_Update.thy ===== *)
theory KV_Update
  imports KV_Workload KV_Eviction KV_Status
begin

text \<open>
  Rolling updates: \<open>src/controllers/internal/ops/update/update.go\<close> plans which pods are restarted and restarts one of
  them, \<open>guards.go\<close> decides whether a restart is allowed at all.

  A nil health map differs from an empty one in \<open>Execute\<close>, so it is an option. The API server's answers to the
  read, the eviction and the deletion of a pod are arguments.
\<close>

section \<open>Comparing specifications\<close>

definition equalStringMap :: "strmap \<Rightarrow> strmap \<Rightarrow> bool" where
  "equalStringMap a b =
     (length a = length b \<and> list_all (\<lambda>(k, v). gm_str b k = v) a \<and> list_all (\<lambda>(k, _). gm_has a k) b)"

definition equalContainerPorts :: "container_port list \<Rightarrow> container_port list \<Rightarrow> bool" where
  "equalContainerPorts a b =
     (length a = length b \<and> list_all (\<lambda>(x, y). cp_name x = cp_name y \<and> cp_container_port x = cp_container_port y) (zip a b))"

definition equalStringSlice :: "string list \<Rightarrow> string list \<Rightarrow> bool" where
  "equalStringSlice a b = (length a = length b \<and> list_all (\<lambda>(x, y). x = y) (zip a b))"

definition resourceListEqual :: "resource_list \<Rightarrow> resource_list \<Rightarrow> bool" where
  "resourceListEqual x y =
     (if x = [] \<and> y = [] then True
      else list_all (\<lambda>(k, qx). case gm_get y k of None \<Rightarrow> qx = 0 | Some qy \<Rightarrow> qx = qy) x
         \<and> list_all (\<lambda>(k, qy). gm_has x k \<or> qy = 0) y)"

definition eqResourceRequirements :: "resource_requirements \<Rightarrow> resource_requirements \<Rightarrow> bool" where
  "eqResourceRequirements a b =
     (resourceListEqual (rr_limits a) (rr_limits b) \<and> resourceListEqual (rr_requests a) (rr_requests b))"

section \<open>Planning\<close>

record plan =
  pl_names :: "string list"
  pl_reasons :: "(string, string list) gomap"

type_synonym health_map = "(string, pod_health) gomap option"

fun append_unique :: "string list \<Rightarrow> string list \<Rightarrow> string list" where
  "append_unique dst [] = dst"
| "append_unique dst (r # rs) = (if r = '''' \<or> r \<in> set dst then append_unique dst rs else append_unique (dst @ [r]) rs)"

definition appendUniqueReasons :: "string list \<Rightarrow> string list \<Rightarrow> string list" where
  "appendUniqueReasons dst extras = (if extras = [] then dst else append_unique dst extras)"

definition plan_sentinel_image :: "kv_cluster \<Rightarrow> string" where
  "plan_sentinel_image cr = (case spec_sentinel_image (cr_spec cr) of
      Some i \<Rightarrow> if i \<noteq> '''' then i else spec_image (cr_spec cr) | None \<Rightarrow> spec_image (cr_spec cr))"

definition hash_reasons :: "stateful_set option \<Rightarrow> pod \<Rightarrow> string list" where
  "hash_reasons ss p =
     (let ann = (case ss of Some s \<Rightarrow> sts_tpl_annotations s | None \<Rightarrow> []);
          desiredHash = gm_str ann ConfigHashAnnotationKey; desiredTLSHash = gm_str ann TLSSecretHashAnnotationKey;
          podTLSHash = gm_str (pod_annotations p) TLSSecretHashAnnotationKey
      in (if desiredHash \<noteq> '''' \<and> gm_str (pod_annotations p) ConfigHashAnnotationKey \<noteq> desiredHash then [''config-hash''] else [])
         @ (if (desiredTLSHash \<noteq> '''' \<or> podTLSHash \<noteq> '''') \<and> podTLSHash \<noteq> desiredTLSHash then [''tls-hash''] else []))"

definition container_reasons :: "kv_cluster \<Rightarrow> container \<Rightarrow> string list" where
  "container_reasons cr c =
     (if c_name c = RedisContainerName
      then (if c_image c \<noteq> spec_image (cr_spec cr) then [''image:redis''] else [])
           @ (if \<not> eqResourceRequirements (c_resources c) (ValueOrEmptyResources (spec_resources (cr_spec cr)))
              then [''resources:redis''] else [])
      else if c_name c = SentinelContainerName
      then (if c_image c \<noteq> plan_sentinel_image cr \<and> spec_mode (cr_spec cr) = ModeSentinel then [''image:sentinel''] else [])
           @ (if spec_mode (cr_spec cr) = ModeSentinel \<and> \<not> eqResourceRequirements (c_resources c) (DesiredSentinelResources cr)
              then [''resources:sentinel''] else [])
      else [])"

definition has_container :: "string \<Rightarrow> pod \<Rightarrow> bool" where
  "has_container n p = list_ex (\<lambda>c. c_name c = n) (pod_containers p)"

definition layout_reasons :: "kv_cluster \<Rightarrow> pod \<Rightarrow> string list" where
  "layout_reasons cr p =
     (if spec_mode (cr_spec cr) = ModeSentinel \<and> has_container RedisContainerName p \<and> has_container SentinelContainerName p
      then [''layout:sentinel-removed''] else [])"

definition selector_reasons :: "stateful_set option \<Rightarrow> pod \<Rightarrow> string list" where
  "selector_reasons ss p = (case ss of
      Some s \<Rightarrow> if \<not> equalStringMap (ps_node_selector (sts_pod s)) (pod_node_selector p) then [''spec:node-selector''] else []
    | None \<Rightarrow> [])"

definition health_reasons :: "health_map \<Rightarrow> pod \<Rightarrow> string list" where
  "health_reasons health p = (case health of
      None \<Rightarrow> []
    | Some h \<Rightarrow> (case gm_get h (pod_name p) of
          Some PodHealthLagging \<Rightarrow> if \<not> IsPodReady p then [''health:lagging''] else []
        | Some PodHealthDesynced \<Rightarrow> if \<not> IsPodReady p then [''health:desynced''] else []
        | Some PodHealthOffline \<Rightarrow> if IsPodReady p then [''health:offline''] else []
        | _ \<Rightarrow> []))"

definition metrics_reasons :: "kv_cluster \<Rightarrow> stateful_set option \<Rightarrow> pod \<Rightarrow> string list" where
  "metrics_reasons cr ss p =
     (let desired = (case ss of Some s \<Rightarrow> gm_get (index_by c_name (ps_containers (sts_pod s))) MetricsContainerName | None \<Rightarrow> None);
          actual = gm_get (index_by c_name (pod_containers p)) MetricsContainerName
      in if \<not> has_container RedisContainerName p then []
         else if metricsEnabled cr
         then (case actual of
                 None \<Rightarrow> [''metrics:missing'']
               | Some a \<Rightarrow> (case desired of
                     None \<Rightarrow> [''metrics:missing-template'']
                   | Some d \<Rightarrow>
                       (if c_image a \<noteq> c_image d then [''metrics:image''] else [])
                       @ (if \<not> equalContainerPorts (c_ports a) (c_ports d) then [''metrics:ports''] else [])
                       @ (if \<not> equalStringSlice (c_args a) (c_args d) then [''metrics:args''] else [])
                       @ (if \<not> eqResourceRequirements (c_resources a) (c_resources d) then [''resources:metrics''] else [])))
         else if actual \<noteq> None then [''metrics:present-when-disabled''] else [])"

definition pod_reasons ::
  "kv_cluster \<Rightarrow> stateful_set option \<Rightarrow> health_map \<Rightarrow> (string, string list) gomap \<Rightarrow> pod \<Rightarrow> string list" where
  "pod_reasons cr ss health storage p =
     (let r = hash_reasons ss p @ concat (map (container_reasons cr) (pod_containers p)) @ layout_reasons cr p
              @ selector_reasons ss p @ health_reasons health p;
          r1 = (case gm_get storage (pod_name p) of Some extra \<Rightarrow> appendUniqueReasons r extra | None \<Rightarrow> r)
      in r1 @ metrics_reasons cr ss p)"

definition scale_down_step :: "int \<Rightarrow> (string, string list) gomap \<Rightarrow> pod \<Rightarrow> (string, string list) gomap" where
  "scale_down_step desired m p =
     (let o' = Ordinal (pod_name p)
      in if o' \<ge> desired \<and> o' \<ge> 0
         then gm_set m (pod_name p) ((case gm_get m (pod_name p) of Some r \<Rightarrow> r | None \<Rightarrow> []) @ [''scale-down''])
         else m)"

definition PlanUpdates ::
  "kv_cluster \<Rightarrow> stateful_set option \<Rightarrow> pod list \<Rightarrow> health_map \<Rightarrow> (string, string list) gomap \<Rightarrow> plan" where
  "PlanUpdates cr ss pods health storage =
     (let reasons = foldl (\<lambda>m p. if pod_reasons cr ss health storage p \<noteq> []
                                then gm_set m (pod_name p) (pod_reasons cr ss health storage p) else m) [] pods;
          desired = max 0 (spec_redis_replicas (cr_spec cr));
          reasons1 = (if desired < int (length pods) then foldl (scale_down_step desired) reasons pods else reasons)
      in \<lparr>pl_names = sort_by (\<lambda>a b. Ordinal a > Ordinal b) (map fst reasons1), pl_reasons = reasons1\<rparr>)"

section \<open>Guards\<close>

definition hasReasonForPod :: "plan \<Rightarrow> string \<Rightarrow> string \<Rightarrow> bool" where
  "hasReasonForPod pl n r = (case gm_get (pl_reasons pl) n of None \<Rightarrow> False | Some rs \<Rightarrow> r \<in> set rs)"

definition planHasReason :: "plan \<Rightarrow> string \<Rightarrow> bool" where
  "planHasReason pl r = (if r = '''' then False else list_ex (\<lambda>(_, rs). r \<in> set rs) (pl_reasons pl))"

definition hasCondition :: "kv_status option \<Rightarrow> condition_type \<Rightarrow> condition_status \<Rightarrow> bool" where
  "hasCondition status typ want = (case status of
      None \<Rightarrow> False | Some st \<Rightarrow> list_ex (\<lambda>c. cond_type c = typ \<and> cond_status c = want) (status_conditions st))"

definition healthStateForPod :: "pod \<Rightarrow> health_map \<Rightarrow> bool" where
  "healthStateForPod p health = (case health of
      None \<Rightarrow> IsPodReady p
    | Some h \<Rightarrow> (case gm_get h (pod_name p) of None \<Rightarrow> IsPodReady p | Some s \<Rightarrow> s = PodHealthHealthy))"

definition countHealthyReplicas :: "pod list \<Rightarrow> health_map \<Rightarrow> string \<Rightarrow> nat" where
  "countHealthyReplicas pods health master =
     length (filter (\<lambda>p. pod_name p \<noteq> master \<and> gm_str (pod_labels p) RoleLabelKey = ''replica'' \<and> healthStateForPod p health) pods)"

record guard_input =
  gi_allow_disruptions :: bool
  gi_status :: "kv_status option"
  gi_plan :: plan
  gi_pods :: "pod list"
  gi_health :: health_map
  gi_master :: string
  gi_desired_replicas :: int
  gi_mode :: mode

record guard_decision =
  gd_blocked :: bool
  gd_reason :: string
  gd_detail :: string
  gd_requeue_after :: duration

definition no_guard :: guard_decision where
  "no_guard = \<lparr>gd_blocked = False, gd_reason = '''', gd_detail = '''', gd_requeue_after = 0\<rparr>"

definition guard_block :: "string \<Rightarrow> string \<Rightarrow> guard_decision" where
  "guard_block r d = \<lparr>gd_blocked = True, gd_reason = r, gd_detail = d, gd_requeue_after = 5 * sec\<rparr>"

definition EvaluateGuards :: "guard_input \<Rightarrow> guard_decision" where
  "EvaluateGuards g =
     (if pl_names (gi_plan g) = [] then no_guard
      else if planHasReason (gi_plan g) ''tls-hash'' then no_guard
      else if \<not> gi_allow_disruptions g then guard_block ''DisruptionsPaused'' ''health gate forbids disruptions''
      else if hasCondition (gi_status g) ConditionFailoverInProgress StatusTrue
      then guard_block ''FailoverInProgress'' ''waiting for failover to finish''
      else if hasCondition (gi_status g) ConditionBootstrapInProgress StatusTrue
      then guard_block ''BootstrapInProgress'' ''bootstrap gating updates''
      else if gi_desired_replicas g > 1 \<and> countHealthyReplicas (gi_pods g) (gi_health g) (gi_master g) = 0
      then guard_block ''NoHealthyReplicas'' ''no healthy replica available''
      else no_guard)"

section \<open>Execution\<close>

datatype update_component = ComponentRedis | ComponentSentinel

record update_env =
  ue_get :: "string \<Rightarrow> string option"
  ue_evict :: "string \<Rightarrow> evict_env"
  ue_delete :: "string \<Rightarrow> delete_answer"

datatype update_error =
    GetPodFailed string string
  | EvictionRejected evict_error
  | EvictPodFailed string evict_error
  | DeletePodFailed string string

datatype update_action = PodEvicted string | PodDeleted string

record update_result =
  ur_pod :: string
  ur_error :: "update_error option"
  ur_actions :: "update_action list"

definition no_update :: update_result where
  "no_update = \<lparr>ur_pod = '''', ur_error = None, ur_actions = []\<rparr>"

definition find_pod :: "string \<Rightarrow> pod list \<Rightarrow> pod option" where
  "find_pod n pods = List.find (\<lambda>p. pod_name p = n) pods"

text \<open>The conditions under which the loop goes on to the next candidate.\<close>

definition skip_candidate ::
  "kv_cluster \<Rightarrow> update_component \<Rightarrow> plan \<Rightarrow> pod list \<Rightarrow> health_map \<Rightarrow> pod \<Rightarrow> bool" where
  "skip_candidate cr component pl pods health p =
     ((health \<noteq> None \<and> \<not> hasReasonForPod pl (pod_name p) ''tls-hash''
        \<and> \<not> list_ex (\<lambda>other. pod_name other \<noteq> pod_name p \<and> healthStateForPod other health) pods \<and> 1 < length pods)
      \<or> (gm_str (pod_labels p) RoleLabelKey = ''master''
        \<and> (1 < spec_redis_replicas (cr_spec cr) \<or> spec_mode (cr_spec cr) = ModeSentinel))
      \<or> (Ordinal (pod_name p) = 0 \<and> length (filter IsPodReady pods) \<le> 1 \<and> 1 < spec_redis_replicas (cr_spec cr)
        \<and> component \<noteq> ComponentSentinel))"

definition restart_pod :: "eviction_settings \<Rightarrow> update_env \<Rightarrow> update_component \<Rightarrow> pod \<Rightarrow> update_result" where
  "restart_pod settings env component p =
     (let n = pod_name p
      in case ue_get env n of
           Some e \<Rightarrow> no_update\<lparr>ur_error := Some (GetPodFailed n e)\<rparr>
         | None \<Rightarrow> (case fst (Evict settings (ue_evict env n) (Some p)) of
               None \<Rightarrow> \<lparr>ur_pod = n, ur_error = None, ur_actions = [PodEvicted n]\<rparr>
             | Some (ErrRejected e) \<Rightarrow>
                 if component = ComponentSentinel \<and> \<not> IsPodReady p
                 then (case ue_delete env n of
                         DeleteFailed e' \<Rightarrow> no_update\<lparr>ur_error := Some (DeletePodFailed n e')\<rparr>
                       | _ \<Rightarrow> \<lparr>ur_pod = n, ur_error = None, ur_actions = [PodDeleted n]\<rparr>)
                 else no_update\<lparr>ur_error := Some (EvictionRejected (ErrRejected e))\<rparr>
             | Some err \<Rightarrow> no_update\<lparr>ur_error := Some (EvictPodFailed n err)\<rparr>))"

fun execute_loop ::
  "eviction_settings \<Rightarrow> update_env \<Rightarrow> kv_cluster \<Rightarrow> update_component \<Rightarrow> plan \<Rightarrow> pod list \<Rightarrow> health_map \<Rightarrow> string list
    \<Rightarrow> update_result" where
  "execute_loop settings env cr component pl pods health [] = no_update"
| "execute_loop settings env cr component pl pods health (n # ns) = (case find_pod n pods of
      None \<Rightarrow> execute_loop settings env cr component pl pods health ns
    | Some p \<Rightarrow>
        if skip_candidate cr component pl pods health p
        then execute_loop settings env cr component pl pods health ns
        else restart_pod settings env component p)"

definition Execute ::
  "eviction_settings \<Rightarrow> update_env \<Rightarrow> kv_cluster \<Rightarrow> update_component \<Rightarrow> plan \<Rightarrow> pod list \<Rightarrow> health_map \<Rightarrow> update_result" where
  "Execute settings env cr component pl pods health =
     (if pl_names pl = [] then no_update
      else if list_ex (\<lambda>p. pod_deletion p \<noteq> None) pods then no_update
      else if list_ex (\<lambda>p. pod_name p \<notin> set (pl_names pl) \<and> \<not> IsPodReady p) pods then no_update
      else execute_loop settings env cr component pl pods health (pl_names pl))"

section \<open>Comparisons are equality\<close>

lemma equalStringMap_eq: "gm_wf a \<Longrightarrow> gm_wf b \<Longrightarrow> equalStringMap a b \<longleftrightarrow> gm_eq a b"
proof -
  assume wf: "gm_wf a" "gm_wf b"
  show ?thesis
  proof
    assume eq: "equalStringMap a b"
    have "gm_get a k = gm_get b k" for k
    proof (cases "gm_get b k")
      case None
      then show ?thesis
      proof (cases "gm_get a k")
        case (Some v)
        have sub: "fst ` set b \<subseteq> fst ` set a" using eq
          by (fastforce simp: equalStringMap_def list_all_iff gm_has_def gm_get_None dest: not_None_eq [THEN iffD1])
        have "card (fst ` set a) = length a" "card (fst ` set b) = length b"
          using wf by (simp_all add: gm_wf_def distinct_card flip: set_map)
        then have "fst ` set b = fst ` set a" using eq sub by (intro card_subset_eq) (simp_all add: equalStringMap_def)
        then show ?thesis using None Some by (metis gm_get_None option.distinct(1))
      qed simp
    next
      case (Some w)
      then have "(k, w) \<in> set b" using wf(2) by (simp add: gm_get_in)
      then have "gm_has a k" using eq by (auto simp: equalStringMap_def list_all_iff)
      then obtain v where v: "gm_get a k = Some v" by (auto simp: gm_has_def)
      then have "(k, v) \<in> set a" using wf(1) by (simp add: gm_get_in)
      then have "gm_str b k = v" using eq by (auto simp: equalStringMap_def list_all_iff)
      then show ?thesis using Some v by (simp add: gm_str_def)
    qed
    then show "gm_eq a b" by (simp add: gm_eq_def)
  next
    assume eq: "gm_eq a b"
    then have get: "gm_get a k = gm_get b k" for k by (simp add: gm_eq_def)
    have "length a = length b" using gm_eq_length [OF wf(1) wf(2)] eq by simp
    then show "equalStringMap a b" using wf get
      by (auto simp: equalStringMap_def list_all_iff gm_str_def gm_has_def gm_get_in [symmetric])
  qed
qed

definition quantity_of :: "resource_list \<Rightarrow> string \<Rightarrow> quantity" where
  "quantity_of m k = (case gm_get m k of None \<Rightarrow> 0 | Some q \<Rightarrow> q)"

lemma resourceListEqual_iff:
  assumes wf: "gm_wf x" "gm_wf y"
  shows "resourceListEqual x y \<longleftrightarrow> (\<forall>k. quantity_of x k = quantity_of y k)"
proof
  assume eq: "resourceListEqual x y"
  show "\<forall>k. quantity_of x k = quantity_of y k"
  proof
    fix k
    show "quantity_of x k = quantity_of y k"
    proof (cases "gm_get x k")
      case (Some q)
      then have "(k, q) \<in> set x" using wf(1) by (simp add: gm_get_in)
      then show ?thesis using eq Some
        by (auto simp: resourceListEqual_def list_all_iff quantity_of_def split: if_splits option.splits)
    next
      case None
      then have "q = 0" if "gm_get y k = Some q" for q
        using eq that wf(2) by (auto simp: resourceListEqual_def list_all_iff gm_has_def gm_get_in split: if_splits)
      then show ?thesis using None by (auto simp: quantity_of_def split: option.splits)
    qed
  qed
next
  assume all: "\<forall>k. quantity_of x k = quantity_of y k"
  have "case gm_get y k of None \<Rightarrow> q = 0 | Some q' \<Rightarrow> q = q'" if "(k, q) \<in> set x" for k q
    using all [rule_format, of k] that wf(1) by (auto simp: quantity_of_def gm_get_in [symmetric] split: option.splits)
  moreover have "gm_has x k \<or> q = 0" if "(k, q) \<in> set y" for k q
    using all [rule_format, of k] that wf(2) by (auto simp: quantity_of_def gm_has_def gm_get_in [symmetric] split: option.splits)
  ultimately show "resourceListEqual x y" by (auto simp: resourceListEqual_def list_all_iff)
qed

definition wf_resources :: "resource_requirements \<Rightarrow> bool" where
  "wf_resources r = (gm_wf (rr_limits r) \<and> gm_wf (rr_requests r))"

lemma eqResourceRequirements_refl: "wf_resources r \<Longrightarrow> eqResourceRequirements r r"
  by (simp add: eqResourceRequirements_def wf_resources_def resourceListEqual_iff)

lemma equalContainerPorts_refl [simp]: "equalContainerPorts a a"
  by (auto simp: equalContainerPorts_def list_all_iff set_zip)

lemma equalStringSlice_refl [simp]: "equalStringSlice a a"
  by (auto simp: equalStringSlice_def list_all_iff set_zip)

section \<open>The plan\<close>

definition scaled_down :: "kv_cluster \<Rightarrow> pod list \<Rightarrow> pod \<Rightarrow> bool" where
  "scaled_down cr pods p =
     (max 0 (spec_redis_replicas (cr_spec cr)) < int (length pods) \<and> max 0 (spec_redis_replicas (cr_spec cr)) \<le> Ordinal (pod_name p))"

interpretation by_ordinal_desc: comparator "\<lambda>a b. Ordinal a > Ordinal b"
  by unfold_locales auto

lemma find_pod_None: "find_pod n pods = None \<longleftrightarrow> n \<notin> pod_name ` set pods"
  by (auto simp: find_pod_def find_None_iff)

lemma reasons_fold_get:
  "distinct (map pod_name pods) \<Longrightarrow>
   gm_get (foldl (\<lambda>m p. if R p \<noteq> [] then gm_set m (pod_name p) (R p) else m) m pods) n =
     (case find_pod n pods of Some p \<Rightarrow> if R p \<noteq> [] then Some (R p) else gm_get m n | None \<Rightarrow> gm_get m n)"
proof (induction pods arbitrary: m)
  case (Cons p pods)
  have none: "find_pod (pod_name p) pods = None"
    using Cons.prems by (simp add: find_pod_None)
  show ?case
    using Cons none by (cases "pod_name p = n") (auto simp: find_pod_def split: option.splits)
qed (simp add: find_pod_def)

lemma scale_down_fold_get:
  "distinct (map pod_name pods) \<Longrightarrow> 0 \<le> d \<Longrightarrow>
   gm_get (foldl (scale_down_step d) m pods) n =
     (case find_pod n pods of
        Some p \<Rightarrow> if d \<le> Ordinal n then Some ((case gm_get m n of Some r \<Rightarrow> r | None \<Rightarrow> []) @ [''scale-down'']) else gm_get m n
      | None \<Rightarrow> gm_get m n)"
proof (induction pods arbitrary: m)
  case (Cons p pods)
  have none: "find_pod (pod_name p) pods = None"
    using Cons.prems by (simp add: find_pod_None)
  show ?case
    using Cons none by (cases "pod_name p = n") (auto simp: find_pod_def scale_down_step_def Let_def split: option.splits)
qed (simp add: find_pod_def)

lemma reasons_fold_wf: "gm_wf m \<Longrightarrow> gm_wf (foldl (\<lambda>m p. if R p \<noteq> [] then gm_set m (pod_name p) (R p) else m) m pods)"
  by (induction pods arbitrary: m) auto

lemma scale_down_fold_wf: "gm_wf m \<Longrightarrow> gm_wf (foldl (scale_down_step d) m pods)"
  by (induction pods arbitrary: m) (auto simp: scale_down_step_def Let_def)

lemma PlanUpdates_wf: "gm_wf (pl_reasons (PlanUpdates cr ss pods health storage))"
  by (simp add: PlanUpdates_def Let_def reasons_fold_wf scale_down_fold_wf)

lemma PlanUpdates_names:
  "pl_names (PlanUpdates cr ss pods health storage)
   = sort_by (\<lambda>a b. Ordinal a > Ordinal b) (map fst (pl_reasons (PlanUpdates cr ss pods health storage)))"
  by (simp add: PlanUpdates_def Let_def)

lemma PlanUpdates_reasons:
  assumes "distinct (map pod_name pods)"
  shows "gm_get (pl_reasons (PlanUpdates cr ss pods health storage)) n = (case find_pod n pods of
      Some p \<Rightarrow> (let r = pod_reasons cr ss health storage p @ (if scaled_down cr pods p then [''scale-down''] else [])
                in if r = [] then None else Some r)
    | None \<Rightarrow> None)"
proof (cases "find_pod n pods")
  case None
  then show ?thesis
    by (simp add: PlanUpdates_def Let_def reasons_fold_get [OF assms] scale_down_fold_get [OF assms])
next
  case (Some p)
  then have "pod_name p = n" by (auto simp: find_pod_def find_Some_iff)
  then show ?thesis using Some
    by (auto simp: PlanUpdates_def Let_def reasons_fold_get [OF assms] scale_down_fold_get [OF assms] scaled_down_def
        simp del: max_def)
qed

lemma find_pod_mem: "distinct (map pod_name pods) \<Longrightarrow> p \<in> set pods \<Longrightarrow> find_pod (pod_name p) pods = Some p"
  by (induction pods) (auto simp: find_pod_def)

lemma find_pod_Some: "find_pod n pods = Some p \<Longrightarrow> p \<in> set pods \<and> pod_name p = n"
  by (auto simp: find_pod_def find_Some_iff)

lemma PlanUpdates_mem:
  assumes "distinct (map pod_name pods)"
  shows "n \<in> set (pl_names (PlanUpdates cr ss pods health storage))
     \<longleftrightarrow> (\<exists>p \<in> set pods. pod_name p = n \<and> (pod_reasons cr ss health storage p \<noteq> [] \<or> scaled_down cr pods p))"
proof -
  have "n \<in> set (pl_names (PlanUpdates cr ss pods health storage))
      \<longleftrightarrow> gm_get (pl_reasons (PlanUpdates cr ss pods health storage)) n \<noteq> None"
    by (simp add: PlanUpdates_names gm_get_None)
  also have "\<dots> \<longleftrightarrow> (\<exists>p. find_pod n pods = Some p \<and> (pod_reasons cr ss health storage p \<noteq> [] \<or> scaled_down cr pods p))"
    by (simp add: PlanUpdates_reasons [OF assms] Let_def split: option.splits)
  also have "\<dots> \<longleftrightarrow> (\<exists>p \<in> set pods. pod_name p = n \<and> (pod_reasons cr ss health storage p \<noteq> [] \<or> scaled_down cr pods p))"
    using find_pod_mem [OF assms] find_pod_Some by blast
  finally show ?thesis .
qed


definition demo_update_pods :: "pod list" where
  "demo_update_pods = [pod0 ''ns'' ''kv-0'', pod0 ''ns'' ''kv-1'']"


section \<open>No restart loop\<close>

text \<open>What the StatefulSet controller makes of the template of a StatefulSet.\<close>

definition created_from :: "stateful_set \<Rightarrow> pod \<Rightarrow> bool" where
  "created_from s p =
     (pod_containers p = map container.truncate (ps_containers (sts_pod s))
      \<and> pod_annotations p = sts_tpl_annotations s
      \<and> pod_node_selector p = ps_node_selector (sts_pod s))"

text \<open>The health verdict does not contradict the readiness of the pod.\<close>

definition health_calm :: "health_map \<Rightarrow> pod \<Rightarrow> bool" where
  "health_calm health p = (health_reasons health p = [])"

definition wf_spec_resources :: "kv_cluster \<Rightarrow> bool" where
  "wf_spec_resources cr =
     (wf_resources (ValueOrEmptyResources (spec_resources (cr_spec cr))) \<and> wf_resources (DesiredSentinelResources cr)
      \<and> wf_resources (desiredMetricsResources cr)
      \<and> (\<forall>sp. spec_sentinel_pod (cr_spec cr) = Some sp \<longrightarrow> gm_wf (spod_node_selector sp)))"

lemma hash_reasons_created: "created_from s p \<Longrightarrow> hash_reasons (Some s) p = []"
  by (simp add: hash_reasons_def created_from_def Let_def)

lemma selector_reasons_created:
  assumes "created_from s p" "gm_wf (ps_node_selector (sts_pod s))"
  shows "selector_reasons (Some s) p = []"
  using assms by (simp add: selector_reasons_def created_from_def equalStringMap_eq)

lemma plan_images: "spec_image (cr_spec cr) \<noteq> '''' \<Longrightarrow> ResolveImage (cr_spec cr) = spec_image (cr_spec cr)"
    "spec_image (cr_spec cr) \<noteq> '''' \<Longrightarrow> plan_sentinel_image cr = sentinel_image cr"
  by (simp_all add: ResolveImage_def plan_sentinel_image_def sentinel_image_def split: option.splits)

lemmas container_fields = redis_container_def buildMetricsContainer_def container.truncate_def container_names Let_def

lemma redis_pod_reasons:
  assumes s_def: "s = StatefulSet pq def preStop cr ch th scr" and "created_from s p"
    and image: "spec_image (cr_spec cr) \<noteq> ''''" and wf: "wf_spec_resources cr"
    and "health_calm health p" "gm_get storage (pod_name p) = None"
  shows "pod_reasons cr (Some s) health storage p = []"
proof -
  have cs: "pod_containers p = map container.truncate (redis_container preStop cr scr
        # (if metricsEnabled cr then [buildMetricsContainer cr scr (snd (RedisPort cr)) (fst (metricsExporterPort cr))] else []))"
    using assms(2) redis_workload_parts(2) [OF s_def] by (simp add: created_from_def)
  have "concat (map (container_reasons cr) (pod_containers p)) = []"
    using wf by (simp add: cs container_reasons_def container_fields plan_images [OF image] wf_spec_resources_def eqResourceRequirements_refl)
  moreover have "layout_reasons cr p = []"
    by (simp add: layout_reasons_def has_container_def cs container_fields)
  moreover have "metrics_reasons cr (Some s) p = []"
    using wf by (simp add: metrics_reasons_def cs redis_workload_parts(2) [OF s_def] index_by_def container_fields
        wf_spec_resources_def eqResourceRequirements_refl has_container_def gm_set_def gm_get_def)
  moreover have "gm_wf (ps_node_selector (sts_pod s))" by (simp add: redis_workload_parts(6) [OF s_def])
  ultimately show ?thesis
    using hash_reasons_created [OF assms(2)] selector_reasons_created [OF assms(2)] assms(5,6)
    by (simp add: pod_reasons_def health_calm_def)
qed

lemma sentinel_pod_reasons:
  assumes s_def: "s = SentinelStatefulSet preStop cr ch th scr" and "created_from s p"
    and image: "spec_image (cr_spec cr) \<noteq> ''''" and wf: "wf_spec_resources cr"
    and "health_calm health p" "gm_get storage (pod_name p) = None"
  shows "pod_reasons cr (Some s) health storage p = []"
proof -
  have cs: "pod_containers p = map container.truncate (ps_containers (buildSentinelPodSpec preStop cr scr))"
    using assms(2) sentinel_workload_parts(2) [OF s_def] by (simp add: created_from_def)
  have names: "has_container RedisContainerName p = False"
    by (simp add: has_container_def cs buildSentinelPodSpec_def container_fields)
  have "concat (map (container_reasons cr) (pod_containers p)) = []"
    using wf by (simp add: cs buildSentinelPodSpec_def container_reasons_def container_fields plan_images(2) [OF image]
        wf_spec_resources_def eqResourceRequirements_refl)
  moreover have "gm_wf (ps_node_selector (sts_pod s))"
    using wf by (simp add: s_def SentinelStatefulSet_def Let_def buildSentinelPodSpec_def wf_spec_resources_def split: option.splits)
  ultimately show ?thesis
    using hash_reasons_created [OF assms(2)] selector_reasons_created [OF assms(2)] assms(5,6) names
    by (simp add: pod_reasons_def health_calm_def layout_reasons_def metrics_reasons_def)
qed

lemma PlanUpdates_empty:
  assumes "\<And>p. p \<in> set pods \<Longrightarrow> pod_reasons cr ss health storage p = []"
    and "int (length pods) \<le> max 0 (spec_redis_replicas (cr_spec cr))"
  shows "PlanUpdates cr ss pods health storage = \<lparr>pl_names = [], pl_reasons = []\<rparr>"
proof -
  have "foldl (\<lambda>m p. if pod_reasons cr ss health storage p \<noteq> [] then gm_set m (pod_name p) (pod_reasons cr ss health storage p) else m) m pods = m" for m
    using assms(1) by (induction pods) auto
  moreover have "\<not> max 0 (spec_redis_replicas (cr_spec cr)) < int (length pods)" using assms(2) by (simp only: not_less)
  ultimately show ?thesis by (simp only: PlanUpdates_def Let_def if_False) (simp only: sort_by.simps list.map)
qed


definition demo_update_cr :: kv_cluster where
  "demo_update_cr = (cluster0 ''ns'' ''kv'')\<lparr>cr_spec := spec0\<lparr>spec_image := ''valkey:8'', spec_redis_replicas := 2\<rparr>\<rparr>"

definition demo_update_sts :: stateful_set where
  "demo_update_sts = StatefulSet (\<lambda>_. None) 0 ''stop'' demo_update_cr ''h1'' '''' None"

definition demo_template_pod :: "string \<Rightarrow> pod" where
  "demo_template_pod n = (pod0 ''ns'' n)\<lparr>pod_containers := map container.truncate (ps_containers (sts_pod demo_update_sts)),
     pod_annotations := sts_tpl_annotations demo_update_sts, pod_node_selector := ps_node_selector (sts_pod demo_update_sts)\<rparr>"


text \<open>
  The scale-down rule counts pods against \<open>spec.redisReplicas\<close> also when it plans Sentinel pods: with five Sentinels
  and three Redis pods the last two Sentinels are planned for removal in every reconciliation, and the
  StatefulSet creates them again.
\<close>

lemma sentinel_scale_down_loop:
  "pl_names (PlanUpdates ((cluster0 ''ns'' ''kv'')\<lparr>cr_spec := spec0\<lparr>spec_mode := ModeSentinel, spec_redis_replicas := 3,
       spec_sentinel_count := Some 5\<rparr>\<rparr>) None
     (map (pod0 ''ns'') [''kv-sentinel-0'', ''kv-sentinel-1'', ''kv-sentinel-2'', ''kv-sentinel-3'', ''kv-sentinel-4'']) None [])
   = [''kv-sentinel-4'', ''kv-sentinel-3'']"
  by code_simp

section \<open>One restart at a time\<close>

definition action_pod :: "update_action \<Rightarrow> string" where
  "action_pod a = (case a of PodEvicted n \<Rightarrow> n | PodDeleted n \<Rightarrow> n)"

lemma restart_pod_result:
  "ur_actions (restart_pod settings env component p) = [] \<and> ur_pod (restart_pod settings env component p) = ''''
     \<and> ur_error (restart_pod settings env component p) \<noteq> None
   \<or> map action_pod (ur_actions (restart_pod settings env component p)) = [pod_name p]
     \<and> ur_pod (restart_pod settings env component p) = pod_name p \<and> ur_error (restart_pod settings env component p) = None
     \<and> (PodDeleted (pod_name p) \<in> set (ur_actions (restart_pod settings env component p))
          \<longrightarrow> component = ComponentSentinel \<and> \<not> IsPodReady p)"
  by (auto simp: restart_pod_def no_update_def action_pod_def Let_def split: option.splits evict_error.splits delete_answer.splits)

lemma execute_loop_result:
  "execute_loop settings env cr component pl pods health ns = no_update
   \<or> (\<exists>n \<in> set ns. \<exists>p. find_pod n pods = Some p \<and> \<not> skip_candidate cr component pl pods health p
        \<and> execute_loop settings env cr component pl pods health ns = restart_pod settings env component p)"
  by (induction ns) (auto split: option.splits)

lemma Execute_result:
  assumes "Execute settings env cr component pl pods health \<noteq> no_update"
  obtains p where "p \<in> set pods" "pod_name p \<in> set (pl_names pl)" "\<not> skip_candidate cr component pl pods health p"
    "Execute settings env cr component pl pods health = restart_pod settings env component p"
    "\<And>q. q \<in> set pods \<Longrightarrow> pod_deletion q = None"
    "\<And>q. q \<in> set pods \<Longrightarrow> pod_name q \<notin> set (pl_names pl) \<Longrightarrow> IsPodReady q"
proof -
  have run: "Execute settings env cr component pl pods health = execute_loop settings env cr component pl pods health (pl_names pl)"
    and del: "\<And>q. q \<in> set pods \<Longrightarrow> pod_deletion q = None"
    and ready: "\<And>q. q \<in> set pods \<Longrightarrow> pod_name q \<notin> set (pl_names pl) \<Longrightarrow> IsPodReady q"
    using assms by (auto simp: Execute_def list_ex_iff split: if_splits)
  obtain n p where "n \<in> set (pl_names pl)" "find_pod n pods = Some p" "\<not> skip_candidate cr component pl pods health p"
    "execute_loop settings env cr component pl pods health (pl_names pl) = restart_pod settings env component p"
    using execute_loop_result [of settings env cr component pl pods health "pl_names pl"] assms run by auto
  then show ?thesis using that [of p] run del ready find_pod_Some [of n pods p] by simp
qed

lemma guards_open:
  assumes "\<not> gd_blocked (EvaluateGuards g)" "pl_names (gi_plan g) \<noteq> []" "\<not> planHasReason (gi_plan g) ''tls-hash''"
  shows "gi_allow_disruptions g" "\<not> hasCondition (gi_status g) ConditionFailoverInProgress StatusTrue"
    "\<not> hasCondition (gi_status g) ConditionBootstrapInProgress StatusTrue"
    "1 < gi_desired_replicas g \<Longrightarrow> \<exists>q \<in> set (gi_pods g). pod_name q \<noteq> gi_master g
        \<and> gm_str (pod_labels q) RoleLabelKey = ''replica'' \<and> healthStateForPod q (gi_health g)"
  using assms
  by (auto simp: EvaluateGuards_def guard_block_def countHealthyReplicas_def filter_empty_conv split: if_splits)

lemma hasReason_plan: "hasReasonForPod pl n r \<Longrightarrow> r \<noteq> '''' \<Longrightarrow> planHasReason pl r"
  by (auto simp: hasReasonForPod_def planHasReason_def list_ex_iff gm_get_def split: option.splits dest!: map_of_SomeD) 

text \<open>
  C10: When the guards let a plan pass and \<open>Execute\<close> acts on it, then it touches exactly one pod, a candidate of the
  plan that is present; no pod is being deleted and every pod outside the plan is ready; the pod is not labelled
  master in a replicated or Sentinel cluster; it is evicted, so that disruption budgets hold, unless it is an
  unready Sentinel. Unless the plan has a pod with new certificates, disruptions are allowed, no failover and no
  bootstrap is under way, another pod is healthy, and a replicated cluster has a healthy replica.
\<close>

theorem rolling_update_safe:
  assumes "\<not> gd_blocked (EvaluateGuards g)"
    and "r = Execute settings env cr component (gi_plan g) (gi_pods g) (gi_health g)" "ur_actions r \<noteq> []"
  shows "\<exists>p \<in> set (gi_pods g). pod_name p \<in> set (pl_names (gi_plan g)) \<and> map action_pod (ur_actions r) = [pod_name p]
     \<and> ur_pod r = pod_name p \<and> ur_error r = None
     \<and> (\<forall>q \<in> set (gi_pods g). pod_deletion q = None \<and> (pod_name q \<in> set (pl_names (gi_plan g)) \<or> IsPodReady q))
     \<and> \<not> (gm_str (pod_labels p) RoleLabelKey = ''master''
          \<and> (1 < spec_redis_replicas (cr_spec cr) \<or> spec_mode (cr_spec cr) = ModeSentinel))
     \<and> (PodDeleted (pod_name p) \<in> set (ur_actions r) \<longrightarrow> component = ComponentSentinel \<and> \<not> IsPodReady p)
     \<and> (\<not> planHasReason (gi_plan g) ''tls-hash'' \<longrightarrow>
          gi_allow_disruptions g \<and> \<not> hasCondition (gi_status g) ConditionFailoverInProgress StatusTrue
          \<and> \<not> hasCondition (gi_status g) ConditionBootstrapInProgress StatusTrue
          \<and> (gi_health g \<noteq> None \<and> 1 < length (gi_pods g) \<longrightarrow>
               (\<exists>q \<in> set (gi_pods g). pod_name q \<noteq> pod_name p \<and> healthStateForPod q (gi_health g)))
          \<and> (1 < gi_desired_replicas g \<longrightarrow> (\<exists>q \<in> set (gi_pods g). pod_name q \<noteq> gi_master g
               \<and> gm_str (pod_labels q) RoleLabelKey = ''replica'' \<and> healthStateForPod q (gi_health g))))"
proof -
  have "r \<noteq> no_update" using assms(3) by (auto simp: no_update_def)
  then obtain p where p: "p \<in> set (gi_pods g)" "pod_name p \<in> set (pl_names (gi_plan g))"
      "\<not> skip_candidate cr component (gi_plan g) (gi_pods g) (gi_health g) p" "r = restart_pod settings env component p"
      "\<And>q. q \<in> set (gi_pods g) \<Longrightarrow> pod_deletion q = None"
      "\<And>q. q \<in> set (gi_pods g) \<Longrightarrow> pod_name q \<notin> set (pl_names (gi_plan g)) \<Longrightarrow> IsPodReady q"
    unfolding assms(2) by (rule Execute_result) (use that in blast)
  have act: "map action_pod (ur_actions r) = [pod_name p]" "ur_pod r = pod_name p" "ur_error r = None"
      "PodDeleted (pod_name p) \<in> set (ur_actions r) \<longrightarrow> component = ComponentSentinel \<and> \<not> IsPodReady p"
    using restart_pod_result [of settings env component p] assms(3) by (auto simp: p(4))
  have others: "\<exists>q \<in> set (gi_pods g). pod_name q \<noteq> pod_name p \<and> healthStateForPod q (gi_health g)"
    if "\<not> planHasReason (gi_plan g) ''tls-hash''" "gi_health g \<noteq> None" "1 < length (gi_pods g)"
    using p(3) that hasReason_plan [of "gi_plan g" "pod_name p" "''tls-hash''"]
    by (auto simp: skip_candidate_def list_ex_iff)
  have "pl_names (gi_plan g) \<noteq> []" using p(2) by auto
  note open_guards = guards_open [OF assms(1) this]
  show ?thesis
    using p(1,2,5,6) act others open_guards p(3) by (intro bexI [of _ p]) (auto simp: skip_candidate_def)
qed

definition demo_update_env :: update_env where
  "demo_update_env = \<lparr>ue_get = (\<lambda>_. None),
     ue_evict = (\<lambda>_. \<lparr>vk_ctx = (\<lambda>_. None), vk_evict = (\<lambda>_. EvictOk), vk_wait = (\<lambda>_. None)\<rparr>), ue_delete = (\<lambda>_. DeleteOk)\<rparr>"

definition demo_eviction :: eviction_settings where
  "demo_eviction = \<lparr>evs_max_attempts = 3, evs_per_attempt_timeout = 0, evs_initial_backoff = sec, evs_max_backoff = 5 * sec\<rparr>"

definition demo_guard :: guard_input where
  "demo_guard = \<lparr>gi_allow_disruptions = True, gi_status = Some status0,
     gi_plan = \<lparr>pl_names = [''kv-1'', ''kv-0''], pl_reasons = [(''kv-1'', [''config-hash'']), (''kv-0'', [''config-hash''])]\<rparr>,
     gi_pods = [(pod0 ''ns'' ''kv-0'')\<lparr>pod_labels := [(RoleLabelKey, ''master'')], pod_ready_conditions := [True]\<rparr>,
                (pod0 ''ns'' ''kv-1'')\<lparr>pod_labels := [(RoleLabelKey, ''replica'')], pod_ready_conditions := [True]\<rparr>],
     gi_health = Some [], gi_master = ''kv-0'', gi_desired_replicas = 2, gi_mode = ModeStandalone\<rparr>"

theorem rolling_update_safe_witness:
  "ur_pod (Execute demo_eviction demo_update_env demo_update_cr ComponentRedis (gi_plan demo_guard) (gi_pods demo_guard) (gi_health demo_guard))
     \<in> set (pl_names (gi_plan demo_guard))"
proof -
  have "\<not> gd_blocked (EvaluateGuards demo_guard)" by code_simp
  moreover have "ur_actions (Execute demo_eviction demo_update_env demo_update_cr ComponentRedis (gi_plan demo_guard)
      (gi_pods demo_guard) (gi_health demo_guard)) \<noteq> []" by code_simp
  ultimately show ?thesis
    using rolling_update_safe [of demo_guard "Execute demo_eviction demo_update_env demo_update_cr ComponentRedis
        (gi_plan demo_guard) (gi_pods demo_guard) (gi_health demo_guard)" demo_eviction demo_update_env demo_update_cr ComponentRedis] by auto
qed

text \<open>
  One pod with a new certificate hash opens the guards for every pod of the plan, also for pods that are planned
  for another reason while the health gate forbids disruptions.
\<close>

lemma tls_reason_bypasses_guards:
  "\<not> gd_blocked (EvaluateGuards (demo_guard\<lparr>gi_allow_disruptions := False,
      gi_plan := \<lparr>pl_names = [''kv-1'', ''kv-0''], pl_reasons = [(''kv-1'', [''config-hash'']), (''kv-0'', [''tls-hash''])]\<rparr>\<rparr>))
   \<and> ur_pod (Execute demo_eviction demo_update_env demo_update_cr ComponentRedis
       \<lparr>pl_names = [''kv-1'', ''kv-0''], pl_reasons = [(''kv-1'', [''config-hash'']), (''kv-0'', [''tls-hash''])]\<rparr>
       (gi_pods demo_guard) (gi_health demo_guard)) = ''kv-1''"
  by code_simp

end
