(* ===== verification/KV_Storage.thy ===== *)
theory KV_Storage
  imports KV_Core
begin

text \<open>
  Persistent volume claims: \<open>src/controllers/internal/ops/storage/storage.go\<close> grows the claims of a cluster and
  deletes them with it.

  Parsing and printing of quantities and times are arguments, as are the answers of the API server; an accepted
  patch returns the object that was sent.
\<close>

section \<open>Results\<close>

definition ReasonResize :: string where "ReasonResize = ''storage:resize''"
definition defaultRequeue :: duration where "defaultRequeue = 5 * sec"
definition resizeFilesystemGrace :: duration where "resizeFilesystemGrace = 120 * sec"
definition resizeCapacityGrace :: duration where "resizeCapacityGrace = 900 * sec"
definition resizeThrottleBackoff :: duration where "resizeThrottleBackoff = 300 * sec"
definition cleanupBatchDefault :: int where "cleanupBatchDefault = 3"

datatype resize_answer = ResizeOk | ResizeConflict | ResizeTooMany string | ResizeErr string

datatype storage_event =
    ResizeBackoff string duration
  | ResizeRequested string quantity quantity
  | ResizeIgnored string quantity quantity
  | ResizeRestartQueued string string duration
  | ResizeCompleted string quantity

record storage_env =
  sv_parse_quantity :: "string \<Rightarrow> quantity option"
  sv_default_request :: quantity
  sv_show_quantity :: "quantity \<Rightarrow> string"
  sv_now :: time
  sv_format :: "time \<Rightarrow> string"
  sv_parse_nano :: "string \<Rightarrow> time option"
  sv_parse_rfc3339 :: "string \<Rightarrow> time option"
  sv_list :: "string + pvc list"
  sv_resize :: "string \<Rightarrow> resize_answer"
  sv_complete :: "string \<Rightarrow> resize_answer"
  sv_delete :: "string \<Rightarrow> delete_answer"

text \<open>\<open>ResizeResult\<close>, with the accepted patches and the events.\<close>

record resize_result =
  rz_reasons :: "(string, string list) gomap"
  rz_pending :: "string list"
  rz_waiting :: bool
  rz_requeue :: duration
  rz_min_requeue :: duration
  rz_patched :: "pvc list"
  rz_events :: "storage_event list"

definition rz0 :: resize_result where
  "rz0 = \<lparr>rz_reasons = [], rz_pending = [], rz_waiting = False, rz_requeue = 0, rz_min_requeue = 0, rz_patched = [], rz_events = []\<rparr>"

definition storage_minDuration :: "duration \<Rightarrow> duration \<Rightarrow> duration" where
  "storage_minDuration cur candidate =
     (if cur = 0 then candidate else if candidate = 0 then cur else if candidate < cur then candidate else cur)"

definition markWaiting :: "string \<Rightarrow> duration \<Rightarrow> resize_result \<Rightarrow> resize_result" where
  "markWaiting pvcName candidate res =
     (let c1 = (if candidate \<le> 0 then defaultRequeue else candidate);
          c2 = (if 0 < rz_min_requeue res \<and> c1 < rz_min_requeue res then rz_min_requeue res else c1);
          r = storage_minDuration (rz_requeue res) c2
      in res\<lparr>rz_waiting := True,
             rz_pending := (if pvcName \<noteq> '''' then rz_pending res @ [pvcName] else rz_pending res),
             rz_requeue := (if 0 < rz_min_requeue res \<and> r < rz_min_requeue res then rz_min_requeue res else r)\<rparr>)"

definition applyThrottle :: "string \<Rightarrow> duration \<Rightarrow> resize_result \<Rightarrow> resize_result" where
  "applyThrottle pvcName backoff res =
     (let b = (if backoff \<le> 0 then resizeThrottleBackoff else backoff);
          res1 = (if rz_min_requeue res < b then res\<lparr>rz_min_requeue := b\<rparr> else res);
          res2 = (if rz_requeue res1 < b then res1\<lparr>rz_requeue := b\<rparr> else res1)
      in markWaiting pvcName b res2)"

definition appendReason :: "string \<Rightarrow> string \<Rightarrow> resize_result \<Rightarrow> resize_result" where
  "appendReason podName reason res =
     (if podName = '''' \<or> reason = '''' then res
      else let reasons = (case gm_get (rz_reasons res) podName of Some r \<Rightarrow> r | None \<Rightarrow> [])
           in if reason \<in> set reasons then res
              else res\<lparr>rz_reasons := gm_set (rz_reasons res) podName (reasons @ [reason])\<rparr>)"

fun unique_loop :: "string \<Rightarrow> string list \<Rightarrow> string list" where
  "unique_loop prev [] = []"
| "unique_loop prev (s # ss) = (if s \<noteq> prev then s # unique_loop s ss else unique_loop prev ss)"

definition uniqueStrings :: "string list \<Rightarrow> string list" where
  "uniqueStrings xs = (case xs of [] \<Rightarrow> [] | x # ys \<Rightarrow> x # unique_loop x ys)"

definition parseResizeTimestamp :: "storage_env \<Rightarrow> string \<Rightarrow> time option" where
  "parseResizeTimestamp env v =
     (if v = '''' then None
      else case sv_parse_nano env v of Some t \<Rightarrow> Some t | None \<Rightarrow> sv_parse_rfc3339 env v)"

definition resizeThrottle :: "resize_answer \<Rightarrow> duration option" where
  "resizeThrottle a = (case a of
      ResizeTooMany _ \<Rightarrow> Some resizeThrottleBackoff
    | ResizeErr msg \<Rightarrow>
        if list_ex (Contains msg) [''RequestLimitExceeded'', ''VolumeModifyRateExceeded'', ''Throttling'', ''Rate exceeded'']
        then Some resizeThrottleBackoff else None
    | _ \<Rightarrow> None)"

definition answer_message :: "resize_answer \<Rightarrow> string" where
  "answer_message a = (case a of ResizeTooMany m \<Rightarrow> m | ResizeErr m \<Rightarrow> m | _ \<Rightarrow> '''')"

definition hasFileSystemResizePending :: "pvc \<Rightarrow> bool" where
  "hasFileSystemResizePending p = list_ex (\<lambda>(t, s). t = ''FileSystemResizePending'' \<and> s = StatusTrue) (pvc_conditions p)"

definition listClusterPVCs :: "storage_env \<Rightarrow> kv_cluster \<Rightarrow> string + pvc list" where
  "listClusterPVCs env cr = (case sv_list env of
      Inl e \<Rightarrow> Inl e
    | Inr items \<Rightarrow> Inr (filter (PVCBelongsToCluster cr) items))"

section \<open>Growing the claims\<close>

definition desired_storage :: "storage_env \<Rightarrow> kv_cluster \<Rightarrow> quantity" where
  "desired_storage env cr = DesiredStorageQuantity (sv_parse_quantity env) (sv_default_request env) cr"

definition pvc_pod :: "kv_cluster \<Rightarrow> pvc \<Rightarrow> string" where
  "pvc_pod cr p =
     (let n = gm_str (pvc_labels p) ''statefulset.kubernetes.io/pod-name'';
          n1 = (if n = '''' then PodNameFromPVC cr (pvc_name p) else n)
      in if n1 = '''' then pvc_name p else n1)"

definition value_or_zero :: "quantity option \<Rightarrow> quantity" where
  "value_or_zero q = (case q of None \<Rightarrow> 0 | Some v \<Rightarrow> v)"

definition grown :: "storage_env \<Rightarrow> quantity \<Rightarrow> pvc \<Rightarrow> pvc" where
  "grown env desired p = p\<lparr>pvc_request := Some desired,
     pvc_annotations := gm_set (gm_set (pvc_annotations p) AnnotationPVCResizeTarget (sv_show_quantity env desired))
       AnnotationPVCResizeRequestedAt (sv_format env (sv_now env))\<rparr>"

definition completed :: "storage_env \<Rightarrow> pvc \<Rightarrow> pvc" where
  "completed env p = p\<lparr>pvc_annotations := gm_delete
     (gm_set (pvc_annotations p) AnnotationPVCResizeCompletedAt (sv_format env (sv_now env))) AnnotationPVCResizeRequestedAt\<rparr>"

definition resize_event :: "storage_event \<Rightarrow> resize_result \<Rightarrow> resize_result" where
  "resize_event e res = res\<lparr>rz_events := rz_events res @ [e]\<rparr>"

definition resize_target_matches :: "storage_env \<Rightarrow> quantity \<Rightarrow> pvc \<Rightarrow> bool" where
  "resize_target_matches env desired p = (gm_str (pvc_annotations p) AnnotationPVCResizeTarget = sv_show_quantity env desired)"

definition resize_age :: "storage_env \<Rightarrow> pvc \<Rightarrow> duration" where
  "resize_age env p =
     (let age = sv_now env - (case parseResizeTimestamp env (gm_str (pvc_annotations p) AnnotationPVCResizeRequestedAt) of
                  Some t \<Rightarrow> t | None \<Rightarrow> sv_now env)
      in if age < 0 then 0 else age)"

definition resize_waiting :: "storage_env \<Rightarrow> quantity \<Rightarrow> pvc \<Rightarrow> bool" where
  "resize_waiting env desired p =
     (resize_target_matches env desired p \<and> (hasFileSystemResizePending p \<or> value_or_zero (pvc_capacity p) < desired))"

definition needs_restart :: "storage_env \<Rightarrow> quantity \<Rightarrow> pvc \<Rightarrow> bool" where
  "needs_restart env desired p =
     (resize_target_matches env desired p
      \<and> (if hasFileSystemResizePending p then resizeFilesystemGrace \<le> resize_age env p
         else value_or_zero (pvc_capacity p) < desired \<and> resizeCapacityGrace \<le> resize_age env p))"

text \<open>The part of an iteration after the request of the claim has been compared and patched.\<close>

definition resize_progress ::
  "storage_env \<Rightarrow> kv_cluster \<Rightarrow> pod list \<Rightarrow> quantity \<Rightarrow> pvc \<Rightarrow> resize_result \<Rightarrow> resize_result" where
  "resize_progress env cr pods desired p res =
     (if resize_waiting env desired p
      then let res1 = markWaiting (pvc_name p) defaultRequeue res; podName = pvc_pod cr p
           in if needs_restart env desired p \<and> podName \<in> pod_name ` set pods
              then resize_event (ResizeRestartQueued (pvc_name p) podName (resize_age env p)) (appendReason podName ReasonResize res1)
              else res1
      else if resize_target_matches env desired p \<and> \<not> hasFileSystemResizePending p \<and> desired \<le> value_or_zero (pvc_capacity p)
      then let fresh = (gm_str (pvc_annotations p) AnnotationPVCResizeCompletedAt = '''');
               res1 = (if fresh then resize_event (ResizeCompleted (pvc_name p) desired) res else res)
           in if (fresh \<or> gm_str (pvc_annotations p) AnnotationPVCResizeRequestedAt \<noteq> '''') \<and> sv_complete env (pvc_name p) = ResizeOk
              then res1\<lparr>rz_patched := rz_patched res1 @ [completed env p]\<rparr> else res1
      else res)"

definition resize_step ::
  "storage_env \<Rightarrow> kv_cluster \<Rightarrow> pod list \<Rightarrow> quantity \<Rightarrow> pvc \<Rightarrow> resize_result \<Rightarrow> resize_result \<times> string option" where
  "resize_step env cr pods desired p res =
     (if pvc_deletion p \<noteq> None then (markWaiting (pvc_name p) defaultRequeue res, None)
      else let current = value_or_zero (pvc_request p)
           in if current < desired
              then (case sv_resize env (pvc_name p) of
                      ResizeOk \<Rightarrow> (resize_progress env cr pods desired (grown env desired p)
                          (resize_event (ResizeRequested (pvc_name p) current desired)
                             (res\<lparr>rz_patched := rz_patched res @ [grown env desired p]\<rparr>)), None)
                    | ResizeConflict \<Rightarrow> (markWaiting (pvc_name p) defaultRequeue res, None)
                    | a \<Rightarrow> (case resizeThrottle a of
                             Some backoff \<Rightarrow> (resize_event (ResizeBackoff (pvc_name p) backoff) (applyThrottle (pvc_name p) backoff res), None)
                           | None \<Rightarrow> (res, Some (answer_message a))))
              else (resize_progress env cr pods desired p
                      (if desired < current then resize_event (ResizeIgnored (pvc_name p) current desired) res else res), None))"

fun resize_loop ::
  "storage_env \<Rightarrow> kv_cluster \<Rightarrow> pod list \<Rightarrow> quantity \<Rightarrow> pvc list \<Rightarrow> resize_result \<Rightarrow> resize_result \<times> string option" where
  "resize_loop env cr pods desired [] res = (res, None)"
| "resize_loop env cr pods desired (p # ps) res = (case resize_step env cr pods desired p res of
      (res1, Some e) \<Rightarrow> (res1, Some e)
    | (res1, None) \<Rightarrow> resize_loop env cr pods desired ps res1)"

definition EnsureResize :: "storage_env \<Rightarrow> kv_cluster \<Rightarrow> pod list \<Rightarrow> resize_result \<times> string option" where
  "EnsureResize env cr pods =
     (if \<not> HasPersistentData cr then (rz0, None)
      else case listClusterPVCs env cr of
             Inl e \<Rightarrow> (rz0, Some e)
           | Inr pvcs \<Rightarrow> (case resize_loop env cr pods (desired_storage env cr) pvcs rz0 of
               (res, Some e) \<Rightarrow> (res, Some e)
             | (res, None) \<Rightarrow>
                 (if 1 < length (rz_pending res)
                  then res\<lparr>rz_pending := uniqueStrings (sort_strings (rz_pending res))\<rparr> else res, None)))"

section \<open>Deleting the claims\<close>

record cleanup_result =
  cu_pending :: "string list"
  cu_deleted :: "string list"

fun cleanup_loop :: "storage_env \<Rightarrow> int \<Rightarrow> pvc list \<Rightarrow> int \<Rightarrow> cleanup_result \<Rightarrow> cleanup_result \<times> string option" where
  "cleanup_loop env limit [] n res = (res, None)"
| "cleanup_loop env limit (p # ps) n res =
     (let res1 = res\<lparr>cu_pending := cu_pending res @ [pvc_name p]\<rparr>
      in if pvc_deletion p \<noteq> None \<or> limit \<le> n then cleanup_loop env limit ps n res1
         else case sv_delete env (pvc_name p) of
                DeleteNotFound \<Rightarrow> cleanup_loop env limit ps n res1
              | DeleteFailed e \<Rightarrow> (res1, Some e)
              | DeleteOk \<Rightarrow> cleanup_loop env limit ps (n + 1) (res1\<lparr>cu_deleted := cu_deleted res1 @ [pvc_name p]\<rparr>))"

definition CleanupPVCs :: "storage_env \<Rightarrow> kv_cluster \<Rightarrow> int \<Rightarrow> cleanup_result \<times> string option" where
  "CleanupPVCs env cr limit =
     (if \<not> HasPersistentData cr then (\<lparr>cu_pending = [], cu_deleted = []\<rparr>, None)
      else case listClusterPVCs env cr of
             Inl e \<Rightarrow> (\<lparr>cu_pending = [], cu_deleted = []\<rparr>, Some e)
           | Inr pvcs \<Rightarrow>
               (case cleanup_loop env (if limit \<le> 0 then cleanupBatchDefault else limit) pvcs 0 \<lparr>cu_pending = [], cu_deleted = []\<rparr> of
                  (res, Some e) \<Rightarrow> (res, Some e)
                | (res, None) \<Rightarrow>
                    (\<lparr>cu_pending = sort_strings (cu_pending res), cu_deleted = sort_strings (cu_deleted res)\<rparr>, None)))"

section \<open>Resizing is safe\<close>

text \<open>A claim of the cluster that a patch turns into another one.\<close>

definition patched_claim :: "quantity \<Rightarrow> pvc list \<Rightarrow> pvc \<Rightarrow> bool" where
  "patched_claim desired pvcs q =
     (\<exists>p \<in> set pvcs. pvc_name q = pvc_name p \<and> pvc_deletion p = None \<and> pvc_capacity q = pvc_capacity p \<and> pvc_labels q = pvc_labels p
        \<and> (pvc_request q = pvc_request p \<or> pvc_request q = Some desired \<and> value_or_zero (pvc_request p) < desired))"

definition restart_justified :: "storage_env \<Rightarrow> kv_cluster \<Rightarrow> pod list \<Rightarrow> quantity \<Rightarrow> pvc list \<Rightarrow> string \<Rightarrow> bool" where
  "restart_justified env cr pods desired pvcs n =
     (n \<in> pod_name ` set pods \<and> (\<exists>p \<in> set pvcs. pvc_pod cr p = n \<and> needs_restart env desired p))"

definition requeue_ok :: "resize_result \<Rightarrow> bool" where
  "requeue_ok res =
     (0 \<le> rz_min_requeue res
      \<and> (if rz_waiting res then 0 < rz_requeue res \<and> rz_min_requeue res \<le> rz_requeue res
         else rz_requeue res = 0 \<and> rz_min_requeue res = 0 \<and> rz_pending res = []))"

definition rz_inv :: "storage_env \<Rightarrow> kv_cluster \<Rightarrow> pod list \<Rightarrow> quantity \<Rightarrow> pvc list \<Rightarrow> resize_result \<Rightarrow> bool" where
  "rz_inv env cr pods desired pvcs res =
     (requeue_ok res \<and> (\<forall>q \<in> set (rz_patched res). patched_claim desired pvcs q)
      \<and> (\<forall>n rs. gm_get (rz_reasons res) n = Some rs \<longrightarrow> rs = [ReasonResize] \<and> restart_justified env cr pods desired pvcs n)
      \<and> (\<forall>n b. ResizeBackoff n b \<in> set (rz_events res) \<longrightarrow> rz_waiting res \<and> resizeThrottleBackoff \<le> rz_requeue res)
      \<and> (rz_min_requeue res \<noteq> 0 \<or> (\<forall>n b. ResizeBackoff n b \<notin> set (rz_events res)))
      \<and> (rz_min_requeue res \<noteq> 0 \<longrightarrow> resizeThrottleBackoff \<le> rz_min_requeue res))"

lemmas resize_constants = defaultRequeue_def resizeThrottleBackoff_def resizeFilesystemGrace_def resizeCapacityGrace_def

lemma markWaiting_requeue: "requeue_ok res \<Longrightarrow> requeue_ok (markWaiting n d res)"
  by (auto simp: requeue_ok_def markWaiting_def Let_def storage_minDuration_def defaultRequeue_def split: if_splits)

lemma markWaiting_fields [simp]:
  "rz_waiting (markWaiting n d res)" "rz_min_requeue (markWaiting n d res) = rz_min_requeue res"
  "rz_patched (markWaiting n d res) = rz_patched res" "rz_reasons (markWaiting n d res) = rz_reasons res"
  "rz_events (markWaiting n d res) = rz_events res"
  by (simp_all add: markWaiting_def Let_def)

lemma markWaiting_inv:
  assumes "rz_inv env cr pods desired pvcs res"
  shows "rz_inv env cr pods desired pvcs (markWaiting n d res)"
proof -
  have ok: "requeue_ok (markWaiting n d res)" using assms markWaiting_requeue by (simp add: rz_inv_def)
  then have "rz_min_requeue res \<le> rz_requeue (markWaiting n d res)" by (simp add: requeue_ok_def)
  then show ?thesis using assms ok by (auto simp: rz_inv_def)
qed

lemma applyThrottle_inv:
  assumes inv: "rz_inv env cr pods desired pvcs res"
  shows "rz_inv env cr pods desired pvcs (resize_event (ResizeBackoff n' b') (applyThrottle n resizeThrottleBackoff res))"
proof -
  define res1 where "res1 = (if rz_min_requeue res < resizeThrottleBackoff then res\<lparr>rz_min_requeue := resizeThrottleBackoff\<rparr> else res)"
  define res2 where "res2 = (if rz_requeue res1 < resizeThrottleBackoff then res1\<lparr>rz_requeue := resizeThrottleBackoff\<rparr> else res1)"
  have eq: "applyThrottle n resizeThrottleBackoff res = markWaiting n resizeThrottleBackoff (res2\<lparr>rz_waiting := True\<rparr>)"
    by (simp add: applyThrottle_def Let_def res1_def res2_def markWaiting_def resizeThrottleBackoff_def)
  have inv2: "rz_inv env cr pods desired pvcs (res2\<lparr>rz_waiting := True\<rparr>)"
    using inv by (auto simp: rz_inv_def res1_def res2_def requeue_ok_def resizeThrottleBackoff_def split: if_splits)
  have min: "resizeThrottleBackoff \<le> rz_min_requeue (res2\<lparr>rz_waiting := True\<rparr>)" by (simp add: res1_def res2_def)
  have inv3: "rz_inv env cr pods desired pvcs (markWaiting n resizeThrottleBackoff (res2\<lparr>rz_waiting := True\<rparr>))"
    by (rule markWaiting_inv [OF inv2])
  have "rz_min_requeue (res2\<lparr>rz_waiting := True\<rparr>) \<le> rz_requeue (markWaiting n resizeThrottleBackoff (res2\<lparr>rz_waiting := True\<rparr>))"
    using inv3 by (simp add: rz_inv_def requeue_ok_def)
  then show ?thesis
    using inv3 min unfolding eq by (auto simp: rz_inv_def resize_event_def requeue_ok_def resizeThrottleBackoff_def)
qed

lemma event_inv:
  assumes "rz_inv env cr pods desired pvcs res" "\<And>n b. e \<noteq> ResizeBackoff n b"
  shows "rz_inv env cr pods desired pvcs (resize_event e res)"
  using assms by (auto simp: rz_inv_def resize_event_def requeue_ok_def)

lemma patched_inv:
  assumes "rz_inv env cr pods desired pvcs res" "patched_claim desired pvcs q"
  shows "rz_inv env cr pods desired pvcs (res\<lparr>rz_patched := rz_patched res @ [q]\<rparr>)"
  using assms by (auto simp: rz_inv_def requeue_ok_def)

lemma appendReason_inv:
  assumes inv: "rz_inv env cr pods desired pvcs res" and just: "restart_justified env cr pods desired pvcs n"
  shows "rz_inv env cr pods desired pvcs (appendReason n ReasonResize res)"
proof (cases "gm_get (rz_reasons res) n")
  case (Some rs)
  then have "rs = [ReasonResize]" using inv by (simp add: rz_inv_def)
  then have "appendReason n ReasonResize res = res" using Some by (simp add: appendReason_def Let_def)
  then show ?thesis using inv by simp
next
  case None
  then show ?thesis using inv just by (auto simp: appendReason_def Let_def rz_inv_def requeue_ok_def ReasonResize_def)
qed

lemma resize_progress_inv:
  assumes inv: "rz_inv env cr pods desired pvcs res"
    and just: "needs_restart env desired p \<Longrightarrow> p \<in> set pvcs" and claim: "patched_claim desired pvcs (completed env p)"
  shows "rz_inv env cr pods desired pvcs (resize_progress env cr pods desired p res)"
proof -
  have w: "rz_inv env cr pods desired pvcs (markWaiting (pvc_name p) defaultRequeue res)" by (rule markWaiting_inv [OF inv])
  have r: "rz_inv env cr pods desired pvcs (resize_event (ResizeRestartQueued (pvc_name p) (pvc_pod cr p) (resize_age env p))
      (appendReason (pvc_pod cr p) ReasonResize (markWaiting (pvc_name p) defaultRequeue res)))"
    if "needs_restart env desired p" "pvc_pod cr p \<in> pod_name ` set pods"
    by (rule event_inv [OF appendReason_inv [OF w]]) (use that just in \<open>auto simp: restart_justified_def\<close>)
  have c: "rz_inv env cr pods desired pvcs
      (if b then resize_event (ResizeCompleted (pvc_name p) desired) res else res)" for b
    using inv event_inv [OF inv] by simp
  show ?thesis
    using w r c [of True] c [of False] inv patched_inv [OF c claim, of True] patched_inv [OF c claim, of False]
    by (simp add: resize_progress_def Let_def)
qed

text \<open>What \<open>time.RFC3339Nano\<close> promises: a printed time can be read back.\<close>

definition clock_readable :: "storage_env \<Rightarrow> bool" where
  "clock_readable env = (sv_format env (sv_now env) \<noteq> '''' \<and> sv_parse_nano env (sv_format env (sv_now env)) = Some (sv_now env))"

lemma grown_age: "clock_readable env \<Longrightarrow> resize_age env (grown env desired p) = 0"
  by (simp add: resize_age_def grown_def parseResizeTimestamp_def clock_readable_def Let_def)

lemma grown_no_restart: "clock_readable env \<Longrightarrow> \<not> needs_restart env desired (grown env desired p)"
  by (simp add: needs_restart_def grown_age resize_constants)

lemma completed_claim:
  assumes "p \<in> set pvcs" "pvc_deletion p = None"
  shows "patched_claim desired pvcs (completed env p)"
    and "value_or_zero (pvc_request p) < desired \<Longrightarrow> patched_claim desired pvcs (completed env (grown env desired p))"
    and "value_or_zero (pvc_request p) < desired \<Longrightarrow> patched_claim desired pvcs (grown env desired p)"
  using assms by (auto simp: patched_claim_def completed_def grown_def intro!: bexI [of _ p])

lemma resize_step_inv:
  assumes inv: "rz_inv env cr pods desired pvcs res" and "p \<in> set pvcs" and clock: "clock_readable env"
  shows "rz_inv env cr pods desired pvcs (fst (resize_step env cr pods desired p res))"
proof (cases "pvc_deletion p = None")
  case False
  then show ?thesis using markWaiting_inv [OF inv] by (simp add: resize_step_def)
next
  case True
  note claims = completed_claim [OF assms(2) True]
  show ?thesis
  proof (cases "value_or_zero (pvc_request p) < desired")
    case False
    have "rz_inv env cr pods desired pvcs
        (if b then resize_event (ResizeIgnored (pvc_name p) (value_or_zero (pvc_request p)) desired) res else res)" for b
      using inv event_inv [OF inv] by simp
    then show ?thesis
      using False True resize_progress_inv [OF _ _ claims(1)] assms(2) by (simp add: resize_step_def Let_def)
  next
    case lt: True
    have grow: "rz_inv env cr pods desired pvcs (resize_progress env cr pods desired (grown env desired p)
        (resize_event (ResizeRequested (pvc_name p) (value_or_zero (pvc_request p)) desired)
           (res\<lparr>rz_patched := rz_patched res @ [grown env desired p]\<rparr>)))"
      by (rule resize_progress_inv [OF event_inv [OF patched_inv [OF inv claims(3) [OF lt]]] _ claims(2) [OF lt]])
        (use grown_no_restart [OF clock] in auto)
    have throttle: "resizeThrottle a = Some b \<Longrightarrow> b = resizeThrottleBackoff" for a b
      by (auto simp: resizeThrottle_def split: resize_answer.splits if_splits)
    show ?thesis
      using True lt grow markWaiting_inv [OF inv] applyThrottle_inv [OF inv] inv
      by (auto simp: resize_step_def Let_def split: resize_answer.splits option.splits dest!: throttle)
  qed
qed

lemma resize_loop_inv:
  assumes "rz_inv env cr pods desired pvcs res" "set ps \<subseteq> set pvcs" "clock_readable env"
  shows "rz_inv env cr pods desired pvcs (fst (resize_loop env cr pods desired ps res))"
  using assms(1,2)
proof (induction ps arbitrary: res)
  case (Cons p ps)
  have "rz_inv env cr pods desired pvcs (fst (resize_step env cr pods desired p res))"
    using resize_step_inv [OF Cons.prems(1) _ assms(3)] Cons.prems(2) by simp
  then show ?case using Cons.IH Cons.prems(2) by (auto split: prod.splits option.splits)
qed simp

lemma EnsureResize_inv:
  assumes clock: "clock_readable env" and run: "EnsureResize env cr pods = (res, err)"
  obtains pvcs res0 where "\<And>p. p \<in> set pvcs \<Longrightarrow> PVCBelongsToCluster cr p"
    "rz_inv env cr pods (desired_storage env cr) pvcs res0" "res = res0\<lparr>rz_pending := rz_pending res\<rparr>"
    "\<And>items. sv_list env = Inr items \<Longrightarrow> set pvcs \<subseteq> set items"
proof -
  have rz0: "rz_inv env cr pods (desired_storage env cr) pvcs rz0" for pvcs
    by (simp add: rz_inv_def rz0_def requeue_ok_def)
  show ?thesis
  proof (cases "HasPersistentData cr \<and> (\<exists>items. sv_list env = Inr items)")
    case False
    then have "res = rz0" using run by (auto simp: EnsureResize_def listClusterPVCs_def split: if_splits sum.splits)
    then show ?thesis using that [of "[]" rz0] rz0 by simp
  next
    case True
    then obtain items where items: "HasPersistentData cr" "sv_list env = Inr items" by blast
    let ?pvcs = "filter (PVCBelongsToCluster cr) items"
    have inv: "rz_inv env cr pods (desired_storage env cr) ?pvcs (fst (resize_loop env cr pods (desired_storage env cr) ?pvcs rz0))"
      by (rule resize_loop_inv [OF rz0 subset_refl clock])
    have "res = (fst (resize_loop env cr pods (desired_storage env cr) ?pvcs rz0))\<lparr>rz_pending := rz_pending res\<rparr>"
      using run items by (auto simp: EnsureResize_def listClusterPVCs_def split: prod.splits option.splits if_splits)
    then show ?thesis using that [OF _ inv] items(2) by auto
  qed
qed


definition demo_storage_env :: storage_env where
  "demo_storage_env = \<lparr>sv_parse_quantity = (\<lambda>_. None), sv_default_request = 1073741824000000000, sv_show_quantity = (\<lambda>_. ''1Gi''),
     sv_now = 0, sv_format = (\<lambda>_. ''1970-01-01T00:00:00Z''), sv_parse_nano = (\<lambda>_. Some 0), sv_parse_rfc3339 = (\<lambda>_. Some 0),
     sv_list = Inr [(pvc0 ''ns'' ''data-kv-0'')\<lparr>pvc_request := Some 1000\<rparr>, (pvc0 ''ns'' ''data-kv-b-0'')\<lparr>pvc_request := Some 1000\<rparr>],
     sv_resize = (\<lambda>_. ResizeTooMany ''slow''), sv_complete = (\<lambda>_. ResizeOk), sv_delete = (\<lambda>_. DeleteOk)\<rparr>"


section \<open>Cleanup\<close>

lemma cleanup_loop_safe:
  assumes "cleanup_loop env limit ps n res = (res', err)" "0 \<le> n" "n \<le> limit"
  shows "\<exists>ds. cu_deleted res' = cu_deleted res @ map pvc_name ds \<and> set ds \<subseteq> {p \<in> set ps. pvc_deletion p = None}
           \<and> n + int (length ds) \<le> limit \<and> (err = None \<longrightarrow> cu_pending res' = cu_pending res @ map pvc_name ps)"
  using assms
proof (induction ps arbitrary: n res)
  case (Cons p ps)
  let ?r = "res\<lparr>cu_pending := cu_pending res @ [pvc_name p]\<rparr>"
  consider (skip) "cleanup_loop env limit (p # ps) n res = cleanup_loop env limit ps n ?r"
    | (fail) e where "cleanup_loop env limit (p # ps) n res = (?r, Some e)"
    | (del) "pvc_deletion p = None" "n < limit"
        "cleanup_loop env limit (p # ps) n res = cleanup_loop env limit ps (n + 1) (?r\<lparr>cu_deleted := cu_deleted res @ [pvc_name p]\<rparr>)"
    by (cases "pvc_deletion p \<noteq> None \<or> limit \<le> n"; cases "sv_delete env (pvc_name p)") (auto simp: Let_def)
  then show ?case
  proof cases
    case skip
    then show ?thesis using Cons.IH [of n ?r] Cons.prems by fastforce
  next
    case fail
    then show ?thesis using Cons.prems by (intro exI [of _ "[]"]) auto
  next
    case del
    obtain ds where "cu_deleted res' = cu_deleted res @ [pvc_name p] @ map pvc_name ds" "set ds \<subseteq> {p \<in> set ps. pvc_deletion p = None}"
      "n + 1 + int (length ds) \<le> limit" "err = None \<longrightarrow> cu_pending res' = cu_pending res @ pvc_name p # map pvc_name ps"
      using Cons.IH [of "n + 1" "?r\<lparr>cu_deleted := cu_deleted res @ [pvc_name p]\<rparr>"] Cons.prems del by auto
    then show ?thesis using del(1) by (intro exI [of _ "p # ds"]) auto
  qed
qed simp

definition cleanup_limit :: "int \<Rightarrow> nat" where
  "cleanup_limit limit = nat (if limit \<le> 0 then cleanupBatchDefault else limit)"

lemma CleanupPVCs_safe:
  assumes "CleanupPVCs env cr limit = (res, err)"
  shows "length (cu_deleted res) \<le> cleanup_limit limit \<and> (\<forall>items. sv_list env = Inr items \<longrightarrow>
           set (cu_deleted res) \<subseteq> pvc_name ` {p \<in> set items. PVCBelongsToCluster cr p \<and> pvc_deletion p = None})"
proof (cases "listClusterPVCs env cr")
  case (Inr pvcs)
  define l where "l = (if limit \<le> 0 then cleanupBatchDefault else limit)"
  obtain res0 err0 where run: "cleanup_loop env l pvcs 0 \<lparr>cu_pending = [], cu_deleted = []\<rparr> = (res0, err0)" by fastforce
  have "0 \<le> l" by (simp add: l_def cleanupBatchDefault_def)
  then obtain ds where ds: "cu_deleted res0 = map pvc_name ds" "set ds \<subseteq> {p \<in> set pvcs. pvc_deletion p = None}" "int (length ds) \<le> l"
    using cleanup_loop_safe [OF run] by auto
  have "HasPersistentData cr \<Longrightarrow> mset (cu_deleted res) = mset (cu_deleted res0)"
    using assms Inr run by (auto simp: CleanupPVCs_def l_def [symmetric] sort_strings_def split: option.splits)
  moreover have "\<not> HasPersistentData cr \<Longrightarrow> cu_deleted res = []" using assms by (auto simp: CleanupPVCs_def)
  ultimately have "cu_deleted res = [] \<or> mset (cu_deleted res) = mset (map pvc_name ds)" using ds(1) by auto
  then have "length (cu_deleted res) \<le> length ds" "set (cu_deleted res) \<subseteq> pvc_name ` set ds"
    using mset_eq_length [of "cu_deleted res" "map pvc_name ds"] mset_eq_setD [of "cu_deleted res" "map pvc_name ds"] by auto
  then have "length (cu_deleted res) \<le> cleanup_limit limit"
      "set (cu_deleted res) \<subseteq> pvc_name ` {p \<in> set pvcs. pvc_deletion p = None}"
    using ds(2,3) by (auto simp: cleanup_limit_def l_def [symmetric])
  then show ?thesis using Inr by (auto simp: listClusterPVCs_def split: sum.splits)
qed (use assms in \<open>auto simp: CleanupPVCs_def listClusterPVCs_def split: if_splits sum.splits\<close>)

lemma cleanup_loop_all:
  assumes "\<And>p. p \<in> set ps \<Longrightarrow> pvc_deletion p = None \<and> sv_delete env (pvc_name p) = DeleteOk" "0 \<le> n" "n \<le> limit"
  shows "cleanup_loop env limit ps n res = (\<lparr>cu_pending = cu_pending res @ map pvc_name ps,
           cu_deleted = cu_deleted res @ map pvc_name (take (nat (limit - n)) ps)\<rparr>, None)"
  using assms
proof (induction ps arbitrary: n res)
  case (Cons p ps)
  show ?case
  proof (cases "n < limit")
    case True
    then have "nat (limit - n) = Suc (nat (limit - (n + 1)))" by simp
    then show ?thesis using Cons.IH [of "n + 1" "res\<lparr>cu_pending := cu_pending res @ [pvc_name p],
          cu_deleted := cu_deleted res @ [pvc_name p]\<rparr>"] Cons.prems True by (simp add: Let_def)
  next
    case False
    then show ?thesis using Cons.IH [of n "res\<lparr>cu_pending := cu_pending res @ [pvc_name p]\<rparr>"] Cons.prems by (simp add: Let_def)
  qed
qed simp

text \<open>The claims of the namespace after one round of an API server that removes what it is asked to.\<close>

definition cleanup_round :: "storage_env \<Rightarrow> kv_cluster \<Rightarrow> int \<Rightarrow> pvc list \<Rightarrow> pvc list" where
  "cleanup_round env cr limit items =
     (let res = fst (CleanupPVCs (env\<lparr>sv_list := Inr items\<rparr>) cr limit)
      in filter (\<lambda>p. pvc_name p \<notin> set (cu_deleted res)) items)"

lemma CleanupPVCs_all:
  assumes "HasPersistentData cr" "\<And>p. p \<in> set items \<Longrightarrow> PVCBelongsToCluster cr p \<Longrightarrow> pvc_deletion p = None"
    and "\<And>n. sv_delete env n = DeleteOk"
  shows "CleanupPVCs (env\<lparr>sv_list := Inr items\<rparr>) cr limit =
     (\<lparr>cu_pending = sort_strings (map pvc_name (filter (PVCBelongsToCluster cr) items)),
       cu_deleted = sort_strings (map pvc_name (take (cleanup_limit limit) (filter (PVCBelongsToCluster cr) items)))\<rparr>, None)"
  using assms cleanup_loop_all [of "filter (PVCBelongsToCluster cr) items" "env\<lparr>sv_list := Inr items\<rparr>" 0
      "if limit \<le> 0 then cleanupBatchDefault else limit"]
  by (simp add: CleanupPVCs_def listClusterPVCs_def cleanup_limit_def cleanupBatchDefault_def)

lemma filter_not_taken:
  "distinct (map f xs) \<Longrightarrow> filter (\<lambda>x. f x \<notin> f ` set (take n xs)) xs = drop n xs"
proof (induction xs arbitrary: n)
  case (Cons x xs)
  show ?case
  proof (cases n)
    case (Suc m)
    have "filter (\<lambda>y. f y \<notin> f ` set (take n (x # xs))) (x # xs) = filter (\<lambda>y. f y \<notin> f ` set (take m xs)) xs"
      using Cons.prems Suc by (auto intro!: filter_cong) (metis image_eqI)
    then show ?thesis using Cons Suc by simp
  qed simp
qed simp

lemma cleanup_round_own:
  assumes "HasPersistentData cr" "\<And>p. p \<in> set items \<Longrightarrow> PVCBelongsToCluster cr p \<Longrightarrow> pvc_deletion p = None"
    and "\<And>n. sv_delete env n = DeleteOk" and dist: "distinct (map pvc_name items)"
  shows "filter (PVCBelongsToCluster cr) (cleanup_round env cr limit items) = drop (cleanup_limit limit) (filter (PVCBelongsToCluster cr) items)"
    and "filter (\<lambda>p. \<not> PVCBelongsToCluster cr p) (cleanup_round env cr limit items) = filter (\<lambda>p. \<not> PVCBelongsToCluster cr p) items"
    and "set (cleanup_round env cr limit items) \<subseteq> set items" "distinct (map pvc_name (cleanup_round env cr limit items))"
proof -
  let ?own = "filter (PVCBelongsToCluster cr) items"
  have rnd: "cleanup_round env cr limit items = filter (\<lambda>p. pvc_name p \<notin> pvc_name ` set (take (cleanup_limit limit) ?own)) items"
    using CleanupPVCs_all [OF assms(1,2,3)] by (simp add: cleanup_round_def)
  have d: "distinct (map pvc_name ?own)" using dist by (simp add: distinct_map inj_on_def)
  show "filter (PVCBelongsToCluster cr) (cleanup_round env cr limit items) = drop (cleanup_limit limit) ?own"
    using filter_not_taken [OF d, of "cleanup_limit limit"] by (simp add: rnd conj_commute)
  have "pvc_name p \<notin> pvc_name ` set (take (cleanup_limit limit) ?own)" if "p \<in> set items" "\<not> PVCBelongsToCluster cr p" for p
    using that dist set_take_subset [of "cleanup_limit limit" ?own] by (auto simp: distinct_map inj_on_def)
  then show "filter (\<lambda>p. \<not> PVCBelongsToCluster cr p) (cleanup_round env cr limit items) = filter (\<lambda>p. \<not> PVCBelongsToCluster cr p) items"
    by (auto simp: rnd intro!: filter_cong)
  show "set (cleanup_round env cr limit items) \<subseteq> set items" "distinct (map pvc_name (cleanup_round env cr limit items))"
    using dist by (auto simp: rnd distinct_map inj_on_def)
qed

lemma cleanup_rounds:
  assumes "HasPersistentData cr" "\<And>p. p \<in> set items \<Longrightarrow> PVCBelongsToCluster cr p \<Longrightarrow> pvc_deletion p = None"
    and "\<And>n. sv_delete env n = DeleteOk" "distinct (map pvc_name items)"
  shows "filter (PVCBelongsToCluster cr) ((cleanup_round env cr limit ^^ k) items)
           = drop (k * cleanup_limit limit) (filter (PVCBelongsToCluster cr) items)
       \<and> filter (\<lambda>p. \<not> PVCBelongsToCluster cr p) ((cleanup_round env cr limit ^^ k) items) = filter (\<lambda>p. \<not> PVCBelongsToCluster cr p) items
       \<and> set ((cleanup_round env cr limit ^^ k) items) \<subseteq> set items \<and> distinct (map pvc_name ((cleanup_round env cr limit ^^ k) items))"
proof (induction k)
  case (Suc k)
  have sub: "\<And>p. p \<in> set ((cleanup_round env cr limit ^^ k) items) \<Longrightarrow> PVCBelongsToCluster cr p \<Longrightarrow> pvc_deletion p = None"
    using Suc assms(2) by blast
  have "distinct (map pvc_name ((cleanup_round env cr limit ^^ k) items))" using Suc by simp
  note step = cleanup_round_own [OF assms(1) sub assms(3) this, of limit]
  show ?case
    using step Suc by (auto simp: add.commute dest: subsetD)
qed (use assms in simp)



text \<open>
  A claim counts as the cluster's when its name starts with the cluster's prefix, so a cluster named \<open>kv\<close> also owns
  the claims of a cluster named \<open>kv-b\<close>: deleting the first with cleanup enabled deletes the data of the second.
\<close>

lemma cleanup_deletes_foreign_claims:
  "DataPVCName (cluster0 ''ns'' ''kv-b'') (sts_pod_name ''kv-b'' 0) = ''data-kv-b-0''
   \<and> ''data-kv-b-0'' \<in> set (cu_deleted (fst (CleanupPVCs demo_storage_env (cluster0 ''ns'' ''kv'') 3)))"
  by code_simp

end
