(* ===== verification/KV_SentinelPhase.thy ===== *)
theory KV_SentinelPhase
  imports KV_RuntimePhase KV_Disruption
begin

text \<open>
  Sentinel quorum and resets: \<open>src/controllers/internal/reconcile/sentinel_helpers.go\<close> and
  \<open>src/controllers/internal/reconcile/phases/sentinel.go\<close>.

  A zero \<open>time.Time\<close> is \<^term>\<open>None\<close>. Reading and printing times (\<open>time.RFC3339\<close>) are arguments, as are the answers of
  the Sentinels and the three readings of the clock one run of the phase makes.
\<close>

section \<open>The reset tracker\<close>

record reset_tracker =
  tk_loss_since :: "time option"
  tk_attempts :: int
  tk_cooldown_until :: "time option"

record time_format =
  tf_parse :: "string \<Rightarrow> time option"
  tf_format :: "time \<Rightarrow> string"

definition NormalizeTimestamp :: "time \<Rightarrow> time" where
  "NormalizeTimestamp t = t - t mod sec"

definition read_time :: "time_format \<Rightarrow> strmap \<Rightarrow> string \<Rightarrow> time option" where
  "read_time tf ann key = (let raw = gm_str ann key in if raw \<noteq> '''' then tf_parse tf raw else None)"

definition ReadSentinelResetTracker :: "time_format \<Rightarrow> strmap \<Rightarrow> reset_tracker" where
  "ReadSentinelResetTracker tf ann =
     \<lparr>tk_loss_since = read_time tf ann AnnotationSentinelQuorumLossSince,
      tk_attempts = (let raw = gm_str ann AnnotationSentinelClusterResetAttempts
                     in if raw \<noteq> '''' then (case ParseInt64 raw of Some n \<Rightarrow> if 0 \<le> n then n else 0 | None \<Rightarrow> 0) else 0),
      tk_cooldown_until = read_time tf ann AnnotationSentinelClusterResetCooldown\<rparr>"

definition sentinelResetTrackersEqual :: "reset_tracker \<Rightarrow> reset_tracker \<Rightarrow> bool" where
  "sentinelResetTrackersEqual a b =
     (tk_loss_since a = tk_loss_since b \<and> tk_cooldown_until a = tk_cooldown_until b \<and> tk_attempts a = tk_attempts b)"

definition write_time :: "time_format \<Rightarrow> string \<Rightarrow> time option \<Rightarrow> strmap \<Rightarrow> strmap" where
  "write_time tf key t ann = (case t of
      None \<Rightarrow> gm_delete ann key
    | Some x \<Rightarrow> gm_set ann key (tf_format tf (NormalizeTimestamp x)))"

text \<open>The annotations of the cluster afterwards, and the error of the patch.\<close>

definition WriteSentinelResetTracker ::
  "time_format \<Rightarrow> string option \<Rightarrow> strmap \<Rightarrow> reset_tracker \<Rightarrow> strmap \<times> string option" where
  "WriteSentinelResetTracker tf patch ann tracker =
     (if sentinelResetTrackersEqual (ReadSentinelResetTracker tf ann) tracker then (ann, None)
      else let attempts = (if tk_attempts tracker < 0 then 0 else tk_attempts tracker);
               a1 = write_time tf AnnotationSentinelQuorumLossSince (tk_loss_since tracker) ann;
               a2 = (if 0 < attempts then gm_set a1 AnnotationSentinelClusterResetAttempts (int_to_dec attempts)
                     else gm_delete a1 AnnotationSentinelClusterResetAttempts);
               a3 = write_time tf AnnotationSentinelClusterResetCooldown (tk_cooldown_until tracker) a2
           in case patch of Some e \<Rightarrow> (ann, Some e) | None \<Rightarrow> (a3, None))"

section \<open>Quorum\<close>

record quorum_env =
  qe_for_pod :: "string \<Rightarrow> string option"
  qe_check :: "string \<Rightarrow> string + bool"
  qe_reset_for_pod :: "string \<Rightarrow> string option"
  qe_reset :: "string \<Rightarrow> string option"

record quorum_report =
  qr_healthy :: bool
  qr_detail :: string
  qr_ready :: nat
  qr_ok :: nat
  qr_noquorum :: nat

definition qr0 :: quorum_report where
  "qr0 = \<lparr>qr_healthy = False, qr_detail = '''', qr_ready = 0, qr_ok = 0, qr_noquorum = 0\<rparr>"

definition or_detail :: "string \<Rightarrow> quorum_report \<Rightarrow> quorum_report" where
  "or_detail d r = (if qr_detail r = '''' then r\<lparr>qr_detail := d\<rparr> else r)"

definition pod_error_text :: "string \<Rightarrow> string \<Rightarrow> string" where
  "pod_error_text n e = n @ '': '' @ e"

definition quorum_failure :: "string \<Rightarrow> string \<Rightarrow> quorum_report \<times> string list \<Rightarrow> quorum_report \<times> string list" where
  "quorum_failure n e re =
     (let (r, errs) = re
      in if Contains (map upper_char e) ''NOQUORUM''
         then (or_detail (pod_error_text n e) (r\<lparr>qr_noquorum := Suc (qr_noquorum r)\<rparr>), errs)
         else (or_detail (pod_error_text n e) r, errs @ [pod_error_text n e]))"

definition quorum_step :: "quorum_env \<Rightarrow> quorum_report \<times> string list \<Rightarrow> pod \<Rightarrow> quorum_report \<times> string list" where
  "quorum_step qe re p =
     (if \<not> IsPodReady p then re
      else let n = pod_name p; (r0, errs) = re; r = r0\<lparr>qr_ready := Suc (qr_ready r0)\<rparr>
           in case qe_for_pod qe n of
                Some e \<Rightarrow> quorum_failure n e (r, errs)
              | None \<Rightarrow> (case qe_check qe n of
                    Inl e \<Rightarrow> quorum_failure n e (r, errs)
                  | Inr ok \<Rightarrow> if ok then (r\<lparr>qr_ok := Suc (qr_ok r)\<rparr>, errs)
                             else (or_detail (''sentinel '' @ n @ '' reported quorum=0'') r, errs)))"

definition HasSentinelQuorum :: "quorum_env \<Rightarrow> pod list \<Rightarrow> int \<Rightarrow> quorum_report \<times> string list" where
  "HasSentinelQuorum qe pods quorumTarget =
     (if pods = [] then (qr0\<lparr>qr_detail := ''no sentinel pods available''\<rparr>, [])
      else let (r, errs) = foldl (quorum_step qe) (qr0, []) (SortedPodsByName pods)
           in if qr_ready r = 0 then (r\<lparr>qr_detail := ''no ready sentinel pods''\<rparr>, [])
              else let target = (if quorumTarget \<le> 0 then 1 else quorumTarget)
                   in (if target \<le> int (qr_ok r) then r\<lparr>qr_healthy := True, qr_detail := ''''\<rparr>
                       else or_detail (''sentinel quorum ok='' @ int_to_dec (int (qr_ok r)) @ '' ready='' @ int_to_dec (int (qr_ready r))
                              @ '' target='' @ int_to_dec target) r, errs))"

fun issue_reset :: "quorum_env \<Rightarrow> pod list \<Rightarrow> string list \<Rightarrow> string list + string" where
  "issue_reset qe [] errs = Inl errs"
| "issue_reset qe (p # ps) errs =
     (let n = pod_name p
      in if \<not> IsPodReady p then issue_reset qe ps errs
         else case qe_reset_for_pod qe n of
                Some e \<Rightarrow> issue_reset qe ps (errs @ [pod_error_text n e])
              | None \<Rightarrow> (case qe_reset qe n of
                    Some e \<Rightarrow> issue_reset qe ps (errs @ [pod_error_text n e])
                  | None \<Rightarrow> Inr n))"

definition IssueSentinelReset :: "quorum_env \<Rightarrow> pod list \<Rightarrow> string + string" where
  "IssueSentinelReset qe pods = (case issue_reset qe (SortedPodsByName pods) [] of
      Inr n \<Rightarrow> Inr n
    | Inl errs \<Rightarrow> Inl (if errs = [] then ''no ready sentinel pod available for reset''
                     else ''sentinel reset failed: '' @ Join errs [newline]))"

section \<open>The phase\<close>

definition sentinelResetObservationWindow :: duration where "sentinelResetObservationWindow = 30 * sec"
definition sentinelResetCooldownSuccess :: duration where "sentinelResetCooldownSuccess = 120 * sec"
definition sentinelResetCooldownFailure :: duration where "sentinelResetCooldownFailure = 45 * sec"
definition sentinelResetMaxAttempts :: int where "sentinelResetMaxAttempts = 3"

datatype reset_mode = ResetModeNone | ResetModeQuorumLoss | ResetModeTopology

record sentinel_input =
  sn_cluster :: kv_cluster
  sn_pods :: "pod list"
  sn_overrides :: "(condition_type, condition_state) gomap"
  sn_requeue :: requeue_acc
  sn_candidate :: candidate
  sn_need_reset :: bool
  sn_factory :: "quorum_env option"
  sn_times :: time_format
  sn_patch :: "string option"
  sn_reset_now :: time
  sn_now :: time
  sn_until_now :: time

record sentinel_state =
  se_managed :: bool
  se_ready :: nat
  se_target :: int
  se_ok :: bool
  se_reason :: string
  se_detail :: string

record sentinel_run =
  sz_state :: sentinel_state
  sz_overrides :: "(condition_type, condition_state) gomap"
  sz_requeue :: requeue_acc
  sz_need_reset :: bool
  sz_annotations :: strmap
  sz_reset :: "(string + string) option"

definition sentinel_expected :: "kv_cluster \<Rightarrow> int" where
  "sentinel_expected cr = (case spec_sentinel_count (cr_spec cr) of Some n \<Rightarrow> if 0 < n then n else 3 | None \<Rightarrow> 3)"

definition quorum_target :: "kv_cluster \<Rightarrow> int" where
  "quorum_target cr = (let t = sentinel_expected cr div 2 + 1 in if t < 1 then 1 else t)"

text \<open>Whether the quorum holds, with the reason and the detail of the condition.\<close>

definition quorum_verdict :: "sentinel_input \<Rightarrow> bool \<times> string \<times> string" where
  "quorum_verdict inp =
     (let target = quorum_target (sn_cluster inp); ready = ready_count (sn_pods inp); dec = (\<lambda>n. int_to_dec (int n))
      in case sn_factory inp of
           None \<Rightarrow> (False, ''SentinelQuorumCheckFailed'', ''sentinel client factory not configured'')
         | Some qe \<Rightarrow>
             (let (r, errs) = HasSentinelQuorum qe (sn_pods inp) target
              in if errs \<noteq> []
                 then (False, ''SentinelQuorumCheckFailed'', if qr_detail r = '''' then Join errs [newline] else qr_detail r)
                 else if qr_healthy r
                 then (True, ''SentinelQuorumAchieved'',
                       if qr_detail r = ''''
                       then ''sentinel quorum ok='' @ dec (qr_ok r) @ '' target='' @ int_to_dec target @ '' ready='' @ dec ready
                       else qr_detail r)
                 else (False, ''SentinelQuorumLost'',
                       if qr_detail r = ''''
                       then ''sentinel quorum ok='' @ dec (qr_ok r) @ '' noquorum='' @ dec (qr_noquorum r) @ '' ready='' @ dec ready
                            @ '' target='' @ int_to_dec target
                       else qr_detail r)))"

definition loss_overrides ::
  "candidate \<Rightarrow> (condition_type, condition_state) gomap \<Rightarrow> (condition_type, condition_state) gomap" where
  "loss_overrides cand ov =
     (let o1 = (if gm_has ov ConditionDisruptionsPaused then ov
                else gm_set ov ConditionDisruptionsPaused
                       (cstate StatusTrue ''SentinelQuorum'' ''disruptions paused until sentinel quorum recovers''));
          o2 = (if gm_has o1 ConditionBootstrapInProgress then o1
                else gm_set o1 ConditionBootstrapInProgress (cstate StatusTrue ''SentinelQuorum'' ''waiting for sentinel quorum''))
      in if cand_name cand \<noteq> ''''
         then (case gm_get o2 ConditionBootstrapInProgress of
                 Some c \<Rightarrow> gm_set o2 ConditionBootstrapInProgress (c\<lparr>cs_message := cs_message c @ ''; candidate '' @ cand_name cand
                              @ '' via '' @ cand_source cand\<rparr>)
               | None \<Rightarrow> o2)
         else o2)"

definition failover_active :: "sentinel_input \<Rightarrow> (condition_type, condition_state) gomap \<Rightarrow> bool" where
  "failover_active inp ov =
     ((case gm_get ov ConditionFailoverInProgress of Some c \<Rightarrow> cs_status c = StatusTrue | None \<Rightarrow> False)
      \<or> (case ConditionStatus (status_conditions (cr_status (sn_cluster inp))) ConditionFailoverInProgress of
           Some c \<Rightarrow> cond_status c = StatusTrue | None \<Rightarrow> False))"

text \<open>\<open>time.Until\<close> with the floor the phase puts on it.\<close>

definition until_cooldown :: "sentinel_input \<Rightarrow> time \<Rightarrow> duration" where
  "until_cooldown inp t = (let delay = t - sn_until_now inp in if delay \<le> 0 then 2 * sec else delay)"

definition cooldown_from :: "time \<Rightarrow> duration \<Rightarrow> time" where
  "cooldown_from now d = NormalizeTimestamp (now + d)"

definition quorum_loss_reset ::
  "sentinel_input \<Rightarrow> quorum_env \<Rightarrow> reset_tracker \<Rightarrow> reset_tracker \<times> duration \<times> (string + string) option" where
  "quorum_loss_reset inp qe tk =
     (let now = NormalizeTimestamp (sn_now inp); failed = cooldown_from now sentinelResetCooldownFailure
      in if int (ready_count (sn_pods inp)) < quorum_target (sn_cluster inp) then (tk, 5 * sec, None)
         else let since = (case tk_loss_since tk of Some t \<Rightarrow> t | None \<Rightarrow> now);
                  tk1 = tk\<lparr>tk_loss_since := Some since\<rparr>; elapsed = now - since
              in if elapsed < sentinelResetObservationWindow
                 then (tk1, let wait = sentinelResetObservationWindow - elapsed in if wait \<le> 0 then 2 * sec else wait, None)
                 else if sentinelResetMaxAttempts \<le> tk_attempts tk1
                 then (tk1\<lparr>tk_cooldown_until := Some failed\<rparr>, until_cooldown inp failed, None)
                 else let res = IssueSentinelReset qe (sn_pods inp);
                          tk2 = tk1\<lparr>tk_attempts := tk_attempts tk1 + 1, tk_loss_since := Some now\<rparr>
                      in case res of
                           Inl _ \<Rightarrow> (tk2\<lparr>tk_cooldown_until := Some failed\<rparr>, until_cooldown inp failed, Some res)
                         | Inr _ \<Rightarrow> (tk2\<lparr>tk_cooldown_until := Some (cooldown_from now sentinelResetCooldownSuccess)\<rparr>, 5 * sec, Some res))"

definition topology_reset ::
  "sentinel_input \<Rightarrow> quorum_env \<Rightarrow> reset_tracker \<Rightarrow> reset_tracker \<times> duration \<times> (string + string) option" where
  "topology_reset inp qe tk =
     (let now = NormalizeTimestamp (sn_now inp); failed = cooldown_from now sentinelResetCooldownFailure
      in if int (ready_count (sn_pods inp)) < quorum_target (sn_cluster inp) then (tk, 5 * sec, None)
         else let res = IssueSentinelReset qe (sn_pods inp)
              in case res of
                   Inl _ \<Rightarrow> (tk\<lparr>tk_cooldown_until := Some failed\<rparr>, until_cooldown inp failed, Some res)
                 | Inr _ \<Rightarrow> (tk\<lparr>tk_attempts := 0, tk_cooldown_until := Some (cooldown_from now sentinelResetCooldownSuccess)\<rparr>,
                            5 * sec, Some res))"

definition sentinel_reset ::
  "sentinel_input \<Rightarrow> (condition_type, condition_state) gomap \<Rightarrow> reset_mode \<Rightarrow> reset_tracker
    \<Rightarrow> reset_tracker \<times> duration \<times> (string + string) option" where
  "sentinel_reset inp ov mode tk = (case sn_factory inp of
      None \<Rightarrow> (tk, 0, None)
    | Some qe \<Rightarrow>
        if mode = ResetModeNone \<or> sn_pods inp = [] \<or> quorum_target (sn_cluster inp) \<le> 0 then (tk, 0, None)
        else if failover_active inp ov then (tk, 5 * sec, None)
        else (case tk_cooldown_until tk of
                Some t \<Rightarrow>
                  if NormalizeTimestamp (sn_now inp) < t then (tk, until_cooldown inp t, None)
                  else if mode = ResetModeQuorumLoss then quorum_loss_reset inp qe tk else topology_reset inp qe tk
              | None \<Rightarrow> if mode = ResetModeQuorumLoss then quorum_loss_reset inp qe tk else topology_reset inp qe tk))"

definition unmanaged_state :: sentinel_state where
  "unmanaged_state = \<lparr>se_managed = False, se_ready = 0, se_target = 0, se_ok = True, se_reason = '''', se_detail = ''''\<rparr>"

text \<open>The tracker and the need for a reset before the reset logic runs.\<close>

definition tracker_before :: "sentinel_input \<Rightarrow> bool \<Rightarrow> reset_tracker \<times> bool" where
  "tracker_before inp ok =
     (let ts = NormalizeTimestamp (sn_reset_now inp);
          tracker = ReadSentinelResetTracker (sn_times inp) (cr_annotations (sn_cluster inp));
          t1 = (case tk_cooldown_until tracker of
                  Some t \<Rightarrow> if \<not> ts < t then tracker\<lparr>tk_cooldown_until := None\<rparr> else tracker | None \<Rightarrow> tracker)
      in if ok then (t1\<lparr>tk_loss_since := None, tk_attempts := 0\<rparr>, sn_need_reset inp \<or> tk_loss_since tracker \<noteq> None)
         else (t1\<lparr>tk_cooldown_until := None, tk_loss_since := Some (case tk_loss_since t1 of Some t \<Rightarrow> t | None \<Rightarrow> ts)\<rparr>,
               sn_need_reset inp \<or> quorum_target (sn_cluster inp) \<le> int (ready_count (sn_pods inp))))"

definition Sentinel :: "sentinel_input \<Rightarrow> sentinel_run" where
  "Sentinel inp =
     (let cr = sn_cluster inp
      in if spec_mode (cr_spec cr) \<noteq> ModeSentinel
         then \<lparr>sz_state = unmanaged_state, sz_overrides = sn_overrides inp, sz_requeue = sn_requeue inp,
               sz_need_reset = sn_need_reset inp, sz_annotations = cr_annotations cr, sz_reset = None\<rparr>
         else let a0 = (if int (length (sn_pods inp)) < sentinel_expected cr
                        then requeue_step (sn_requeue inp) (RequeueAfter (2 * sec)) else sn_requeue inp);
                  (ok, reason, detail) = quorum_verdict inp;
                  ov = gm_set (sn_overrides inp) ConditionSentinelQuorum (cstate (if ok then StatusTrue else StatusFalse) reason detail);
                  ov' = (if ok then ov else loss_overrides (sn_candidate inp) ov);
                  a1 = (if ok then a0 else requeue_step a0 (RequeueAfter (5 * sec)));
                  (tk, need) = tracker_before inp ok;
                  mode = (if \<not> ok then ResetModeQuorumLoss else if need then ResetModeTopology else ResetModeNone);
                  (tk', delay, reset) = sentinel_reset inp ov' mode tk
              in \<lparr>sz_state = \<lparr>se_managed = True, se_ready = ready_count (sn_pods inp), se_target = quorum_target cr, se_ok = ok,
                      se_reason = reason, se_detail = detail\<rparr>,
                  sz_overrides = ov', sz_requeue = requeue_step a1 (RequeueAfter delay), sz_need_reset = need,
                  sz_annotations = fst (WriteSentinelResetTracker (sn_times inp) (sn_patch inp) (cr_annotations cr) tk'),
                  sz_reset = reset\<rparr>)"

section \<open>The tracker survives its annotations\<close>

text \<open>What \<open>time.RFC3339\<close> promises: a time of whole seconds can be printed and read back.\<close>

definition times_readable :: "time_format \<Rightarrow> bool" where
  "times_readable tf = (\<forall>t. t mod sec = 0 \<longrightarrow> tf_format tf t \<noteq> '''' \<and> tf_parse tf (tf_format tf t) = Some t)"

lemma Normalize_whole [simp]: "NormalizeTimestamp t mod sec = 0"
  by (simp only: NormalizeTimestamp_def minus_mod_eq_mult_div mod_mult_self1_is_0)

lemma Normalize_id: "t mod sec = 0 \<Longrightarrow> NormalizeTimestamp t = t"
  by (simp add: NormalizeTimestamp_def)

lemma tracker_keys:
  "AnnotationSentinelQuorumLossSince \<noteq> AnnotationSentinelClusterResetAttempts"
  "AnnotationSentinelQuorumLossSince \<noteq> AnnotationSentinelClusterResetCooldown"
  "AnnotationSentinelClusterResetAttempts \<noteq> AnnotationSentinelClusterResetCooldown"
  by (simp_all add: AnnotationSentinelQuorumLossSince_def AnnotationSentinelClusterResetAttempts_def
      AnnotationSentinelClusterResetCooldown_def)

lemma int_to_dec_nonempty [simp]: "int_to_dec i \<noteq> []"
  by (simp add: int_to_dec_def)

lemma gm_str_delete: "gm_str (gm_delete m k) k' = (if k = k' then '''' else gm_str m k')"
  by (simp add: gm_str_def)

lemma read_write_time:
  assumes "times_readable tf"
  shows "read_time tf (write_time tf key t ann) key = map_option NormalizeTimestamp t"
    and "key' \<noteq> key \<Longrightarrow> gm_str (write_time tf key t ann) key' = gm_str ann key'"
  using assms by (auto simp: read_time_def write_time_def times_readable_def gm_str_delete split: option.splits)

lemma ParseInt64_range:
  assumes "ParseInt64 s = Some n"
  shows "n \<le> int64_max"
proof -
  have bounded: "(if P then None else if int64_min \<le> v \<and> v \<le> int64_max then Some v else None) = Some n \<Longrightarrow> n \<le> int64_max" for P v
    by (simp split: if_split_asm)
  show ?thesis using assms unfolding ParseInt64_def Let_def prod.case_eq_if by (rule bounded)
qed

lemma ReadTracker_range:
  "0 \<le> tk_attempts (ReadSentinelResetTracker tf ann) \<and> tk_attempts (ReadSentinelResetTracker tf ann) \<le> int64_max"
  using ParseInt64_range [of "gm_str ann AnnotationSentinelClusterResetAttempts"]
  by (simp add: ReadSentinelResetTracker_def Let_def split: option.split)

lemma WriteTracker_read:
  assumes tf: "times_readable tf" and "0 \<le> tk_attempts tk" "tk_attempts tk \<le> int64_max"
    and loss: "\<And>t. tk_loss_since tk = Some t \<Longrightarrow> t mod sec = 0" and cool: "\<And>t. tk_cooldown_until tk = Some t \<Longrightarrow> t mod sec = 0"
  shows "ReadSentinelResetTracker tf (fst (WriteSentinelResetTracker tf None ann tk)) = tk"
proof (cases "sentinelResetTrackersEqual (ReadSentinelResetTracker tf ann) tk")
  case True
  then show ?thesis
    by (simp add: WriteSentinelResetTracker_def) (simp add: sentinelResetTrackersEqual_def)
next
  case False
  have norm: "map_option NormalizeTimestamp (tk_loss_since tk) = tk_loss_since tk"
      "map_option NormalizeTimestamp (tk_cooldown_until tk) = tk_cooldown_until tk"
    using loss cool by (cases "tk_loss_since tk"; cases "tk_cooldown_until tk"; simp add: Normalize_id)+
  let ?a1 = "write_time tf AnnotationSentinelQuorumLossSince (tk_loss_since tk) ann"
  let ?a2 = "if 0 < tk_attempts tk then gm_set ?a1 AnnotationSentinelClusterResetAttempts (int_to_dec (tk_attempts tk))
             else gm_delete ?a1 AnnotationSentinelClusterResetAttempts"
  let ?a3 = "write_time tf AnnotationSentinelClusterResetCooldown (tk_cooldown_until tk) ?a2"
  have w: "fst (WriteSentinelResetTracker tf None ann tk) = ?a3"
    using False assms(2) by (simp add: WriteSentinelResetTracker_def Let_def)
  have "read_time tf ?a3 AnnotationSentinelQuorumLossSince = read_time tf ?a1 AnnotationSentinelQuorumLossSince"
    using tracker_keys read_write_time(2) [OF tf] by (simp add: read_time_def gm_str_delete)
  then have l: "read_time tf ?a3 AnnotationSentinelQuorumLossSince = tk_loss_since tk"
    using read_write_time(1) [OF tf] norm(1) by simp
  have c: "read_time tf ?a3 AnnotationSentinelClusterResetCooldown = tk_cooldown_until tk"
    using read_write_time(1) [OF tf] norm(2) by simp
  have "gm_str ?a3 AnnotationSentinelClusterResetAttempts = (if 0 < tk_attempts tk then int_to_dec (tk_attempts tk) else '''')"
    using tracker_keys read_write_time(2) [OF tf, of AnnotationSentinelClusterResetAttempts AnnotationSentinelClusterResetCooldown]
    by (simp add: gm_str_delete)
  moreover have "ParseInt64 (int_to_dec (tk_attempts tk)) = Some (tk_attempts tk)"
    by (rule ParseInt64_int_to_dec) (use assms(2,3) in linarith)+
  ultimately show ?thesis using l c assms(2) unfolding w by (simp add: ReadSentinelResetTracker_def Let_def)
qed

section \<open>What a quorum means\<close>

definition votes :: "quorum_env \<Rightarrow> pod \<Rightarrow> bool" where
  "votes qe p = (IsPodReady p \<and> qe_for_pod qe (pod_name p) = None \<and> qe_check qe (pod_name p) = Inr True)"

lemma or_detail_ok [simp]: "qr_ok (or_detail d r) = qr_ok r"
  by (simp add: or_detail_def)

lemma quorum_failure_ok [simp]: "qr_ok (fst (quorum_failure n e re)) = qr_ok (fst re)"
  by (cases re) (simp add: quorum_failure_def)

lemma quorum_step_ok: "qr_ok (fst (quorum_step qe re p)) = qr_ok (fst re) + (if votes qe p then 1 else 0)"
  by (cases re) (auto simp: quorum_step_def votes_def Let_def split: option.split sum.split)

lemma quorum_fold_ok: "qr_ok (fst (foldl (quorum_step qe) re ps)) = qr_ok (fst re) + length (filter (votes qe) ps)"
  by (induction ps arbitrary: re) (simp_all add: quorum_step_ok)

lemma length_filter_sorted: "length (filter P (SortedPodsByName pods)) = length (filter P pods)"
  unfolding SortedPodsByName_def by (metis mset_sort_by mset_filter size_mset)

lemma HasSentinelQuorum_sound:
  assumes "HasSentinelQuorum qe pods tgt = (r, errs)" "qr_healthy r" "0 < tgt"
  shows "tgt \<le> int (length (filter (votes qe) pods))"
proof (cases "pods = []")
  case False
  obtain r0 errs0 where f: "foldl (quorum_step qe) (qr0, []) (SortedPodsByName pods) = (r0, errs0)" by fastforce
  have healthy0: "\<not> qr_healthy (fst (foldl (quorum_step qe) re ps))" if "\<not> qr_healthy (fst re)" for re ps
    using that
  proof (induction ps arbitrary: re)
    case (Cons p ps)
    have "\<not> qr_healthy (fst (quorum_step qe re p))"
      using Cons.prems by (cases re) (auto simp: quorum_step_def quorum_failure_def or_detail_def Let_def split: option.splits sum.splits if_splits)
    then show ?case using Cons.IH by simp
  qed simp
  have "\<not> qr_healthy r0" using healthy0 [of "(qr0, [])" "SortedPodsByName pods"] f by (simp add: qr0_def)
  then have "tgt \<le> int (qr_ok r0)"
    using assms False f by (auto simp: HasSentinelQuorum_def Let_def or_detail_def split: if_splits)
  then show ?thesis
    using quorum_fold_ok [of qe "(qr0, [])" "SortedPodsByName pods"] f by (simp add: qr0_def length_filter_sorted)
qed (use assms in \<open>auto simp: HasSentinelQuorum_def qr0_def\<close>)

lemma quorum_target_majority: "0 < quorum_target cr" "sentinel_expected cr < 2 * quorum_target cr"
  by (auto simp: quorum_target_def Let_def)

lemma quorum_verdict_sound:
  assumes "fst (quorum_verdict inp)"
  shows "\<exists>qe. sn_factory inp = Some qe \<and> quorum_target (sn_cluster inp) \<le> int (length (filter (votes qe) (sn_pods inp)))"
  using assms HasSentinelQuorum_sound [OF _ _ quorum_target_majority(1)]
  by (auto simp: quorum_verdict_def Let_def split: option.splits prod.splits if_splits)

lemma loss_overrides_set:
  "gm_get (loss_overrides cand ov) ConditionDisruptionsPaused \<noteq> None" "gm_get (loss_overrides cand ov) ConditionBootstrapInProgress \<noteq> None"
  "t \<noteq> ConditionDisruptionsPaused \<Longrightarrow> t \<noteq> ConditionBootstrapInProgress \<Longrightarrow> gm_get (loss_overrides cand ov) t = gm_get ov t"
  by (auto simp: loss_overrides_def Let_def gm_has_def split: option.splits)

lemma sentinel_reset_ready:
  assumes "sentinel_reset inp ov mode tk = (tk', d, Some res)"
  shows "quorum_target (sn_cluster inp) \<le> int (ready_count (sn_pods inp))" "\<not> failover_active inp ov"
  using assms
  by (auto simp: sentinel_reset_def quorum_loss_reset_def topology_reset_def Let_def split: option.splits if_splits sum.splits)

lemma Sentinel_managed:
  assumes "spec_mode (cr_spec (sn_cluster inp)) = ModeSentinel"
  obtains ok reason detail ov tk need mode tk' delay where
    "quorum_verdict inp = (ok, reason, detail)"
    "ov = (let o1 = gm_set (sn_overrides inp) ConditionSentinelQuorum (cstate (if ok then StatusTrue else StatusFalse) reason detail)
           in if ok then o1 else loss_overrides (sn_candidate inp) o1)"
    "tracker_before inp ok = (tk, need)" "\<not> ok \<Longrightarrow> mode = ResetModeQuorumLoss"
    "sentinel_reset inp ov mode tk = (tk', delay, sz_reset (Sentinel inp))"
    "se_ok (sz_state (Sentinel inp)) = ok" "sz_overrides (Sentinel inp) = ov"
    "sz_annotations (Sentinel inp) = fst (WriteSentinelResetTracker (sn_times inp) (sn_patch inp) (cr_annotations (sn_cluster inp)) tk')"
    "\<not> ok \<Longrightarrow> acc_ok (sn_requeue inp) \<Longrightarrow> 0 < ra_Result (sz_requeue (Sentinel inp))"
proof -
  obtain ok reason detail where v: "quorum_verdict inp = (ok, reason, detail)" by (metis surj_pair)
  define ov where "ov = (let o1 = gm_set (sn_overrides inp) ConditionSentinelQuorum (cstate (if ok then StatusTrue else StatusFalse) reason detail)
           in if ok then o1 else loss_overrides (sn_candidate inp) o1)"
  obtain tk need where t: "tracker_before inp ok = (tk, need)" by fastforce
  define mode where "mode = (if \<not> ok then ResetModeQuorumLoss else if need then ResetModeTopology else ResetModeNone)"
  obtain tk' delay reset where r: "sentinel_reset inp ov mode tk = (tk', delay, reset)" by (metis surj_pair)
  define a0 where "a0 = (if int (length (sn_pods inp)) < sentinel_expected (sn_cluster inp)
      then requeue_step (sn_requeue inp) (RequeueAfter (2 * sec)) else sn_requeue inp)"
  have run: "se_ok (sz_state (Sentinel inp)) = ok" "sz_overrides (Sentinel inp) = ov" "sz_reset (Sentinel inp) = reset"
      "sz_annotations (Sentinel inp) = fst (WriteSentinelResetTracker (sn_times inp) (sn_patch inp) (cr_annotations (sn_cluster inp)) tk')"
      "sz_requeue (Sentinel inp) = requeue_step (if ok then a0 else requeue_step a0 (RequeueAfter (5 * sec))) (RequeueAfter delay)"
    using v t r assms unfolding ov_def mode_def a0_def
    by (simp_all add: Sentinel_def Let_def del: requeue_step.simps split del: if_split)
  have "0 < ra_Result (sz_requeue (Sentinel inp))" if "\<not> ok" "acc_ok (sn_requeue inp)"
  proof -
    have "acc_ok a0" using that(2) unfolding a0_def by (rule step_if(1))
    then have "acc_ok (requeue_step a0 (RequeueAfter (5 * sec)))" "0 < ra_Result (requeue_step a0 (RequeueAfter (5 * sec)))"
      by (simp_all add: acc_ok_step requeue_after(2) del: requeue_step.simps)
    then show ?thesis using that(1) requeue_after(4) unfolding run(5) by (simp del: requeue_step.simps)
  qed
  moreover have "\<not> ok \<Longrightarrow> mode = ResetModeQuorumLoss" by (simp add: mode_def)
  ultimately show ?thesis using that [OF v ov_def t _ _ run(1,2,4)] r unfolding run(3) [symmetric] by blast
qed

lemma Sentinel_ok:
  assumes "spec_mode (cr_spec (sn_cluster inp)) = ModeSentinel"
  shows "se_ok (sz_state (Sentinel inp)) = fst (quorum_verdict inp)"
  by (rule Sentinel_managed [OF assms]) simp


definition demo_sentinel_input :: sentinel_input where
  "demo_sentinel_input =
     \<lparr>sn_cluster = (cluster0 ''ns'' ''kv'')\<lparr>cr_spec := spec0\<lparr>spec_mode := ModeSentinel, spec_sentinel_count := Some 3\<rparr>\<rparr>,
      sn_pods = map (\<lambda>n. (pod0 ''ns'' n)\<lparr>pod_ready_conditions := [True]\<rparr>) [''s-0'', ''s-1'', ''s-2''],
      sn_overrides = [], sn_requeue = ra_empty, sn_candidate = no_candidate, sn_need_reset = False,
      sn_factory = Some \<lparr>qe_for_pod = (\<lambda>n. if n = ''s-2'' then Some ''connection refused'' else None), qe_check = (\<lambda>_. Inr True),
        qe_reset_for_pod = (\<lambda>_. None), qe_reset = (\<lambda>_. None)\<rparr>,
      sn_times = \<lparr>tf_parse = (\<lambda>_. None), tf_format = (\<lambda>_. '''')\<rparr>, sn_patch = None, sn_reset_now = 0, sn_now = 0, sn_until_now = 0\<rparr>"


text \<open>
  One unreachable Sentinel is enough for the phase to report a lost quorum, although the two others, a majority,
  confirm it: every error of a probe overrides the count.
\<close>

lemma minority_error_loses_quorum:
  "int (length (filter (votes (the (sn_factory demo_sentinel_input))) (sn_pods demo_sentinel_input))) = quorum_target (sn_cluster demo_sentinel_input)
   \<and> fst (quorum_verdict demo_sentinel_input) = False"
  by code_simp

section \<open>Resets are rationed\<close>

text \<open>Successive runs of the phase, each on the annotations the previous one left.\<close>

definition with_annotations :: "strmap \<Rightarrow> sentinel_input \<Rightarrow> sentinel_input" where
  "with_annotations ann inp = inp\<lparr>sn_cluster := (sn_cluster inp)\<lparr>cr_annotations := ann\<rparr>\<rparr>"

fun sentinel_runs :: "strmap \<Rightarrow> sentinel_input list \<Rightarrow> (sentinel_input \<times> sentinel_run) list" where
  "sentinel_runs ann [] = []"
| "sentinel_runs ann (inp # inps) =
     (let run = Sentinel (with_annotations ann inp) in (inp, run) # sentinel_runs (sz_annotations run) inps)"

definition reset_times :: "(sentinel_input \<times> sentinel_run) list \<Rightarrow> time list" where
  "reset_times rs = map (\<lambda>(inp, _). NormalizeTimestamp (sn_now inp)) (filter (\<lambda>(_, run). sz_reset run \<noteq> None) rs)"

lemma sentinel_reset_lost:
  assumes "sentinel_reset inp ov ResetModeQuorumLoss tk = (tk', d, reset)" "tk_cooldown_until tk = None" "tk_loss_since tk = Some since"
  shows "(reset = None \<and> tk_attempts tk' = tk_attempts tk \<and> tk_loss_since tk' = Some since
       \<or> reset \<noteq> None \<and> tk_attempts tk < sentinelResetMaxAttempts \<and> since + sentinelResetObservationWindow \<le> NormalizeTimestamp (sn_now inp)
         \<and> tk_attempts tk' = tk_attempts tk + 1 \<and> tk_loss_since tk' = Some (NormalizeTimestamp (sn_now inp)))
       \<and> (\<forall>t. tk_cooldown_until tk' = Some t \<longrightarrow> t mod sec = 0)"
  using assms
  by (auto simp: sentinel_reset_def quorum_loss_reset_def Let_def cooldown_from_def split: option.splits if_splits sum.splits)

lemma tracker_before_lost:
  "tk_cooldown_until (fst (tracker_before inp False)) = None"
  "tk_attempts (fst (tracker_before inp False)) = tk_attempts (ReadSentinelResetTracker (sn_times inp) (cr_annotations (sn_cluster inp)))"
  "tk_loss_since (fst (tracker_before inp False)) = Some (case tk_loss_since (ReadSentinelResetTracker (sn_times inp) (cr_annotations (sn_cluster inp))) of
     Some t \<Rightarrow> t | None \<Rightarrow> NormalizeTimestamp (sn_reset_now inp))"
  by (simp_all add: tracker_before_def Let_def split: option.split)

lemma lost_step:
  assumes mode: "spec_mode (cr_spec (sn_cluster inp)) = ModeSentinel" and lost: "\<not> se_ok (sz_state (Sentinel (with_annotations ann inp)))"
    and tf: "sn_times inp = tf" "times_readable tf" and "sn_patch inp = None"
    and whole: "\<And>t. tk_loss_since (ReadSentinelResetTracker tf ann) = Some t \<Longrightarrow> t mod sec = 0"
  obtains since where "tk_loss_since (ReadSentinelResetTracker tf ann) = None \<or> tk_loss_since (ReadSentinelResetTracker tf ann) = Some since"
    and "since mod sec = 0"
    and "let tk = ReadSentinelResetTracker tf ann; run = Sentinel (with_annotations ann inp);
             tk' = ReadSentinelResetTracker tf (sz_annotations run)
         in sz_reset run = None \<and> tk_attempts tk' = tk_attempts tk \<and> tk_loss_since tk' = Some since
          \<or> sz_reset run \<noteq> None \<and> tk_attempts tk < sentinelResetMaxAttempts
            \<and> since + sentinelResetObservationWindow \<le> NormalizeTimestamp (sn_now inp)
            \<and> tk_attempts tk' = tk_attempts tk + 1 \<and> tk_loss_since tk' = Some (NormalizeTimestamp (sn_now inp))"
proof -
  let ?inp = "with_annotations ann inp" and ?tk = "ReadSentinelResetTracker tf ann"
  have simps: "cr_annotations (sn_cluster ?inp) = ann" "sn_times ?inp = tf" "sn_patch ?inp = None" "sn_now ?inp = sn_now inp"
    using tf(1) assms(5) by (simp_all add: with_annotations_def)
  have "spec_mode (cr_spec (sn_cluster ?inp)) = ModeSentinel" using mode by (simp add: with_annotations_def)
  then obtain ok reason detail ov tk need mode' tk' delay where
    v: "quorum_verdict ?inp = (ok, reason, detail)"
    and "ov = (let o1 = gm_set (sn_overrides ?inp) ConditionSentinelQuorum (cstate (if ok then StatusTrue else StatusFalse) reason detail)
           in if ok then o1 else loss_overrides (sn_candidate ?inp) o1)"
    and tb: "tracker_before ?inp ok = (tk, need)" and m: "\<not> ok \<Longrightarrow> mode' = ResetModeQuorumLoss"
    and r: "sentinel_reset ?inp ov mode' tk = (tk', delay, sz_reset (Sentinel ?inp))"
    and ok: "se_ok (sz_state (Sentinel ?inp)) = ok" and "sz_overrides (Sentinel ?inp) = ov"
    and ann': "sz_annotations (Sentinel ?inp) = fst (WriteSentinelResetTracker (sn_times ?inp) (sn_patch ?inp) (cr_annotations (sn_cluster ?inp)) tk')"
    and "\<not> ok \<Longrightarrow> acc_ok (sn_requeue ?inp) \<Longrightarrow> 0 < ra_Result (sz_requeue (Sentinel ?inp))"
    by (rule Sentinel_managed) (rule that)
  have nok: "\<not> ok" using lost ok by simp
  define since where "since = (case tk_loss_since ?tk of Some t \<Rightarrow> t | None \<Rightarrow> NormalizeTimestamp (sn_reset_now ?inp))"
  have tk: "tk_cooldown_until tk = None" "tk_loss_since tk = Some since" "tk_attempts tk = tk_attempts ?tk"
    using tb nok tracker_before_lost [of ?inp] unfolding simps by (simp_all add: since_def)
  have since: "since mod sec = 0" using whole by (auto simp: since_def split: option.splits)
  note step = sentinel_reset_lost [OF r [unfolded m [OF nok]] tk(1,2)]
  have "0 \<le> tk_attempts tk'" "tk_attempts tk' \<le> int64_max"
    using step tk(3) ReadTracker_range [of tf ann] by (auto simp: sentinelResetMaxAttempts_def)
  then have read: "ReadSentinelResetTracker tf (sz_annotations (Sentinel ?inp)) = tk'"
    unfolding ann' simps by (rule WriteTracker_read [OF tf(2)]) (use step since in auto)
  show ?thesis
  proof (rule that [of since])
    show "tk_loss_since ?tk = None \<or> tk_loss_since ?tk = Some since" by (auto simp: since_def split: option.splits)
  qed (use since step tk(3) read simps in \<open>auto simp: Let_def\<close>)
qed

lemma resets_rationed:
  assumes "\<And>inp. inp \<in> set inps \<Longrightarrow> spec_mode (cr_spec (sn_cluster inp)) = ModeSentinel \<and> sn_times inp = tf \<and> sn_patch inp = None"
    and tf: "times_readable tf" and "\<And>inp run. (inp, run) \<in> set (sentinel_runs ann inps) \<Longrightarrow> \<not> se_ok (sz_state run)"
    and "\<And>t. tk_loss_since (ReadSentinelResetTracker tf ann) = Some t \<Longrightarrow> t mod sec = 0"
  shows "int (length (reset_times (sentinel_runs ann inps)))
           \<le> max 0 (sentinelResetMaxAttempts - tk_attempts (ReadSentinelResetTracker tf ann))
       \<and> sorted_wrt (\<lambda>s t. s + sentinelResetObservationWindow \<le> t) (reset_times (sentinel_runs ann inps))
       \<and> (\<forall>l. tk_loss_since (ReadSentinelResetTracker tf ann) = Some l \<longrightarrow>
            (\<forall>t \<in> set (reset_times (sentinel_runs ann inps)). l + sentinelResetObservationWindow \<le> t))"
  using assms(1,3,4)
proof (induction inps arbitrary: ann)
  case Nil
  then show ?case by (simp add: reset_times_def)
next
  case (Cons inp inps)
  let ?tk = "ReadSentinelResetTracker tf ann" and ?run = "Sentinel (with_annotations ann inp)"
  let ?tk' = "ReadSentinelResetTracker tf (sz_annotations ?run)" and ?ts = "reset_times (sentinel_runs (sz_annotations ?run) inps)"
  let ?now = "NormalizeTimestamp (sn_now inp)"
  have first: "spec_mode (cr_spec (sn_cluster inp)) = ModeSentinel" "sn_times inp = tf" "sn_patch inp = None" "\<not> se_ok (sz_state ?run)"
    using Cons.prems(1) [of inp] Cons.prems(2) [of inp ?run] by (simp_all add: Let_def)
  obtain since where since: "tk_loss_since ?tk = None \<or> tk_loss_since ?tk = Some since" "since mod sec = 0"
    and cases0: "let tk = ?tk; run = ?run; tk' = ReadSentinelResetTracker tf (sz_annotations run)
         in sz_reset run = None \<and> tk_attempts tk' = tk_attempts tk \<and> tk_loss_since tk' = Some since
          \<or> sz_reset run \<noteq> None \<and> tk_attempts tk < sentinelResetMaxAttempts
            \<and> since + sentinelResetObservationWindow \<le> ?now
            \<and> tk_attempts tk' = tk_attempts tk + 1 \<and> tk_loss_since tk' = Some ?now"
    by (rule lost_step [OF first(1,4,2) tf first(3) Cons.prems(3)]) (assumption, rule that, assumption+)
  have whole: "\<And>t. tk_loss_since ?tk' = Some t \<Longrightarrow> t mod sec = 0" using cases0 since(2) by (auto simp: Let_def)
  have rest: "\<not> se_ok (sz_state run)" if "(i, run) \<in> set (sentinel_runs (sz_annotations ?run) inps)" for i run
    using Cons.prems(2) [of i run] that by (simp add: Let_def)
  have tail: "spec_mode (cr_spec (sn_cluster i)) = ModeSentinel \<and> sn_times i = tf \<and> sn_patch i = None" if "i \<in> set inps" for i
    using Cons.prems(1) [of i] that by simp
  have all: "int (length ?ts) \<le> max 0 (sentinelResetMaxAttempts - tk_attempts ?tk')
      \<and> sorted_wrt (\<lambda>s t. s + sentinelResetObservationWindow \<le> t) ?ts
      \<and> (\<forall>l. tk_loss_since ?tk' = Some l \<longrightarrow> (\<forall>t \<in> set ?ts. l + sentinelResetObservationWindow \<le> t))"
    by (rule Cons.IH) (fact tail, fact rest, fact whole)
  note IH = all [THEN conjunct1] all [THEN conjunct2, THEN conjunct1] all [THEN conjunct2, THEN conjunct2, rule_format]
  have ts: "reset_times (sentinel_runs ann (inp # inps)) = (if sz_reset ?run \<noteq> None then [?now] else []) @ ?ts"
    by (simp add: reset_times_def Let_def)
  have window: "0 < sentinelResetObservationWindow" by (simp add: sentinelResetObservationWindow_def)
  show ?case
  proof (cases "sz_reset ?run = None")
    case True
    then have "tk_attempts ?tk' = tk_attempts ?tk" "tk_loss_since ?tk' = Some since" using cases0 by (auto simp: Let_def)
    then show ?thesis using IH True since(1) unfolding ts by auto
  next
    case False
    then have t: "tk_attempts ?tk < sentinelResetMaxAttempts" "since + sentinelResetObservationWindow \<le> ?now"
        "tk_attempts ?tk' = tk_attempts ?tk + 1" "tk_loss_since ?tk' = Some ?now"
      using cases0 by (auto simp: Let_def)
    then show ?thesis using IH(1,2) IH(3) [OF t(4)] False since(1) window unfolding ts by fastforce
  qed
qed


text \<open>
  A time format that can be read back: a mark and the seconds in decimal.
\<close>

definition demo_times :: time_format where
  "demo_times = \<lparr>tf_parse = (\<lambda>s. Some (sec * (let n = int (dec_to_nat (drop 1 s)) in if hd s = CHR ''-'' then - n else n))),
     tf_format = (\<lambda>t. let s = t div sec in (if s < 0 then CHR ''-'' else CHR ''+'') # nat_to_dec (nat \<bar>s\<bar>))\<rparr>"

lemma demo_times_readable: "times_readable demo_times"
proof -
  have "tf_parse demo_times (tf_format demo_times t) = Some t" if "t mod sec = 0" for t
  proof -
    have "sec * (t div sec) = t" using that div_mult_mod_eq [of t sec] by (simp add: mult.commute)
    then show ?thesis by (auto simp: demo_times_def Let_def)
  qed
  then show ?thesis by (simp add: times_readable_def demo_times_def Let_def)
qed


end
