(* ===== verification/KV_Finalizer.thy ===== *)
theory KV_Finalizer
  imports KV_Storage KV_Topology KV_Disruption
begin

text \<open>
  Deletion of a cluster: \<open>src/controllers/internal/finalizer/pipeline.go\<close>, \<open>src/controllers/finalizer.go\<close> and the deletion
  branch of \<open>reconcileClusterImpl\<close> in \<open>src/controllers/controller.go\<close>.

  The answers of the API server and the readings of the clock are arguments; the poll of the draining loop ends with
  a timeout after as many rounds as the environment says the deadline allows. \<open>meta.SetStatusCondition\<close> is an argument.
  Errors of the patches of the status are ignored by the code, and so are those of the final patch of the annotation.
\<close>

section \<open>Environment\<close>

datatype patch_result = PatchDone | PatchMissing | PatchError string

record sts_view =
  sv_sts_name :: string
  sv_sts_replicas :: "int option"

record finalizer_env =
  fe_factory :: bool
  fe_fuel :: nat
  fe_pods :: "string + pod list"
  fe_get_secret :: "string \<Rightarrow> string \<Rightarrow> string + secret"
  fe_key_pair_ok :: "string \<Rightarrow> string \<Rightarrow> bool"
  fe_ca_ok :: "string \<Rightarrow> bool"
  fe_replies :: "string \<Rightarrow> pod_replies"
  fe_cache_calls :: cache_calls
  fe_parse :: "string \<Rightarrow> time option"
  fe_format :: "time \<Rightarrow> string"
  fe_start_now :: time
  fe_end_now :: time
  fe_patch_start :: "string option"
  fe_statefulsets :: "string + sts_view list"
  fe_patch_sts :: "string \<Rightarrow> patch_result"
  fe_polls :: "nat \<Rightarrow> string + pod list"
  fe_poll_rounds :: nat
  fe_storage :: storage_env
  fe_set_condition :: "condition list \<Rightarrow> condition \<Rightarrow> condition list"
  fe_cleanup_timeout :: duration
  fe_batch_limit :: int

definition defaultCleanupTimeout :: duration where "defaultCleanupTimeout = 120 * sec"
definition defaultCleanupBatchLimit :: int where "defaultCleanupBatchLimit = 3"

definition cleanup_timeout :: "finalizer_env \<Rightarrow> duration" where
  "cleanup_timeout env = (if fe_cleanup_timeout env \<le> 0 then defaultCleanupTimeout else fe_cleanup_timeout env)"

definition batch_limit :: "finalizer_env \<Rightarrow> int" where
  "batch_limit env = (if fe_batch_limit env \<le> 0 then defaultCleanupBatchLimit else fe_batch_limit env)"

datatype finalizer_action =
    Aligned "redis_command list"
  | PDBDeleteRequested string
  | StartRecorded time
  | ScaledToZero string
  | ClaimsDeleted "string list"
  | CleanupFinished
  | CleanupTimedOut "string list"

datatype finalizer_error =
    MarkStartFailed string
  | DrainFailed string
  | CleanupFailed string
  | WaitingForClaims "string list"

record finalizer_run =
  fx_cluster :: kv_cluster
  fx_error :: "finalizer_error option"
  fx_actions :: "finalizer_action list"

section \<open>Steps\<close>

definition align_request :: "finalizer_env \<Rightarrow> kv_cluster \<Rightarrow> pod list \<Rightarrow> security_settings \<Rightarrow> ensure_request" where
  "align_request env cr pods s =
     \<lparr>rq_cluster = cr, rq_redis_pods = pods, rq_sentinel_pods = [], rq_replies = fe_replies env, rq_sentinels = None,
      rq_security = Some s, rq_ca_ok = fe_ca_ok env, rq_force_master = '''', rq_force_reason = '''', rq_wait_timeout = 0,
      rq_wait_interval = 0\<rparr>"

definition EnsureReplication ::
  "finalizer_env \<Rightarrow> kv_cluster \<Rightarrow> pod list \<Rightarrow> security_settings \<Rightarrow> (redis_command list \<times> repl_error option) option" where
  "EnsureReplication env cr pods s =
     (case EnsureTopology (fe_fuel env) (fe_cache_calls env) (align_request env cr pods s) None of
        None \<Rightarrow> None | Some (_, cmds, err, _) \<Rightarrow> Some (cmds, err))"

definition alignReplication :: "finalizer_env \<Rightarrow> kv_cluster \<Rightarrow> finalizer_action list option" where
  "alignReplication env cr =
     (if \<not> fe_factory env then Some []
      else case fe_pods env of
             Inl _ \<Rightarrow> Some []
           | Inr pods \<Rightarrow>
               if pods = [] then Some []
               else (case FromSpec (fe_get_secret env) (fe_key_pair_ok env) cr of
                       (_, Some _) \<Rightarrow> Some []
                     | (s, None) \<Rightarrow> (case EnsureReplication env cr pods s of
                           None \<Rightarrow> None | Some (cmds, _) \<Rightarrow> Some [Aligned cmds])))"

definition unlockDisruptions :: "kv_cluster \<Rightarrow> finalizer_action list" where
  "unlockDisruptions cr =
     PDBDeleteRequested (pdb_name (RedisPDB cr 0))
     # (if spec_mode (cr_spec cr) = ModeSentinel then [PDBDeleteRequested (pdb_name (SentinelPDB cr 0))] else [])"

text \<open>The start of the finalization: the recorded one, or now; the annotation stays in memory when the patch fails.\<close>

definition ensureFinalizerStart :: "finalizer_env \<Rightarrow> kv_cluster \<Rightarrow> kv_cluster \<times> (string + time) \<times> finalizer_action list" where
  "ensureFinalizerStart env cr =
     (let ts = gm_str (cr_annotations cr) AnnotationFinalizerStarted;
          recorded = (if ts \<noteq> '''' then fe_parse env ts else None)
      in case recorded of
           Some t \<Rightarrow> (cr, Inr t, [])
         | None \<Rightarrow>
             (let started = fe_start_now env;
                  cr1 = cr\<lparr>cr_annotations := gm_set (cr_annotations cr) AnnotationFinalizerStarted (fe_format env started)\<rparr>
              in case fe_patch_start env of
                   Some e \<Rightarrow> (cr1, Inl e, [])
                 | None \<Rightarrow> (cr1, Inr started, [StartRecorded started])))"

definition clearFinalizerStart :: "kv_cluster \<Rightarrow> kv_cluster" where
  "clearFinalizerStart cr =
     (if gm_has (cr_annotations cr) AnnotationFinalizerStarted
      then cr\<lparr>cr_annotations := gm_delete (cr_annotations cr) AnnotationFinalizerStarted\<rparr> else cr)"

definition setStorageCleanupCondition :: "finalizer_env \<Rightarrow> condition_status \<Rightarrow> string \<Rightarrow> string \<Rightarrow> kv_cluster \<Rightarrow> kv_cluster" where
  "setStorageCleanupCondition env status reason message cr =
     (let cond = \<lparr>cond_type = ConditionStorageCleanup, cond_status = status,
                  cond_reason = (if reason = '''' then ''Unknown'' else reason), cond_message = message,
                  cond_observed_generation = cr_generation cr, cond_last_transition = 0\<rparr>
      in cr\<lparr>cr_status := (cr_status cr)\<lparr>status_conditions := fe_set_condition env (status_conditions (cr_status cr)) cond\<rparr>\<rparr>)"

definition storageCleanupPolicy :: "kv_cluster \<Rightarrow> string" where
  "storageCleanupPolicy cr =
     (if \<not> HasPersistentData cr then ''ephemeral'' else if StorageCleanupEnabled cr then ''delete'' else ''retain'')"

definition summarizePVCs :: "string list \<Rightarrow> nat \<Rightarrow> string" where
  "summarizePVCs names limit =
     (if names = [] then ''''
      else if limit = 0 \<or> length names \<le> limit then Join names '', ''
      else Join (take limit names) '', '' @ '' (+'' @ int_to_dec (int (length names - limit)) @ '')'')"

fun scale_to_zero :: "finalizer_env \<Rightarrow> sts_view list \<Rightarrow> finalizer_action list \<times> string option" where
  "scale_to_zero env [] = ([], None)"
| "scale_to_zero env (s # ss) =
     (if sv_sts_replicas s = Some 0 then scale_to_zero env ss
      else case fe_patch_sts env (sv_sts_name s) of
             PatchMissing \<Rightarrow> scale_to_zero env ss
           | PatchError e \<Rightarrow> ([], Some e)
           | PatchDone \<Rightarrow> (let (acts, err) = scale_to_zero env ss in (ScaledToZero (sv_sts_name s) # acts, err)))"

definition drained :: "pod list \<Rightarrow> bool" where
  "drained pods = list_all (\<lambda>p. pod_deletion p \<noteq> None) pods"

fun poll_drained :: "finalizer_env \<Rightarrow> nat \<Rightarrow> nat \<Rightarrow> string option" where
  "poll_drained env k 0 = Some ''context deadline exceeded''"
| "poll_drained env k (Suc n) = (case fe_polls env k of
      Inl e \<Rightarrow> Some e
    | Inr pods \<Rightarrow> if drained pods then None else poll_drained env (Suc k) n)"

definition drainStatefulSets :: "finalizer_env \<Rightarrow> finalizer_action list \<times> string option" where
  "drainStatefulSets env = (case fe_statefulsets env of
      Inl e \<Rightarrow> ([], Some e)
    | Inr ss \<Rightarrow> (case scale_to_zero env ss of
          (acts, Some e) \<Rightarrow> (acts, Some e)
        | (acts, None) \<Rightarrow> (acts, poll_drained env 0 (fe_poll_rounds env))))"

section \<open>The finalizer\<close>

text \<open>The part after the start has been recorded.\<close>

definition cleanup_claims :: "finalizer_env \<Rightarrow> kv_cluster \<Rightarrow> time \<Rightarrow> finalizer_run" where
  "cleanup_claims env cr startedAt =
     (case drainStatefulSets env of
        (acts, Some e) \<Rightarrow> \<lparr>fx_cluster = setStorageCleanupCondition env StatusFalse ''ScaleDownFailed'' e cr,
                         fx_error = Some (DrainFailed e), fx_actions = acts\<rparr>
      | (acts, None) \<Rightarrow> (case CleanupPVCs (fe_storage env) cr (batch_limit env) of
            (res, Some e) \<Rightarrow> \<lparr>fx_cluster = setStorageCleanupCondition env StatusFalse ''DeletionFailed'' (''PVC delete failed: '' @ e) cr,
                           fx_error = Some (CleanupFailed e), fx_actions = acts @ [ClaimsDeleted (cu_deleted res)]\<rparr>
          | (res, None) \<Rightarrow>
              if cu_pending res = []
              then \<lparr>fx_cluster = setStorageCleanupCondition env StatusTrue ''PVCsDeleted''
                      (''removed '' @ int_to_dec (int (length (cu_deleted res))) @ '' PVCs'') (clearFinalizerStart cr),
                    fx_error = None, fx_actions = acts @ [ClaimsDeleted (cu_deleted res), CleanupFinished]\<rparr>
              else let cr1 = setStorageCleanupCondition env StatusFalse ''DeletingPVCs''
                               (''pending PVC deletions: '' @ summarizePVCs (cu_pending res) 5) cr
                   in if cleanup_timeout env < fe_end_now env - startedAt
                      then \<lparr>fx_cluster = clearFinalizerStart cr1, fx_error = None,
                            fx_actions = acts @ [ClaimsDeleted (cu_deleted res), CleanupTimedOut (cu_pending res)]\<rparr>
                      else \<lparr>fx_cluster = cr1, fx_error = Some (WaitingForClaims (cu_pending res)),
                            fx_actions = acts @ [ClaimsDeleted (cu_deleted res)]\<rparr>))"

definition finalizer_Execute :: "finalizer_env \<Rightarrow> kv_cluster \<Rightarrow> finalizer_run option" where
  "finalizer_Execute env cr = (case alignReplication env cr of
      None \<Rightarrow> None
    | Some aligned \<Rightarrow> Some
        (if \<not> HasPersistentData cr
         then \<lparr>fx_cluster = setStorageCleanupCondition env StatusTrue ''EphemeralStorage''
                 ''Ephemeral storage configured; no PVC cleanup required'' (clearFinalizerStart cr),
               fx_error = None, fx_actions = aligned\<rparr>
         else if \<not> StorageCleanupEnabled cr
         then \<lparr>fx_cluster = setStorageCleanupCondition env StatusTrue ''RetentionPolicy''
                 ''PVC cleanup disabled; resources retained after deletion'' (clearFinalizerStart cr),
               fx_error = None, fx_actions = aligned\<rparr>
         else (case ensureFinalizerStart env cr of
                 (cr1, Inl e, acts) \<Rightarrow>
                   \<lparr>fx_cluster = setStorageCleanupCondition env StatusFalse ''MarkStartFailed'' (''failed to record finalizer start: '' @ e) cr1,
                    fx_error = Some (MarkStartFailed e), fx_actions = aligned @ unlockDisruptions cr @ acts\<rparr>
               | (cr1, Inr startedAt, acts) \<Rightarrow>
                   (let run = cleanup_claims env cr1 startedAt
                    in run\<lparr>fx_actions := aligned @ unlockDisruptions cr @ acts @ fx_actions run\<rparr>))))"

section \<open>Deletion in the controller\<close>

text \<open>The finalizers of the resource afterwards, and whether the reconciliation failed.\<close>

definition reconcile_deletion ::
  "finalizer_env \<Rightarrow> string option \<Rightarrow> kv_cluster \<Rightarrow> (string list \<times> bool \<times> finalizer_action list) option" where
  "reconcile_deletion env patch cr =
     (if FinalizerName \<notin> set (cr_finalizers cr) then Some (cr_finalizers cr, False, [])
      else case finalizer_Execute env cr of
             None \<Rightarrow> None
           | Some run \<Rightarrow>
               (case fx_error run of
                  Some _ \<Rightarrow> Some (cr_finalizers cr, True, fx_actions run)
                | None \<Rightarrow> (case patch of
                      Some _ \<Rightarrow> Some (cr_finalizers cr, True, fx_actions run)
                    | None \<Rightarrow> Some (filter (\<lambda>f. f \<noteq> FinalizerName) (cr_finalizers cr), False, fx_actions run))))"

section \<open>Data survives until it may go\<close>

lemma CleanupPVCs_pending:
  assumes "CleanupPVCs env cr limit = (res, None)" "HasPersistentData cr" "sv_list env = Inr items"
  shows "set (cu_pending res) = pvc_name ` {p \<in> set items. PVCBelongsToCluster cr p}" "set (cu_deleted res) \<subseteq> set (cu_pending res)"
proof -
  let ?pvcs = "filter (PVCBelongsToCluster cr) items"
  define l where "l = (if limit \<le> 0 then cleanupBatchDefault else limit)"
  obtain res0 where run: "cleanup_loop env l ?pvcs 0 \<lparr>cu_pending = [], cu_deleted = []\<rparr> = (res0, None)"
    and res: "res = \<lparr>cu_pending = sort_strings (cu_pending res0), cu_deleted = sort_strings (cu_deleted res0)\<rparr>"
    using assms by (auto simp: CleanupPVCs_def listClusterPVCs_def l_def split: prod.splits option.splits)
  have "0 \<le> l" by (simp add: l_def cleanupBatchDefault_def)
  then obtain ds where "cu_deleted res0 = map pvc_name ds" "set ds \<subseteq> set ?pvcs" "cu_pending res0 = map pvc_name ?pvcs"
    using cleanup_loop_safe [OF run] by auto
  then show "set (cu_pending res) = pvc_name ` {p \<in> set items. PVCBelongsToCluster cr p}" "set (cu_deleted res) \<subseteq> set (cu_pending res)"
    by (auto simp: res)
qed

lemma poll_drained_ok: "poll_drained env k n = None \<Longrightarrow> \<exists>j pods. fe_polls env j = Inr pods \<and> drained pods"
  by (induction n arbitrary: k) (auto split: sum.splits if_splits)

lemma scale_to_zero_ok:
  assumes "scale_to_zero env ss = (acts, None)" "s \<in> set ss"
  shows "sv_sts_replicas s = Some 0 \<or> fe_patch_sts env (sv_sts_name s) = PatchMissing \<or> ScaledToZero (sv_sts_name s) \<in> set acts"
  using assms by (induction ss arbitrary: acts) (auto split: if_splits patch_result.splits prod.splits)

lemma scale_to_zero_actions: "a \<in> set (fst (scale_to_zero env ss)) \<Longrightarrow> \<exists>n. a = ScaledToZero n"
  by (induction ss) (auto split: if_splits patch_result.splits prod.splits)

lemma drain_actions: "drainStatefulSets env = (acts, e) \<Longrightarrow> ClaimsDeleted ds \<notin> set acts"
proof (cases "fe_statefulsets env")
  case (Inr ss)
  obtain acts0 e0 where s: "scale_to_zero env ss = (acts0, e0)" by fastforce
  assume "drainStatefulSets env = (acts, e)"
  then have "acts = acts0" by (cases e0) (auto simp: drainStatefulSets_def Inr s)
  then show ?thesis using scale_to_zero_actions [of "ClaimsDeleted ds" env ss] by (auto simp: s)
qed (auto simp: drainStatefulSets_def)

lemma align_actions: "alignReplication env cr = Some acts \<Longrightarrow> ClaimsDeleted ds \<notin> set acts"
  by (auto simp: alignReplication_def split: if_splits sum.splits prod.splits option.splits)

lemma drain_ok:
  assumes "drainStatefulSets env = (acts, None)"
  shows "\<exists>j pods. fe_polls env j = Inr pods \<and> drained pods"
    and "fe_statefulsets env = Inr ss \<Longrightarrow> s \<in> set ss \<Longrightarrow>
      sv_sts_replicas s = Some 0 \<or> fe_patch_sts env (sv_sts_name s) = PatchMissing \<or> ScaledToZero (sv_sts_name s) \<in> set acts"
  using assms poll_drained_ok [of env 0 "fe_poll_rounds env"] scale_to_zero_ok [of env ss acts s]
  by (auto simp: drainStatefulSets_def split: sum.splits prod.splits option.splits)

text \<open>What deleting claims requires.\<close>

definition deletion_justified :: "finalizer_env \<Rightarrow> kv_cluster \<Rightarrow> finalizer_action list \<Rightarrow> string list \<Rightarrow> bool" where
  "deletion_justified env cr acts ds =
     ((\<exists>j pods. fe_polls env j = Inr pods \<and> drained pods)
      \<and> (\<forall>ss s. fe_statefulsets env = Inr ss \<and> s \<in> set ss \<longrightarrow> sv_sts_replicas s = Some 0
           \<or> fe_patch_sts env (sv_sts_name s) = PatchMissing \<or> ScaledToZero (sv_sts_name s) \<in> set acts)
      \<and> length ds \<le> cleanup_limit (batch_limit env)
      \<and> (\<forall>items. sv_list (fe_storage env) = Inr items \<longrightarrow>
           set ds \<subseteq> pvc_name ` {p \<in> set items. PVCBelongsToCluster cr p \<and> pvc_deletion p = None}))"

lemma cleanup_claims_deletes:
  assumes "ClaimsDeleted ds \<in> set (fx_actions (cleanup_claims env cr started))"
  shows "deletion_justified env cr (fx_actions (cleanup_claims env cr started)) ds"
proof -
  obtain acts err where d: "drainStatefulSets env = (acts, err)" by fastforce
  have "err = None" using assms drain_actions [OF d] by (cases err) (auto simp: cleanup_claims_def d)
  then have d: "drainStatefulSets env = (acts, None)" using d by simp
  obtain res e where c: "CleanupPVCs (fe_storage env) cr (batch_limit env) = (res, e)" by fastforce
  have acts: "set acts \<subseteq> set (fx_actions (cleanup_claims env cr started))" "ds = cu_deleted res"
    using assms drain_actions [OF d] by (auto simp: cleanup_claims_def d c Let_def split: option.splits if_splits)
  then show ?thesis
    using drain_ok [OF d] CleanupPVCs_safe [OF c] unfolding deletion_justified_def by blast
qed

lemma cleanup_claims_released:
  assumes "fx_error (cleanup_claims env cr started) = None" "HasPersistentData cr" "sv_list (fe_storage env) = Inr items"
  shows "\<not> (\<exists>p \<in> set items. PVCBelongsToCluster cr p) \<or> cleanup_timeout env < fe_end_now env - started"
proof -
  obtain acts err where d: "drainStatefulSets env = (acts, err)" by fastforce
  obtain res e where c: "CleanupPVCs (fe_storage env) cr (batch_limit env) = (res, e)" by fastforce
  have "err = None" "e = None" "cu_pending res = [] \<or> cleanup_timeout env < fe_end_now env - started"
    using assms(1) by (auto simp: cleanup_claims_def d c Let_def split: option.splits if_splits)
  then show ?thesis using CleanupPVCs_pending(1) [of "fe_storage env" cr "batch_limit env" res items] c assms(2,3) by auto
qed

lemma annotations_frame [simp]:
  "HasPersistentData (cr\<lparr>cr_annotations := a\<rparr>) = HasPersistentData cr"
  "StorageCleanupEnabled (cr\<lparr>cr_annotations := a\<rparr>) = StorageCleanupEnabled cr"
  "PVCBelongsToCluster (cr\<lparr>cr_annotations := a\<rparr>) = PVCBelongsToCluster cr"
  by (simp_all add: HasPersistentData_def StorageCleanupEnabled_def PVCBelongsToCluster_def data_prefix_def AppLabel_def fun_eq_iff)

lemma ensureFinalizerStart_frame:
  assumes "ensureFinalizerStart env cr = (cr1, r, acts)"
  shows "HasPersistentData cr1 = HasPersistentData cr" "StorageCleanupEnabled cr1 = StorageCleanupEnabled cr"
    "PVCBelongsToCluster cr1 = PVCBelongsToCluster cr" "ClaimsDeleted ds \<notin> set acts"
proof -
  have "cr1 = cr \<or> (\<exists>a. cr1 = cr\<lparr>cr_annotations := a\<rparr>)" "ClaimsDeleted ds \<notin> set acts"
    using assms unfolding ensureFinalizerStart_def Let_def by (auto split: option.splits)
  then show "HasPersistentData cr1 = HasPersistentData cr" "StorageCleanupEnabled cr1 = StorageCleanupEnabled cr"
    "PVCBelongsToCluster cr1 = PVCBelongsToCluster cr" "ClaimsDeleted ds \<notin> set acts" by auto
qed

lemma finalizer_Execute_cases:
  assumes "finalizer_Execute env cr = Some run"
  obtains (keep) "\<not> HasPersistentData cr \<or> \<not> StorageCleanupEnabled cr" "fx_error run = None" "\<And>ds. ClaimsDeleted ds \<notin> set (fx_actions run)"
  | (failed) "fx_error run \<noteq> None" "\<And>ds. ClaimsDeleted ds \<notin> set (fx_actions run)"
  | (clean) cr1 started acts pre where "HasPersistentData cr" "StorageCleanupEnabled cr" "ensureFinalizerStart env cr = (cr1, Inr started, acts)"
      "fx_error run = fx_error (cleanup_claims env cr1 started)" "fx_actions run = pre @ fx_actions (cleanup_claims env cr1 started)"
      "\<And>ds. ClaimsDeleted ds \<notin> set pre"
proof -
  obtain aligned where a: "alignReplication env cr = Some aligned" using assms by (auto simp: finalizer_Execute_def split: option.splits)
  obtain cr1 r acts where s: "ensureFinalizerStart env cr = (cr1, r, acts)" by (metis surj_pair)
  have none: "ClaimsDeleted ds \<notin> set (aligned @ unlockDisruptions cr @ acts)" for ds
    using align_actions [OF a] ensureFinalizerStart_frame(4) [OF s] by (auto simp: unlockDisruptions_def)
  consider "\<not> (HasPersistentData cr \<and> StorageCleanupEnabled cr)"
    | e where "HasPersistentData cr" "StorageCleanupEnabled cr" "r = Inl e"
    | started where "HasPersistentData cr" "StorageCleanupEnabled cr" "r = Inr started" by (cases r) blast+
  then show ?thesis
  proof cases
    case 1
    then show ?thesis using keep assms a align_actions [OF a] by (auto simp: finalizer_Execute_def)
  next
    case 2
    then show ?thesis using failed assms a s none by (auto simp: finalizer_Execute_def)
  next
    case 3
    then have run: "run = (cleanup_claims env cr1 started)\<lparr>fx_actions := aligned @ unlockDisruptions cr @ acts
        @ fx_actions (cleanup_claims env cr1 started)\<rparr>"
      using assms a s by (simp add: finalizer_Execute_def Let_def)
    show ?thesis using clean [OF 3(1,2) s [unfolded 3(3)], of "aligned @ unlockDisruptions cr @ acts"] none by (simp add: run)
  qed
qed

lemma deletion_justified_mono:
  "deletion_justified env cr acts ds \<Longrightarrow> set acts \<subseteq> set acts' \<Longrightarrow> PVCBelongsToCluster cr = PVCBelongsToCluster cr'
    \<Longrightarrow> deletion_justified env cr' acts' ds"
  by (auto simp: deletion_justified_def dest: subsetD)

text \<open>
  C19: Deleting a cluster deletes claims only when the specification says so and stores persistent data, after
  every StatefulSet has been scaled to zero or is gone and all pods are gone or terminating, and then at most a
  batch of claims of the cluster. The finalizer is removed, so that the resource disappears, only when storage is
  ephemeral or retained, when no claim is left, or when the cleanup has exceeded its timeout; while the finalizer
  is there and is not removed, the reconciliation fails and is retried.
\<close>

theorem deletion_safe:
  assumes "reconcile_deletion env patch cr = Some (fs, failed, acts)" "FinalizerName \<in> set (cr_finalizers cr)"
    and "sv_list (fe_storage env) = Inr items"
  shows "(\<forall>ds. ClaimsDeleted ds \<in> set acts \<longrightarrow> HasPersistentData cr \<and> StorageCleanupEnabled cr \<and> deletion_justified env cr acts ds)
       \<and> (FinalizerName \<notin> set fs \<longrightarrow> \<not> HasPersistentData cr \<or> \<not> StorageCleanupEnabled cr
            \<or> \<not> (\<exists>p \<in> set items. PVCBelongsToCluster cr p)
            \<or> (\<exists>started. fst (snd (ensureFinalizerStart env cr)) = Inr started \<and> cleanup_timeout env < fe_end_now env - started))
       \<and> (FinalizerName \<in> set fs \<longleftrightarrow> failed)"
proof -
  obtain run where run: "finalizer_Execute env cr = Some run" "acts = fx_actions run"
      "failed \<longleftrightarrow> fx_error run \<noteq> None \<or> patch \<noteq> None" "FinalizerName \<in> set fs \<longleftrightarrow> failed"
    using assms(1,2) by (auto simp: reconcile_deletion_def split: option.splits)
  from run(1) show ?thesis
  proof (cases rule: finalizer_Execute_cases)
    case keep
    then show ?thesis using run by auto
  next
    case failed
    then show ?thesis using run by auto
  next
    case (clean cr1 started acts' pre)
    note frame = ensureFinalizerStart_frame [OF clean(3)]
    have "deletion_justified env cr acts ds" if "ClaimsDeleted ds \<in> set acts" for ds
    proof -
      have "ClaimsDeleted ds \<in> set (fx_actions (cleanup_claims env cr1 started))" using that clean(5,6) run(2) by auto
      then have "deletion_justified env cr1 (fx_actions (cleanup_claims env cr1 started)) ds" by (rule cleanup_claims_deletes)
      then show ?thesis by (rule deletion_justified_mono) (use clean(5) run(2) frame(3) in auto)
    qed
    moreover have "\<not> (\<exists>p \<in> set items. PVCBelongsToCluster cr p) \<or> cleanup_timeout env < fe_end_now env - started" if "\<not> failed"
      using cleanup_claims_released [of env cr1 started items] that run(3) clean(1,4) assms(3) frame by auto
    ultimately show ?thesis using clean(1-3) run(4) by auto
  qed
qed

definition demo_finalizer_env :: finalizer_env where
  "demo_finalizer_env = \<lparr>fe_factory = False, fe_fuel = 0, fe_pods = Inr [], fe_get_secret = (\<lambda>_ _. Inl ''missing''),
     fe_key_pair_ok = (\<lambda>_ _. True), fe_ca_ok = (\<lambda>_. True), fe_replies = (\<lambda>_. demo_reply (Inl ''down'')), fe_cache_calls = demo_calls,
     fe_parse = (\<lambda>_. None), fe_format = (\<lambda>_. ''now''), fe_start_now = 0, fe_end_now = sec,
     fe_patch_start = None, fe_statefulsets = Inr [\<lparr>sv_sts_name = ''kv'', sv_sts_replicas = Some 3\<rparr>], fe_patch_sts = (\<lambda>_. PatchDone),
     fe_polls = (\<lambda>_. Inr []), fe_poll_rounds = 20, fe_storage = demo_storage_env, fe_set_condition = (\<lambda>cs c. c # cs),
     fe_cleanup_timeout = 0, fe_batch_limit = 0\<rparr>"

definition demo_deleted :: kv_cluster where
  "demo_deleted = (cluster0 ''ns'' ''kv'')\<lparr>cr_finalizers := [FinalizerName], cr_spec := spec0\<lparr>spec_storage := Some
     \<lparr>st_type = '''', st_size = None, st_cleanup_on_delete = True, st_storage_class = None, st_access_modes = []\<rparr>\<rparr>\<rparr>"

theorem deletion_safe_witness:
  "deletion_justified demo_finalizer_env demo_deleted (snd (snd (the (reconcile_deletion demo_finalizer_env None demo_deleted))))
     [''data-kv-0'', ''data-kv-b-0'']"
proof -
  obtain fs failed acts where run: "reconcile_deletion demo_finalizer_env None demo_deleted = Some (fs, failed, acts)"
    "ClaimsDeleted [''data-kv-0'', ''data-kv-b-0''] \<in> set acts"
  proof -
    have "\<exists>fs failed acts. reconcile_deletion demo_finalizer_env None demo_deleted = Some (fs, failed, acts)
        \<and> ClaimsDeleted [''data-kv-0'', ''data-kv-b-0''] \<in> set acts"
      by (rule exI [of _ "[FinalizerName]"], rule exI [of _ True],
          rule exI [of _ "[PDBDeleteRequested ''kv-redis'', StartRecorded 0, ScaledToZero ''kv'', ClaimsDeleted [''data-kv-0'', ''data-kv-b-0'']]"])
        code_simp
    then show ?thesis using that by blast
  qed
  have "FinalizerName \<in> set (cr_finalizers demo_deleted)" by (simp add: demo_deleted_def)
  moreover have "\<exists>items. sv_list (fe_storage demo_finalizer_env) = Inr items" by (simp add: demo_finalizer_env_def demo_storage_env_def)
  ultimately show ?thesis using deletion_safe [OF run(1)] run by auto
qed

text \<open>
  The completion message counts the claims deleted by the last call, which is always zero: the finalizer completes
  only when no claim was left to delete.
\<close>

lemma completion_counts_zero:
  assumes "CleanupPVCs env cr limit = (res, None)" "HasPersistentData cr" "sv_list env = Inr items" "cu_pending res = []"
  shows "cu_deleted res = []"
  using CleanupPVCs_pending(2) [OF assms(1-3)] assms(4) by simp

end
