(* ===== verification/KV_Importer.thy ===== *)
theory KV_Importer
  imports KV_Status KV_Security KV_Requeue KV_Clients
begin

text \<open>
  \<open>src/controllers/internal/ops/importer/importer.go\<close> and its phase
  \<open>reconcile/phases/external_import.go\<close>: the import of the data of an external Redis before normal
  reconciliation proceeds. \<open>Ensure\<close> is one pass of a state machine over \<open>status.externalImport\<close>
  (Pending, InProgress, Following, Completed, Failed); \<open>finalizeImport\<close> is its cut-over when the
  external source is removed from the spec.

  A pass returns the result, the error and what it did to the pod and to the recorder, in order. The
  answers of the API server, of the bootstrap pod, of the external server and of the clock are the
  fields of \<open>import_env\<close>, as are the parsers \<open>url.Parse\<close>, \<open>net.LookupPort\<close>, \<open>net.ParseIP\<close>,
  \<open>AppendCertsFromPEM\<close> and \<open>tls.X509KeyPair\<close>.
\<close>

section \<open>Data\<close>

definition importStatePending :: string where "importStatePending = ''Pending''"
definition importStateInProgress :: string where "importStateInProgress = ''InProgress''"
definition importStateFollowing :: string where "importStateFollowing = ''Following''"
definition importStateCompleted :: string where "importStateCompleted = ''Completed''"
definition importStateFailed :: string where "importStateFailed = ''Failed''"

lemmas import_states = importStatePending_def importStateInProgress_def importStateFollowing_def
  importStateCompleted_def importStateFailed_def

record import_result =
  ir_status :: "external_import_status option"
  ir_condition :: condition_state
  ir_requeue :: duration
  ir_abort :: bool

record import_tls_config =
  it_server_name :: string
  it_insecure :: bool
  it_root_cas :: "string option"
  it_certificate :: "(string \<times> string) option"

record external_config =
  ec_host :: string
  ec_port :: int
  ec_db :: int
  ec_username :: string
  ec_password :: string
  ec_tls :: "import_tls_config option"
  ec_addr :: string

record readiness_snapshot =
  rs_redis_ready :: bool
  rs_sentinel_ready :: bool
  rs_redis_ready_count :: int
  rs_redis_desired :: int
  rs_sentinel_ready_count :: int
  rs_sentinel_desired :: int

text \<open>What \<open>url.Parse\<close> gives: \<open>Hostname()\<close>, \<open>Port()\<close>, \<open>Path\<close> and \<open>User\<close> with its optional password.\<close>

record url_parts =
  up_hostname :: string
  up_port :: string
  up_path :: string
  up_user :: "(string \<times> string option) option"

record import_env =
  ie_has_factory :: bool
  ie_has_kube :: bool
  ie_parse_url :: "string \<Rightarrow> string + url_parts"
  ie_lookup_port :: "string \<Rightarrow> string + int"
  ie_is_ip :: "string \<Rightarrow> bool"
  ie_get_secret :: "string \<Rightarrow> string \<Rightarrow> string + secret"
  ie_ca_ok :: "string \<Rightarrow> bool"
  ie_key_pair :: "string \<Rightarrow> string \<Rightarrow> string option"
  ie_client :: "pod \<Rightarrow> string option"
  ie_dbsize :: "string + int"
  ie_config_set :: "string \<Rightarrow> string \<Rightarrow> string option"
  ie_info :: "string + replication_info"
  ie_ping :: "external_config \<Rightarrow> string option"
  ie_replica_of :: "string option"
  ie_no_one :: "string option"
  ie_clear_set :: "string \<Rightarrow> string option"
  ie_started :: time
  ie_checked :: time
  ie_finished :: time
  ie_show_duration :: "duration \<Rightarrow> string"

datatype import_error = ImportFatal string | ImportTransient string

datatype import_action =
    ImpConfigSet string string
  | ImpReplicaOf string int
  | ImpNoOne
  | ImpAttempt string string
  | ImpSuccess string "duration option"
  | ImpFailure string string

type_synonym import_run = "import_result \<times> import_error option \<times> import_action list"

section \<open>The external source\<close>

definition quoted :: "string \<Rightarrow> string" where
  "quoted s = [CHR 0x22] @ s @ [CHR 0x22]"

definition readSecretKey :: "import_env \<Rightarrow> string \<Rightarrow> secret_key_selector \<Rightarrow> string + string" where
  "readSecretKey env ns sel =
     (if sks_name sel = '''' \<or> sks_key sel = '''' then Inl ''secret selector missing name or key''
      else case ie_get_secret env ns (sks_name sel) of
             Inl e \<Rightarrow> Inl (''get secret '' @ quoted (sks_name sel) @ '': '' @ e)
           | Inr scr \<Rightarrow> (case gm_get (secret_data scr) (sks_key sel) of
               None \<Rightarrow> Inl (''secret '' @ quoted (sks_name sel) @ '' missing key '' @ quoted (sks_key sel))
             | Some val \<Rightarrow> Inr val))"

definition client_pair ::
  "import_env \<Rightarrow> string \<Rightarrow> external_source_tls_spec \<Rightarrow> string + (string \<times> string) option" where
  "client_pair env ns t = (case (est_cert_ref t, est_key_ref t) of
      (None, None) \<Rightarrow> Inr None
    | (Some c, Some k) \<Rightarrow> (case readSecretKey env ns c of
          Inl e \<Rightarrow> Inl (''read tls client certificate: '' @ e)
        | Inr cert \<Rightarrow> (case readSecretKey env ns k of
              Inl e \<Rightarrow> Inl (''read tls client key: '' @ e)
            | Inr key \<Rightarrow> (case ie_key_pair env cert key of
                  Some e \<Rightarrow> Inl (''parse tls client key pair: '' @ e)
                | None \<Rightarrow> Inr (Some (cert, key)))))
    | _ \<Rightarrow> Inl ''tls client certificate and key must both be provided'')"

definition buildTLSConfig ::
  "import_env \<Rightarrow> string \<Rightarrow> external_source_spec \<Rightarrow> string \<Rightarrow> string + import_tls_config option" where
  "buildTLSConfig env ns spec serverName =
     (let useTLS = HasPrefix (ToLower (es_address spec)) ''rediss://''
            \<or> (case es_tls spec of Some t \<Rightarrow> est_enabled t | None \<Rightarrow> False);
          base = \<lparr>it_server_name = (if ie_is_ip env serverName then '''' else serverName),
                  it_insecure = False, it_root_cas = None, it_certificate = None\<rparr>
      in if \<not> useTLS then Inr None
         else case es_tls spec of
                None \<Rightarrow> Inr (Some base)
              | Some t \<Rightarrow>
                  (let config = base\<lparr>it_insecure := est_insecure_skip_verify t\<rparr>;
                       ca = (case est_ca_ref t of
                           None \<Rightarrow> Inr None
                         | Some r \<Rightarrow> (case readSecretKey env ns r of
                               Inl e \<Rightarrow> Inl (''read tls ca bundle: '' @ e)
                             | Inr d \<Rightarrow> if ie_ca_ok env d then Inr (Some d)
                                        else Inl ''parse tls ca bundle: invalid pem''))
                   in case ca of
                        Inl e \<Rightarrow> Inl e
                      | Inr roots \<Rightarrow> (case client_pair env ns t of
                          Inl e \<Rightarrow> Inl e
                        | Inr pair \<Rightarrow> Inr (Some (config\<lparr>it_root_cas := roots, it_certificate := pair\<rparr>)))))"

definition trim_slash :: "string \<Rightarrow> string" where
  "trim_slash s = rev (dropWhile (\<lambda>c. c = CHR ''/'') (rev (dropWhile (\<lambda>c. c = CHR ''/'') s)))"

definition url_db :: "string \<Rightarrow> int" where
  "url_db path = (case ParseInt64 (trim_slash path) of Some v \<Rightarrow> if 0 \<le> v then v else 0 | None \<Rightarrow> 0)"

definition source_port :: "import_env \<Rightarrow> string \<Rightarrow> string \<Rightarrow> string + int" where
  "source_port env address p =
     (if p = '''' then Inr 6379
      else case ie_lookup_port env p of
             Inl e \<Rightarrow> Inl (''address '' @ quoted address @ '' invalid port: '' @ e)
           | Inr n \<Rightarrow> Inr n)"

text \<open>The credentials of the URL, overridden by those of the referenced secrets.\<close>

definition source_credentials ::
  "import_env \<Rightarrow> string \<Rightarrow> external_source_spec \<Rightarrow> url_parts \<Rightarrow> string + string \<times> string" where
  "source_credentials env ns spec u =
     (let user = (case up_user u of Some (n, _) \<Rightarrow> TrimSpace n | None \<Rightarrow> '''');
          pass = (case up_user u of Some (_, Some pw) \<Rightarrow> pw | _ \<Rightarrow> '''')
      in case es_auth spec of
           None \<Rightarrow> Inr (user, pass)
         | Some a \<Rightarrow>
             (case (case esa_username_ref a of
                      None \<Rightarrow> Inr user
                    | Some r \<Rightarrow> (case readSecretKey env ns r of
                        Inl e \<Rightarrow> Inl (''read username secret: '' @ e) | Inr v \<Rightarrow> Inr (TrimSpace v))) of
                Inl e \<Rightarrow> Inl e
              | Inr user' \<Rightarrow>
                  (case esa_password_ref a of
                     None \<Rightarrow> Inr (user', pass)
                   | Some r \<Rightarrow> (case readSecretKey env ns r of
                        Inl e \<Rightarrow> Inl (''read password secret: '' @ e) | Inr v \<Rightarrow> Inr (user', v)))))"

definition buildExternalConfig :: "import_env \<Rightarrow> string \<Rightarrow> external_source_spec \<Rightarrow> string + external_config" where
  "buildExternalConfig env ns spec =
     (let address = TrimSpace (es_address spec)
      in if address = '''' then Inl ''external source address is empty''
         else case ie_parse_url env address of
           Inl e \<Rightarrow> Inl (''parse address '' @ quoted address @ '': '' @ e)
         | Inr u \<Rightarrow>
             if up_hostname u = '''' then Inl (''address '' @ quoted address @ '' missing host'')
             else case source_port env address (up_port u) of
               Inl e \<Rightarrow> Inl e
             | Inr port \<Rightarrow> (case source_credentials env ns spec u of
                 Inl e \<Rightarrow> Inl e
               | Inr (user, pass) \<Rightarrow> (case buildTLSConfig env ns spec (up_hostname u) of
                   Inl e \<Rightarrow> Inl e
                 | Inr tls \<Rightarrow> Inr \<lparr>ec_host = up_hostname u, ec_port = port, ec_db = url_db (up_path u),
                     ec_username = user, ec_password = pass, ec_tls = tls,
                     ec_addr = up_hostname u @ '':'' @ int_to_dec port\<rparr>)))"

definition ensureExternalReachable :: "import_env \<Rightarrow> external_config \<Rightarrow> string option" where
  "ensureExternalReachable env cfg =
     map_option (\<lambda>e. ''ping external redis '' @ ec_addr cfg @ '': '' @ e) (ie_ping env cfg)"

section \<open>The bootstrap pod\<close>

definition selectBootstrapPod :: "pod list \<Rightarrow> pod option" where
  "selectBootstrapPod pods = (case sort_by (\<lambda>p q. Ordinal (pod_name p) < Ordinal (pod_name q)) pods of
      [] \<Rightarrow> None | p # _ \<Rightarrow> Some p)"

definition configureMasterAuth ::
  "import_env \<Rightarrow> string \<Rightarrow> string \<Rightarrow> string option \<times> import_action list" where
  "configureMasterAuth env username password = (case ie_config_set env ''masteruser'' username of
      Some e \<Rightarrow> (Some e, [ImpConfigSet ''masteruser'' username])
    | None \<Rightarrow> (ie_config_set env ''masterauth'' password,
        [ImpConfigSet ''masteruser'' username, ImpConfigSet ''masterauth'' password]))"

definition clearMasterAuth :: "import_env \<Rightarrow> import_action list" where
  "clearMasterAuth env = (case ie_clear_set env ''masterauth'' of
      Some _ \<Rightarrow> [ImpConfigSet ''masterauth'' '''']
    | None \<Rightarrow> [ImpConfigSet ''masterauth'' '''', ImpConfigSet ''masteruser'' ''''])"

definition ready_live :: "pod list \<Rightarrow> int" where
  "ready_live pods = int (length (filter (\<lambda>p. pod_deletion p = None \<and> IsPodReady p) pods))"

definition snapshotReadiness :: "kv_cluster \<Rightarrow> pod list \<Rightarrow> pod list \<Rightarrow> readiness_snapshot" where
  "snapshotReadiness cr pods sentinelPods =
     (let r = spec_redis_replicas (cr_spec cr);
          desired = (if r \<le> 0 then int (length pods) else r);
          c = (case spec_sentinel_count (cr_spec cr) of Some n \<Rightarrow> n | None \<Rightarrow> 0);
          want = (if c \<le> 0 then int (length sentinelPods) else c);
          sentinel = (spec_mode (cr_spec cr) = ModeSentinel)
      in \<lparr>rs_redis_ready = (desired \<le> ready_live pods \<and> 0 < desired),
          rs_sentinel_ready = (sentinel \<and> 0 < want \<longrightarrow> want \<le> ready_live sentinelPods),
          rs_redis_ready_count = ready_live pods, rs_redis_desired = desired,
          rs_sentinel_ready_count = (if sentinel then ready_live sentinelPods else 0),
          rs_sentinel_desired = (if sentinel then want else 0)\<rparr>)"

definition cloneStatus :: "external_import_status option \<Rightarrow> external_import_status" where
  "cloneStatus st = (case st of Some s \<Rightarrow> s
     | None \<Rightarrow> \<lparr>ei_state = '''', ei_source = '''', ei_mode = '''', ei_started_at = None, ei_last_synced = None,
               ei_message = ''''\<rparr>)"

definition makeCondition :: "condition_status \<Rightarrow> string \<Rightarrow> string \<Rightarrow> condition_state" where
  "makeCondition s reason message = \<lparr>cs_status = s, cs_reason = reason, cs_message = message\<rparr>"

definition diff64 :: "int \<Rightarrow> int \<Rightarrow> int" where
  "diff64 a b = (if b < a then wrap64 (a - b) else wrap64 (b - a))"

definition recordSuccess :: "string \<Rightarrow> time option \<Rightarrow> time \<Rightarrow> import_action list" where
  "recordSuccess mode startedAt finishedAt =
     [ImpSuccess mode (map_option (\<lambda>s. max 0 (finishedAt - s)) startedAt)]"

section \<open>One pass\<close>

definition sync_mode_text :: "external_sync_mode \<Rightarrow> string" where
  "sync_mode_text m = (case m of SyncModeUnset \<Rightarrow> '''' | SyncModeSnapshot \<Rightarrow> ''Snapshot'' | SyncModeLive \<Rightarrow> ''Live'')"

definition effective_mode :: "external_source_spec \<Rightarrow> external_sync_mode" where
  "effective_mode spec = (if es_sync_mode spec = SyncModeUnset then SyncModeSnapshot else es_sync_mode spec)"

definition state_reset :: "external_source_spec \<Rightarrow> external_import_status \<Rightarrow> bool" where
  "state_reset spec st = (ei_source st \<noteq> es_address spec \<or> ei_mode st \<noteq> sync_mode_text (effective_mode spec))"

text \<open>The status a pass starts from: a changed source or mode starts the import afresh.\<close>

definition begin_status :: "external_source_spec \<Rightarrow> external_import_status \<Rightarrow> external_import_status" where
  "begin_status spec st =
     (let st1 = st\<lparr>ei_state := (if state_reset spec st then '''' else ei_state st),
                   ei_source := es_address spec, ei_mode := sync_mode_text (effective_mode spec)\<rparr>
      in if ei_state st1 = ''''
         then st1\<lparr>ei_state := importStatePending, ei_started_at := None, ei_last_synced := None,
                  ei_message := ''external import pending''\<rparr>
         else st1)"

definition abort_if_data :: "external_source_spec \<Rightarrow> bool" where
  "abort_if_data spec = (case es_abort_if_existing_data spec of Some b \<Rightarrow> b | None \<Rightarrow> True)"

definition max_duration :: "external_source_spec \<Rightarrow> duration" where
  "max_duration spec = (case es_max_initial_sync spec of
      Some d \<Rightarrow> if 0 < d then d else 1800 * sec
    | None \<Rightarrow> 1800 * sec)"

definition or_default :: "string \<Rightarrow> string \<Rightarrow> string" where
  "or_default m d = (if m = '''' then d else m)"

definition waiting :: "external_import_status \<Rightarrow> string \<Rightarrow> string \<Rightarrow> duration \<Rightarrow> import_result" where
  "waiting st reason msg delay = \<lparr>ir_status = Some st, ir_condition = makeCondition StatusFalse reason msg,
     ir_requeue = delay, ir_abort = True\<rparr>"

definition proceed :: "external_import_status option \<Rightarrow> condition_state \<Rightarrow> import_result" where
  "proceed st c = \<lparr>ir_status = st, ir_condition = c, ir_requeue = 0, ir_abort = False\<rparr>"

definition link_in_sync :: "replication_info \<Rightarrow> bool" where
  "link_in_sync info = (ToLower (ri_master_link_status info) = ''up'' \<and> \<not> ri_master_sync_in_progress info
     \<and> diff64 (ri_master_repl_offset info) (ri_replica_repl_offset info) \<le> 1024)"

text \<open>Lines 258 to 294: what a pass does once the reading says that the replica is in sync.\<close>

definition import_synced ::
  "import_env \<Rightarrow> kv_cluster \<Rightarrow> external_source_spec \<Rightarrow> pod list \<Rightarrow> pod list \<Rightarrow> external_config
    \<Rightarrow> external_import_status \<Rightarrow> import_run" where
  "import_synced env cr spec pods sentinelPods cfg st =
     (let ready = snapshotReadiness cr pods sentinelPods
      in if effective_mode spec = SyncModeLive
         then if \<not> rs_redis_ready ready \<or> \<not> rs_sentinel_ready ready
              then (waiting st ''WaitingForReadiness''
                      (''replica in sync; waiting for readiness redis '' @ int_to_dec (rs_redis_ready_count ready)
                       @ ''/'' @ int_to_dec (rs_redis_desired ready) @ '', sentinel ''
                       @ int_to_dec (rs_sentinel_ready_count ready) @ ''/''
                       @ int_to_dec (rs_sentinel_desired ready)) (5 * sec), None, [])
              else let msg = ''replicating from '' @ ec_addr cfg @ ''; awaiting manual cutover''
                   in (waiting (st\<lparr>ei_state := importStateFollowing, ei_last_synced := Some (ie_finished env),
                                  ei_message := msg\<rparr>) ''Following'' msg (10 * sec), None, [])
         else case ie_no_one env of
           Some e \<Rightarrow> (waiting st ''Promote'' (''replicaof no one: '' @ e) 0,
                      Some (ImportTransient (''replicaof no one: '' @ e)), [ImpNoOne])
         | None \<Rightarrow>
             let msg = ''external import completed from '' @ ec_addr cfg
             in (proceed (Some (st\<lparr>ei_state := importStateCompleted, ei_last_synced := Some (ie_finished env),
                                  ei_message := msg\<rparr>)) (makeCondition StatusTrue ''Completed'' msg), None,
                 [ImpNoOne] @ clearMasterAuth env
                   @ recordSuccess (sync_mode_text (effective_mode spec)) (ei_started_at st) (ie_finished env)))"

text \<open>Lines 220 to 256: the start of the attempt, its time limit and the reading of the link.\<close>

definition mark_started ::
  "import_env \<Rightarrow> external_source_spec \<Rightarrow> external_config \<Rightarrow> string \<Rightarrow> external_import_status
    \<Rightarrow> external_import_status \<times> import_action list" where
  "mark_started env spec cfg prevState st =
     (if prevState \<noteq> importStateInProgress
      then (st\<lparr>ei_started_at := Some (ie_started env), ei_state := importStateInProgress,
               ei_message := ''replicating from '' @ ec_addr cfg @ '' ('' @ sync_mode_text (effective_mode spec)
                 @ '' mode)''\<rparr>,
            [ImpAttempt (sync_mode_text (effective_mode spec)) (''address='' @ ec_addr cfg)])
      else (st\<lparr>ei_started_at := Some (case ei_started_at st of Some t \<Rightarrow> t | None \<Rightarrow> ie_started env)\<rparr>, []))"

definition timed_out :: "import_env \<Rightarrow> external_source_spec \<Rightarrow> bool \<Rightarrow> string \<Rightarrow> external_import_status \<Rightarrow> bool" where
  "timed_out env spec reset prevState st =
     (let initialPhase = (reset \<or> prevState = '''' \<or> prevState = importStatePending
                            \<or> prevState = importStateInProgress);
          skipTimeout = (effective_mode spec = SyncModeLive \<and> \<not> initialPhase)
      in (case ei_started_at st of Some t \<Rightarrow> max_duration spec < ie_checked env - t | None \<Rightarrow> False)
         \<and> \<not> skipTimeout)"

definition import_progress ::
  "import_env \<Rightarrow> kv_cluster \<Rightarrow> external_source_spec \<Rightarrow> pod list \<Rightarrow> pod list \<Rightarrow> external_config
    \<Rightarrow> bool \<Rightarrow> string \<Rightarrow> external_import_status \<Rightarrow> replication_info \<Rightarrow> import_run" where
  "import_progress env cr spec pods sentinelPods cfg reset prevState st info =
     (let (st1, started) = mark_started env spec cfg prevState st
      in if timed_out env spec reset prevState st1
         then let msg = ''external import timed out after '' @ ie_show_duration env (max_duration spec)
              in (waiting (st1\<lparr>ei_state := importStateFailed, ei_message := msg\<rparr>) ''Timeout'' msg 0, None,
                  started @ [ImpFailure ''timeout'' msg])
         else if \<not> link_in_sync info
         then (waiting st1 ''Syncing''
                 (''syncing from '' @ ec_addr cfg @ '': link='' @ ri_master_link_status info @ '' offsetDelta=''
                  @ int_to_dec (diff64 (ri_master_repl_offset info) (ri_replica_repl_offset info))) (5 * sec),
               None, started)
         else let (res, err, acts) = import_synced env cr spec pods sentinelPods cfg st1
              in (res, err, started @ acts))"

text \<open>Lines 195 to 218: credentials, reading of the pod, and attachment to the source.\<close>

definition import_attach ::
  "import_env \<Rightarrow> kv_cluster \<Rightarrow> external_source_spec \<Rightarrow> pod list \<Rightarrow> pod list \<Rightarrow> external_config
    \<Rightarrow> bool \<Rightarrow> string \<Rightarrow> external_import_status \<Rightarrow> import_run" where
  "import_attach env cr spec pods sentinelPods cfg reset prevState st =
     (case configureMasterAuth env (ec_username cfg) (ec_password cfg) of
        (Some e, auth) \<Rightarrow> (waiting st ''MasterAuth'' e 0,
           Some (ImportTransient (''configure master auth: '' @ e)), auth)
      | (None, auth) \<Rightarrow> (case ie_info env of
          Inl e \<Rightarrow> (waiting st ''ReplicationInfo'' (''query replication info: '' @ e) 0,
             Some (ImportTransient (''replication info: '' @ e)), auth)
        | Inr info \<Rightarrow>
            if EqualFold (ri_master_host info) (ec_host cfg) \<and> ri_master_port info = ec_port cfg
            then let (res, err, acts) = import_progress env cr spec pods sentinelPods cfg reset prevState st info
                 in (res, err, auth @ acts)
            else case ensureExternalReachable env cfg of
              Some e \<Rightarrow> (waiting st ''SourceUnavailable'' e (5 * sec), Some (ImportTransient e), auth)
            | None \<Rightarrow> (case ie_replica_of env of
                Some e \<Rightarrow> (waiting st ''ReplicaOf'' (''replicaof '' @ ec_addr cfg @ '': '' @ e) 0,
                   Some (ImportTransient (''replicaof '' @ ec_addr cfg @ '': '' @ e)),
                   auth @ [ImpReplicaOf (ec_host cfg) (ec_port cfg)])
              | None \<Rightarrow>
                  let (res, err, acts) = import_progress env cr spec pods sentinelPods cfg reset prevState st info
                  in (res, err, auth @ [ImpReplicaOf (ec_host cfg) (ec_port cfg)] @ acts))))"

text \<open>Lines 159 to 193: the data guard and the two final states.\<close>

definition import_guarded ::
  "import_env \<Rightarrow> kv_cluster \<Rightarrow> external_source_spec \<Rightarrow> pod list \<Rightarrow> pod list \<Rightarrow> external_config
    \<Rightarrow> bool \<Rightarrow> string \<Rightarrow> external_import_status \<Rightarrow> import_run" where
  "import_guarded env cr spec pods sentinelPods cfg reset prevState st =
     (let go = (if ei_state st = importStateCompleted
                then (proceed (Some st) (makeCondition StatusTrue ''Completed''
                        (or_default (ei_message st) (''external import completed from '' @ ec_addr cfg))), None, [])
                else if ei_state st = importStateFailed
                then (waiting st ''Failed'' (or_default (ei_message st) ''external import previously failed'') 0,
                      None, [])
                else import_attach env cr spec pods sentinelPods cfg reset prevState st)
      in if ei_state st = importStatePending \<and> abort_if_data spec
         then case ie_dbsize env of
           Inl e \<Rightarrow> (waiting st ''DBSize'' (''query dbsize: '' @ e) 0, Some (ImportTransient (''dbsize: '' @ e)), [])
         | Inr n \<Rightarrow>
             if 0 < n
             then let msg = ''target already contains '' @ int_to_dec n @ '' keys''
                  in (waiting (st\<lparr>ei_state := importStateFailed, ei_message := msg\<rparr>) ''TargetNotEmpty'' msg 0,
                      None, [ImpFailure ''target_not_empty'' msg])
             else go
         else go)"

definition finalizeImport ::
  "import_env \<Rightarrow> external_import_status \<Rightarrow> pod list \<Rightarrow> import_run" where
  "finalizeImport env st pods =
     (if ei_state st = '''' \<or> ei_state st = importStatePending
      then (proceed None (makeCondition StatusTrue ''Disabled'' ''external import not configured''), None, [])
      else if ei_state st = importStateCompleted
      then (proceed (Some st) (makeCondition StatusTrue ''Completed''
              (or_default (ei_message st) ''external import completed'')), None, [])
      else if ei_state st = importStateFailed
      then (proceed (Some st) (makeCondition StatusFalse ''Failed''
              (or_default (ei_message st) ''external import previously failed'')), None, [])
      else case selectBootstrapPod pods of
        None \<Rightarrow> (waiting st ''WaitingForPods'' ''waiting for bootstrap pod to detach from external source'' (5 * sec),
                 None, [])
      | Some pod \<Rightarrow>
          if \<not> ie_has_factory env
          then (waiting st ''MissingDependency'' ''redis client factory not configured'' 0,
                Some (ImportFatal ''redis client factory not configured''), [])
          else (case ie_client env pod of
              Some e \<Rightarrow> (waiting st ''ClientInit'' (''create redis client: '' @ e) 0,
                 Some (ImportTransient (''redis client for '' @ pod_name pod @ '': '' @ e)), [])
            | None \<Rightarrow> (case ie_no_one env of
                Some e \<Rightarrow> (waiting st ''Promote'' (''replicaof no one: '' @ e) 0,
                   Some (ImportTransient (''replicaof no one: '' @ e)), [ImpNoOne])
              | None \<Rightarrow>
                  let msg = ''external import cutover executed, promoted '' @ pod_name pod
                  in (proceed (Some (st\<lparr>ei_state := importStateCompleted,
                                       ei_last_synced := Some (ie_finished env), ei_message := msg\<rparr>))
                        (makeCondition StatusTrue ''Completed'' msg), None,
                      [ImpNoOne] @ clearMasterAuth env
                        @ recordSuccess (or_default (ei_mode st) ''Snapshot'') (ei_started_at st)
                            (ie_finished env)))))"

definition Ensure ::
  "import_env \<Rightarrow> kv_cluster \<Rightarrow> external_source_spec option \<Rightarrow> external_import_status option \<Rightarrow> pod list
    \<Rightarrow> pod list \<Rightarrow> import_run" where
  "Ensure env cr spec_opt current pods sentinelPods = (case spec_opt of
      None \<Rightarrow> finalizeImport env (cloneStatus current) pods
    | Some spec \<Rightarrow>
        (let st0 = cloneStatus current; st = begin_status spec st0
         in if \<not> ie_has_factory env
            then (waiting st0 ''MissingDependency'' ''redis client factory not configured'' 0,
                  Some (ImportFatal ''redis client factory not configured''), [])
            else if \<not> ie_has_kube env
            then (waiting st0 ''MissingDependency'' ''kube client not configured'' 0,
                  Some (ImportFatal ''kube client not configured''), [])
            else case buildExternalConfig env (cr_namespace cr) spec of
              Inl e \<Rightarrow> (waiting st ''Config'' e 0, Some (ImportFatal e), [])
            | Inr cfg \<Rightarrow> (case selectBootstrapPod pods of
                None \<Rightarrow> (waiting st ''WaitingForPods'' ''no redis pods available for bootstrap'' (5 * sec), None, [])
              | Some pod \<Rightarrow>
                  if \<not> IsPodReady pod
                  then (waiting st ''PodNotReady'' (''pod '' @ pod_name pod @ '' not Ready'') (5 * sec), None, [])
                  else (case ie_client env pod of
                      Some e \<Rightarrow> (waiting st ''ClientInit'' (''create redis client: '' @ e) 0,
                         Some (ImportTransient (''redis client for '' @ pod_name pod @ '': '' @ e)), [])
                    | None \<Rightarrow> import_guarded env cr spec pods sentinelPods cfg (state_reset spec st0)
                                (ei_state st0) st))))"

section \<open>The phase\<close>

record import_phase =
  ip_status :: "external_import_status option"
  ip_overrides :: "(condition_type, condition_state) gomap"
  ip_requeue :: "requeue_op list"
  ip_abort :: "import_error option option"

text \<open>\<open>ExternalImport\<close>: an abort directive set by an earlier phase is kept and skips the import.\<close>

definition ExternalImport ::
  "import_env \<Rightarrow> kv_cluster \<Rightarrow> pod list \<Rightarrow> pod list \<Rightarrow> import_phase
    \<Rightarrow> import_phase \<times> import_error option \<times> import_action list" where
  "ExternalImport env cr pods sentinelPods s =
     (if ip_abort s \<noteq> None then (s, None, [])
      else let (res, err, acts) = Ensure env cr (spec_external_source (cr_spec cr))
                 (status_external_import (cr_status cr)) pods sentinelPods
           in (s\<lparr>ip_status := ir_status res,
                 ip_overrides := gm_set (ip_overrides s) ConditionExternalImport (ir_condition res),
                 ip_requeue := (if 0 < ir_requeue res then ip_requeue s @ [RequeueAfter (ir_requeue res)]
                                else ip_requeue s),
                 ip_abort := (if ir_abort res then Some err else None)\<rparr>, err, acts))"

section \<open>What a pass promises\<close>

lemmas import_results = waiting_def proceed_def makeCondition_def

definition outcome_state :: "import_result \<Rightarrow> string" where
  "outcome_state res = (case ir_status res of Some st \<Rightarrow> ei_state st | None \<Rightarrow> '''')"

definition final_state :: "string \<Rightarrow> bool" where
  "final_state s = (s = importStateCompleted \<or> s = importStateFailed)"

text \<open>
  What the later stages give, for a status that is not final: the pipeline goes on only with a
  completed import; detaching is for a snapshot whose reading is in sync; completion is by
  detaching; and a pass without an error that did not end the import asks to be run again.
\<close>

definition stage_ok :: "import_env \<Rightarrow> external_source_spec \<Rightarrow> import_run \<Rightarrow> bool" where
  "stage_ok env spec r = (case r of (res, err, acts) \<Rightarrow>
     (\<not> ir_abort res \<longrightarrow> err = None \<and> outcome_state res = importStateCompleted)
     \<and> (ImpNoOne \<in> set acts \<longrightarrow> effective_mode spec \<noteq> SyncModeLive
          \<and> (\<exists>info. ie_info env = Inr info \<and> link_in_sync info))
     \<and> (outcome_state res = importStateCompleted \<longrightarrow> ImpNoOne \<in> set acts \<and> ie_no_one env = None)
     \<and> (err = None \<and> \<not> final_state (outcome_state res) \<longrightarrow> 0 < ir_requeue res))"

lemma no_one_not_cleared: "ImpNoOne \<notin> set (clearMasterAuth env)" "ImpNoOne \<notin> set (recordSuccess m s f)"
  "ImpReplicaOf h p \<notin> set (clearMasterAuth env)" "ImpReplicaOf h p \<notin> set (recordSuccess m s f)"
  by (auto simp: clearMasterAuth_def recordSuccess_def split: option.splits)

lemma import_synced_ok:
  assumes "ie_info env = Inr info" "link_in_sync info" "ei_state st \<noteq> importStateCompleted"
  shows "stage_ok env spec (import_synced env cr spec pods sentinelPods cfg st)"
  using assms unfolding stage_ok_def import_synced_def Let_def
  by (auto simp: import_results outcome_state_def final_state_def import_states no_one_not_cleared
      split: option.splits)

lemma import_synced_attaches: "ImpReplicaOf h p \<notin> set (snd (snd (import_synced env cr spec pods sentinelPods cfg st)))"
  unfolding import_synced_def Let_def by (auto simp: no_one_not_cleared split: option.splits)

lemma mark_started_state:
  assumes "mark_started env spec cfg prevState st = (st1, started)" "ei_state st \<noteq> importStateCompleted"
  shows "ei_state st1 \<noteq> importStateCompleted" "ImpNoOne \<notin> set started" "ImpReplicaOf h p \<notin> set started"
  using assms by (auto simp: mark_started_def import_states split: if_splits)

lemma stage_ok_prefix:
  assumes "stage_ok env spec (res, err, acts)" "ImpNoOne \<notin> set pre"
  shows "stage_ok env spec (res, err, pre @ acts)"
  using assms by (auto simp: stage_ok_def)

lemma import_progress_ok:
  assumes "ie_info env = Inr info" "ei_state st \<noteq> importStateCompleted"
  shows "stage_ok env spec (import_progress env cr spec pods sentinelPods cfg reset prevState st info)"
proof -
  obtain st1 started where m: "mark_started env spec cfg prevState st = (st1, started)" by (metis surj_pair)
  note ms = mark_started_state [OF m assms(2)]
  obtain res err acts where s: "import_synced env cr spec pods sentinelPods cfg st1 = (res, err, acts)"
    by (metis prod_cases3)
  have "link_in_sync info \<Longrightarrow> stage_ok env spec (res, err, started @ acts)"
    using import_synced_ok [OF assms(1) _ ms(1)] s ms(2) stage_ok_prefix by metis
  then show ?thesis using ms unfolding import_progress_def m Let_def prod.case s
    by (auto simp: stage_ok_def import_results outcome_state_def final_state_def import_states)
qed

lemma import_progress_attaches:
  "ImpReplicaOf h p \<notin> set (snd (snd (import_progress env cr spec pods sentinelPods cfg reset prevState st info)))"
  unfolding import_progress_def Let_def
  using import_synced_attaches [of h p env cr spec pods sentinelPods cfg]
  by (auto simp: mark_started_def split: prod.splits if_splits) (metis snd_conv)+

lemma configureMasterAuth_acts: "configureMasterAuth env u w = (e, acts) \<Longrightarrow> ImpNoOne \<notin> set acts"
  "configureMasterAuth env u w = (e, acts) \<Longrightarrow> ImpReplicaOf h p \<notin> set acts"
  by (auto simp: configureMasterAuth_def split: option.splits)

lemma import_attach_ok:
  assumes "ei_state st \<noteq> importStateCompleted"
  shows "stage_ok env spec (import_attach env cr spec pods sentinelPods cfg reset prevState st)"
proof -
  obtain e auth where a: "configureMasterAuth env (ec_username cfg) (ec_password cfg) = (e, auth)" by (metis surj_pair)
  note na = configureMasterAuth_acts(1) [OF a]
  have pr: "stage_ok env spec (case import_progress env cr spec pods sentinelPods cfg reset prevState st info of
      (res, err, acts) \<Rightarrow> (res, err, pre @ acts))"
    if "ie_info env = Inr info" "ImpNoOne \<notin> set pre" for info pre
  proof -
    obtain r x y where p: "import_progress env cr spec pods sentinelPods cfg reset prevState st info = (r, x, y)"
      by (metis prod_cases3)
    have "stage_ok env spec (r, x, y)" unfolding p [symmetric] by (rule import_progress_ok [OF that(1) assms])
    then show ?thesis unfolding p by (simp add: stage_ok_prefix that(2))
  qed
  have pr2: "stage_ok env spec (case import_progress env cr spec pods sentinelPods cfg reset prevState st info of
      (res, err, acts) \<Rightarrow> (res, err, auth @ [ImpReplicaOf (ec_host cfg) (ec_port cfg)] @ acts))"
    if "ie_info env = Inr info" for info
    using pr [OF that, of "auth @ [ImpReplicaOf (ec_host cfg) (ec_port cfg)]"] na by simp
  show ?thesis
  proof (cases e)
    case None
    then show ?thesis using na assms pr [OF _ na] pr2 unfolding import_attach_def a prod.case Let_def
      by (auto simp: stage_ok_def import_results outcome_state_def split: sum.splits option.splits prod.splits)
  next
    case (Some x)
    then show ?thesis using na assms unfolding import_attach_def a
      by (auto simp: stage_ok_def import_results outcome_state_def)
  qed
qed

lemma import_attach_target:
  assumes "import_attach env cr spec pods sentinelPods cfg reset prevState st = (res, err, acts)"
    and "ImpReplicaOf h p \<in> set acts"
  shows "h = ec_host cfg \<and> p = ec_port cfg \<and> ie_ping env cfg = None"
proof -
  have no: "import_progress env cr spec pods sentinelPods cfg reset prevState st info = (r, e, as)
      \<Longrightarrow> ImpReplicaOf h p \<in> set as \<Longrightarrow> False" for info r e as
    using import_progress_attaches [of h p env cr spec pods sentinelPods cfg reset prevState st info] by simp
  have na: "configureMasterAuth env u w = (e, as) \<Longrightarrow> ImpReplicaOf h p \<in> set as \<Longrightarrow> False" for u w e as
    using configureMasterAuth_acts(2) by blast
  show ?thesis using assms unfolding import_attach_def Let_def
    by (auto simp: ensureExternalReachable_def split: prod.splits option.splits sum.splits if_splits dest: no na)
qed

lemma begin_status_state: "ei_state (begin_status spec st) \<noteq> ''''"
  by (simp add: begin_status_def Let_def import_states)

lemma import_guarded_ok:
  assumes "import_guarded env cr spec pods sentinelPods cfg reset prevState st = (res, err, acts)"
  shows "(\<not> ir_abort res \<longrightarrow> err = None \<and> outcome_state res = importStateCompleted)
    \<and> (ImpReplicaOf h p \<in> set acts \<longrightarrow> h = ec_host cfg \<and> p = ec_port cfg \<and> ie_ping env cfg = None
         \<and> \<not> final_state (ei_state st)
         \<and> (ei_state st = importStatePending \<and> abort_if_data spec \<longrightarrow> (\<exists>n. ie_dbsize env = Inr n \<and> n \<le> 0)))
    \<and> (ImpNoOne \<in> set acts \<longrightarrow> effective_mode spec \<noteq> SyncModeLive
         \<and> (\<exists>info. ie_info env = Inr info \<and> link_in_sync info))
    \<and> (outcome_state res = importStateCompleted
         \<longrightarrow> ei_state st = importStateCompleted \<or> ImpNoOne \<in> set acts \<and> ie_no_one env = None)
    \<and> (final_state (ei_state st) \<longrightarrow> acts = [] \<and> ir_status res = Some st)
    \<and> (err = None \<and> \<not> final_state (outcome_state res) \<longrightarrow> 0 < ir_requeue res)"
proof (cases "import_guarded env cr spec pods sentinelPods cfg reset prevState st
    = import_attach env cr spec pods sentinelPods cfg reset prevState st \<and> \<not> final_state (ei_state st)
    \<and> (ei_state st = importStatePending \<and> abort_if_data spec \<longrightarrow> (\<exists>n. ie_dbsize env = Inr n \<and> n \<le> 0))")
  case True
  then have "import_attach env cr spec pods sentinelPods cfg reset prevState st = (res, err, acts)"
    and "ei_state st \<noteq> importStateCompleted" using assms by (auto simp: final_state_def)
  then have "stage_ok env spec (res, err, acts)"
    and "ImpReplicaOf h p \<in> set acts \<Longrightarrow> h = ec_host cfg \<and> p = ec_port cfg \<and> ie_ping env cfg = None"
    using import_attach_ok import_attach_target by metis+
  then show ?thesis using True by (auto simp: stage_ok_def)
next
  case False
  then show ?thesis using assms unfolding import_guarded_def Let_def
    by (auto simp: import_results outcome_state_def final_state_def import_states
        split: if_splits sum.splits)
qed

text \<open>
  C18: One pass over a cluster with an external source. (1) Reconciliation goes on behind the import only
  when the import is completed and the pass had no error. (2) The bootstrap pod is attached to nothing
  but the configured host and port, only after the source answered a ping, never once the import is
  completed or failed, and, in a pending import that guards existing data, only when the pod's database
  was read as empty. (3) The pod is detached only in a snapshot import and on a reading of a link that
  is up, without a transfer in progress and within 1024 bytes. (4) An import becomes completed only by a
  detachment that succeeded. (5) Completed and failed are final: a pass changes neither the pod nor the
  status. (6) A pass that neither failed nor ended the import asks for another one.
\<close>

theorem import_gated:
  assumes "Ensure env cr (Some spec) current pods sentinelPods = (res, err, acts)"
    and "st = begin_status spec (cloneStatus current)"
  shows "(\<not> ir_abort res \<longrightarrow> err = None \<and> outcome_state res = importStateCompleted)
    \<and> (ImpReplicaOf h p \<in> set acts \<longrightarrow>
         (\<exists>cfg. buildExternalConfig env (cr_namespace cr) spec = Inr cfg \<and> h = ec_host cfg \<and> p = ec_port cfg
            \<and> ie_ping env cfg = None)
         \<and> \<not> final_state (ei_state st)
         \<and> (ei_state st = importStatePending \<and> abort_if_data spec \<longrightarrow> (\<exists>n. ie_dbsize env = Inr n \<and> n \<le> 0)))
    \<and> (ImpNoOne \<in> set acts \<longrightarrow> effective_mode spec \<noteq> SyncModeLive
         \<and> (\<exists>info. ie_info env = Inr info \<and> link_in_sync info))
    \<and> (outcome_state res = importStateCompleted \<and> err = None
         \<longrightarrow> ei_state st = importStateCompleted \<or> ImpNoOne \<in> set acts \<and> ie_no_one env = None)
    \<and> (final_state (ei_state st) \<and> err = None \<longrightarrow> acts = [] \<and> ir_status res = Some st)
    \<and> (err = None \<and> \<not> final_state (outcome_state res) \<longrightarrow> 0 < ir_requeue res)"
proof (cases "\<exists>cfg. buildExternalConfig env (cr_namespace cr) spec = Inr cfg \<and> import_guarded env cr spec pods
    sentinelPods cfg (state_reset spec (cloneStatus current)) (ei_state (cloneStatus current)) st = (res, err, acts)")
  case True
  then show ?thesis using import_guarded_ok [of env cr spec pods sentinelPods _ _ _ st res err acts h p] by blast
next
  case False
  then show ?thesis using assms unfolding Ensure_def Let_def
    by (auto simp: import_results outcome_state_def final_state_def
        split: if_splits sum.splits option.splits)
qed

definition demo_import_env :: import_env where
  "demo_import_env = \<lparr>ie_has_factory = True, ie_has_kube = True,
     ie_parse_url = (\<lambda>_. Inr \<lparr>up_hostname = ''src'', up_port = ''7'', up_path = '''', up_user = None\<rparr>),
     ie_lookup_port = (\<lambda>_. Inr 7), ie_is_ip = (\<lambda>_. False), ie_get_secret = (\<lambda>_ _. Inl ''not found''),
     ie_ca_ok = (\<lambda>_. False), ie_key_pair = (\<lambda>_ _. None), ie_client = (\<lambda>_. None), ie_dbsize = Inr 0,
     ie_config_set = (\<lambda>_ _. None), ie_info = Inr ri0, ie_ping = (\<lambda>_. None), ie_replica_of = None,
     ie_no_one = None, ie_clear_set = (\<lambda>_. None), ie_started = 0, ie_checked = 1, ie_finished = 2,
     ie_show_duration = (\<lambda>_. ''30m0s'')\<rparr>"

definition demo_source :: external_source_spec where
  "demo_source = \<lparr>es_address = ''redis://src:7'', es_auth = None, es_tls = None, es_sync_mode = SyncModeUnset,
     es_abort_if_existing_data = None, es_max_initial_sync = None\<rparr>"

definition demo_import_pod :: pod where
  "demo_import_pod = (pod0 ''ns'' ''kv-0'')\<lparr>pod_ready_conditions := [True]\<rparr>"

lemmas demo_import = demo_import_env_def demo_source_def demo_import_pod_def pod0_def

lemma demo_config:
  "buildExternalConfig (demo_import_env\<lparr>ie_info := i, ie_dbsize := d\<rparr>) ns demo_source
     = Inr \<lparr>ec_host = ''src'', ec_port = 7, ec_db = 0, ec_username = '''', ec_password = '''', ec_tls = None,
        ec_addr = ''src:7''\<rparr>"
proof -
  have "TrimSpace ''redis://src:7'' = ''redis://src:7''" "int_to_dec 7 = ''7''" "url_db '''' = 0"
    "HasPrefix (ToLower ''redis://src:7'') ''rediss://'' = False" by code_simp+
  then show ?thesis
    by (simp add: buildExternalConfig_def demo_import source_port_def source_credentials_def buildTLSConfig_def Let_def)
qed

text \<open>A pass on the demonstration source, down to the data guard.\<close>

lemma demo_ensure:
  "Ensure (demo_import_env\<lparr>ie_info := i, ie_dbsize := d\<rparr>) cr (Some demo_source) current [demo_import_pod] []
     = import_guarded (demo_import_env\<lparr>ie_info := i, ie_dbsize := d\<rparr>) cr demo_source [demo_import_pod] []
        \<lparr>ec_host = ''src'', ec_port = 7, ec_db = 0, ec_username = '''', ec_password = '''', ec_tls = None,
         ec_addr = ''src:7''\<rparr> (state_reset demo_source (cloneStatus current)) (ei_state (cloneStatus current))
        (begin_status demo_source (cloneStatus current))"
proof -
  have "IsPodReady demo_import_pod" by (simp add: IsPodReady_def demo_import)
  moreover have "ie_has_factory (demo_import_env\<lparr>ie_info := i, ie_dbsize := d\<rparr>)"
    "ie_has_kube (demo_import_env\<lparr>ie_info := i, ie_dbsize := d\<rparr>)"
    "ie_client (demo_import_env\<lparr>ie_info := i, ie_dbsize := d\<rparr>) demo_import_pod = None" by (simp_all add: demo_import)
  ultimately show ?thesis by (simp add: Ensure_def demo_config selectBootstrapPod_def Let_def)
qed

lemmas import_pass = import_guarded_def import_attach_def import_progress_def import_synced_def
  configureMasterAuth_def clearMasterAuth_def recordSuccess_def ensureExternalReachable_def mark_started_def
  timed_out_def begin_status_def state_reset_def effective_mode_def sync_mode_text_def abort_if_data_def
  max_duration_def cloneStatus_def import_results import_states outcome_state_def

lemma EqualFold_demo: "\<not> EqualFold '''' ''src''" "\<not> EqualFold ''kv-1'' ''src''" "EqualFold ''src'' ''src''"
  by code_simp+

text \<open>A new import on an empty pod attaches it to the source and asks for another pass.\<close>

lemma demo_first_pass:
  "\<exists>res. Ensure (demo_import_env\<lparr>ie_info := Inr ri0, ie_dbsize := Inr 0\<rparr>) cr (Some demo_source) None [demo_import_pod] []
     = (res, None, [ImpConfigSet ''masteruser'' '''', ImpConfigSet ''masterauth'' '''', ImpReplicaOf ''src'' 7,
          ImpAttempt ''Snapshot'' ''address=src:7''])
     \<and> outcome_state res = importStateInProgress \<and> ir_abort res"
proof -
  have "\<not> link_in_sync ri0" by code_simp
  then show ?thesis unfolding demo_ensure
    by (simp add: import_pass demo_import EqualFold_demo ri0_def)
qed

theorem import_gated_witness:
  "\<exists>res. Ensure (demo_import_env\<lparr>ie_info := Inr ri0, ie_dbsize := Inr 0\<rparr>) (cluster0 ''ns'' ''kv'') (Some demo_source) None
       [demo_import_pod] [] = (res, None, [ImpConfigSet ''masteruser'' '''', ImpConfigSet ''masterauth'' '''',
         ImpReplicaOf ''src'' 7, ImpAttempt ''Snapshot'' ''address=src:7''])
     \<and> 0 < ir_requeue res"
proof -
  obtain res where r: "Ensure (demo_import_env\<lparr>ie_info := Inr ri0, ie_dbsize := Inr 0\<rparr>) (cluster0 ''ns'' ''kv'')
       (Some demo_source) None [demo_import_pod] [] = (res, None, [ImpConfigSet ''masteruser'' '''',
         ImpConfigSet ''masterauth'' '''', ImpReplicaOf ''src'' 7, ImpAttempt ''Snapshot'' ''address=src:7''])"
    and "outcome_state res = importStateInProgress" using demo_first_pass by blast
  then have "\<not> final_state (outcome_state res)" by (simp add: final_state_def import_states)
  then have "0 < ir_requeue res" using import_gated [OF r refl] by blast
  then show ?thesis using r by blast
qed

section \<open>What the state machine does not keep\<close>

text \<open>
  The reading that decides completion is taken before \<open>REPLICAOF\<close> (line 200). A bootstrap pod that was an
  in-sync replica of another pod is attached to the source, detached again and reported as completed
  in one pass, before any data was copied.
\<close>

definition demo_old_link :: replication_info where
  "demo_old_link = ri0\<lparr>ri_role := ''slave'', ri_master_host := ''kv-1'', ri_master_port := 7,
     ri_master_link_status := ''up''\<rparr>"

lemma stale_reading_completes:
  "\<exists>res acts. Ensure (demo_import_env\<lparr>ie_info := Inr demo_old_link, ie_dbsize := Inr 0\<rparr>) cr (Some demo_source) None
       [demo_import_pod] [] = (res, None, acts)
     \<and> outcome_state res = importStateCompleted \<and> \<not> ir_abort res \<and> ImpReplicaOf ''src'' 7 \<in> set acts"
proof -
  have "link_in_sync demo_old_link" by code_simp
  then show ?thesis unfolding demo_ensure
    by (simp add: import_pass demo_import EqualFold_demo demo_old_link_def Let_def)
qed

text \<open>
  A source that changes while an import is in progress: the pass attaches the pod to the new source but
  leaves the state at Pending, because \<open>prevState\<close> still says InProgress (line 220). The next pass takes
  the keys copied so far for foreign data and fails the import.
\<close>

definition demo_other_import :: external_import_status where
  "demo_other_import = \<lparr>ei_state = ''InProgress'', ei_source = ''redis://old'', ei_mode = ''Snapshot'',
     ei_started_at = Some 0, ei_last_synced = None, ei_message = ''''\<rparr>"

definition demo_src_link :: replication_info where
  "demo_src_link = ri0\<lparr>ri_role := ''slave'', ri_master_host := ''src'', ri_master_port := 7,
     ri_master_link_status := ''up'', ri_master_sync_in_progress := True\<rparr>"

lemma changed_source_fails:
  "\<exists>res acts res' acts'.
     Ensure (demo_import_env\<lparr>ie_info := Inr ri0, ie_dbsize := Inr 0\<rparr>) cr (Some demo_source) (Some demo_other_import)
       [demo_import_pod] [] = (res, None, acts)
     \<and> ImpReplicaOf ''src'' 7 \<in> set acts \<and> outcome_state res = importStatePending
     \<and> Ensure (demo_import_env\<lparr>ie_info := Inr demo_src_link, ie_dbsize := Inr 7\<rparr>) cr (Some demo_source)
         (ir_status res) [demo_import_pod] [] = (res', None, acts') \<and> outcome_state res' = importStateFailed"
proof -
  have "\<not> link_in_sync ri0" by code_simp
  then show ?thesis unfolding demo_ensure
    by (simp add: import_pass demo_import EqualFold_demo ri0_def demo_other_import_def Let_def)
qed

text \<open>In a live import every pass over a following pod starts the attempt again (line 220).\<close>

lemma following_restarts:
  "mark_started env spec cfg importStateFollowing st = (st', acts) \<Longrightarrow>
     ei_started_at st' = Some (ie_started env) \<and> ei_state st' = importStateInProgress
     \<and> (\<exists>m d. ImpAttempt m d \<in> set acts)"
  by (auto simp: mark_started_def import_states)

text \<open>The cut-over: without an external source a followed import ends by a detachment.\<close>

lemma cutover_detaches:
  assumes "Ensure env cr None (Some st) pods sentinelPods = (res, None, acts)"
    and "ei_state st = importStateFollowing \<or> ei_state st = importStateInProgress" "\<not> ir_abort res"
  shows "outcome_state res = importStateCompleted \<and> ImpNoOne \<in> set acts \<and> ie_no_one env = None"
proof -
  have "ei_state st \<noteq> ''''" "ei_state st \<noteq> importStatePending" "ei_state st \<noteq> importStateCompleted"
    "ei_state st \<noteq> importStateFailed" using assms(2) by (auto simp: import_states)
  then show ?thesis using assms(1,3) unfolding Ensure_def cloneStatus_def finalizeImport_def Let_def
    by (auto simp: import_results outcome_state_def split: option.splits if_splits)
qed

end
