(* ===== verification/KV_Failover.thy ===== *)
theory KV_Failover
  imports KV_Topology KV_Status
begin

text \<open>
  The controlled failover: \<open>TriggerFailover\<close> of \<open>src/controllers/internal/ops/sentinel/sentinel.go\<close>, which asks
  the Sentinels one after the other, waits for the address of the new master and enforces it, and the
  gate \<open>hasGoodSlave\<close> of \<open>src/controllers/controller.go\<close> that precedes it.

  The answers of the i-th call of a retried operation are functions of i, and of the poll for the address
  they are functions of the poll. The poll has fuel; one minute at two seconds a poll needs 31 rounds.
\<close>

section \<open>Triggering\<close>

datatype failover_reply = FoNoGoodSlave | FoErr string

record failover_env =
  fo_client :: "string \<Rightarrow> string option"
  fo_failover :: "string \<Rightarrow> nat \<Rightarrow> string option"
  fo_ctx :: "nat \<Rightarrow> string option"
  fo_wait :: "nat \<Rightarrow> string option"
  fo_addr :: "nat \<Rightarrow> nat \<Rightarrow> string + string \<times> int"
  fo_start :: time
  fo_clock :: "nat \<Rightarrow> time"
  fo_pause :: "nat \<Rightarrow> string option"
  fo_is_ip :: "string \<Rightarrow> bool"
  fo_ca_ok :: "string \<Rightarrow> bool"
  fo_replies :: "string \<Rightarrow> pod_replies"
  fo_cache_calls :: cache_calls
  fo_sample :: "nat \<Rightarrow> rat"

datatype failover_error =
    NotSentinelMode
  | NoRedisPods
  | NoSentinelPods
  | FailoverTLS tls_config_error
  | NoGoodSlave
  | NoCandidates
  | CandidatesFailed "(string \<times> failover_reply) list"
  | NoNewAddress
  | FailoverCancelled string
  | HostNotMapped string
  | HostUnknown string
  | EnsureFailed string repl_error

definition orderedSentinelCandidates :: "pod list \<Rightarrow> pod list" where
  "orderedSentinelCandidates pods =
     (let sorted = SortedPodsByName pods
      in filter IsPodReady sorted @ filter (\<lambda>p. \<not> IsPodReady p) sorted)"

definition failover_backoff :: retry_backoff where
  "failover_backoff = \<lparr>rb_initial = 200 * msec, rb_max = 2 * sec, rb_factor = 2, rb_jitter = 0\<rparr>"

text \<open>One Sentinel: three attempts, a refusal for want of a good replica recognised in the text of the error.\<close>

definition upper_char :: "char \<Rightarrow> char" where
  "upper_char c = (if CHR ''a'' \<le> c \<and> c \<le> CHR ''z'' then char_of (of_char c - 32 :: nat) else c)"

definition ToUpper :: "string \<Rightarrow> string" where
  "ToUpper s = map upper_char s"

definition failover_reply_of :: "string \<Rightarrow> failover_reply" where
  "failover_reply_of e = (if Contains (ToUpper e) ''NOGOODSLAVE'' then FoNoGoodSlave else FoErr e)"

definition ask_failover :: "failover_env \<Rightarrow> string \<Rightarrow> failover_reply option" where
  "ask_failover env n =
     fst (Retry (fo_sample env) (\<lambda>i. map_option FoErr (fo_ctx env i)) (\<lambda>i. map_option FoErr (fo_wait env i)) 3 failover_backoff
       (\<lambda>i. map_option failover_reply_of (fo_failover env n i)))"

text \<open>The loop over the candidates: the Sentinels asked, in order, and the one that accepted.\<close>

fun trigger_loop ::
  "failover_env \<Rightarrow> pod list \<Rightarrow> (string \<times> failover_reply) list \<Rightarrow> string list \<Rightarrow> (failover_error + string) \<times> string list" where
  "trigger_loop env [] errs asked = (Inl (if errs = [] then NoCandidates else CandidatesFailed errs), asked)"
| "trigger_loop env (sp # sps) errs asked = (case fo_client env (pod_name sp) of
      Some e \<Rightarrow> trigger_loop env sps (errs @ [(pod_name sp, FoErr e)]) asked
    | None \<Rightarrow> (case ask_failover env (pod_name sp) of
          None \<Rightarrow> (Inr (pod_name sp), asked @ [pod_name sp])
        | Some FoNoGoodSlave \<Rightarrow> (Inl NoGoodSlave, asked @ [pod_name sp])
        | Some e \<Rightarrow> trigger_loop env sps (errs @ [(pod_name sp, e)]) (asked @ [pod_name sp])))"

section \<open>The new master\<close>

definition ask_address :: "failover_env \<Rightarrow> nat \<Rightarrow> (string \<times> int) option" where
  "ask_address env k =
     (case Retry (fo_sample env) (fo_ctx env) (fo_wait env) 3 failover_backoff
             (\<lambda>i. case fo_addr env k i of Inl e \<Rightarrow> Some e | Inr _ \<Rightarrow> None) of
        (None, n, _) \<Rightarrow> (case fo_addr env k n of
             Inr (h, p) \<Rightarrow> if h \<noteq> '''' \<and> 0 < p then Some (h, p) else None
           | Inl _ \<Rightarrow> None)
      | _ \<Rightarrow> None)"

fun await_address :: "failover_env \<Rightarrow> nat \<Rightarrow> nat \<Rightarrow> (failover_error + string) option" where
  "await_address env 0 k = None"
| "await_address env (Suc fuel) k =
     (if fo_clock env k < fo_start env + 60 * sec
      then (case ask_address env k of
              Some (h, _) \<Rightarrow> Some (Inr h)
            | None \<Rightarrow> (case fo_pause env k of
                  Some e \<Rightarrow> Some (Inl (FailoverCancelled e))
                | None \<Rightarrow> await_address env fuel (Suc k)))
      else Some (Inl NoNewAddress))"

definition name_of_host :: "failover_env \<Rightarrow> pod list \<Rightarrow> string \<Rightarrow> failover_error + string" where
  "name_of_host env pods host =
     (let n = MatchPodByHost pods host
      in if n \<noteq> '''' then Inr n
         else if \<not> fo_is_ip env host then Inl (HostNotMapped host)
         else case find (\<lambda>p. pod_ip p = host) pods of
                Some p \<Rightarrow> if pod_name p = '''' then Inl (HostUnknown host) else Inr (pod_name p)
              | None \<Rightarrow> Inl (HostUnknown host))"

definition to_master_request ::
  "failover_env \<Rightarrow> kv_cluster \<Rightarrow> pod list \<Rightarrow> security_settings option \<Rightarrow> string \<Rightarrow> ensure_request" where
  "to_master_request env cr pods s m =
     \<lparr>rq_cluster = cr, rq_redis_pods = pods, rq_sentinel_pods = [], rq_replies = fo_replies env, rq_sentinels = None,
      rq_security = s, rq_ca_ok = fo_ca_ok env, rq_force_master = m, rq_force_reason = '''', rq_wait_timeout = 0,
      rq_wait_interval = 0\<rparr>"

definition EnsureReplicationToMaster ::
  "nat \<Rightarrow> failover_env \<Rightarrow> kv_cluster \<Rightarrow> pod list \<Rightarrow> security_settings option \<Rightarrow> string
    \<Rightarrow> (repl_error + (string, pod_role) gomap \<times> redis_command list) option" where
  "EnsureReplicationToMaster fuel env cr pods s m =
     (case EnsureTopology fuel (fo_cache_calls env) (to_master_request env cr pods s m) None of
        None \<Rightarrow> None
      | Some (_, _, Some e, _) \<Rightarrow> Some (Inl e)
      | Some (res, cmds, None, _) \<Rightarrow> Some (Inr (er_roles res, cmds)))"

record failover_done =
  fd_master :: string
  fd_roles :: "(string, pod_role) gomap"
  fd_commands :: "redis_command list"

definition failover_tls :: "failover_env \<Rightarrow> security_settings option \<Rightarrow> tls_config_error option" where
  "failover_tls env s = (case s of
      None \<Rightarrow> None
    | Some x \<Rightarrow> if ts_enabled (ss_tls x)
        then (case ClientTLSConfig (fo_ca_ok env) x of Inl e \<Rightarrow> Some e | Inr _ \<Rightarrow> None) else None)"

definition complete_failover ::
  "nat \<Rightarrow> failover_env \<Rightarrow> kv_cluster \<Rightarrow> pod list \<Rightarrow> security_settings option \<Rightarrow> string
    \<Rightarrow> (failover_error + failover_done) option" where
  "complete_failover fuel env cr redisPods s host = (case name_of_host env redisPods host of
      Inl e \<Rightarrow> Some (Inl e)
    | Inr m \<Rightarrow> (case EnsureReplicationToMaster fuel env cr redisPods s m of
          None \<Rightarrow> None
        | Some (Inl e) \<Rightarrow> Some (Inl (EnsureFailed m e))
        | Some (Inr (roles, cmds)) \<Rightarrow> Some (Inr \<lparr>fd_master = m, fd_roles = roles, fd_commands = cmds\<rparr>)))"

text \<open>The result and the Sentinels that were asked for a failover.\<close>

definition TriggerFailover ::
  "nat \<Rightarrow> failover_env \<Rightarrow> kv_cluster \<Rightarrow> pod list \<Rightarrow> pod list \<Rightarrow> security_settings option
    \<Rightarrow> ((failover_error + failover_done) \<times> string list) option" where
  "TriggerFailover fuel env cr redisPods sentinelPods s =
     (if spec_mode (cr_spec cr) \<noteq> ModeSentinel then Some (Inl NotSentinelMode, [])
      else if redisPods = [] then Some (Inl NoRedisPods, [])
      else if sentinelPods = [] then Some (Inl NoSentinelPods, [])
      else case failover_tls env s of
             Some e \<Rightarrow> Some (Inl (FailoverTLS e), [])
           | None \<Rightarrow>
               (case trigger_loop env (orderedSentinelCandidates sentinelPods) [] [] of
                  (Inl e, asked) \<Rightarrow> Some (Inl e, asked)
                | (Inr _, asked) \<Rightarrow> (case await_address env fuel 0 of
                      None \<Rightarrow> None
                    | Some (Inl e) \<Rightarrow> Some (Inl e, asked)
                    | Some (Inr host) \<Rightarrow>
                        map_option (\<lambda>r. (r, asked)) (complete_failover fuel env cr redisPods s host))))"

section \<open>The gate before it\<close>

text \<open>What a pod answers to the gate: no client or no reading is \<^const>\<open>None\<close>.\<close>

definition link_of_master :: "kv_cluster \<Rightarrow> pod list \<Rightarrow> string \<Rightarrow> replication_info \<Rightarrow> bool" where
  "link_of_master cr pods master info =
     (let ip = (case find (\<lambda>p. pod_name p = master) pods of Some p \<Rightarrow> pod_ip p | None \<Rightarrow> '''');
          masterIP = (if ip = '''' then PodDNSName cr master else ip)
      in HostMatchesMaster (ri_master_host info) master masterIP pods
         \<and> (ri_master_port info = 0 \<or> ri_master_port info = fst (RedisPort cr)))"

fun good_slave_loop ::
  "(string \<Rightarrow> replication_info option) \<Rightarrow> kv_cluster \<Rightarrow> pod list \<Rightarrow> string \<Rightarrow> string \<Rightarrow> pod list \<Rightarrow> bool \<times> string" where
  "good_slave_loop read cr pods master detail [] = (False, detail)"
| "good_slave_loop read cr pods master detail (p # ps) =
     (if pod_name p = master \<or> \<not> IsPodReady p then good_slave_loop read cr pods master detail ps
      else case read (pod_name p) of
             None \<Rightarrow> good_slave_loop read cr pods master detail ps
           | Some info \<Rightarrow>
               if EqualFold (ri_role info) ''master'' then good_slave_loop read cr pods master detail ps
               else if \<not> link_of_master cr pods master info
               then good_slave_loop read cr pods master
                      (''replica '' @ pod_name p @ '' not following current master'') ps
               else let health = fst (EvaluatePodHealth PodRoleReplica info True (LagThresholdSeconds cr))
                    in if health = PodHealthHealthy then (True, '''')
                       else good_slave_loop read cr pods master
                              (''replica '' @ pod_name p @ '' health='' @ pod_health_text health) ps)"

definition hasGoodSlave ::
  "(string \<Rightarrow> replication_info option) \<Rightarrow> kv_cluster \<Rightarrow> pod list \<Rightarrow> string \<Rightarrow> bool \<times> string" where
  "hasGoodSlave read cr pods master =
     good_slave_loop read cr pods master ''no replica with master_link_status up and attached to current master'' pods"

section \<open>What a failover promises\<close>

lemma name_of_host_in: "name_of_host env pods host = Inr m \<Longrightarrow> m \<in> pod_name ` set pods \<and> m \<noteq> ''''"
  using MatchPodByHost_in [of pods host]
  by (auto simp: name_of_host_def Let_def dest!: find_member split: if_splits option.splits)

definition single_master :: "pod list \<Rightarrow> string \<Rightarrow> (string, pod_role) gomap \<Rightarrow> bool" where
  "single_master pods m roles = (\<forall>n. gm_get roles n =
     (if n \<in> pod_name ` set pods then Some (if n = m then PodRoleMaster else PodRoleReplica) else None))"

lemma EnsureReplicationToMaster_ok:
  assumes "EnsureReplicationToMaster fuel env cr pods s m = Some (Inr (roles, cmds))"
    and "'''' \<notin> pod_name ` set pods" "m \<in> pod_name ` set pods"
  shows "single_master pods m roles"
proof -
  let ?rq = "to_master_request env cr pods s m"
  obtain res oc' where run: "EnsureTopology fuel (fo_cache_calls env) ?rq None = Some (res, cmds, None, oc')"
    and roles: "roles = er_roles res"
    using assms(1) by (auto simp: EnsureReplicationToMaster_def split: option.splits prod.splits)
  have f: "rq_redis_pods ?rq = pods" "rq_force_master ?rq = m" "rq_sentinels ?rq = None"
    by (simp_all add: to_master_request_def)
  have "m \<noteq> ''''" using assms(2,3) by metis
  have e: "er_master res \<in> pod_name ` set (rq_redis_pods ?rq)
     \<and> topology_choice (fo_cache_calls env) ?rq None (er_source res) (er_master res)
     \<and> (\<forall>n. gm_get (er_roles res) n = (if n \<in> pod_name ` set (rq_redis_pods ?rq)
            then Some (if n = er_master res then PodRoleMaster else PodRoleReplica) else None))"
    using EnsureTopology_ok [OF run] assms(2,3) f(1,2) by simp
  then have "er_master res = m" using \<open>m \<noteq> ''''\<close>
    by (auto simp: topology_choice_def f cache_lookup_def split: ensure_source.splits)
  then show ?thesis using e roles by (simp add: single_master_def f)
qed

lemma trigger_loop_asked:
  assumes "trigger_loop env sps errs asked = (r, asked')"
  shows "\<exists>new. asked' = asked @ new \<and> set new \<subseteq> pod_name ` set sps \<and> length new \<le> length sps
    \<and> (\<forall>n. r = Inr n \<longrightarrow> new \<noteq> [] \<and> last new = n \<and> ask_failover env n = None)"
  using assms
proof (induction sps arbitrary: errs asked)
  case Nil
  then show ?case by auto
next
  case (Cons sp sps)
  show ?case
  proof (cases "fo_client env (pod_name sp)")
    case (Some e)
    then have "trigger_loop env sps (errs @ [(pod_name sp, FoErr e)]) asked = (r, asked')" using Cons.prems by simp
    from Cons.IH [OF this] show ?thesis by fastforce
  next
    case None
    show ?thesis
    proof (cases "\<exists>t. ask_failover env (pod_name sp) = Some (FoErr t)")
      case True
      then obtain t where "trigger_loop env sps (errs @ [(pod_name sp, FoErr t)]) (asked @ [pod_name sp]) = (r, asked')"
        using Cons.prems None by auto
      from Cons.IH [OF this] show ?thesis by fastforce
    next
      case False
      then show ?thesis using Cons.prems None by (auto split: option.splits failover_reply.splits)
    qed
  qed
qed

lemma orderedSentinelCandidates_set: "set (orderedSentinelCandidates pods) = set pods"
  by (auto simp: orderedSentinelCandidates_def Let_def)

lemma orderedSentinelCandidates_ready:
  "sorted_wrt (\<lambda>p q. IsPodReady q \<longrightarrow> IsPodReady p) (orderedSentinelCandidates pods)"
  by (auto simp: orderedSentinelCandidates_def Let_def sorted_wrt_append sorted_wrt_filter
      intro: sorted_wrt_mono_rel [of _ "\<lambda>_ _. True"])

text \<open>The poll ends when the clock moves by its two seconds a round.\<close>

lemma await_address_returns:
  assumes "\<forall>i. fo_start env + 2 * sec * int i \<le> fo_clock env i" "31 \<le> fuel + k" "k \<le> 30"
  shows "await_address env fuel k \<noteq> None"
  using assms(2,3)
proof (induction fuel arbitrary: k)
  case (Suc fuel)
  have "fo_start env + 2 * sec * int k \<le> fo_clock env k" using assms(1) by blast
  then have "fo_clock env k < fo_start env + 60 * sec \<Longrightarrow> Suc k \<le> 30" by linarith
  then show ?case using Suc by (auto split: option.splits)
qed simp

lemma complete_failover_returns:
  assumes "\<And>m. EnsureReplicationToMaster fuel env cr pods s m \<noteq> None"
  shows "complete_failover fuel env cr pods s host \<noteq> None"
proof (cases "name_of_host env pods host")
  case (Inr m)
  then show ?thesis using assms [of m] by (auto simp: complete_failover_def split: sum.splits)
qed (simp add: complete_failover_def)

lemma to_master_opts:
  assumes "ensure_opts (to_master_request env cr pods s m) = Inr opts"
  shows "eo_wait_interval opts = sec" "wait_fuel opts = 32"
  using assms by (auto simp: ensure_opts_def to_master_request_def wait_fuel_def Let_def
      split: option.splits if_splits sum.splits prod.splits)

lemma EnsureReplicationToMaster_returns:
  assumes "32 \<le> fuel" "\<forall>p \<in> set pods. ticks (fo_replies env (pod_name p)) sec"
  shows "EnsureReplicationToMaster fuel env cr pods s m \<noteq> None"
proof -
  have "\<exists>y. EnsureTopology fuel (fo_cache_calls env) (to_master_request env cr pods s m) None = Some y"
  proof (rule EnsureTopology_returns, intro allI impI)
    fix opts assume "ensure_opts (to_master_request env cr pods s m) = Inr opts"
    from to_master_opts [OF this] assms
    show "wait_fuel opts \<le> fuel \<and> (\<forall>p \<in> set (rq_redis_pods (to_master_request env cr pods s m)).
        ticks (rq_replies (to_master_request env cr pods s m) (pod_name p)) (eo_wait_interval opts))"
      by (simp add: to_master_request_def)
  qed
  then obtain y where y: "EnsureTopology fuel (fo_cache_calls env) (to_master_request env cr pods s m) None = Some y" ..
  show ?thesis unfolding EnsureReplicationToMaster_def y
    by (cases y) (auto split: option.splits)
qed

lemma TriggerFailover_success:
  assumes "TriggerFailover fuel env cr redisPods sentinelPods s = Some (Inr d, asked)"
    and "'''' \<notin> pod_name ` set redisPods"
  shows "spec_mode (cr_spec cr) = ModeSentinel \<and> fd_master d \<in> pod_name ` set redisPods
    \<and> single_master redisPods (fd_master d) (fd_roles d)
    \<and> asked \<noteq> [] \<and> set asked \<subseteq> pod_name ` set sentinelPods \<and> ask_failover env (last asked) = None"
proof -
  obtain n host where t: "trigger_loop env (orderedSentinelCandidates sentinelPods) [] [] = (Inr n, asked)"
    and c: "complete_failover fuel env cr redisPods s host = Some (Inr d)" and m: "spec_mode (cr_spec cr) = ModeSentinel"
    using assms(1) by (auto simp: TriggerFailover_def split: if_splits option.splits prod.splits sum.splits)
  have a: "asked \<noteq> [] \<and> set asked \<subseteq> pod_name ` set sentinelPods \<and> ask_failover env (last asked) = None"
    using trigger_loop_asked [OF t] by (auto simp: orderedSentinelCandidates_set)
  obtain roles cmds where "name_of_host env redisPods host = Inr (fd_master d)"
    "EnsureReplicationToMaster fuel env cr redisPods s (fd_master d) = Some (Inr (roles, cmds))" "fd_roles d = roles"
    using c by (auto simp: complete_failover_def split: sum.splits option.splits)
  then show ?thesis using name_of_host_in EnsureReplicationToMaster_ok [OF _ assms(2)] a m by blast
qed

lemma TriggerFailover_returns:
  assumes "\<forall>i. fo_start env + 2 * sec * int i \<le> fo_clock env i" "32 \<le> fuel"
    and "\<forall>p \<in> set redisPods. ticks (fo_replies env (pod_name p)) sec"
  shows "TriggerFailover fuel env cr redisPods sentinelPods s \<noteq> None"
proof -
  have "await_address env fuel 0 \<noteq> None" by (rule await_address_returns [OF assms(1)]) (use assms(2) in simp_all)
  moreover have "complete_failover fuel env cr redisPods s host \<noteq> None" for host
    by (rule complete_failover_returns, rule EnsureReplicationToMaster_returns [OF assms(2,3)])
  ultimately show ?thesis
    by (auto simp: TriggerFailover_def split: option.splits prod.splits sum.splits)
qed

text \<open>
  C12: A controlled failover always returns, provided that the clock moves by the two seconds of every poll and
  the tickers of the replicas do not fire early: at most 31 polls for the new address, and 32 for the wait of
  the enforced topology. When it succeeds the cluster runs in Sentinel mode, some Sentinel of the cluster accepted
  the failover as the last one asked, and the returned roles make one of the given pods the only master.
\<close>

theorem failover_returns_master:
  assumes "\<forall>i. fo_start env + 2 * sec * int i \<le> fo_clock env i" "32 \<le> fuel"
    and "\<forall>p \<in> set redisPods. ticks (fo_replies env (pod_name p)) sec" and "'''' \<notin> pod_name ` set redisPods"
  shows "\<exists>r asked. TriggerFailover fuel env cr redisPods sentinelPods s = Some (r, asked)
    \<and> (\<forall>d. r = Inr d \<longrightarrow> spec_mode (cr_spec cr) = ModeSentinel \<and> fd_master d \<in> pod_name ` set redisPods
         \<and> single_master redisPods (fd_master d) (fd_roles d)
         \<and> asked \<noteq> [] \<and> set asked \<subseteq> pod_name ` set sentinelPods \<and> ask_failover env (last asked) = None)"
proof -
  have "TriggerFailover fuel env cr redisPods sentinelPods s \<noteq> None" by (rule TriggerFailover_returns [OF assms(1-3)])
  then obtain r asked where "TriggerFailover fuel env cr redisPods sentinelPods s = Some (r, asked)" by auto
  then show ?thesis using TriggerFailover_success [OF _ assms(4)] by blast
qed

definition demo_sentinel_cr :: kv_cluster where
  "demo_sentinel_cr = demo_cluster\<lparr>cr_spec := (cr_spec demo_cluster)\<lparr>spec_mode := ModeSentinel\<rparr>\<rparr>"

definition demo_failover_env :: failover_env where
  "demo_failover_env = \<lparr>fo_client = (\<lambda>_. None), fo_failover = (\<lambda>_ _. None), fo_ctx = (\<lambda>_. None), fo_wait = (\<lambda>_. None),
     fo_addr = (\<lambda>_ _. Inr (''10.0.0.2'', 6379)), fo_start = 0, fo_clock = (\<lambda>i. 2 * sec * int i), fo_pause = (\<lambda>_. None),
     fo_is_ip = (\<lambda>_. True), fo_ca_ok = (\<lambda>_. True), fo_replies = demo_replies settled_world,
     fo_cache_calls = demo_calls, fo_sample = (\<lambda>_. 0)\<rparr>"

lemma demo_failover_facts:
  "ask_failover demo_failover_env n = None" "await_address demo_failover_env (Suc fuel) 0 = Some (Inr ''10.0.0.2'')"
  "name_of_host demo_failover_env demo_pods ''10.0.0.2'' = Inr ''kv-1''" "failover_tls demo_failover_env None = None"
  "orderedSentinelCandidates [pod0 ''ns'' ''kv-sentinel-0''] = [pod0 ''ns'' ''kv-sentinel-0'']"
proof -
  show "ask_failover demo_failover_env n = None"
    by (simp add: ask_failover_def demo_failover_env_def Retry_def Let_def eval_nat_numeral)
  show "await_address demo_failover_env (Suc fuel) 0 = Some (Inr ''10.0.0.2'')"
    by (simp add: ask_address_def demo_failover_env_def Retry_def Let_def eval_nat_numeral)
  have "MatchPodByHost demo_pods ''10.0.0.2'' = ''''" by code_simp
  then show "name_of_host demo_failover_env demo_pods ''10.0.0.2'' = Inr ''kv-1''"
    by (simp add: name_of_host_def demo_failover_env_def demo_pods_def pod0_def)
  show "failover_tls demo_failover_env None = None" by (simp add: failover_tls_def)
  show "orderedSentinelCandidates [pod0 ''ns'' ''kv-sentinel-0''] = [pod0 ''ns'' ''kv-sentinel-0'']"
    by (simp add: orderedSentinelCandidates_def SortedPodsByName_def Let_def)
qed

text \<open>The demonstration servers already follow \<open>kv-1\<close>: enforcing it needs no command.\<close>

lemma demo_to_master:
  "\<exists>roles. EnsureReplicationToMaster 32 demo_failover_env demo_sentinel_cr demo_pods None ''kv-1'' = Some (Inr (roles, []))"
proof -
  let ?rq = "to_master_request demo_failover_env demo_sentinel_cr demo_pods None ''kv-1''"
  let ?o = "demo_opts\<lparr>eo_threshold := LagThresholdSeconds demo_sentinel_cr\<rparr>"
  have o: "ensure_opts ?rq = Inr ?o"
    by (simp add: ensure_opts_def to_master_request_def ResolveAuth_def demo_opts_def demo_sentinel_cr_def demo_cluster_def
        zero_values gm_str_def)
  have mh: "master_host demo_sentinel_cr demo_pods ''kv-1'' = ''10.0.0.2''" "fst (RedisPort demo_sentinel_cr) = 6379"
    by (simp_all add: master_host_def demo_pods_def pod0_def Let_def RedisPort_def demo_sentinel_cr_def demo_cluster_def
        zero_values valid_port_string_def)
  have f: "if n = ''kv-1'' then settled_world n = Primary else follows demo_sentinel_cr demo_pods ''kv-1'' (settled_world n)" for n
    by (simp add: settled_world_def follows_def mh HostMatchesMaster_def)
  have quiet: "\<forall>p \<in> set (SortedPodsByName demo_pods). reachable_pod (demo_replies settled_world (pod_name p)) ?o
      \<and> pod_commands (demo_replies settled_world) ''kv-1'' (master_host demo_sentinel_cr demo_pods ''kv-1'')
          (fst (RedisPort demo_sentinel_cr)) demo_pods (eo_threshold ?o) p = []"
    using settled_quiet [OF demo_settled] f by (simp add: reachable_pod_def demo_replies_def demo_opts_def)
  obtain res0 where "ensureWithMaster 32 (demo_replies settled_world) demo_sentinel_cr demo_pods ''kv-1'' ?o
      = Some (res0, [], None)" "er_master res0 = ''kv-1''"
    using ensure_pods_quiet [OF quiet, of 32 "er0 ''kv-1''" "[]"] demo_pods_nonempty
    by (auto simp: ensureWithMaster_def Let_def er0_def)
  then show ?thesis using demo_pods_nonempty o
    by (simp add: EnsureReplicationToMaster_def EnsureTopology_def cache_lookup_def ensure_uncached_def Let_def
        cache_remember_def) (simp add: to_master_request_def demo_failover_env_def)
qed

theorem failover_returns_master_witness:
  "\<exists>d. TriggerFailover 32 demo_failover_env demo_sentinel_cr demo_pods [pod0 ''ns'' ''kv-sentinel-0''] None
       = Some (Inr d, [''kv-sentinel-0'']) \<and> fd_master d = ''kv-1'' \<and> single_master demo_pods ''kv-1'' (fd_roles d)"
proof -
  obtain roles where e: "EnsureReplicationToMaster 32 demo_failover_env demo_sentinel_cr demo_pods None ''kv-1''
      = Some (Inr (roles, []))" using demo_to_master by blast
  have c: "fo_client demo_failover_env n = None" for n by (simp add: demo_failover_env_def)
  have md: "spec_mode (cr_spec demo_sentinel_cr) = ModeSentinel" by (simp add: demo_sentinel_cr_def)
  have nm: "pod_name (pod0 ''ns'' ''kv-sentinel-0'') = ''kv-sentinel-0''" by (simp add: pod0_def)
  have a: "await_address demo_failover_env 32 0 = Some (Inr ''10.0.0.2'')"
    using demo_failover_facts(2) [of 31] by (simp add: eval_nat_numeral)
  have run: "TriggerFailover 32 demo_failover_env demo_sentinel_cr demo_pods [pod0 ''ns'' ''kv-sentinel-0''] None
      = Some (Inr \<lparr>fd_master = ''kv-1'', fd_roles = roles, fd_commands = []\<rparr>, [''kv-sentinel-0''])"
    using demo_pods_nonempty e
    by (simp add: TriggerFailover_def demo_failover_facts a c complete_failover_def md nm)
  have t: "\<forall>p \<in> set demo_pods. ticks (fo_replies demo_failover_env (pod_name p)) sec"
    by (simp add: ticks_def demo_failover_env_def demo_replies_def demo_reply_def)
  have n: "'''' \<notin> pod_name ` set demo_pods" unfolding demo_names by simp
  have k: "\<forall>i. fo_start demo_failover_env + 2 * sec * int i \<le> fo_clock demo_failover_env i"
    by (simp add: demo_failover_env_def)
  from failover_returns_master [OF k order.refl t n, of demo_sentinel_cr "[pod0 ''ns'' ''kv-sentinel-0'']" None] run
  show ?thesis by auto
qed

section \<open>The gate\<close>

definition good_slave :: "(string \<Rightarrow> replication_info option) \<Rightarrow> kv_cluster \<Rightarrow> pod list \<Rightarrow> string \<Rightarrow> pod \<Rightarrow> bool" where
  "good_slave read cr pods master p =
     (pod_name p \<noteq> master \<and> IsPodReady p \<and> (\<exists>info. read (pod_name p) = Some info \<and> \<not> EqualFold (ri_role info) ''master''
        \<and> link_of_master cr pods master info
        \<and> fst (EvaluatePodHealth PodRoleReplica info True (LagThresholdSeconds cr)) = PodHealthHealthy))"

lemma good_slave_loop_iff:
  "fst (good_slave_loop read cr pods master detail ps) \<longleftrightarrow> (\<exists>p \<in> set ps. good_slave read cr pods master p)"
proof (induction ps arbitrary: detail)
  case (Cons p ps)
  show ?case by (auto simp: Cons.IH good_slave_def Let_def split: option.splits)
qed simp

lemma hasGoodSlave_iff: "fst (hasGoodSlave read cr pods master) \<longleftrightarrow> (\<exists>p \<in> set pods. good_slave read cr pods master p)"
  by (simp add: hasGoodSlave_def good_slave_loop_iff)

section \<open>What a failover does not check\<close>

text \<open>
  The first address the Sentinel reports is taken for the new master. A Sentinel goes on naming the old master
  until its failover has switched, so an early answer makes the operator enforce the old master again.
\<close>

lemma first_address_wins:
  assumes "fo_clock env 0 < fo_start env + 60 * sec" "fo_ctx env 1 = None"
    and "fo_addr env 0 1 = Inr (host, port)" "host \<noteq> ''''" "0 < port"
  shows "await_address env (Suc fuel) 0 = Some (Inr host)"
proof -
  have "ask_address env 0 = Some (host, port)" using assms(2-5)
    by (simp add: ask_address_def Retry_def Let_def eval_nat_numeral)
  then show ?thesis using assms(1) by simp
qed

end
