(* ===== verification/KV_Controller.thy ===== *)
theory KV_Controller
  imports KV_Failover KV_Update KV_Requeue KV_Disruption KV_RuntimeConfig
begin

text \<open>
  The last part of \<open>reconcileClusterImpl\<close> in \<open>src/controllers/controller.go\<close>, behind the phases: the scale
  annotation, the guarded rolling update of the Redis pods with its controlled failover and the restart
  of the former master, the rolling update of the Sentinel pods, and the final requeue. With it go the
  helpers of that file: annotations, \<open>tryEvictFormerMaster\<close>, the event cooldown and \<open>buildRuntimeCondition\<close>.

  A pass takes what the phases computed (\<open>pass_input\<close>) and the answers it gets (\<open>controller_env\<close>), changes the
  annotations of the resource, the backoff tracker and the cooldowns (\<open>controller_state\<close>), and returns an error or
  the delay of the requeue, zero for none, with what it did in order. It has no result only when the poll of the
  failover has no fuel left. Metrics and log lines are left out.
\<close>

section \<open>State\<close>

definition scaleDirectionUp :: string where "scaleDirectionUp = ''up''"
definition scaleDirectionDown :: string where "scaleDirectionDown = ''down''"

datatype patch_step = PatchScale | PatchScaleDone | PatchBlocked | PatchUnblocked | PatchFormer | PatchFormerDone

datatype get_answer = GetOk | GetMissing | GetFailed string

record controller_env =
  ct_clients :: bool
  ct_patch :: "patch_step \<Rightarrow> string option"
  ct_read :: "string \<Rightarrow> replication_info option"
  ct_failover :: failover_env
  ct_fuel :: nat
  ct_update :: update_env
  ct_sentinel_update :: update_env
  ct_settings :: eviction_settings
  ct_get_former :: get_answer
  ct_evict_former :: evict_env
  ct_draw :: int
  ct_now :: time

record controller_state =
  ks_cluster :: kv_cluster
  ks_tracker :: "backoff_tracker option"
  ks_cooldown :: "(string, time) gomap"

record pass_input =
  pi_status :: kv_status
  pi_sts :: "stateful_set option"
  pi_storage :: "(string, string list) gomap"
  pi_pods :: "pod list"
  pi_health :: health_map
  pi_master :: string
  pi_active :: int
  pi_ready :: int
  pi_allow_disruptions :: bool
  pi_allow_sentinel :: bool
  pi_quorum_ok :: bool
  pi_sentinel_pods :: "pod list"
  pi_sentinel_sts :: "stateful_set option"
  pi_security :: "security_settings option"
  pi_next_requeue :: duration

datatype former_error = FormerGet string | FormerEvict evict_error

datatype controller_error =
    PatchFailed patch_step string
  | UpdateFailed update_error
  | FormerFailed string former_error

datatype controller_action =
    ScaleStarted string
  | ScaleCompleted string
  | StepBlocked string
  | ScaleBlocked string
  | StepResumed string
  | FailoverStarted string
  | FailoverAsked "string list"
  | FailoverFinished "failover_error option"
  | RolesEnforced "redis_command list"
  | NoGoodSlaveSeen string
  | PodsRestarted "update_action list"
  | FormerMasterEvicted string

type_synonym pass_outcome = "controller_state \<times> (controller_error + duration) \<times> controller_action list"

section \<open>Annotations\<close>

definition annotate :: "string \<Rightarrow> string \<Rightarrow> controller_state \<Rightarrow> controller_state" where
  "annotate k v s = s\<lparr>ks_cluster := (ks_cluster s)\<lparr>cr_annotations := gm_set (cr_annotations (ks_cluster s)) k v\<rparr>\<rparr>"

definition unannotate :: "string \<Rightarrow> controller_state \<Rightarrow> controller_state" where
  "unannotate k s = s\<lparr>ks_cluster := (ks_cluster s)\<lparr>cr_annotations := gm_delete (cr_annotations (ks_cluster s)) k\<rparr>\<rparr>"

definition annotation :: "string \<Rightarrow> controller_state \<Rightarrow> string" where
  "annotation k s = gm_str (cr_annotations (ks_cluster s)) k"

text \<open>A patch whose failure is only logged.\<close>

definition patched :: "controller_env \<Rightarrow> patch_step \<Rightarrow> (controller_state \<Rightarrow> controller_state) \<Rightarrow> controller_state \<Rightarrow> controller_state" where
  "patched env step f s = (case ct_patch env step of None \<Rightarrow> f s | Some _ \<Rightarrow> s)"

text \<open>The state and whether the annotation changed, or the error of the patch, which leaves the state as it was.\<close>

definition setScalePhaseAnnotation :: "controller_env \<Rightarrow> controller_state \<Rightarrow> string \<Rightarrow> string + controller_state \<times> bool" where
  "setScalePhaseAnnotation env s phase =
     (if phase = '''' then Inr (s, False)
      else if annotation AnnotationScalePhase s = phase then Inr (s, False)
      else case ct_patch env PatchScale of
             Some e \<Rightarrow> Inl e
           | None \<Rightarrow> Inr (annotate AnnotationScalePhase phase s, True))"

definition clearScalePhaseAnnotation :: "controller_env \<Rightarrow> controller_state \<Rightarrow> string + controller_state \<times> bool \<times> string" where
  "clearScalePhaseAnnotation env s =
     (let current = annotation AnnotationScalePhase s
      in if current = '''' then Inr (s, False, '''')
         else case ct_patch env PatchScaleDone of
                Some e \<Rightarrow> Inl e
              | None \<Rightarrow> Inr (unannotate AnnotationScalePhase s, True, current))"

definition setUpdateBlockedAnnotation :: "controller_env \<Rightarrow> controller_state \<Rightarrow> string \<Rightarrow> string + controller_state \<times> bool" where
  "setUpdateBlockedAnnotation env s reason =
     (let r = (if reason = '''' then ''unknown'' else reason)
      in if annotation AnnotationUpdateBlocked s = r then Inr (s, False)
         else case ct_patch env PatchBlocked of
                Some e \<Rightarrow> Inl e
              | None \<Rightarrow> Inr (annotate AnnotationUpdateBlocked r s, True))"

definition clearUpdateBlockedAnnotation :: "controller_env \<Rightarrow> controller_state \<Rightarrow> string + controller_state \<times> bool \<times> string" where
  "clearUpdateBlockedAnnotation env s =
     (let current = annotation AnnotationUpdateBlocked s
      in if current = '''' then Inr (s, False, '''')
         else case ct_patch env PatchUnblocked of
                Some e \<Rightarrow> Inl e
              | None \<Rightarrow> Inr (unannotate AnnotationUpdateBlocked s, True, current))"

section \<open>Helpers\<close>

definition keyForCR :: "kv_cluster \<Rightarrow> string" where
  "keyForCR cr = cr_namespace cr @ ''/'' @ cr_name cr"

definition shouldEmitNoGoodSlaveEvent :: "controller_env \<Rightarrow> controller_state \<Rightarrow> bool \<times> controller_state" where
  "shouldEmitNoGoodSlaveEvent env s =
     (let k = keyForCR (ks_cluster s)
      in case gm_get (ks_cooldown s) k of
           Some t \<Rightarrow> if ct_now env - t < 30 * sec then (False, s)
                     else (True, s\<lparr>ks_cooldown := gm_set (ks_cooldown s) k (ct_now env)\<rparr>)
         | None \<Rightarrow> (True, s\<lparr>ks_cooldown := gm_set (ks_cooldown s) k (ct_now env)\<rparr>))"

definition no_good_slave :: "controller_env \<Rightarrow> controller_state \<Rightarrow> string \<Rightarrow> controller_state \<times> controller_action list" where
  "no_good_slave env s detail =
     (let (emit, s1) = shouldEmitNoGoodSlaveEvent env s in (s1, if emit then [NoGoodSlaveSeen detail] else []))"

text \<open>Return with a requeue after at least \<open>base\<close>.\<close>

definition requeue_pass :: "controller_env \<Rightarrow> controller_state \<Rightarrow> duration \<Rightarrow> controller_action list \<Rightarrow> pass_outcome" where
  "requeue_pass env s base acts =
     (let (d, tr) = applyBackoffDelay (ct_draw env) (ks_tracker s) (keyForCR (ks_cluster s)) base
      in (s\<lparr>ks_tracker := tr\<rparr>, Inr d, acts))"

text \<open>\<open>tryEvictFormerMaster\<close>: whether the pod was evicted.\<close>

definition tryEvictFormerMaster :: "controller_env \<Rightarrow> string \<Rightarrow> pod list \<Rightarrow> former_error + bool" where
  "tryEvictFormerMaster env name pods =
     (if name = '''' then Inr False
      else case find (\<lambda>p. pod_name p = name) pods of
             None \<Rightarrow> Inr False
           | Some p \<Rightarrow>
               if pod_deletion p \<noteq> None then Inr False
               else if \<not> list_ex (\<lambda>q. pod_name q \<noteq> name \<and> IsPodReady q) pods then Inr False
               else (case ct_get_former env of
                       GetMissing \<Rightarrow> Inr False
                     | GetFailed e \<Rightarrow> Inl (FormerGet e)
                     | GetOk \<Rightarrow> (case fst (Evict (ct_settings env) (ct_evict_former env) (Some p)) of
                           Some e \<Rightarrow> Inl (FormerEvict e)
                         | None \<Rightarrow> Inr True)))"

section \<open>Runtime condition\<close>

definition capitalize :: "string \<Rightarrow> string" where
  "capitalize s = (case s of [] \<Rightarrow> '''' | c # cs \<Rightarrow> upper_char c # cs)"

fun runtime_step ::
  "condition_status \<times> string \<times> string list \<Rightarrow> (string \<times> runtime_mode option \<times> string) \<Rightarrow> condition_status \<times> string \<times> string list" where
  "runtime_step (status, reason, messages) (component, md, message) =
     (if component = '''' \<and> md = None \<and> message = '''' then (status, reason, messages)
      else let messages' = (if message = '''' then messages
                 else messages @ [if component \<noteq> '''' then component @ '': '' @ message else message])
           in case md of
                Some ModeFailed \<Rightarrow> (StatusFalse, capitalize component @ ''RuntimeFailed'', messages')
              | Some ModeNeedsRestart \<Rightarrow>
                  if status \<noteq> StatusFalse then (StatusFalse, capitalize component @ ''RequiresRestart'', messages')
                  else (status, reason, messages')
              | Some ModeSkipped \<Rightarrow>
                  if status = StatusTrue then (StatusUnknown, capitalize component @ ''RuntimeSkipped'', messages')
                  else (status, reason, messages')
              | _ \<Rightarrow> (status, reason, messages'))"

text \<open>\<open>buildRuntimeCondition\<close> over components, modes (\<^const>\<open>None\<close> is the empty mode) and messages.\<close>

definition buildRuntimeCondition :: "(string \<times> runtime_mode option \<times> string) list \<Rightarrow> runtime_condition option" where
  "buildRuntimeCondition results =
     (if results = [] then None
      else let (status, reason, messages) = foldl runtime_step (StatusTrue, ''RuntimeConfigInSync'', []) results;
               messages = (if messages \<noteq> [] then messages
                 else case status of StatusTrue \<Rightarrow> [''runtime config in sync'']
                      | StatusUnknown \<Rightarrow> [''runtime config synchronization skipped''] | StatusFalse \<Rightarrow> [])
           in Some \<lparr>cs_status = status, cs_reason = reason, cs_message = Join messages ''; ''\<rparr>)"

section \<open>Scaling\<close>

definition desired_replicas :: "kv_cluster \<Rightarrow> int" where
  "desired_replicas cr = max 0 (spec_redis_replicas (cr_spec cr))"

definition detected_direction :: "kv_cluster \<Rightarrow> pass_input \<Rightarrow> plan \<Rightarrow> string" where
  "detected_direction cr i pl =
     (if pi_active i < desired_replicas cr then scaleDirectionUp
      else if planHasReason pl ''scale-down'' \<or> desired_replicas cr < pi_active i then scaleDirectionDown
      else '''')"

definition scale_finished :: "kv_cluster \<Rightarrow> pass_input \<Rightarrow> plan \<Rightarrow> string \<Rightarrow> bool" where
  "scale_finished cr i pl phase =
     (phase = scaleDirectionUp \<and> pi_active i = desired_replicas cr \<and> pi_ready i = desired_replicas cr \<and> pl_names pl = []
      \<or> phase = scaleDirectionDown \<and> pi_active i = desired_replicas cr \<and> pl_names pl = [] \<and> pi_allow_disruptions i)"

text \<open>Lines 334 to 398: a detected direction replaces the recorded one; a finished operation clears it.\<close>

definition scale_step ::
  "controller_env \<Rightarrow> pass_input \<Rightarrow> plan \<Rightarrow> controller_state \<Rightarrow> controller_error + controller_state \<times> controller_action list" where
  "scale_step env i pl s =
     (let cr = ks_cluster s; recorded = annotation AnnotationScalePhase s; detected = detected_direction cr i pl;
          start = (if detected \<noteq> '''' \<and> detected \<noteq> recorded
                   then (case setScalePhaseAnnotation env s detected of
                           Inl e \<Rightarrow> Inl (PatchFailed PatchScale e)
                         | Inr (s1, changed) \<Rightarrow> Inr (s1, if changed then [ScaleStarted detected] else [], detected))
                   else Inr (s, [], recorded))
      in case start of
           Inl e \<Rightarrow> Inl e
         | Inr (s1, acts, phase) \<Rightarrow>
             if phase \<noteq> '''' \<and> scale_finished cr i pl phase
             then (case clearScalePhaseAnnotation env s1 of
                     Inl e \<Rightarrow> Inl (PatchFailed PatchScaleDone e)
                   | Inr (s2, _, prev) \<Rightarrow> Inr (s2, acts @ [ScaleCompleted (if prev \<noteq> '''' then prev else phase)]))
             else Inr (s1, acts))"

section \<open>Rolling updates\<close>

definition redis_guard :: "kv_cluster \<Rightarrow> pass_input \<Rightarrow> plan \<Rightarrow> guard_input" where
  "redis_guard cr i pl = \<lparr>gi_allow_disruptions = (status_health_gate (pi_status i) = Some True), gi_status = Some (pi_status i),
     gi_plan = pl, gi_pods = pi_pods i, gi_health = pi_health i, gi_master = pi_master i,
     gi_desired_replicas = spec_redis_replicas (cr_spec cr), gi_mode = spec_mode (cr_spec cr)\<rparr>"

text \<open>Returning because a step is blocked, for a guard's reason or by the disruption budget.\<close>

definition blocked_pass ::
  "controller_env \<Rightarrow> controller_state \<Rightarrow> string \<Rightarrow> bool \<Rightarrow> duration \<Rightarrow> controller_action list \<Rightarrow> pass_outcome" where
  "blocked_pass env s reason scaling base acts = (case setUpdateBlockedAnnotation env s reason of
      Inl e \<Rightarrow> (s, Inl (PatchFailed PatchBlocked e), acts)
    | Inr (s1, changed) \<Rightarrow> requeue_pass env s1 base
        (acts @ (if changed then StepBlocked reason # (if scaling then [ScaleBlocked reason] else []) else [])))"

definition resume ::
  "controller_env \<Rightarrow> controller_state \<Rightarrow> controller_error + controller_state \<times> controller_action list" where
  "resume env s = (case clearUpdateBlockedAnnotation env s of
      Inl e \<Rightarrow> Inl (PatchFailed PatchUnblocked e)
    | Inr (s1, cleared, prev) \<Rightarrow> Inr (s1, if cleared then [StepResumed prev] else []))"

definition only_master_pending :: "plan \<Rightarrow> string \<Rightarrow> bool" where
  "only_master_pending pl master = (master \<noteq> '''' \<and> pl_names pl = [master])"

text \<open>Lines 436 to 502: the controlled failover in front of the update of the master.\<close>

definition failover_pass ::
  "controller_env \<Rightarrow> pass_input \<Rightarrow> controller_state \<Rightarrow> controller_action list \<Rightarrow> pass_outcome option" where
  "failover_pass env i s acts =
     (let cr = ks_cluster s; master = pi_master i
      in if \<not> ConditionTrue (pi_status i) ConditionSentinelQuorum then Some (requeue_pass env s (5 * sec) acts)
         else if \<not> ConditionTrue (pi_status i) ConditionReplicationHealthy then Some (requeue_pass env s (5 * sec) acts)
         else case hasGoodSlave (ct_read env) cr (pi_pods i) master of
           (False, detail) \<Rightarrow>
             (let (s1, ev) = no_good_slave env s detail in Some (requeue_pass env s1 (7 * sec) (acts @ ev)))
         | (True, _) \<Rightarrow>
             if \<not> pi_quorum_ok i then Some (requeue_pass env s (5 * sec) acts)
             else (case TriggerFailover (ct_fuel env) (ct_failover env) cr (pi_pods i) (pi_sentinel_pods i) (pi_security i) of
                 None \<Rightarrow> None
               | Some (Inl NoGoodSlave, asked) \<Rightarrow>
                   (let (s1, ev) = no_good_slave env s ''sentinel reported NOGOODSLAVE''
                    in Some (requeue_pass env s1 (10 * sec) (acts @ [FailoverStarted master, FailoverAsked asked] @ ev)))
               | Some (Inl e, asked) \<Rightarrow>
                   Some (requeue_pass env s (7 * sec) (acts @ [FailoverStarted master, FailoverAsked asked, FailoverFinished (Some e)]))
               | Some (Inr d, asked) \<Rightarrow>
                   Some (requeue_pass env (patched env PatchFormer (annotate AnnotationRestartFormerMaster master) s) (5 * sec)
                     (acts @ [FailoverStarted master, FailoverAsked asked, RolesEnforced (fd_commands d), FailoverFinished None]))))"

text \<open>Lines 503 to 529 and 640 to 666: what follows \<open>Execute\<close>; \<^const>\<open>None\<close> goes on behind it.\<close>

definition after_execute ::
  "controller_env \<Rightarrow> controller_state \<Rightarrow> update_result \<Rightarrow> controller_action list \<Rightarrow> pass_outcome option" where
  "after_execute env s r acts =
     (let acts1 = (if ur_actions r = [] then acts else acts @ [PodsRestarted (ur_actions r)])
      in case ur_error r of
           Some (EvictionRejected _) \<Rightarrow> Some (blocked_pass env s ''PDBLimit'' False (5 * sec) acts1)
         | Some e \<Rightarrow> Some (s, Inl (UpdateFailed e), acts1)
         | None \<Rightarrow> if ur_pod r \<noteq> '''' then Some (requeue_pass env s (5 * sec) acts1) else None)"

text \<open>Lines 530 to 571: the restart of the former master, and the retry when nothing could be done.\<close>

definition former_master_pass ::
  "controller_env \<Rightarrow> pass_input \<Rightarrow> controller_state \<Rightarrow> controller_action list \<Rightarrow> pass_outcome" where
  "former_master_pass env i s acts =
     (let fm = annotation AnnotationRestartFormerMaster s
      in if fm = '''' then requeue_pass env s (5 * sec) acts
         else case tryEvictFormerMaster env fm (pi_pods i) of
           Inl (FormerEvict (ErrRejected e)) \<Rightarrow> blocked_pass env s ''PDBLimit'' False (5 * sec) acts
         | Inl e \<Rightarrow> (s, Inl (FormerFailed fm e), acts)
         | Inr True \<Rightarrow> requeue_pass env (patched env PatchFormerDone (unannotate AnnotationRestartFormerMaster) s) (5 * sec) (acts @ [FormerMasterEvicted fm])
         | Inr False \<Rightarrow> requeue_pass env s (5 * sec) acts)"

text \<open>Lines 409 to 571: a Redis plan that is not empty always ends the pass.\<close>

definition redis_update ::
  "controller_env \<Rightarrow> pass_input \<Rightarrow> plan \<Rightarrow> controller_state \<Rightarrow> controller_action list \<Rightarrow> pass_outcome option" where
  "redis_update env i pl s acts =
     (let cr = ks_cluster s; guard = EvaluateGuards (redis_guard cr i pl)
      in if gd_blocked guard
         then Some (blocked_pass env s (gd_reason guard) (planHasReason pl ''scale-down'') (gd_requeue_after guard) acts)
         else case resume env s of
           Inl e \<Rightarrow> Some (s, Inl e, acts)
         | Inr (s1, ev) \<Rightarrow>
             if only_master_pending pl (pi_master i) \<and> spec_mode (cr_spec cr) = ModeSentinel \<and> ct_clients env
             then failover_pass env i s1 (acts @ ev)
             else let r = Execute (ct_settings env) (ct_update env) (ks_cluster s1) ComponentRedis pl (pi_pods i) (pi_health i)
                  in (case after_execute env s1 r (acts @ ev) of
                        Some out \<Rightarrow> Some out
                      | None \<Rightarrow> Some (former_master_pass env i s1 (acts @ ev))))"

text \<open>
  Lines 589 to 611: a Sentinel update may go on while disruptions or the bootstrap wait for the Sentinel
  quorum itself.
\<close>

definition relax_condition :: "condition \<Rightarrow> condition" where
  "relax_condition c =
     (if cond_status c = StatusTrue \<and> cond_type c \<in> {ConditionDisruptionsPaused, ConditionBootstrapInProgress}
         \<and> cond_reason c = ''SentinelQuorum''
      then c\<lparr>cond_status := StatusFalse, cond_reason := ''SentinelRecovery''\<rparr> else c)"

definition sentinel_guard :: "kv_cluster \<Rightarrow> pass_input \<Rightarrow> plan \<Rightarrow> guard_input" where
  "sentinel_guard cr i pl =
     (let status = (if pi_allow_sentinel i
            then (pi_status i)\<lparr>status_conditions := map relax_condition (status_conditions (pi_status i))\<rparr> else pi_status i)
      in \<lparr>gi_allow_disruptions = pi_allow_sentinel i, gi_status = Some status, gi_plan = pl, gi_pods = pi_pods i,
          gi_health = pi_health i, gi_master = pi_master i, gi_desired_replicas = spec_redis_replicas (cr_spec cr),
          gi_mode = spec_mode (cr_spec cr)\<rparr>)"

definition sentinel_plan :: "kv_cluster \<Rightarrow> pass_input \<Rightarrow> plan" where
  "sentinel_plan cr i =
     (let sp = PlanUpdates cr (pi_sentinel_sts i) (pi_sentinel_pods i) (pi_health i) []
      in sp\<lparr>pl_names := sort_by (\<lambda>a b. Ordinal a < Ordinal b) (pl_names sp)\<rparr>)"

definition final_requeue :: "controller_env \<Rightarrow> pass_input \<Rightarrow> controller_state \<Rightarrow> controller_action list \<Rightarrow> pass_outcome" where
  "final_requeue env i s acts =
     (if 0 < pi_next_requeue i then requeue_pass env s (pi_next_requeue i) acts else (s, Inr 0, acts))"

text \<open>Lines 581 to 678.\<close>

definition sentinel_update ::
  "controller_env \<Rightarrow> pass_input \<Rightarrow> controller_state \<Rightarrow> controller_action list \<Rightarrow> pass_outcome" where
  "sentinel_update env i s acts =
     (let cr = ks_cluster s; sp = sentinel_plan cr i
      in if spec_mode (cr_spec cr) = ModeSentinel \<and> pi_sentinel_pods i \<noteq> [] \<and> pl_names sp \<noteq> []
         then (let guard = EvaluateGuards (sentinel_guard cr i sp)
               in if gd_blocked guard then blocked_pass env s (gd_reason guard) False (gd_requeue_after guard) acts
                  else case resume env s of
                    Inl e \<Rightarrow> (s, Inl e, acts)
                  | Inr (s1, ev) \<Rightarrow>
                      (case after_execute env s1 (Execute (ct_settings env) (ct_sentinel_update env) (ks_cluster s1)
                              ComponentSentinel sp (pi_sentinel_pods i) (pi_health i)) (acts @ ev) of
                         Some out \<Rightarrow> out
                       | None \<Rightarrow> final_requeue env i s1 (acts @ ev)))
         else final_requeue env i s acts)"

definition reconcile_updates :: "controller_env \<Rightarrow> pass_input \<Rightarrow> controller_state \<Rightarrow> pass_outcome option" where
  "reconcile_updates env i s =
     (let pl = PlanUpdates (ks_cluster s) (pi_sts i) (pi_pods i) (pi_health i) (pi_storage i)
      in case scale_step env i pl s of
           Inl e \<Rightarrow> Some (s, Inl e, [])
         | Inr (s1, acts) \<Rightarrow>
             if pl_names pl \<noteq> [] then redis_update env i pl s1 acts
             else (case resume env s1 of
                     Inl e \<Rightarrow> Some (s1, Inl e, acts)
                   | Inr (s2, ev) \<Rightarrow> Some (sentinel_update env i s2 (acts @ ev))))"

section \<open>What a pass promises\<close>

definition restarted :: "controller_action list \<Rightarrow> string list" where
  "restarted acts = concat (map (\<lambda>a. case a of PodsRestarted us \<Rightarrow> map action_pod us | FormerMasterEvicted n \<Rightarrow> [n] | _ \<Rightarrow> []) acts)"

definition asks_failover :: "controller_action list \<Rightarrow> bool" where
  "asks_failover acts = list_ex (\<lambda>a. case a of FailoverStarted _ \<Rightarrow> True | FailoverAsked _ \<Rightarrow> True | _ \<Rightarrow> False) acts"

definition quiet :: "controller_action list \<Rightarrow> bool" where
  "quiet acts = (restarted acts = [] \<and> \<not> asks_failover acts)"

lemma restarted_append [simp]: "restarted (a @ b) = restarted a @ restarted b"
  by (simp add: restarted_def)

lemma asks_failover_append [simp]: "asks_failover (a @ b) \<longleftrightarrow> asks_failover a \<or> asks_failover b"
  by (simp add: asks_failover_def)

lemma quiet_append [simp]: "quiet (a @ b) \<longleftrightarrow> quiet a \<and> quiet b"
  by (auto simp: quiet_def)

lemma quiet_simps [simp]:
  "quiet []" "quiet (ScaleStarted d # as) = quiet as" "quiet (ScaleCompleted d # as) = quiet as"
  "quiet (StepBlocked r # as) = quiet as" "quiet (ScaleBlocked r # as) = quiet as" "quiet (StepResumed r # as) = quiet as"
  "quiet (NoGoodSlaveSeen r # as) = quiet as"
  by (simp_all add: quiet_def restarted_def asks_failover_def)

lemma quiet_dest: "quiet acts \<Longrightarrow> restarted acts = []" "quiet acts \<Longrightarrow> \<not> asks_failover acts"
  by (simp_all add: quiet_def)

text \<open>A pass changes nothing of the resource but its annotations.\<close>

definition bare :: "controller_state \<Rightarrow> kv_cluster" where
  "bare s = (ks_cluster s)\<lparr>cr_annotations := []\<rparr>"

lemma bare_frame [simp]: "bare (annotate k v s) = bare s" "bare (unannotate k s) = bare s"
  by (simp_all add: bare_def annotate_def unannotate_def)

lemma bare_spec: "bare s1 = bare s \<Longrightarrow> cr_spec (ks_cluster s1) = cr_spec (ks_cluster s)"
  by (cases "ks_cluster s1"; cases "ks_cluster s") (simp add: bare_def)

lemma good_slave_bare: "good_slave read (ks_cluster s) = good_slave read (bare s)"
proof -
  have "LagThresholdSeconds (bare s) = LagThresholdSeconds (ks_cluster s)" "PodDNSName (bare s) = PodDNSName (ks_cluster s)"
    "RedisPort (bare s) = RedisPort (ks_cluster s)"
    by (simp_all add: bare_def LagThresholdSeconds_def SettingsFor_def PodDNSName_def PodFQDN_def HeadlessName_def RedisPort_def Let_def fun_eq_iff)
  then show ?thesis by (simp add: good_slave_def link_of_master_def fun_eq_iff)
qed

lemma tracker_Next_cases: "base \<le> fst (applyBackoffDelay k ob key base)"
  by (auto simp: applyBackoffDelay_def Let_def split: option.splits prod.splits)

lemma requeue_pass_ok:
  assumes "requeue_pass env s base acts = (s', r, acts')"
  shows "acts' = acts \<and> (\<exists>d. r = Inr d \<and> base \<le> d) \<and> ks_cluster s' = ks_cluster s"
proof -
  obtain d tr where a: "applyBackoffDelay (ct_draw env) (ks_tracker s) (keyForCR (ks_cluster s)) base = (d, tr)" by (metis surj_pair)
  have "base \<le> d" using tracker_Next_cases [of base "ct_draw env" "ks_tracker s" "keyForCR (ks_cluster s)"] a by simp
  then show ?thesis using assms a by (auto simp: requeue_pass_def)
qed

text \<open>Either an error or a delay of at least \<open>base\<close>, and nothing else done to the pods.\<close>

definition calm :: "duration \<Rightarrow> controller_action list \<Rightarrow> pass_outcome \<Rightarrow> bool" where
  "calm base acts out = (case out of (s', r, acts') \<Rightarrow>
     (\<exists>ev. acts' = acts @ ev \<and> quiet ev) \<and> (\<forall>d. r = Inr d \<longrightarrow> base \<le> d))"

lemma calmI: "quiet ev \<Longrightarrow> (\<And>d. r = Inr d \<Longrightarrow> b \<le> d) \<Longrightarrow> calm b acts (s', r, acts @ ev)"
  by (auto simp: calm_def)

lemma requeue_pass_calm:
  assumes "quiet ev" "b \<le> base"
  shows "calm b acts (requeue_pass env s base (acts @ ev))"
proof -
  obtain s' r a where run: "requeue_pass env s base (acts @ ev) = (s', r, a)" by (metis prod_cases3)
  then have "a = acts @ ev" "\<exists>d. r = Inr d \<and> base \<le> d" using requeue_pass_ok [OF run] by simp_all
  then show ?thesis using assms run by (auto intro!: calmI)
qed

lemmas requeue_pass_calm0 = requeue_pass_calm [of "[]", simplified]

lemma blocked_pass_calm:
  assumes "b \<le> base"
  shows "calm b acts (blocked_pass env s reason scaling base acts)"
proof (cases "setUpdateBlockedAnnotation env s reason")
  case (Inl e)
  then show ?thesis using calmI [of "[]" "Inl (PatchFailed PatchBlocked e)" b acts s] by (simp add: blocked_pass_def)
next
  case (Inr p)
  obtain s1 changed where p: "p = (s1, changed)" by (cases p)
  show ?thesis unfolding blocked_pass_def Inr p by (simp only: sum.case prod.case) (rule requeue_pass_calm, simp, rule assms)
qed

lemma former_key [simp]: "AnnotationRestartFormerMaster \<noteq> AnnotationUpdateBlocked" "AnnotationUpdateBlocked \<noteq> AnnotationRestartFormerMaster"
  "AnnotationRestartFormerMaster \<noteq> AnnotationScalePhase" "AnnotationScalePhase \<noteq> AnnotationRestartFormerMaster"
  by (simp_all add: AnnotationRestartFormerMaster_def AnnotationUpdateBlocked_def AnnotationScalePhase_def)

lemma annotation_frame [simp]:
  "k \<noteq> k' \<Longrightarrow> annotation k' (annotate k v s) = annotation k' s" "k \<noteq> k' \<Longrightarrow> annotation k' (unannotate k s) = annotation k' s"
  by (simp_all add: annotation_def annotate_def unannotate_def gm_str_def)

lemma resume_ok:
  assumes "resume env s = Inr (s1, ev)"
  shows "quiet ev" "bare s1 = bare s"
    "annotation AnnotationRestartFormerMaster s1 = annotation AnnotationRestartFormerMaster s"
  using assms unfolding resume_def clearUpdateBlockedAnnotation_def Let_def
  by (auto split: if_splits option.splits)

lemma setScale_ok:
  assumes "setScalePhaseAnnotation env s phase = Inr (s1, changed)"
  shows "bare s1 = bare s"
    "annotation AnnotationRestartFormerMaster s1 = annotation AnnotationRestartFormerMaster s"
  using assms unfolding setScalePhaseAnnotation_def by (auto split: if_splits option.splits)

lemma clearScale_ok:
  assumes "clearScalePhaseAnnotation env s = Inr (s1, changed, prev)"
  shows "bare s1 = bare s"
    "annotation AnnotationRestartFormerMaster s1 = annotation AnnotationRestartFormerMaster s"
  using assms unfolding clearScalePhaseAnnotation_def Let_def by (auto split: if_splits option.splits)

lemma scale_step_ok:
  assumes "scale_step env i pl s = Inr (s1, acts)"
  shows "quiet acts" "bare s1 = bare s"
    "annotation AnnotationRestartFormerMaster s1 = annotation AnnotationRestartFormerMaster s"
  using assms unfolding scale_step_def Let_def
  by (auto split: if_splits sum.splits prod.splits) (metis setScale_ok clearScale_ok)+

lemma applied_simps [simp]:
  "restarted [PodsRestarted us] = map action_pod us" "restarted [FormerMasterEvicted n] = [n]" "restarted [] = []"
  "\<not> asks_failover [PodsRestarted us]" "\<not> asks_failover [FormerMasterEvicted n]" "\<not> asks_failover []"
  by (simp_all add: restarted_def asks_failover_def)

lemma calm_dest:
  assumes "calm b acts (s', r, acts')"
  shows "restarted acts' = restarted acts" "asks_failover acts' = asks_failover acts" "\<And>d. r = Inr d \<Longrightarrow> b \<le> d"
  using assms by (auto simp: calm_def dest: quiet_dest)

text \<open>\<open>Execute\<close> restarts a pod of the plan or none, and an error comes with none.\<close>

lemma Execute_restarts:
  "ur_actions (Execute st env cr c pl pods health) = [] \<and> ur_pod (Execute st env cr c pl pods health) = ''''
   \<or> (\<exists>p \<in> set pods. pod_name p \<in> set (pl_names pl) \<and> pod_deletion p = None
        \<and> map action_pod (ur_actions (Execute st env cr c pl pods health)) = [pod_name p]
        \<and> \<not> skip_candidate cr c pl pods health p)"
proof (cases "Execute st env cr c pl pods health = no_update")
  case False
  then obtain p where "p \<in> set pods" "pod_name p \<in> set (pl_names pl)" "\<not> skip_candidate cr c pl pods health p"
    "Execute st env cr c pl pods health = restart_pod st env c p" "pod_deletion p = None"
    by (rule Execute_result) (use that in blast)
  then show ?thesis using restart_pod_result [of st env c p] by auto
qed (simp add: no_update_def)

lemma after_execute_ok:
  assumes "after_execute env s r acts = Some (s', res, acts')" "quiet acts"
  shows "\<not> asks_failover acts' \<and> restarted acts' = map action_pod (ur_actions r) \<and> (\<forall>d. res = Inr d \<longrightarrow> 5 * sec \<le> d)"
proof -
  let ?a = "if ur_actions r = [] then acts else acts @ [PodsRestarted (ur_actions r)]"
  have a: "restarted ?a = map action_pod (ur_actions r)" "\<not> asks_failover ?a" using assms(2) by (auto dest: quiet_dest)
  have "calm (5 * sec) ?a (s', res, acts')"
  proof (cases "ur_error r")
    case None
    then have "(s', res, acts') = requeue_pass env s (5 * sec) ?a"
      using assms(1) unfolding after_execute_def Let_def by (simp split: if_splits)
    then show ?thesis by (simp only:) (rule requeue_pass_calm0, simp)
  next
    case (Some e)
    show ?thesis
    proof (cases "\<exists>x. e = EvictionRejected x")
      case True
      then have "(s', res, acts') = blocked_pass env s ''PDBLimit'' False (5 * sec) ?a"
        using assms(1) Some unfolding after_execute_def Let_def by auto
      then show ?thesis by (simp only:) (rule blocked_pass_calm, simp)
    next
      case False
      then have "(s', res, acts') = (s, Inl (UpdateFailed e), ?a)"
        using assms(1) Some unfolding after_execute_def Let_def by (cases e) auto
      then show ?thesis using calmI [of "[]" res "5 * sec" ?a s'] by simp
    qed
  qed
  from calm_dest [OF this] a show ?thesis by simp
qed

lemma tryEvictFormerMaster_ok:
  assumes "tryEvictFormerMaster env n pods = Inr True"
  shows "(\<exists>p \<in> set pods. pod_name p = n \<and> pod_deletion p = None) \<and> (\<exists>q \<in> set pods. pod_name q \<noteq> n \<and> IsPodReady q)"
  using assms by (auto simp: tryEvictFormerMaster_def list_ex_iff dest!: find_member split: if_splits option.splits)

lemma former_master_pass_ok:
  assumes "former_master_pass env i s acts = (s', res, acts')" "quiet acts"
  shows "\<not> asks_failover acts' \<and> (\<forall>d. res = Inr d \<longrightarrow> 5 * sec \<le> d) \<and> (restarted acts' = []
     \<or> restarted acts' = [annotation AnnotationRestartFormerMaster s]
       \<and> (\<exists>p \<in> set (pi_pods i). pod_name p = annotation AnnotationRestartFormerMaster s \<and> pod_deletion p = None)
       \<and> (\<exists>q \<in> set (pi_pods i). pod_name q \<noteq> annotation AnnotationRestartFormerMaster s \<and> IsPodReady q))"
proof -
  let ?fm = "annotation AnnotationRestartFormerMaster s"
  consider (evicted) "tryEvictFormerMaster env ?fm (pi_pods i) = Inr True"
      "(s', res, acts') = requeue_pass env (patched env PatchFormerDone (unannotate AnnotationRestartFormerMaster) s) (5 * sec)
         (acts @ [FormerMasterEvicted ?fm])"
    | (calm) "calm (5 * sec) acts (s', res, acts')"
  proof (cases "?fm \<noteq> '''' \<and> tryEvictFormerMaster env ?fm (pi_pods i) = Inr True")
    case True
    then show ?thesis using assms(1) that(1) unfolding former_master_pass_def Let_def by simp
  next
    case False
    have "former_master_pass env i s acts \<in> {requeue_pass env s (5 * sec) acts, blocked_pass env s ''PDBLimit'' False (5 * sec) acts}
      \<or> (\<exists>e. former_master_pass env i s acts = (s, Inl e, acts))"
      using False unfolding former_master_pass_def Let_def
      by (auto split: sum.split former_error.split evict_error.split bool.split)
    then show ?thesis using that(2) assms(1) requeue_pass_calm0 [of "5 * sec" "5 * sec" acts env s]
        blocked_pass_calm [of "5 * sec" "5 * sec" acts env s "''PDBLimit''" False] calmI [of "[]" res "5 * sec" acts s']
      by auto
  qed
  then show ?thesis
  proof cases
    case evicted
    have "acts' = acts @ [FormerMasterEvicted ?fm]" "\<exists>d. res = Inr d \<and> 5 * sec \<le> d"
      using requeue_pass_ok [OF evicted(2) [symmetric]] by simp_all
    then show ?thesis using tryEvictFormerMaster_ok [OF evicted(1)] assms(2) by (auto dest: quiet_dest)
  next
    case calm
    then show ?thesis using calm_dest [OF calm] assms(2) by (auto dest: quiet_dest)
  qed
qed

lemma no_good_slave_quiet: "no_good_slave env s detail = (s1, ev) \<Longrightarrow> quiet ev"
  by (auto simp: no_good_slave_def Let_def split: prod.splits)

definition failover_open :: "controller_env \<Rightarrow> pass_input \<Rightarrow> controller_state \<Rightarrow> bool" where
  "failover_open env i s = (ConditionTrue (pi_status i) ConditionSentinelQuorum \<and> ConditionTrue (pi_status i) ConditionReplicationHealthy
     \<and> fst (hasGoodSlave (ct_read env) (ks_cluster s) (pi_pods i) (pi_master i)) \<and> pi_quorum_ok i)"

lemma failover_closed_shape:
  assumes "\<not> failover_open env i s"
  shows "\<exists>s1 base ev. failover_pass env i s acts = Some (requeue_pass env s1 base (acts @ ev)) \<and> 5 * sec \<le> base \<and> quiet ev"
proof (cases "ConditionTrue (pi_status i) ConditionSentinelQuorum \<and> ConditionTrue (pi_status i) ConditionReplicationHealthy
    \<and> \<not> fst (hasGoodSlave (ct_read env) (ks_cluster s) (pi_pods i) (pi_master i))")
  case True
  then obtain detail where g: "hasGoodSlave (ct_read env) (ks_cluster s) (pi_pods i) (pi_master i) = (False, detail)"
    by (metis prod.collapse)
  obtain s1 ev where n: "no_good_slave env s detail = (s1, ev)" by (metis surj_pair)
  have "failover_pass env i s acts = Some (requeue_pass env s1 (7 * sec) (acts @ ev))"
    using True g n by (simp add: failover_pass_def)
  then show ?thesis using no_good_slave_quiet [OF n]
    by (intro exI [of _ s1] exI [of _ "7 * sec"] exI [of _ ev]) simp
next
  case False
  then have "failover_pass env i s acts = Some (requeue_pass env s (5 * sec) (acts @ []))"
    using assms by (auto simp: failover_pass_def failover_open_def Let_def split: prod.split bool.split)
  then show ?thesis by (intro exI [of _ s] exI [of _ "5 * sec"] exI [of _ "[]"]) simp
qed

lemma failover_events [simp]:
  "restarted (FailoverStarted m # as) = restarted as" "restarted (FailoverAsked a # as) = restarted as"
  "restarted (RolesEnforced cs # as) = restarted as" "restarted (FailoverFinished e # as) = restarted as"
  by (simp_all add: restarted_def)

lemma failover_open_shape:
  assumes "failover_open env i s"
    and "TriggerFailover (ct_fuel env) (ct_failover env) (ks_cluster s) (pi_pods i) (pi_sentinel_pods i) (pi_security i) = Some (r, asked)"
  shows "\<exists>s1 base ev. failover_pass env i s acts = Some (requeue_pass env s1 base (acts @ ev)) \<and> 5 * sec \<le> base \<and> restarted ev = []"
proof -
  obtain detail where g: "hasGoodSlave (ct_read env) (ks_cluster s) (pi_pods i) (pi_master i) = (True, detail)"
    using assms(1) by (metis failover_open_def prod.collapse)
  obtain s2 ev2 where n: "no_good_slave env s ''sentinel reported NOGOODSLAVE'' = (s2, ev2)" by (metis surj_pair)
  note unfold = failover_pass_def Let_def assms(2) g n
  consider (none) "r = Inl NoGoodSlave" | (failed) e where "r = Inl e" "e \<noteq> NoGoodSlave" | (success) d where "r = Inr d"
    by (cases r) auto
  then show ?thesis
  proof cases
    case none
    then show ?thesis using assms(1) quiet_dest(1) [OF no_good_slave_quiet [OF n]]
      by (intro exI [of _ s2] exI [of _ "10 * sec"] exI [of _ "[FailoverStarted (pi_master i), FailoverAsked asked] @ ev2"])
        (simp add: unfold failover_open_def)
  next
    case failed
    then show ?thesis using assms(1)
      by (intro exI [of _ s] exI [of _ "7 * sec"] exI [of _ "[FailoverStarted (pi_master i), FailoverAsked asked, FailoverFinished (Some e)]"])
        (simp add: unfold failover_open_def split: failover_error.split)
  next
    case success
    then show ?thesis using assms(1)
      by (intro exI [of _ "patched env PatchFormer (annotate AnnotationRestartFormerMaster (pi_master i)) s"] exI [of _ "5 * sec"]
          exI [of _ "[FailoverStarted (pi_master i), FailoverAsked asked, RolesEnforced (fd_commands d), FailoverFinished None]"])
        (simp add: unfold failover_open_def)
  qed
qed

lemma failover_pass_ok:
  assumes "quiet acts"
    and "TriggerFailover (ct_fuel env) (ct_failover env) (ks_cluster s) (pi_pods i) (pi_sentinel_pods i) (pi_security i) \<noteq> None"
  shows "\<exists>s' res acts'. failover_pass env i s acts = Some (s', res, acts') \<and> restarted acts' = []
    \<and> (\<forall>d. res = Inr d \<longrightarrow> 5 * sec \<le> d) \<and> (asks_failover acts' \<longrightarrow> failover_open env i s)"
proof -
  obtain s1 base ev where run: "failover_pass env i s acts = Some (requeue_pass env s1 base (acts @ ev))" "5 * sec \<le> base"
    "restarted ev = []" "asks_failover ev \<longrightarrow> failover_open env i s"
    using failover_closed_shape [of env i s acts] failover_open_shape [of env i s _ _ acts] assms(2) quiet_dest
    by (metis not_None_eq surj_pair)
  obtain s' res acts' where r: "requeue_pass env s1 base (acts @ ev) = (s', res, acts')" by (metis prod_cases3)
  have "acts' = acts @ ev" "\<exists>d. res = Inr d \<and> base \<le> d" using requeue_pass_ok [OF r] by simp_all
  then show ?thesis using run r assms(1) by (intro exI [of _ s'] exI [of _ res] exI [of _ acts']) (auto dest: quiet_dest)
qed

section \<open>The whole pass\<close>

lemma redis_guard_spec: "cr_spec a = cr_spec b \<Longrightarrow> redis_guard a i pl = redis_guard b i pl"
  by (simp add: redis_guard_def)

text \<open>What a pass with a Redis plan may do to the pods.\<close>

definition redis_step_ok :: "controller_env \<Rightarrow> pass_input \<Rightarrow> plan \<Rightarrow> controller_state \<Rightarrow> controller_action list \<Rightarrow> bool" where
  "redis_step_ok env i pl s acts =
     ((restarted acts \<noteq> [] \<or> asks_failover acts \<longrightarrow> \<not> gd_blocked (EvaluateGuards (redis_guard (ks_cluster s) i pl)))
      \<and> (asks_failover acts \<longrightarrow> restarted acts = [] \<and> pl_names pl = [pi_master i]
           \<and> spec_mode (cr_spec (ks_cluster s)) = ModeSentinel
           \<and> ConditionTrue (pi_status i) ConditionSentinelQuorum \<and> ConditionTrue (pi_status i) ConditionReplicationHealthy
           \<and> (\<exists>p \<in> set (pi_pods i). good_slave (ct_read env) (ks_cluster s) (pi_pods i) (pi_master i) p))
      \<and> (\<forall>n. restarted acts = [n] \<longrightarrow> (\<exists>p \<in> set (pi_pods i). pod_name p = n \<and> pod_deletion p = None
           \<and> (n = annotation AnnotationRestartFormerMaster s \<and> (\<exists>q \<in> set (pi_pods i). pod_name q \<noteq> n \<and> IsPodReady q)
              \<or> n \<in> set (pl_names pl)
                \<and> \<not> (gm_str (pod_labels p) RoleLabelKey = ''master''
                     \<and> (1 < spec_redis_replicas (cr_spec (ks_cluster s)) \<or> spec_mode (cr_spec (ks_cluster s)) = ModeSentinel))))))"

lemma failover_open_good:
  assumes "failover_open env i s1" "bare s1 = bare s"
  shows "ConditionTrue (pi_status i) ConditionSentinelQuorum" "ConditionTrue (pi_status i) ConditionReplicationHealthy"
    "\<exists>p \<in> set (pi_pods i). good_slave (ct_read env) (ks_cluster s) (pi_pods i) (pi_master i) p"
  using assms hasGoodSlave_iff good_slave_bare unfolding failover_open_def by metis+

lemma execute_step_ok:
  assumes "quiet acts" "bare s1 = bare s" "annotation AnnotationRestartFormerMaster s1 = annotation AnnotationRestartFormerMaster s"
    and "\<not> gd_blocked (EvaluateGuards (redis_guard (ks_cluster s) i pl))"
  shows "\<exists>s' res acts'. (case after_execute env s1 (Execute (ct_settings env) (ct_update env) (ks_cluster s1) ComponentRedis pl
       (pi_pods i) (pi_health i)) acts of Some out \<Rightarrow> Some out | None \<Rightarrow> Some (former_master_pass env i s1 acts)) = Some (s', res, acts')
     \<and> length (restarted acts') \<le> 1 \<and> redis_step_ok env i pl s acts' \<and> (\<forall>d. res = Inr d \<longrightarrow> 5 * sec \<le> d)"
proof -
  let ?r = "Execute (ct_settings env) (ct_update env) (ks_cluster s1) ComponentRedis pl (pi_pods i) (pi_health i)"
  note sp = bare_spec [OF assms(2)]
  show ?thesis
  proof (cases "after_execute env s1 ?r acts")
    case None
    obtain s' res acts' where f: "former_master_pass env i s1 acts = (s', res, acts')" by (metis prod_cases3)
    have ok: "\<not> asks_failover acts' \<and> (\<forall>d. res = Inr d \<longrightarrow> 5 * sec \<le> d) \<and> (restarted acts' = []
       \<or> restarted acts' = [annotation AnnotationRestartFormerMaster s]
         \<and> (\<exists>p \<in> set (pi_pods i). pod_name p = annotation AnnotationRestartFormerMaster s \<and> pod_deletion p = None)
         \<and> (\<exists>q \<in> set (pi_pods i). pod_name q \<noteq> annotation AnnotationRestartFormerMaster s \<and> IsPodReady q))"
      using former_master_pass_ok [OF f assms(1)] unfolding assms(3) .
    then have "redis_step_ok env i pl s acts'" using assms(4) unfolding redis_step_ok_def by auto blast
    then show ?thesis using None f ok by auto
  next
    case (Some out)
    obtain s' res acts' where o: "out = (s', res, acts')" by (metis prod_cases3)
    note ok = after_execute_ok [OF Some [unfolded o] assms(1)]
    have "redis_step_ok env i pl s acts' \<and> length (restarted acts') \<le> 1"
      using Execute_restarts [of "ct_settings env" "ct_update env" "ks_cluster s1" ComponentRedis pl "pi_pods i" "pi_health i"]
        ok assms(4) unfolding redis_step_ok_def by (auto simp: skip_candidate_def sp)
    then show ?thesis using Some o ok by auto
  qed
qed

lemma redis_update_ok:
  assumes "quiet acts" "bare s1 = bare s" "annotation AnnotationRestartFormerMaster s1 = annotation AnnotationRestartFormerMaster s"
    and "\<And>cr. TriggerFailover (ct_fuel env) (ct_failover env) cr (pi_pods i) (pi_sentinel_pods i) (pi_security i) \<noteq> None"
    and "pl_names pl \<noteq> []"
  shows "\<exists>s' res acts'. redis_update env i pl s1 acts = Some (s', res, acts') \<and> length (restarted acts') \<le> 1
    \<and> redis_step_ok env i pl s acts' \<and> (\<forall>d. res = Inr d \<longrightarrow> 5 * sec \<le> d)"
proof -
  let ?g = "EvaluateGuards (redis_guard (ks_cluster s) i pl)"
  have g: "EvaluateGuards (redis_guard (ks_cluster s1) i pl) = ?g"
    using redis_guard_spec [OF bare_spec [OF assms(2)]] by simp
  have still: "redis_step_ok env i pl s a" if "restarted a = []" "\<not> asks_failover a" for a
    using that by (simp add: redis_step_ok_def)
  show ?thesis
  proof (cases "gd_blocked ?g")
    case True
    then have delay: "gd_requeue_after ?g = 5 * sec"
      by (auto simp: EvaluateGuards_def no_guard_def guard_block_def split: if_splits)
    obtain s' res acts' where b: "blocked_pass env s1 (gd_reason ?g) (planHasReason pl ''scale-down'') (5 * sec) acts = (s', res, acts')"
      by (metis prod_cases3)
    have "calm (5 * sec) acts (s', res, acts')" unfolding b [symmetric] by (rule blocked_pass_calm) simp
    from calm_dest [OF this] quiet_dest [OF assms(1)] have ok: "restarted acts' = []" "\<not> asks_failover acts'"
      "\<And>d. res = Inr d \<Longrightarrow> 5 * sec \<le> d" by simp_all
    have "redis_update env i pl s1 acts = Some (s', res, acts')" using True b delay by (simp add: redis_update_def g)
    then show ?thesis using ok still by auto
  next
    case False
    show ?thesis
    proof (cases "resume env s1")
      case (Inl e)
      then have "redis_update env i pl s1 acts = Some (s1, Inl e, acts)" using False by (simp add: redis_update_def g)
      then show ?thesis using still quiet_dest [OF assms(1)] by auto
    next
      case (Inr x)
      obtain s2 ev where x: "x = (s2, ev)" by (cases x)
      note ro = resume_ok [OF Inr [unfolded x]]
      have q: "quiet (acts @ ev)" using assms(1) ro(1) by simp
      have b2: "bare s2 = bare s" "annotation AnnotationRestartFormerMaster s2 = annotation AnnotationRestartFormerMaster s"
        using ro(2,3) assms(2,3) by simp_all
      show ?thesis
      proof (cases "only_master_pending pl (pi_master i) \<and> spec_mode (cr_spec (ks_cluster s1)) = ModeSentinel \<and> ct_clients env")
        case True
        then have run: "redis_update env i pl s1 acts = failover_pass env i s2 (acts @ ev)"
          using False Inr x by (simp add: redis_update_def g)
        obtain s' res acts' where f: "failover_pass env i s2 (acts @ ev) = Some (s', res, acts')" "restarted acts' = []"
          "\<forall>d. res = Inr d \<longrightarrow> 5 * sec \<le> d" "asks_failover acts' \<longrightarrow> failover_open env i s2"
          using failover_pass_ok [OF q assms(4)] by blast
        have "redis_step_ok env i pl s acts'"
          using f(2,4) failover_open_good [OF _ b2(1)] True False bare_spec [OF assms(2)]
          by (auto simp: redis_step_ok_def only_master_pending_def)
        then show ?thesis using run f by simp
      next
        case other: False
        then have "redis_update env i pl s1 acts = (case after_execute env s2 (Execute (ct_settings env) (ct_update env)
            (ks_cluster s2) ComponentRedis pl (pi_pods i) (pi_health i)) (acts @ ev) of Some out \<Rightarrow> Some out
            | None \<Rightarrow> Some (former_master_pass env i s2 (acts @ ev)))"
          using False Inr x unfolding redis_update_def Let_def g by auto
        then show ?thesis using execute_step_ok [OF q b2 False] by simp
      qed
    qed
  qed
qed

lemma final_requeue_calm: "calm 0 acts (final_requeue env i s acts)"
proof (cases "0 < pi_next_requeue i")
  case True
  then show ?thesis unfolding final_requeue_def by (simp only: if_True) (rule requeue_pass_calm0, simp)
next
  case False
  then show ?thesis using calmI [of "[]" "Inr 0" 0 acts s] by (simp add: final_requeue_def)
qed

text \<open>A pass over the Sentinel pods restarts at most one of them, behind its guard.\<close>

lemma sentinel_update_ok:
  assumes "sentinel_update env i s acts = (s', res, acts')" "quiet acts"
  shows "\<not> asks_failover acts' \<and> (restarted acts' = [] \<or> (\<exists>p \<in> set (pi_sentinel_pods i). restarted acts' = [pod_name p]
     \<and> \<not> gd_blocked (EvaluateGuards (sentinel_guard (ks_cluster s) i (sentinel_plan (ks_cluster s) i)))))"
proof -
  let ?sp = "sentinel_plan (ks_cluster s) i"
  let ?g = "EvaluateGuards (sentinel_guard (ks_cluster s) i ?sp)"
  have calm: ?thesis if "calm b acts (s', res, acts')" for b
    using calm_dest [OF that] quiet_dest [OF assms(2)] by simp
  show ?thesis
  proof (cases "spec_mode (cr_spec (ks_cluster s)) = ModeSentinel \<and> pi_sentinel_pods i \<noteq> [] \<and> pl_names ?sp \<noteq> []")
    case False
    then have "final_requeue env i s acts = (s', res, acts')" using assms(1) unfolding sentinel_update_def Let_def by auto
    then show ?thesis using final_requeue_calm [of acts env i s] calm by simp
  next
    case True
    show ?thesis
    proof (cases "gd_blocked ?g")
      case blocked: True
      then have "blocked_pass env s (gd_reason ?g) False (gd_requeue_after ?g) acts = (s', res, acts')"
        using assms(1) True unfolding sentinel_update_def Let_def by simp
      then show ?thesis using blocked_pass_calm [OF order.refl, of "gd_requeue_after ?g" acts env s "gd_reason ?g" False] calm by simp
    next
      case free: False
      show ?thesis
      proof (cases "resume env s")
        case (Inl e)
        then have "acts' = acts" using assms(1) True free unfolding sentinel_update_def Let_def by simp
        then show ?thesis using quiet_dest [OF assms(2)] by simp
      next
        case (Inr x)
        obtain s1 ev where x: "x = (s1, ev)" by (cases x)
        have q: "quiet (acts @ ev)" using assms(2) resume_ok(1) [OF Inr [unfolded x]] by simp
        let ?r = "Execute (ct_settings env) (ct_sentinel_update env) (ks_cluster s1) ComponentSentinel ?sp (pi_sentinel_pods i) (pi_health i)"
        have run: "(s', res, acts') = (case after_execute env s1 ?r (acts @ ev) of Some out \<Rightarrow> out
            | None \<Rightarrow> final_requeue env i s1 (acts @ ev))"
          using assms(1) True free Inr x unfolding sentinel_update_def Let_def by simp
        show ?thesis
        proof (cases "after_execute env s1 ?r (acts @ ev)")
          case None
          then have "calm 0 (acts @ ev) (s', res, acts')" using run final_requeue_calm by simp
          from calm_dest [OF this] quiet_dest [OF q] show ?thesis by simp
        next
          case (Some out)
          then have "after_execute env s1 ?r (acts @ ev) = Some (s', res, acts')" using run by simp
          from after_execute_ok [OF this q] free
            Execute_restarts [of "ct_settings env" "ct_sentinel_update env" "ks_cluster s1" ComponentSentinel ?sp "pi_sentinel_pods i" "pi_health i"]
          show ?thesis by auto
        qed
      qed
    qed
  qed
qed

text \<open>
  C11: One pass of the controller behind the phases, for whatever the API server, the pods and the Sentinels answer.
  With a clock that moves during the polls of a failover the pass returns, and: it restarts at most one pod; it does
  not restart a pod in the pass that asks for a failover. With an update plan for the Redis pods, a restart or a
  failover needs open guards; a failover is asked for only in Sentinel mode, when the master is all that is left of
  the plan, the Sentinels have a quorum, replication is healthy and some ready replica follows the master in good
  health; a restarted pod is present and either planned and not labelled master in a replicated cluster, or the
  marked former master beside another ready pod; and a pass without an error is repeated, not before five seconds.
  Without a Redis plan only a Sentinel pod is restarted, and no failover is asked for.
\<close>

theorem update_pass_safe:
  assumes "\<forall>k. fo_start (ct_failover env) + 2 * sec * int k \<le> fo_clock (ct_failover env) k" "32 \<le> ct_fuel env"
    and "\<forall>p \<in> set (pi_pods i). ticks (fo_replies (ct_failover env) (pod_name p)) sec"
    and "pl = PlanUpdates (ks_cluster s) (pi_sts i) (pi_pods i) (pi_health i) (pi_storage i)"
  shows "\<exists>s' res acts. reconcile_updates env i s = Some (s', res, acts) \<and> length (restarted acts) \<le> 1
    \<and> (asks_failover acts \<longrightarrow> restarted acts = [])
    \<and> (pl_names pl \<noteq> [] \<longrightarrow> redis_step_ok env i pl s acts \<and> (\<forall>d. res = Inr d \<longrightarrow> 5 * sec \<le> d))
    \<and> (pl_names pl = [] \<longrightarrow> \<not> asks_failover acts \<and> set (restarted acts) \<subseteq> pod_name ` set (pi_sentinel_pods i))"
proof -
  have fo: "TriggerFailover (ct_fuel env) (ct_failover env) cr (pi_pods i) (pi_sentinel_pods i) (pi_security i) \<noteq> None" for cr
    by (rule TriggerFailover_returns [OF assms(1-3)])
  show ?thesis
  proof (cases "scale_step env i pl s")
    case (Inl e)
    then have "reconcile_updates env i s = Some (s, Inl e, [])" by (simp add: reconcile_updates_def assms(4) [symmetric])
    then show ?thesis by (simp add: redis_step_ok_def)
  next
    case (Inr x)
    obtain s1 acts where x: "x = (s1, acts)" by (cases x)
    note sc = scale_step_ok [OF Inr [unfolded x]]
    show ?thesis
    proof (cases "pl_names pl = []")
      case False
      then have run: "reconcile_updates env i s = redis_update env i pl s1 acts"
        using Inr x by (simp add: reconcile_updates_def assms(4) [symmetric])
      from redis_update_ok [OF sc fo False] obtain s' res acts' where "redis_update env i pl s1 acts = Some (s', res, acts')"
        "length (restarted acts') \<le> 1" "redis_step_ok env i pl s acts'" "\<forall>d. res = Inr d \<longrightarrow> 5 * sec \<le> d" by blast
      then show ?thesis using run False by (auto simp: redis_step_ok_def)
    next
      case empty: True
      show ?thesis
      proof (cases "resume env s1")
        case (Inl e)
        then have "reconcile_updates env i s = Some (s1, Inl e, acts)"
          using Inr x empty by (simp add: reconcile_updates_def assms(4) [symmetric])
        then show ?thesis using empty quiet_dest [OF sc(1)] by simp
      next
        case res: (Inr y)
        obtain s2 ev where y: "y = (s2, ev)" by (cases y)
        have q: "quiet (acts @ ev)" using sc(1) resume_ok(1) [OF res [unfolded y]] by simp
        obtain s' r acts' where u: "sentinel_update env i s2 (acts @ ev) = (s', r, acts')" by (metis prod_cases3)
        have run: "reconcile_updates env i s = Some (s', r, acts')"
          using Inr x empty res y u by (simp add: reconcile_updates_def assms(4) [symmetric])
        show ?thesis using run empty sentinel_update_ok [OF u q] by auto
      qed
    qed
  qed
qed

definition demo_pass_env :: controller_env where
  "demo_pass_env = \<lparr>ct_clients = True, ct_patch = (\<lambda>_. None), ct_read = (\<lambda>_. None), ct_failover = demo_failover_env, ct_fuel = 32,
     ct_update = demo_update_env, ct_sentinel_update = demo_update_env, ct_settings = demo_eviction, ct_get_former = GetOk,
     ct_evict_former = \<lparr>vk_ctx = (\<lambda>_. None), vk_evict = (\<lambda>_. EvictOk), vk_wait = (\<lambda>_. None)\<rparr>, ct_draw = 0, ct_now = 0\<rparr>"

definition demo_pass_pods :: "pod list" where
  "demo_pass_pods = [(pod0 ''ns'' ''kv-0'')\<lparr>pod_labels := [(RoleLabelKey, ''master'')], pod_ready_conditions := [True]\<rparr>,
     (pod0 ''ns'' ''kv-1'')\<lparr>pod_labels := [(RoleLabelKey, ''replica'')], pod_ready_conditions := [True]\<rparr>]"

definition demo_pass_input :: pass_input where
  "demo_pass_input = \<lparr>pi_status = status0\<lparr>status_health_gate := Some True\<rparr>, pi_sts = None,
     pi_storage = [(''kv-1'', [''pvc-resize''])], pi_pods = demo_pass_pods, pi_health = Some [], pi_master = ''kv-0'',
     pi_active = 2, pi_ready = 2, pi_allow_disruptions = True, pi_allow_sentinel = True, pi_quorum_ok = True,
     pi_sentinel_pods = [], pi_sentinel_sts = None, pi_security = None, pi_next_requeue = 0\<rparr>"

definition demo_pass_state :: controller_state where
  "demo_pass_state = \<lparr>ks_cluster = (cluster0 ''ns'' ''kv'')\<lparr>cr_spec := spec0\<lparr>spec_redis_replicas := 2\<rparr>\<rparr>, ks_tracker = None,
     ks_cooldown = []\<rparr>"

theorem update_pass_safe_witness:
  "\<exists>s' res acts. reconcile_updates demo_pass_env demo_pass_input demo_pass_state = Some (s', res, acts)
     \<and> restarted acts = [''kv-1''] \<and> res = Inr (5 * sec)
     \<and> redis_step_ok demo_pass_env demo_pass_input (PlanUpdates (ks_cluster demo_pass_state) None demo_pass_pods (Some [])
          [(''kv-1'', [''pvc-resize''])]) demo_pass_state acts"
proof -
  let ?pl = "PlanUpdates (ks_cluster demo_pass_state) None demo_pass_pods (Some []) [(''kv-1'', [''pvc-resize''])]"
  have pl: "?pl = PlanUpdates (ks_cluster demo_pass_state) (pi_sts demo_pass_input) (pi_pods demo_pass_input)
      (pi_health demo_pass_input) (pi_storage demo_pass_input)" by (simp add: demo_pass_input_def)
  have k: "\<forall>k. fo_start (ct_failover demo_pass_env) + 2 * sec * int k \<le> fo_clock (ct_failover demo_pass_env) k"
    by (simp add: demo_pass_env_def demo_failover_env_def)
  have f: "32 \<le> ct_fuel demo_pass_env" by (simp add: demo_pass_env_def)
  have t: "\<forall>p \<in> set (pi_pods demo_pass_input). ticks (fo_replies (ct_failover demo_pass_env) (pod_name p)) sec"
    by (simp add: ticks_def demo_pass_env_def demo_failover_env_def demo_replies_def demo_reply_def)
  have n: "?pl = \<lparr>pl_names = [''kv-1''], pl_reasons = [(''kv-1'', [''pvc-resize''])]\<rparr>" by code_simp
  have run: "\<exists>s'. reconcile_updates demo_pass_env demo_pass_input demo_pass_state
      = Some (s', Inr (5 * sec), [PodsRestarted [PodEvicted ''kv-1'']])"
    by (rule exI [of _ demo_pass_state]) code_simp
  from update_pass_safe [OF k f t pl] run n show ?thesis by (auto simp: action_pod_def)
qed

section \<open>What the restart of the former master does not check\<close>

text \<open>
  The marked pod is evicted whatever its role is by then: it may be the master again. The mark is removed
  only by this eviction, not when the plan itself restarts the pod, so it outlives its failover.
\<close>

lemma former_master_may_be_master:
  "gm_str (pod_labels (hd demo_pass_pods)) RoleLabelKey = ''master''
   \<and> tryEvictFormerMaster demo_pass_env (pod_name (hd demo_pass_pods)) demo_pass_pods = Inr True"
  by code_simp

lemma former_mark_survives:
  assumes "after_execute env s r acts = Some (s', res, acts')" "ur_error r = None"
  shows "annotation AnnotationRestartFormerMaster s' = annotation AnnotationRestartFormerMaster s"
proof -
  have "(s', res, acts') = requeue_pass env s (5 * sec) (if ur_actions r = [] then acts else acts @ [PodsRestarted (ur_actions r)])"
    using assms unfolding after_execute_def Let_def by (simp split: if_splits)
  from requeue_pass_ok [OF this [symmetric]] show ?thesis by (simp add: annotation_def)
qed

section \<open>The runtime condition\<close>

text \<open>The worst outcome decides: a failure or a needed restart is false, a skipped component at most unknown.\<close>

definition mode_bad :: "string \<times> runtime_mode option \<times> string \<Rightarrow> bool" where
  "mode_bad r = (fst (snd r) = Some ModeFailed \<or> fst (snd r) = Some ModeNeedsRestart)"

definition mode_skipped :: "string \<times> runtime_mode option \<times> string \<Rightarrow> bool" where
  "mode_skipped r = (fst (snd r) = Some ModeSkipped)"

lemma runtime_step_status:
  "fst (runtime_step (st, re, ms) r) = (if mode_bad r then StatusFalse else if mode_skipped r \<and> st = StatusTrue then StatusUnknown else st)"
  by (cases r) (auto simp: mode_bad_def mode_skipped_def Let_def split: option.splits runtime_mode.splits)

lemma runtime_fold_status:
  "fst (foldl runtime_step (st, re, ms) rs) =
     (if st = StatusFalse \<or> list_ex mode_bad rs then StatusFalse
      else if st = StatusUnknown \<or> list_ex mode_skipped rs then StatusUnknown else StatusTrue)"
proof (induction rs arbitrary: st re ms)
  case Nil
  then show ?case by (cases st) simp_all
next
  case (Cons r rs)
  obtain st' re' ms' where n: "runtime_step (st, re, ms) r = (st', re', ms')" by (metis prod_cases3)
  have st': "st' = (if mode_bad r then StatusFalse else if mode_skipped r \<and> st = StatusTrue then StatusUnknown else st)"
    using runtime_step_status [of st re ms r] n by simp
  have "fst (foldl runtime_step (st, re, ms) (r # rs)) = fst (foldl runtime_step (st', re', ms') rs)" by (simp only: foldl.simps n)
  then show ?case unfolding Cons.IH by (simp only: st') (cases st; simp)
qed

lemma buildRuntimeCondition_status:
  assumes "buildRuntimeCondition rs = Some c"
  shows "cs_status c = (if list_ex mode_bad rs then StatusFalse else if list_ex mode_skipped rs then StatusUnknown else StatusTrue)"
  using assms runtime_fold_status [of StatusTrue "''RuntimeConfigInSync''" "[]" rs]
  by (auto simp: buildRuntimeCondition_def Let_def split: if_splits prod.splits)

end
