(* ===== verification/KV_Services.thy ===== *)
theory KV_Services
  imports KV_Workload
begin

text \<open>
  The Services of a cluster: the five objects of \<open>src/controllers/internal/resources/service.go\<close>, the apply
  form of \<open>ssa/service.go\<close>, the life cycle of one Service (\<open>reconcile/phases/services_lifecycle.go\<close>) and the phase
  \<open>reconcile/phases/services.go\<close>.

  The answers of the API server are the fields of \<open>service_env\<close>, by the name of the Service; whether a Service is
  controlled by the cluster is a field of what was read. Session affinity and external names, which the
  operator never sets, are left out.
\<close>

section \<open>Objects\<close>

record service_port =
  svp_name :: string
  svp_port :: int
  svp_target :: int
  svp_node_port :: int

record service =
  svc_name :: string
  svc_namespace :: string
  svc_labels :: strmap
  svc_annotations :: strmap
  svc_type :: string
  svc_cluster_ip :: string
  svc_cluster_ips :: "string list"
  svc_publish :: bool
  svc_selector :: strmap
  svc_ports :: "service_port list"
  svc_ip_families :: "string list"
  svc_ip_family_policy :: "string option"
  svc_deleting :: bool
  svc_controlled :: bool

definition ClusterIPNone :: string where "ClusterIPNone = ''None''"

definition mergeServiceLabels :: "strmap \<Rightarrow> strmap \<Rightarrow> strmap" where
  "mergeServiceLabels base extra = foldl (\<lambda>out (k, v). if gm_has base k then out else gm_set out k v) base extra"

definition service_port0 :: "string \<Rightarrow> int \<Rightarrow> service_port" where
  "service_port0 n p = \<lparr>svp_name = n, svp_port = p, svp_target = p, svp_node_port = 0\<rparr>"

definition service0 :: "string \<Rightarrow> kv_cluster \<Rightarrow> strmap \<Rightarrow> service_spec option \<Rightarrow> service" where
  "service0 name cr labels sp = \<lparr>svc_name = name, svc_namespace = cr_namespace cr,
     svc_labels = mergeServiceLabels labels (case sp of Some s \<Rightarrow> svs_labels s | None \<Rightarrow> []),
     svc_annotations = (case sp of Some s \<Rightarrow> svs_annotations s | None \<Rightarrow> []), svc_type = '''', svc_cluster_ip = '''',
     svc_cluster_ips = [], svc_publish = False, svc_selector = [(LabelAppKey, gm_str labels LabelAppKey)], svc_ports = [],
     svc_ip_families = [], svc_ip_family_policy = None, svc_deleting = False, svc_controlled = False\<rparr>"

definition service_redis_port :: "kv_cluster \<Rightarrow> service_spec option \<Rightarrow> int" where
  "service_redis_port cr sp = (case sp of
      Some s \<Rightarrow> (case svs_ports s of
          Some ps \<Rightarrow> if sp_redis ps \<noteq> 0 then sp_redis ps else fst (RedisPort cr)
        | None \<Rightarrow> fst (RedisPort cr))
    | None \<Rightarrow> fst (RedisPort cr))"

definition service_sentinel_port :: "kv_cluster \<Rightarrow> service_spec option \<Rightarrow> int" where
  "service_sentinel_port cr sp = (case sp of
      Some s \<Rightarrow> (case svs_ports s of
          Some ps \<Rightarrow> if sp_sentinel ps \<noteq> 0 then sp_sentinel ps else fst (SentinelPort cr)
        | None \<Rightarrow> fst (SentinelPort cr))
    | None \<Rightarrow> fst (SentinelPort cr))"

definition service_type_of :: "service_spec option \<Rightarrow> string" where
  "service_type_of sp = (case sp of Some s \<Rightarrow> if svs_type s \<noteq> '''' then svs_type s else ''ClusterIP'' | None \<Rightarrow> ''ClusterIP'')"

definition publish_of :: "service_spec option \<Rightarrow> bool" where
  "publish_of sp = (case sp of Some s \<Rightarrow> (case svs_publish_not_ready s of Some b \<Rightarrow> b | None \<Rightarrow> True) | None \<Rightarrow> True)"

definition HeadlessService :: "kv_cluster \<Rightarrow> service" where
  "HeadlessService cr =
     (let sp = spec_service (cr_spec cr)
      in (service0 (HeadlessName cr) cr (LabelsFor cr) sp)\<lparr>svc_cluster_ip := ClusterIPNone, svc_publish := publish_of sp,
           svc_ports := service_port0 ''redis'' (service_redis_port cr sp)
             # (if metricsEnabled cr then [service_port0 ''metrics'' (fst (metricsExporterPort cr))] else [])\<rparr>)"

definition MasterService :: "kv_cluster \<Rightarrow> service" where
  "MasterService cr =
     (let sp = spec_service (cr_spec cr)
      in (service0 (MasterServiceName cr) cr (LabelsFor cr) sp)\<lparr>svc_type := service_type_of sp,
           svc_selector := [(LabelAppKey, gm_str (LabelsFor cr) LabelAppKey), (RoleLabelKey, ''master'')],
           svc_ports := [service_port0 ''redis'' (service_redis_port cr sp)]\<rparr>)"

definition ReplicasService :: "kv_cluster \<Rightarrow> service" where
  "ReplicasService cr =
     (let sp = spec_replicas_service (cr_spec cr)
      in (service0 (ReplicasServiceName cr) cr (LabelsFor cr) sp)\<lparr>svc_type := service_type_of sp,
           svc_selector := [(LabelAppKey, gm_str (LabelsFor cr) LabelAppKey), (RoleLabelKey, ''replica'')],
           svc_ports := [service_port0 ''redis'' (service_redis_port cr sp)]\<rparr>)"

definition SentinelService :: "kv_cluster \<Rightarrow> service" where
  "SentinelService cr =
     (let sp = spec_sentinel_service (cr_spec cr)
      in (service0 (SentinelServiceName cr) cr (SentinelLabelsFor cr) sp)\<lparr>svc_type := service_type_of sp,
           svc_ports := [service_port0 ''sentinel'' (service_sentinel_port cr sp)]\<rparr>)"

definition SentinelHeadlessService :: "kv_cluster \<Rightarrow> service" where
  "SentinelHeadlessService cr =
     (let sp = spec_sentinel_service (cr_spec cr)
      in (service0 (SentinelHeadlessName cr) cr (SentinelLabelsFor cr) sp)\<lparr>svc_cluster_ip := ClusterIPNone,
           svc_publish := publish_of sp, svc_ports := [service_port0 ''sentinel'' (fst (SentinelPort cr))]\<rparr>)"

text \<open>\<open>ssa.Service\<close>: the fields the operator owns.\<close>

definition ssa_Service :: "service \<Rightarrow> service" where
  "ssa_Service src = src\<lparr>
     svc_cluster_ips := (if svc_cluster_ip src = ClusterIPNone
         then (if svc_cluster_ips src \<noteq> [] then [ClusterIPNone] else [])
         else if svc_cluster_ip src \<noteq> '''' then svc_cluster_ips src else []),
     svc_deleting := False, svc_controlled := False\<rparr>"

section \<open>Life cycle of one Service\<close>

definition findServicePort :: "service_port list \<Rightarrow> string \<Rightarrow> int \<Rightarrow> service_port option" where
  "findServicePort ports name port = find (\<lambda>p. svp_name p = name \<and> svp_port p = port) ports"

definition stringSlicesEqual :: "string list \<Rightarrow> string list \<Rightarrow> bool" where
  "stringSlicesEqual a b = (length a = length b \<and> list_all (\<lambda>(x, y). x = y) (zip a b))"

fun node_port_change :: "service_port list \<Rightarrow> service_port list \<Rightarrow> string option" where
  "node_port_change existing [] = None"
| "node_port_change existing (p # ps) =
     (if svp_node_port p = 0 then node_port_change existing ps
      else case findServicePort existing (svp_name p) (svp_port p) of
             Some q \<Rightarrow> if svp_node_port q \<noteq> 0 \<and> svp_node_port q \<noteq> svp_node_port p
                       then Some (''spec.ports['' @ svp_name p @ ''].nodePort'') else node_port_change existing ps
           | None \<Rightarrow> node_port_change existing ps)"

text \<open>\<open>detectImmutableServiceChange\<close>: the field, \<^const>\<open>None\<close> when nothing immutable changes; the detail text is left out.\<close>

definition detectImmutableServiceChange :: "service \<Rightarrow> service \<Rightarrow> string option" where
  "detectImmutableServiceChange existing desired =
     (if svc_cluster_ip desired \<noteq> '''' \<and> svc_cluster_ip existing \<noteq> '''' \<and> svc_cluster_ip existing \<noteq> svc_cluster_ip desired
      then Some ''spec.clusterIP''
      else if svc_cluster_ips desired \<noteq> [] \<and> \<not> stringSlicesEqual (svc_cluster_ips existing) (svc_cluster_ips desired)
      then Some ''spec.clusterIPs''
      else if svc_ip_families desired \<noteq> [] \<and> \<not> stringSlicesEqual (svc_ip_families existing) (svc_ip_families desired)
      then Some ''spec.ipFamilies''
      else if svc_ip_family_policy desired \<noteq> svc_ip_family_policy existing then Some ''spec.ipFamilyPolicy''
      else node_port_change (svc_ports existing) (svc_ports desired))"

definition copyImmutableServiceFields :: "service \<Rightarrow> service \<Rightarrow> service" where
  "copyImmutableServiceFields existing desired = desired\<lparr>
     svc_cluster_ip := svc_cluster_ip existing, svc_cluster_ips := svc_cluster_ips existing,
     svc_ip_families := svc_ip_families existing,
     svc_ip_family_policy := (case svc_ip_family_policy existing of Some p \<Rightarrow> Some p | None \<Rightarrow> svc_ip_family_policy desired),
     svc_ports := map (\<lambda>p. if svp_node_port p \<noteq> 0 then p
         else case findServicePort (svc_ports existing) (svp_name p) (svp_port p) of
                Some q \<Rightarrow> p\<lparr>svp_node_port := svp_node_port q\<rparr> | None \<Rightarrow> p) (svc_ports desired)\<rparr>"

record service_env =
  se_client :: bool
  se_scheme :: bool
  se_get :: "string \<Rightarrow> string + service option"
  se_delete :: "string \<Rightarrow> delete_answer"
  se_owner :: "string \<Rightarrow> string option"
  se_apply :: "string \<Rightarrow> string option"

record service_options =
  so_enabled :: bool
  so_preserve_cluster_ip :: bool
  so_type :: string

datatype service_error =
    ServiceNoClient
  | ServiceNoScheme
  | ServiceGet string string
  | ServiceDelete string string
  | ServiceOwner string string
  | ServiceApply string string

datatype service_action =
    ServiceRemoved string string
  | ServiceImmutable string string
  | ServiceApplied service

definition ReconcileServiceLifecycle ::
  "service_env \<Rightarrow> service \<Rightarrow> service_options \<Rightarrow> service_error option \<times> service_action list" where
  "ReconcileServiceLifecycle env desired opts =
     (let name = svc_name desired; typ = (if so_type opts = '''' then ''unknown'' else so_type opts)
      in if \<not> se_client env then (Some ServiceNoClient, [])
         else if \<not> se_scheme env then (Some ServiceNoScheme, [])
         else case se_get env name of
           Inl e \<Rightarrow> (Some (ServiceGet typ e), [])
         | Inr found \<Rightarrow>
             if \<not> so_enabled opts
             then (case found of
                     None \<Rightarrow> (None, [])
                   | Some existing \<Rightarrow>
                       if svc_deleting existing \<or> \<not> svc_controlled existing then (None, [])
                       else (case se_delete env name of
                               DeleteOk \<Rightarrow> (None, [ServiceRemoved typ name])
                             | DeleteNotFound \<Rightarrow> (None, [])
                             | DeleteFailed e \<Rightarrow> (Some (ServiceDelete typ e), [])))
             else (case Option.bind found (\<lambda>existing. detectImmutableServiceChange existing desired) of
                     Some field \<Rightarrow> (None, [ServiceImmutable typ field])
                   | None \<Rightarrow>
                       (let desired' = (case found of
                              Some existing \<Rightarrow> if so_preserve_cluster_ip opts then copyImmutableServiceFields existing desired else desired
                            | None \<Rightarrow> desired);
                            applied = ssa_Service desired'
                        in case se_owner env name of
                             Some e \<Rightarrow> (Some (ServiceOwner typ e), [])
                           | None \<Rightarrow> (case se_apply env name of
                                 Some e \<Rightarrow> (Some (ServiceApply typ e), [])
                               | None \<Rightarrow> (None, [ServiceApplied (applied\<lparr>svc_controlled := True\<rparr>)])))))"

section \<open>The phase\<close>

definition creates :: "service_spec option \<Rightarrow> bool" where
  "creates sp = (case sp of Some s \<Rightarrow> (case svs_create s of Some b \<Rightarrow> b | None \<Rightarrow> True) | None \<Rightarrow> True)"

definition service_steps :: "kv_cluster \<Rightarrow> (service \<times> service_options) list" where
  "service_steps cr =
     (let sp = cr_spec cr; main = creates (spec_service sp)
      in [(HeadlessService cr, \<lparr>so_enabled = main, so_preserve_cluster_ip = False, so_type = ''headless''\<rparr>),
          (MasterService cr, \<lparr>so_enabled = main, so_preserve_cluster_ip = True, so_type = ''master''\<rparr>)]
         @ (if spec_mode sp = ModeSentinel
            then [(SentinelService cr, \<lparr>so_enabled = creates (spec_sentinel_service sp), so_preserve_cluster_ip = True,
                     so_type = ''sentinel''\<rparr>),
                  (SentinelHeadlessService cr, \<lparr>so_enabled = True, so_preserve_cluster_ip = False, so_type = ''sentinel-headless''\<rparr>)]
            else [])
         @ [(ReplicasService cr, \<lparr>so_enabled = creates (spec_replicas_service sp), so_preserve_cluster_ip = True,
               so_type = ''replicas''\<rparr>)])"

fun run_services :: "service_env \<Rightarrow> (service \<times> service_options) list \<Rightarrow> service_error option \<times> service_action list" where
  "run_services env [] = (None, [])"
| "run_services env ((desired, opts) # rest) = (case ReconcileServiceLifecycle env desired opts of
      (Some e, acts) \<Rightarrow> (Some e, acts)
    | (None, acts) \<Rightarrow> (let (err, more) = run_services env rest in (err, acts @ more)))"

definition Services :: "service_env \<Rightarrow> kv_cluster \<Rightarrow> service_error option \<times> service_action list" where
  "Services env cr =
     (if \<not> se_client env then (Some ServiceNoClient, [])
      else if \<not> se_scheme env then (Some ServiceNoScheme, [])
      else run_services env (service_steps cr))"

section \<open>What the Services select\<close>

text \<open>A Service selects the pods that carry every pair of its selector.\<close>

definition selects :: "service \<Rightarrow> pod \<Rightarrow> bool" where
  "selects svc p = list_all (\<lambda>(k, v). gm_get (pod_labels p) k = Some v) (svc_selector svc)"

lemma app_label: "gm_str (LabelsFor cr) LabelAppKey = AppLabel cr" "gm_str (SentinelLabelsFor cr) LabelAppKey = SentinelAppLabel cr"
  by (simp_all add: LabelsFor_def SentinelLabelsFor_def gm_str_def gm_get_def)

lemma MasterService_selects:
  "selects (MasterService cr) p \<longleftrightarrow> gm_get (pod_labels p) LabelAppKey = Some (AppLabel cr) \<and> gm_get (pod_labels p) RoleLabelKey = Some ''master''"
  by (simp add: selects_def MasterService_def Let_def app_label)

lemma ReplicasService_selects:
  "selects (ReplicasService cr) p \<longleftrightarrow> gm_get (pod_labels p) LabelAppKey = Some (AppLabel cr) \<and> gm_get (pod_labels p) RoleLabelKey = Some ''replica''"
  by (simp add: selects_def ReplicasService_def Let_def app_label)

lemma HeadlessService_selects:
  "selects (HeadlessService cr) p \<longleftrightarrow> gm_get (pod_labels p) LabelAppKey = Some (AppLabel cr)"
  by (simp add: selects_def HeadlessService_def service0_def Let_def app_label)

text \<open>The labels the operator selects by are never replaced by labels of the specification.\<close>

lemma mergeServiceLabels_base:
  assumes "gm_has base k"
  shows "gm_get (mergeServiceLabels base extra) k = gm_get base k"
proof -
  have "gm_get (foldl (\<lambda>out (k, v). if gm_has base k then out else gm_set out k v) out extra) k = gm_get out k" for out
    using assms by (induction extra arbitrary: out) auto
  then show ?thesis by (simp add: mergeServiceLabels_def)
qed

section \<open>What the life cycle keeps\<close>

text \<open>A Service that is not controlled by the cluster is never deleted, and one that is enabled never is.\<close>

lemma lifecycle_removes_own:
  assumes "ReconcileServiceLifecycle env desired opts = (err, acts)" "ServiceRemoved typ n \<in> set acts"
  shows "\<not> so_enabled opts \<and> n = svc_name desired
    \<and> (\<exists>existing. se_get env n = Inr (Some existing) \<and> svc_controlled existing \<and> \<not> svc_deleting existing)"
  using assms
  by (auto simp: ReconcileServiceLifecycle_def Let_def split: if_splits sum.splits option.splits delete_answer.splits)

lemma node_port_unchanged:
  assumes "node_port_change existing ps = None" "p \<in> set ps" "findServicePort existing (svp_name p) (svp_port p) = Some q"
    and "svp_node_port q \<noteq> 0" "svp_node_port p \<noteq> 0"
  shows "svp_node_port p = svp_node_port q"
  using assms by (induction ps) (auto split: if_splits option.splits)

text \<open>An applied Service keeps the allocated cluster address and node ports of the existing one.\<close>

lemma lifecycle_preserves_allocation:
  assumes "ReconcileServiceLifecycle env desired opts = (err, acts)" "ServiceApplied svc \<in> set acts"
    and "se_get env (svc_name desired) = Inr (Some existing)" "so_preserve_cluster_ip opts"
  shows "svc_cluster_ip svc = svc_cluster_ip existing \<and> svc_ip_families svc = svc_ip_families existing
    \<and> (\<forall>p \<in> set (svc_ports svc). \<forall>q. findServicePort (svc_ports existing) (svp_name p) (svp_port p) = Some q \<and> svp_node_port q \<noteq> 0
          \<longrightarrow> svp_node_port p = svp_node_port q)"
proof -
  have none: "detectImmutableServiceChange existing desired = None"
    and svc: "svc = (ssa_Service (copyImmutableServiceFields existing desired))\<lparr>svc_controlled := True\<rparr>"
    using assms by (auto simp: ReconcileServiceLifecycle_def Let_def split: if_splits option.splits delete_answer.splits)
  have nodes: "node_port_change (svc_ports existing) (svc_ports desired) = None"
    using none by (simp add: detectImmutableServiceChange_def split: if_splits)
  show ?thesis using node_port_unchanged [OF nodes]
    by (auto simp: svc ssa_Service_def copyImmutableServiceFields_def split: option.splits)
qed

text \<open>
  The operator never asks for an IP family policy, but the API server gives every Service one. From then on
  each pass takes the missing policy for a change of an immutable field and leaves the Service as it is:
  ports, labels, annotations and selectors are never updated after the creation.
\<close>

lemma services_never_updated:
  assumes "so_enabled opts" "se_get env (svc_name desired) = Inr (Some existing)" "svc_ip_family_policy existing = Some p"
    and "svc_ip_family_policy desired = None" "ReconcileServiceLifecycle env desired opts = (None, acts)"
  shows "\<exists>typ field. acts = [ServiceImmutable typ field]"
  using assms
  by (auto simp: ReconcileServiceLifecycle_def detectImmutableServiceChange_def Let_def split: if_splits)

lemma desired_policy:
  assumes "(desired, opts) \<in> set (service_steps cr)"
  shows "svc_ip_family_policy desired = None"
  using assms by (auto simp: service_steps_def Let_def HeadlessService_def MasterService_def SentinelService_def
      SentinelHeadlessService_def ReplicasService_def service0_def split: if_splits)

end
