(* ===== verification/KV_Objects.thy ===== *)
theory KV_Objects
  imports KV_Workload KV_Disruption KV_Requeue KV_Status
begin

text \<open>
  The phases that bring the workloads of a cluster in line: \<open>reconcile/phases/workloads.go\<close>, which applies the two
  StatefulSets and lists their pods, and \<open>reconcile/phases/pod_metadata.go\<close>, which brings the labels and annotations of
  running pods in line with the templates without restarting them.

  The answers of the API server are the fields of \<open>workload_env\<close>; an apply error carries the status of the API
  server. \<open>ssa.StatefulSet\<close> copies every modelled field, so the applied object is the desired one.
\<close>

section \<open>Apply errors\<close>

record api_status =
  ast_message :: string
  ast_causes :: "(string \<times> string) list"

datatype apply_error = ApplyConflicted api_status | ApplyInvalid api_status | ApplyFailed string

definition containsImmutableHint :: "string \<Rightarrow> bool" where
  "containsImmutableHint message =
     (let lower = ToLower message in Contains lower ''immutable'' \<or> Contains lower ''updates to statefulset spec'')"

definition isSentinelImmutableCause :: "string \<times> string \<Rightarrow> bool" where
  "isSentinelImmutableCause c =
     (list_ex (HasPrefix (fst c)) [''spec.serviceName'', ''spec.selector'', ''spec.volumeClaimTemplates'']
      \<or> containsImmutableHint (snd c))"

text \<open>The field and the message of the first immutable cause.\<close>

definition detectSentinelImmutableCause :: "apply_error \<Rightarrow> (string \<times> string) option" where
  "detectSentinelImmutableCause err = (case err of
      ApplyInvalid st \<Rightarrow> (case find isSentinelImmutableCause (ast_causes st) of
          Some (field, msg) \<Rightarrow> Some (if field = '''' then ''spec'' else field, if msg = '''' then ast_message st else msg)
        | None \<Rightarrow> if containsImmutableHint (ast_message st) then Some (''spec'', ast_message st) else None)
    | _ \<Rightarrow> None)"

definition formatSentinelImmutableMessage :: "string \<Rightarrow> string \<Rightarrow> string" where
  "formatSentinelImmutableMessage field detail =
     (let base = ''Sentinel StatefulSet field '' @ (if field = '''' then ''spec'' else field) @ '' is immutable'';
          d = TrimSpace detail
      in if d = '''' then base else base @ '': '' @ d)"

record apply_conflict =
  ac_manager :: string
  ac_field :: string
  ac_message :: string

text \<open>The match of the expression \<open>conflict with "([^"]+)":\s*(.+)\<close> that starts at the head of the text.\<close>

definition re_space :: "char \<Rightarrow> bool" where
  "re_space c = ((of_char c :: nat) \<in> {9, 10, 12, 13, 32})"

definition conflict_at :: "string \<Rightarrow> (string \<times> string) option" where
  "conflict_at s =
     (let pre = ''conflict with '' @ [CHR 0x22]; newline = CHR 0x0A
      in if \<not> HasPrefix s pre then None
         else let t = drop (length pre) s; manager = takeWhile (\<lambda>c. c \<noteq> CHR 0x22) t; u = dropWhile (\<lambda>c. c \<noteq> CHR 0x22) t
              in if manager = '''' \<or> \<not> HasPrefix u [CHR 0x22, CHR '':''] then None
                 else let r = drop 2 u; f = dropWhile re_space r
                      in if f \<noteq> '''' then Some (manager, takeWhile (\<lambda>c. c \<noteq> newline) f)
                         else if list_ex (\<lambda>c. c \<noteq> newline) r then Some (manager, '' '') else None)"

fun conflict_match :: "string \<Rightarrow> (string \<times> string) option" where
  "conflict_match [] = None"
| "conflict_match (c # cs) = (case conflict_at (c # cs) of Some m \<Rightarrow> Some m | None \<Rightarrow> conflict_match cs)"

definition first_set :: "string list \<Rightarrow> string" where
  "first_set xs = (case filter (\<lambda>x. x \<noteq> '''') xs of [] \<Rightarrow> '''' | x # _ \<Rightarrow> x)"

text \<open>
  \<open>detectStatefulSetApplyConflict\<close>: the first cause with a text that is not blank gives the message, the first with
  a field the field. The text of the error itself stands in when the status has none.
\<close>

definition detectStatefulSetApplyConflict :: "(api_status \<Rightarrow> string) \<Rightarrow> apply_error \<Rightarrow> apply_conflict option" where
  "detectStatefulSetApplyConflict error_text err = (case err of
      ApplyConflicted st \<Rightarrow>
        (let m0 = first_set (map (\<lambda>c. TrimSpace (snd c)) (ast_causes st)); f0 = first_set (map fst (ast_causes st));
             m1 = (if m0 = '''' then TrimSpace (ast_message st) else m0);
             m = (if m1 = '''' then TrimSpace (error_text st) else m1);
             (manager, field) = (case conflict_match m of
                 Some (mg, fl) \<Rightarrow> (mg, if f0 = '''' then fl else f0) | None \<Rightarrow> ('''', f0))
         in if m = '''' then None
            else Some \<lparr>ac_manager = TrimSpace manager, ac_field = TrimSpace field, ac_message = m\<rparr>)
    | _ \<Rightarrow> None)"

definition formatApplyConflictMessage :: "string \<Rightarrow> apply_conflict \<Rightarrow> string" where
  "formatApplyConflictMessage name c =
     Join ([''StatefulSet '' @ name @ '' apply conflict'']
       @ (if ac_field c \<noteq> '''' then [''field '' @ ac_field c] else [])
       @ (if ac_manager c \<noteq> '''' then [''owned by field manager '' @ [CHR 0x22] @ ac_manager c @ [CHR 0x22]] else [])
       @ (if ac_message c \<noteq> '''' then [ac_message c] else [])
       @ [''release the conflicting manager or reapply with --force-conflicts'']) '': ''"

section \<open>Workloads\<close>

record template_metadata =
  tm_desired_labels :: strmap
  tm_desired_annotations :: strmap
  tm_previous_labels :: strmap
  tm_previous_annotations :: strmap

definition no_metadata :: template_metadata where
  "no_metadata = \<lparr>tm_desired_labels = [], tm_desired_annotations = [], tm_previous_labels = [], tm_previous_annotations = []\<rparr>"

record component_env =
  ce_get :: "string + stateful_set option"
  ce_owner :: "string option"
  ce_apply :: "apply_error option"
  ce_list :: "string + pod list"

record workload_env =
  we_client :: bool
  we_scheme :: bool
  we_redis :: component_env
  we_sentinel :: component_env
  we_error_text :: "api_status \<Rightarrow> string"
  we_backoff :: "(duration \<Rightarrow> duration) option"
  we_parse_quantity :: "string \<Rightarrow> quantity option"
  we_default_quantity :: quantity
  we_pre_stop :: string
  we_sentinel_pre_stop :: string
  we_config_hash :: string

datatype workload_error =
    WorkloadNoClient
  | WorkloadNoScheme
  | WorkloadGet string string
  | WorkloadOwner string string
  | WorkloadApply string apply_error
  | WorkloadList string string

datatype workload_event =
    TLSSecretRotated string string
  | RedisApplyConflict apply_conflict
  | RedisApplyFailed
  | SentinelApplyConflict apply_conflict
  | SentinelApplyImmutable string string
  | SentinelApplyFailed

record workload_state =
  wl_config_hash :: string
  wl_redis_meta :: template_metadata
  wl_sentinel_meta :: template_metadata
  wl_redis_sts :: "stateful_set option"
  wl_sentinel_sts :: "stateful_set option"
  wl_redis_pods :: "pod list"
  wl_sentinel_pods :: "pod list"
  wl_requeue :: "requeue_op list"
  wl_overrides :: "(condition_type, condition_state) gomap"
  wl_abort :: bool
  wl_events :: "workload_event list"

definition template_meta :: "stateful_set \<Rightarrow> stateful_set option \<Rightarrow> template_metadata" where
  "template_meta desired existing = \<lparr>tm_desired_labels = sts_tpl_labels desired, tm_desired_annotations = sts_tpl_annotations desired,
     tm_previous_labels = (case existing of Some e \<Rightarrow> sts_tpl_labels e | None \<Rightarrow> []),
     tm_previous_annotations = (case existing of Some e \<Rightarrow> sts_tpl_annotations e | None \<Rightarrow> [])\<rparr>"

text \<open>The claim template is immutable: its specification is taken over from the existing StatefulSet.\<close>

definition keep_claim_spec :: "stateful_set option \<Rightarrow> stateful_set \<Rightarrow> stateful_set" where
  "keep_claim_spec existing desired = (case (existing, sts_claims desired) of
      (Some e, d # ds) \<Rightarrow> (case sts_claims e of
          c # _ \<Rightarrow> desired\<lparr>sts_claims := d\<lparr>ct_access_modes := ct_access_modes c, ct_request := ct_request c, ct_class := ct_class c\<rparr> # ds\<rparr>
        | [] \<Rightarrow> desired)
    | _ \<Rightarrow> desired)"

definition conflict_override :: "string \<Rightarrow> apply_conflict \<Rightarrow> workload_state \<Rightarrow> workload_state" where
  "conflict_override name c s = s\<lparr>wl_abort := True, wl_overrides := gm_set (wl_overrides s) ConditionReconciled
     (cstate StatusFalse ''ApplyConflict'' (formatApplyConflictMessage name c))\<rparr>"

definition emit :: "workload_event \<Rightarrow> workload_state \<Rightarrow> workload_state" where
  "emit e s = s\<lparr>wl_events := wl_events s @ [e]\<rparr>"

definition rotated :: "security_settings \<Rightarrow> string \<Rightarrow> stateful_set option \<Rightarrow> bool" where
  "rotated scr tlsHash existing =
     (let prev = (case existing of Some e \<Rightarrow> gm_str (sts_tpl_annotations e) TLSSecretHashAnnotationKey | None \<Rightarrow> '''')
      in tlsHash \<noteq> '''' \<and> prev \<noteq> tlsHash \<and> ts_secret_name (ss_tls scr) \<noteq> '''')"

text \<open>Lines 60 to 128: the Redis StatefulSet and its pods; the flag says that the phase goes on.\<close>

definition redis_workload ::
  "workload_env \<Rightarrow> kv_cluster \<Rightarrow> security_settings \<Rightarrow> string \<Rightarrow> string \<Rightarrow> workload_state \<Rightarrow> workload_state \<times> workload_error option \<times> bool" where
  "redis_workload env cr scr hash tlsHash s =
     (let ce = we_redis env;
          desired = StatefulSet (we_parse_quantity env) (we_default_quantity env) (we_pre_stop env) cr hash tlsHash (Some scr);
          s0 = s\<lparr>wl_redis_meta := template_meta desired None\<rparr>
      in case ce_get ce of
           Inl e \<Rightarrow> (s0, Some (WorkloadGet ''redis'' e), False)
         | Inr existing \<Rightarrow>
             (let applied = keep_claim_spec existing desired; s1 = s\<lparr>wl_redis_meta := template_meta desired existing\<rparr>;
                  s2 = (if rotated scr tlsHash existing then emit (TLSSecretRotated (ts_secret_name (ss_tls scr)) tlsHash) s1 else s1)
              in case ce_owner ce of
                   Some e \<Rightarrow> (s2, Some (WorkloadOwner ''redis'' e), False)
                 | None \<Rightarrow> (case ce_apply ce of
                     Some err \<Rightarrow> (case detectStatefulSetApplyConflict (we_error_text env) err of
                         Some c \<Rightarrow> (conflict_override (sts_name desired) c (emit (RedisApplyConflict c) s2), None, False)
                       | None \<Rightarrow> (emit RedisApplyFailed s2, Some (WorkloadApply ''redis'' err), False))
                   | None \<Rightarrow>
                       (let s3 = s2\<lparr>wl_redis_sts := Some applied\<rparr>
                        in case ce_list ce of
                             Inl e \<Rightarrow> (s3, Some (WorkloadList ''redis'' e), False)
                           | Inr pods \<Rightarrow>
                               (let delay = (case we_backoff env of Some f \<Rightarrow> if 0 < f (2 * sec) then f (2 * sec) else 2 * sec | None \<Rightarrow> 2 * sec)
                                in (s3\<lparr>wl_redis_pods := pods,
                                      wl_requeue := (if pods = [] \<and> 0 < spec_redis_replicas (cr_spec cr)
                                        then wl_requeue s3 @ [RequeueAfter delay] else wl_requeue s3)\<rparr>, None, True))))))"

text \<open>Lines 134 to 199: the Sentinel StatefulSet; an immutable field is reported and the phase goes on.\<close>

definition sentinel_workload ::
  "workload_env \<Rightarrow> kv_cluster \<Rightarrow> security_settings \<Rightarrow> string \<Rightarrow> string \<Rightarrow> workload_state \<Rightarrow> workload_state \<times> workload_error option" where
  "sentinel_workload env cr scr hash tlsHash s =
     (let ce = we_sentinel env; desired = SentinelStatefulSet (we_sentinel_pre_stop env) cr hash tlsHash (Some scr);
          s0 = s\<lparr>wl_sentinel_meta := template_meta desired None\<rparr>;
          finish = (\<lambda>t. case ce_list ce of
              Inl e \<Rightarrow> (t, Some (WorkloadList ''sentinel'' e))
            | Inr pods \<Rightarrow> (t\<lparr>wl_sentinel_pods := pods, wl_sentinel_sts := Some desired,
                wl_requeue := (if int (length pods) < SentinelDesiredCount cr then wl_requeue t @ [RequeueAfter (2 * sec)]
                               else wl_requeue t)\<rparr>, None))
      in case ce_get ce of
           Inl e \<Rightarrow> (s0, Some (WorkloadGet ''sentinel'' e))
         | Inr existing \<Rightarrow>
             (let s1 = s\<lparr>wl_sentinel_meta := template_meta desired existing\<rparr>
              in case ce_owner ce of
                   Some e \<Rightarrow> (s1, Some (WorkloadOwner ''sentinel'' e))
                 | None \<Rightarrow> (case ce_apply ce of
                     None \<Rightarrow> finish s1
                   | Some err \<Rightarrow> (case detectStatefulSetApplyConflict (we_error_text env) err of
                         Some c \<Rightarrow> (conflict_override (sts_name desired) c (emit (SentinelApplyConflict c) s1), None)
                       | None \<Rightarrow> (case detectSentinelImmutableCause err of
                             Some (field, detail) \<Rightarrow>
                               finish (emit (SentinelApplyImmutable field detail)
                                 (s1\<lparr>wl_overrides := gm_set (wl_overrides s1) ConditionReconciled
                                       (cstate StatusFalse ''ImmutableField'' (formatSentinelImmutableMessage field detail))\<rparr>))
                           | None \<Rightarrow> (emit SentinelApplyFailed s1, Some (WorkloadApply ''sentinel'' err)))))))"

text \<open>\<open>we_config_hash\<close> is \<open>resources.ConfigHash\<close> of the cluster, used when the configuration phase left none.\<close>

definition Workloads ::
  "workload_env \<Rightarrow> kv_cluster \<Rightarrow> security_settings \<Rightarrow> string \<Rightarrow> workload_state \<Rightarrow> workload_state \<times> workload_error option" where
  "Workloads env cr scr tlsHash s =
     (if \<not> we_client env then (s, Some WorkloadNoClient)
      else if \<not> we_scheme env then (s, Some WorkloadNoScheme)
      else let hash = (if wl_config_hash s = '''' then we_config_hash env else wl_config_hash s)
           in case redis_workload env cr scr hash tlsHash
                     (s\<lparr>wl_config_hash := hash, wl_redis_meta := no_metadata, wl_sentinel_meta := no_metadata\<rparr>) of
                (s1, err, go) \<Rightarrow>
                  if \<not> go \<or> spec_mode (cr_spec cr) \<noteq> ModeSentinel then (s1, err)
                  else sentinel_workload env cr scr hash tlsHash s1)"

section \<open>Pod metadata\<close>

definition managedKeys :: "strmap \<Rightarrow> strmap \<Rightarrow> string list" where
  "managedKeys prev desired = remdups (map fst prev @ map fst desired)"

definition managed_labels :: "template_metadata \<Rightarrow> string list" where
  "managed_labels m = filter (\<lambda>k. k \<noteq> RoleLabelKey) (managedKeys (tm_previous_labels m) (tm_desired_labels m))"

definition managed_annotations :: "template_metadata \<Rightarrow> string list" where
  "managed_annotations m = filter (\<lambda>k. k \<noteq> ConfigHashAnnotationKey \<and> k \<noteq> TLSSecretHashAnnotationKey)
     (managedKeys (tm_previous_annotations m) (tm_desired_annotations m))"

text \<open>One key: the map and whether it changed.\<close>

definition sync_key :: "strmap \<Rightarrow> strmap \<times> bool \<Rightarrow> string \<Rightarrow> strmap \<times> bool" where
  "sync_key desired cur k = (case cur of (m, changed) \<Rightarrow>
     (case gm_get desired k of
        Some v \<Rightarrow> if gm_get m k = Some v then (m, changed) else (gm_set m k v, True)
      | None \<Rightarrow> if gm_has m k then (gm_delete m k, True) else (m, changed)))"

datatype metadata_answer = MetaOk | MetaNotFound | MetaConflict "pod option" | MetaFailed string

record metadata_run =
  mr_pods :: "pod list"
  mr_patched :: "string list"
  mr_requeue :: "requeue_op list"

definition sync_pod :: "template_metadata \<Rightarrow> pod \<Rightarrow> pod \<times> bool" where
  "sync_pod m p =
     (let (ls, c1) = foldl (sync_key (tm_desired_labels m)) (pod_labels p, False) (managed_labels m);
          (as, c2) = foldl (sync_key (tm_desired_annotations m)) (pod_annotations p, False) (managed_annotations m)
      in (p\<lparr>pod_labels := ls, pod_annotations := as\<rparr>, c1 \<or> c2))"

text \<open>The slice shares its array with the state, so what was synchronised before an error stays.\<close>

fun sync_loop :: "(string \<Rightarrow> metadata_answer) \<Rightarrow> template_metadata \<Rightarrow> pod list \<Rightarrow> metadata_run \<Rightarrow> metadata_run \<times> string option" where
  "sync_loop patch m [] run = (run, None)"
| "sync_loop patch m (p # ps) run =
     (let (updated, changed) = sync_pod m p
      in if \<not> changed then sync_loop patch m ps (run\<lparr>mr_pods := mr_pods run @ [p]\<rparr>)
         else case patch (pod_name p) of
           MetaOk \<Rightarrow> sync_loop patch m ps (run\<lparr>mr_pods := mr_pods run @ [updated], mr_patched := mr_patched run @ [pod_name p]\<rparr>)
         | MetaNotFound \<Rightarrow> sync_loop patch m ps (run\<lparr>mr_pods := mr_pods run @ [p]\<rparr>)
         | MetaConflict refreshed \<Rightarrow> sync_loop patch m ps (run\<lparr>mr_pods := mr_pods run @ [case refreshed of Some q \<Rightarrow> q | None \<Rightarrow> p],
              mr_requeue := mr_requeue run @ [RequeueMin (2 * sec)]\<rparr>)
         | MetaFailed e \<Rightarrow> (run\<lparr>mr_pods := mr_pods run @ p # ps\<rparr>, Some e))"

definition syncPodMetadata ::
  "(string \<Rightarrow> metadata_answer) \<Rightarrow> template_metadata \<Rightarrow> pod list \<Rightarrow> requeue_op list \<Rightarrow> metadata_run \<times> string option" where
  "syncPodMetadata patch m pods ops =
     (if pods = [] \<or> managed_labels m = [] \<and> managed_annotations m = []
      then (\<lparr>mr_pods = pods, mr_patched = [], mr_requeue = ops\<rparr>, None)
      else sync_loop patch m pods \<lparr>mr_pods = [], mr_patched = [], mr_requeue = ops\<rparr>)"

definition PodMetadata ::
  "(string \<Rightarrow> metadata_answer) \<Rightarrow> kv_cluster \<Rightarrow> workload_state \<Rightarrow> workload_state \<times> string option \<times> string list" where
  "PodMetadata patch cr s = (case syncPodMetadata patch (wl_redis_meta s) (wl_redis_pods s) (wl_requeue s) of
      (run, err) \<Rightarrow>
        (let s1 = s\<lparr>wl_redis_pods := mr_pods run, wl_requeue := mr_requeue run\<rparr>
         in if err \<noteq> None \<or> spec_mode (cr_spec cr) \<noteq> ModeSentinel then (s1, err, mr_patched run)
            else (case syncPodMetadata patch (wl_sentinel_meta s1) (wl_sentinel_pods s1) (wl_requeue s1) of
                (run2, err2) \<Rightarrow> (s1\<lparr>wl_sentinel_pods := mr_pods run2, wl_requeue := mr_requeue run2\<rparr>, err2,
                  mr_patched run @ mr_patched run2))))"

section \<open>What the phases promise\<close>

text \<open>A synchronised map has the desired value of every managed key and keeps every other key.\<close>

lemma sync_key_get: "gm_get (fst (sync_key desired (m, c) k)) k' = (if k' = k then gm_get desired k else gm_get m k')"
  by (auto simp: sync_key_def gm_has_def split: option.splits)

lemma sync_key_changed: "snd (sync_key desired (m, c) k) \<longleftrightarrow> c \<or> gm_get m k \<noteq> gm_get desired k"
  by (auto simp: sync_key_def gm_has_def split: option.splits)

lemma sync_keys_both:
  assumes "distinct ks"
  shows "(\<forall>k. gm_get (fst (foldl (sync_key desired) (m, c) ks)) k = (if k \<in> set ks then gm_get desired k else gm_get m k))
    \<and> (snd (foldl (sync_key desired) (m, c) ks) \<longleftrightarrow> c \<or> (\<exists>k \<in> set ks. gm_get m k \<noteq> gm_get desired k))"
  using assms
proof (induction ks arbitrary: m c)
  case (Cons a ks)
  obtain m' c' where st: "sync_key desired (m, c) a = (m', c')" by (metis surj_pair)
  have get: "gm_get m' k' = (if k' = a then gm_get desired a else gm_get m k')" for k'
    using sync_key_get [of desired m c a k'] st by simp
  have ch: "c' \<longleftrightarrow> c \<or> gm_get m a \<noteq> gm_get desired a" using sync_key_changed [of desired m c a] st by simp
  have "distinct ks" "a \<notin> set ks" using Cons.prems by simp_all
  then show ?case using Cons.IH [of m' c'] get ch by (auto simp: st)
qed simp

lemma sync_keys:
  assumes "distinct ks"
  shows "gm_get (fst (foldl (sync_key desired) (m, c) ks)) k = (if k \<in> set ks then gm_get desired k else gm_get m k)"
    and "snd (foldl (sync_key desired) (m, c) ks) \<longleftrightarrow> c \<or> (\<exists>k \<in> set ks. gm_get m k \<noteq> gm_get desired k)"
  using sync_keys_both [OF assms] by blast+

lemma managed_distinct: "distinct (managed_labels m)" "distinct (managed_annotations m)"
  by (simp_all add: managed_labels_def managed_annotations_def managedKeys_def)

definition in_line :: "template_metadata \<Rightarrow> pod \<Rightarrow> bool" where
  "in_line m p = ((\<forall>k \<in> set (managed_labels m). gm_get (pod_labels p) k = gm_get (tm_desired_labels m) k)
     \<and> (\<forall>k \<in> set (managed_annotations m). gm_get (pod_annotations p) k = gm_get (tm_desired_annotations m) k))"

definition only_managed :: "template_metadata \<Rightarrow> pod \<Rightarrow> pod \<Rightarrow> bool" where
  "only_managed m p q = (pod_name q = pod_name p
     \<and> (\<forall>k. k \<notin> set (managed_labels m) \<longrightarrow> gm_get (pod_labels q) k = gm_get (pod_labels p) k)
     \<and> (\<forall>k. k \<notin> set (managed_annotations m) \<longrightarrow> gm_get (pod_annotations q) k = gm_get (pod_annotations p) k))"

lemma sync_pod_ok:
  assumes "sync_pod m p = (q, changed)"
  shows "in_line m q" "only_managed m p q" "changed \<longleftrightarrow> \<not> in_line m p"
proof -
  obtain ls c1 as c2 where l: "foldl (sync_key (tm_desired_labels m)) (pod_labels p, False) (managed_labels m) = (ls, c1)"
    and a: "foldl (sync_key (tm_desired_annotations m)) (pod_annotations p, False) (managed_annotations m) = (as, c2)"
    by (metis surj_pair)
  have q: "q = p\<lparr>pod_labels := ls, pod_annotations := as\<rparr>" "changed \<longleftrightarrow> c1 \<or> c2" using assms l a by (auto simp: sync_pod_def)
  have ls: "gm_get ls k = (if k \<in> set (managed_labels m) then gm_get (tm_desired_labels m) k else gm_get (pod_labels p) k)" for k
    using sync_keys(1) [OF managed_distinct(1), of "tm_desired_labels m" "pod_labels p" False m k] l by simp
  have as: "gm_get as k = (if k \<in> set (managed_annotations m) then gm_get (tm_desired_annotations m) k else gm_get (pod_annotations p) k)" for k
    using sync_keys(1) [OF managed_distinct(2), of "tm_desired_annotations m" "pod_annotations p" False m k] a by simp
  show "in_line m q" by (simp add: in_line_def q ls as)
  show "only_managed m p q" by (simp add: only_managed_def q ls as)
  show "changed \<longleftrightarrow> \<not> in_line m p"
    using sync_keys(2) [OF managed_distinct(1), of "tm_desired_labels m" "pod_labels p" False m]
      sync_keys(2) [OF managed_distinct(2), of "tm_desired_annotations m" "pod_annotations p" False m] l a
    by (auto simp: q in_line_def)
qed

lemma only_managed_refl: "only_managed m p p"
  by (simp add: only_managed_def)

lemma sync_loop_ok:
  assumes "\<forall>n. patch n = MetaOk"
  shows "\<exists>qs. sync_loop patch m pods run = (run\<lparr>mr_pods := mr_pods run @ qs,
       mr_patched := mr_patched run @ map pod_name (filter (\<lambda>p. \<not> in_line m p) pods)\<rparr>, None)
     \<and> list_all2 (only_managed m) pods qs \<and> list_all (in_line m) qs"
proof (induction pods arbitrary: run)
  case (Cons p ps)
  obtain q changed where sp: "sync_pod m p = (q, changed)" by (metis surj_pair)
  note ok = sync_pod_ok [OF sp]
  show ?case
  proof (cases changed)
    case True
    then obtain qs where "sync_loop patch m ps (run\<lparr>mr_pods := mr_pods run @ [q], mr_patched := mr_patched run @ [pod_name p]\<rparr>)
        = (run\<lparr>mr_pods := (mr_pods run @ [q]) @ qs,
             mr_patched := (mr_patched run @ [pod_name p]) @ map pod_name (filter (\<lambda>p. \<not> in_line m p) ps)\<rparr>, None)"
      "list_all2 (only_managed m) ps qs" "list_all (in_line m) qs"
      using Cons.IH [of "run\<lparr>mr_pods := mr_pods run @ [q], mr_patched := mr_patched run @ [pod_name p]\<rparr>"] by auto
    then show ?thesis using True sp ok assms [rule_format, of "pod_name p"] by (intro exI [of _ "q # qs"]) simp
  next
    case False
    then obtain qs where "sync_loop patch m ps (run\<lparr>mr_pods := mr_pods run @ [p]\<rparr>)
        = (run\<lparr>mr_pods := (mr_pods run @ [p]) @ qs, mr_patched := mr_patched run @ map pod_name (filter (\<lambda>p. \<not> in_line m p) ps)\<rparr>, None)"
      "list_all2 (only_managed m) ps qs" "list_all (in_line m) qs"
      using Cons.IH [of "run\<lparr>mr_pods := mr_pods run @ [p]\<rparr>"] by auto
    then show ?thesis using False sp ok only_managed_refl by (intro exI [of _ "p # qs"]) simp
  qed
qed simp

lemma syncPodMetadata_ok:
  assumes "\<forall>n. patch n = MetaOk"
  shows "\<exists>qs. syncPodMetadata patch m pods ops = (\<lparr>mr_pods = qs,
       mr_patched = map pod_name (filter (\<lambda>p. \<not> in_line m p) pods), mr_requeue = ops\<rparr>, None)
     \<and> list_all2 (only_managed m) pods qs \<and> list_all (in_line m) qs"
proof (cases "pods = [] \<or> managed_labels m = [] \<and> managed_annotations m = []")
  case True
  then have "list_all (in_line m) pods" by (auto simp: in_line_def list_all_iff)
  then show ?thesis using True only_managed_refl
    by (intro exI [of _ pods]) (auto simp: syncPodMetadata_def list_all2_conv_all_nth list_all_iff filter_empty_conv)
next
  case False
  then show ?thesis using sync_loop_ok [OF assms, of m pods "\<lparr>mr_pods = [], mr_patched = [], mr_requeue = ops\<rparr>"]
    by (auto simp: syncPodMetadata_def)
qed


definition demo_meta :: template_metadata where
  "demo_meta = \<lparr>tm_desired_labels = [(''app'', ''kv''), (''team'', ''b''), (RoleLabelKey, ''sentinel'')], tm_desired_annotations = [],
     tm_previous_labels = [(''app'', ''kv''), (''old'', ''x'')], tm_previous_annotations = [(ConfigHashAnnotationKey, ''h1'')]\<rparr>"


text \<open>The claim template of an existing StatefulSet is applied as it is, whatever the specification says by now.\<close>

lemma keep_claim_spec_request:
  assumes "sts_claims e = c # cs" "sts_claims d \<noteq> []"
  shows "ct_request (hd (sts_claims (keep_claim_spec (Some e) d))) = ct_request c"
  using assms by (cases "sts_claims d") (simp_all add: keep_claim_spec_def)

text \<open>A conflict with another field manager stops the reconciliation and is reported in the Reconciled condition.\<close>

lemma workloads_conflict:
  assumes "we_client env" "we_scheme env" "ce_get (we_redis env) = Inr existing" "ce_owner (we_redis env) = None"
    and "ce_apply (we_redis env) = Some err" "detectStatefulSetApplyConflict (we_error_text env) err = Some c"
  shows "\<exists>s' msg. Workloads env cr scr tlsHash s = (s', None) \<and> wl_abort s'
    \<and> gm_get (wl_overrides s') ConditionReconciled = Some (cstate StatusFalse ''ApplyConflict'' msg)"
  using assms by (auto simp: Workloads_def redis_workload_def conflict_override_def Let_def)

text \<open>The first StatefulSet of a cluster with TLS is already reported as a rotation of its secret.\<close>

lemma rotation_on_creation: "tlsHash \<noteq> '''' \<Longrightarrow> ts_secret_name (ss_tls scr) \<noteq> '''' \<Longrightarrow> rotated scr tlsHash None"
  by (simp add: rotated_def)

end
