(* ===== verification/KV_Phases.thy ===== *)
theory KV_Phases
  imports KV_RuntimePhase KV_Config KV_Disruption KV_Requeue
begin

text \<open>
  The phases around the ones with theories of their own: \<open>reconcile/phases/security.go\<close>, \<open>config.go\<close> and \<open>status.go\<close>, and
  the entry point \<open>Pipeline.Run\<close> of \<open>reconcile/pipeline.go\<close> with the wrapping of errors of \<open>src/controllers/errors\<close>.
  Log lines and metrics are left out; the class of a result that the metrics count is kept.
\<close>

section \<open>Security\<close>

record security_state =
  sy_settings :: security_settings
  sy_username :: string
  sy_password :: string
  sy_tls :: "(string \<times> (string \<times> string) option) option"
  sy_tls_hash :: string

datatype security_phase_error = SecurityNoReader | SecuritySettings security_error | SecurityTLS tls_config_error

definition Security ::
  "bool \<Rightarrow> (string \<Rightarrow> string \<Rightarrow> string + secret) \<Rightarrow> (string \<Rightarrow> string \<Rightarrow> bool) \<Rightarrow> (string \<Rightarrow> bool) \<Rightarrow> (string \<Rightarrow> string) \<Rightarrow> kv_cluster
    \<Rightarrow> security_phase_error + security_state" where
  "Security has_reader get_secret key_pair_ok ca_ok hash cr =
     (if \<not> has_reader then Inl SecurityNoReader
      else case FromSpec get_secret key_pair_ok cr of
             (_, Some e) \<Rightarrow> Inl (SecuritySettings e)
           | (s, None) \<Rightarrow>
               (case (if HasTLS s then ClientTLSConfig ca_ok s else Inr None) of
                  Inl e \<Rightarrow> Inl (SecurityTLS e)
                | Inr tls \<Rightarrow>
                    (let (u, p) = ResolveAuth cr (Some s)
                     in Inr \<lparr>sy_settings = s, sy_username = u, sy_password = p, sy_tls = tls,
                          sy_tls_hash = (if HasTLS s then (case TLSDigest hash get_secret cr of Some d \<Rightarrow> d | None \<Rightarrow> '''') else '''')\<rparr>)))"

text \<open>With TLS the clients never fall back to plain connections, and without it there is no digest that could restart pods.\<close>

lemma security_tls:
  assumes "Security has_reader get_secret key_pair_ok ca_ok hash cr = Inr st"
  shows "sy_tls st \<noteq> None \<longleftrightarrow> HasTLS (sy_settings st)" "\<not> HasTLS (sy_settings st) \<Longrightarrow> sy_tls_hash st = ''''"
  using assms
  by (auto simp: Security_def ClientTLSConfig_def HasTLS_def Let_def split: if_splits prod.splits option.splits sum.splits)

section \<open>Configuration\<close>

datatype config_phase_error = ConfigNoClient | ConfigNoScheme | ConfigOwner string | ConfigApply string

record config_env =
  cf_client :: bool
  cf_scheme :: bool
  cf_owner :: "string option"
  cf_apply :: "string option"

text \<open>\<open>Config\<close>: the applied ConfigMap and the hash for the later phases.\<close>

definition Config ::
  "config_env \<Rightarrow> (string \<Rightarrow> string) \<Rightarrow> config_scripts \<Rightarrow> kv_cluster \<Rightarrow> security_settings \<Rightarrow> config_phase_error + config_map \<times> string" where
  "Config env hash scripts cr s =
     (if \<not> cf_client env then Inl ConfigNoClient
      else if \<not> cf_scheme env then Inl ConfigNoScheme
      else case cf_owner env of
             Some e \<Rightarrow> Inl (ConfigOwner e)
           | None \<Rightarrow> (case cf_apply env of
                 Some e \<Rightarrow> Inl (ConfigApply e)
               | None \<Rightarrow> Inr (ConfigMap scripts cr (Some s), ConfigHash hash scripts cr (Some s))))"

section \<open>Status\<close>

datatype status_event =
    SentinelQuorumLost string
  | SentinelQuorumRestored string
  | BootstrapStarted string
  | BootstrapFinished string

definition phase_cluster_state ::
  "runtime_state \<Rightarrow> pod list \<Rightarrow> pod list \<Rightarrow> runtime_condition option \<Rightarrow> (condition_type, condition_state) gomap
    \<Rightarrow> external_import_status option \<Rightarrow> cluster_state" where
  "phase_cluster_state rt pods sentinelPods cond overrides import = \<lparr>cl_master = rs_master rt, cl_pods = pods, cl_roles = rs_roles rt,
     cl_sentinel_pods = sentinelPods, cl_health = rs_health rt, cl_lag = rs_lag rt,
     cl_roles_source = EnsureSourceToRolesSource (er_source (rs_topology rt)), cl_roles_reason = er_reason (rs_topology rt),
     cl_runtime_config = cond, cl_conditions = overrides, cl_external_import = import\<rparr>"

definition quorum_events :: "condition option \<Rightarrow> condition option \<Rightarrow> status_event list" where
  "quorum_events prev new = (case new of
      None \<Rightarrow> []
    | Some n \<Rightarrow>
        (if (case prev of None \<Rightarrow> True | Some p \<Rightarrow> cond_status p \<noteq> StatusFalse) \<and> cond_status n = StatusFalse
         then [SentinelQuorumLost (cond_message n)] else [])
        @ (if (case prev of None \<Rightarrow> False | Some p \<Rightarrow> cond_status p = StatusFalse) \<and> cond_status n = StatusTrue
           then [SentinelQuorumRestored (cond_message n)] else []))"

definition is_true :: "condition option \<Rightarrow> bool" where
  "is_true c = (case c of Some x \<Rightarrow> cond_status x = StatusTrue | None \<Rightarrow> False)"

definition bootstrap_events :: "string \<Rightarrow> condition option \<Rightarrow> condition option \<Rightarrow> status_event list" where
  "bootstrap_events master prev new =
     (if is_true new \<and> \<not> is_true prev
      then [BootstrapStarted (case new of Some n \<Rightarrow> if cond_message n = '''' then ''bootstrap sequence started'' else cond_message n | None \<Rightarrow> '''')]
      else [])
     @ (if is_true prev \<and> \<not> is_true new
        then [BootstrapFinished (if master \<noteq> '''' then ''bootstrap complete, master='' @ master else ''bootstrap complete'')] else [])"

record status_phase =
  sf_cluster :: kv_cluster
  sf_computed :: kv_status
  sf_allow_disruptions :: bool
  sf_allow_sentinel :: bool
  sf_events :: "status_event list"
  sf_error :: "string option"

text \<open>\<open>now\<close> and \<open>later\<close> are the clock readings of the two computations of the status, \<open>answer\<close> that of the API server.\<close>

definition Status :: "time \<Rightarrow> time \<Rightarrow> string option \<Rightarrow> kv_cluster \<Rightarrow> cluster_state \<Rightarrow> status_phase" where
  "Status now later answer cr st =
     (let want = ComputeStatus now cr st; prev = status_conditions (cr_status cr); conds = status_conditions want;
          (cr', err, _) = UpdateStatus later answer cr st
      in \<lparr>sf_cluster = cr', sf_computed = want,
          sf_allow_disruptions = (status_health_gate want = Some True), sf_allow_sentinel = AllowSentinelDisruptions want,
          sf_events = quorum_events (ConditionStatus prev ConditionSentinelQuorum) (ConditionStatus conds ConditionSentinelQuorum)
            @ bootstrap_events (status_master_pod want) (ConditionStatus prev ConditionBootstrapInProgress)
                (ConditionStatus conds ConditionBootstrapInProgress),
          sf_error = err\<rparr>)"

text \<open>Redis disruptions allow Sentinel disruptions, never the other way round only.\<close>

lemma status_allows: "sf_allow_disruptions (Status now later answer cr st) \<Longrightarrow> sf_allow_sentinel (Status now later answer cr st)"
  by (simp add: Status_def Let_def AllowSentinelDisruptions_def split: prod.splits)

text \<open>The events mark transitions: with an unchanged condition there is none.\<close>

lemma events_on_transition: "quorum_events (Some c) (Some c) = []" "bootstrap_events m (Some c) (Some c) = []"
  by (simp_all add: quorum_events_def bootstrap_events_def)

section \<open>The pipeline\<close>

text \<open>Errors carry the marks of \<open>WrapTransient\<close> and \<open>WrapFatal\<close>; an error may carry both, or none.\<close>

record reconcile_error =
  re_transient :: bool
  re_fatal :: bool

definition plain_error :: reconcile_error where "plain_error = \<lparr>re_transient = False, re_fatal = False\<rparr>"
definition WrapTransient :: "reconcile_error option \<Rightarrow> reconcile_error option" where
  "WrapTransient e = map_option (\<lambda>x. x\<lparr>re_transient := True\<rparr>) e"
definition WrapFatal :: "reconcile_error option \<Rightarrow> reconcile_error option" where
  "WrapFatal e = map_option (\<lambda>x. x\<lparr>re_fatal := True\<rparr>) e"
definition IsTransient :: "reconcile_error option \<Rightarrow> bool" where
  "IsTransient e = (case e of Some x \<Rightarrow> re_transient x | None \<Rightarrow> False)"
definition IsFatal :: "reconcile_error option \<Rightarrow> bool" where
  "IsFatal e = (case e of Some x \<Rightarrow> re_fatal x | None \<Rightarrow> False)"

datatype pass_class = ResultSuccess | ResultError | ResultStalled

definition reconcile_class :: "reconcile_error option \<Rightarrow> duration \<Rightarrow> pass_class" where
  "reconcile_class err delay =
     (if IsFatal err then ResultError else if IsTransient err then ResultStalled else if err \<noteq> None then ResultError
      else if 0 < delay then ResultStalled else ResultSuccess)"

record pipeline_run =
  pr_error :: "reconcile_error option"
  pr_delay :: duration
  pr_class :: "pass_class option"
  pr_tracker :: "backoff_tracker option"

text \<open>
  \<open>Pipeline.Run\<close>: the resource is read and handed to the handler, which may use the backoff tracker; afterwards
  the tracker is reset unless the run asked for a requeue without an error. The class is counted once the
  resource could be read.
\<close>

definition Run ::
  "bool \<Rightarrow> string + kv_cluster option \<Rightarrow> (backoff_tracker option \<Rightarrow> kv_cluster \<Rightarrow> reconcile_error option \<times> duration \<times> backoff_tracker option) option
    \<Rightarrow> string \<Rightarrow> backoff_tracker option \<Rightarrow> pipeline_run" where
  "Run has_client got handler key tracker =
     (let (err, delay, known, tr) =
        (if \<not> has_client then (WrapFatal (Some plain_error), 0, False, tracker)
         else case got of
                Inl _ \<Rightarrow> (WrapTransient (Some plain_error), 0, False, tracker)
              | Inr None \<Rightarrow> (None, 0, False, tracker)
              | Inr (Some cr) \<Rightarrow> (case handler of
                    None \<Rightarrow> (WrapFatal (Some plain_error), 0, True, tracker)
                  | Some f \<Rightarrow> (let (e, d, tr) = f tracker cr in (e, d, True, tr))))
      in \<lparr>pr_error = err, pr_delay = delay, pr_class = (if known then Some (reconcile_class err delay) else None),
          pr_tracker = (if err \<noteq> None \<or> delay \<le> 0 then map_option (\<lambda>b. tracker_Reset b key) tr else tr)\<rparr>)"

text \<open>
  A run that failed or settled forgets the attempts of its resource, so the next delay starts at the first step; a
  run that asked for a requeue keeps what the handler left.
\<close>

lemma run_backoff:
  assumes "r = Run has_client got handler key tracker" "pr_tracker r = Some b"
  shows "pr_error r \<noteq> None \<or> pr_delay r \<le> 0 \<Longrightarrow> gm_get b (tracker_key key) = None"
    and "got = Inr (Some cr) \<Longrightarrow> has_client \<Longrightarrow> handler = Some f \<Longrightarrow> pr_error r = None \<Longrightarrow> 0 < pr_delay r
      \<Longrightarrow> pr_tracker r = snd (snd (f tracker cr))"
proof -
  show "gm_get b (tracker_key key) = None" if "pr_error r \<noteq> None \<or> pr_delay r \<le> 0"
    using assms that by (auto simp: Run_def Let_def tracker_Reset_def split: prod.splits if_splits)
  show "pr_tracker r = snd (snd (f tracker cr))"
    if "got = Inr (Some cr)" "has_client" "handler = Some f" "pr_error r = None" "0 < pr_delay r"
    using assms(1) that by (auto simp: Run_def Let_def split: prod.splits)
qed

text \<open>A successful class means that nothing failed and nothing is pending.\<close>

lemma class_success: "reconcile_class err delay = ResultSuccess \<longleftrightarrow> err = None \<and> delay \<le> 0"
  by (cases err) (auto simp: reconcile_class_def IsFatal_def IsTransient_def)

end
