(* ===== verification/Spec2Isabelle.thy ===== *)
theory Spec2Isabelle
  imports KV_Prelude KV_Api KV_Core KV_Clients KV_Health KV_Requeue KV_Profile KV_Disruption KV_Runtime
    KV_MasterCache KV_Security KV_Replication KV_Topology KV_Labels KV_Bootstrap KV_Config KV_RuntimeConfig KV_Status
    KV_RuntimePhase KV_Workload KV_Eviction KV_Update KV_Storage KV_SentinelPhase KV_Finalizer KV_Importer KV_Failover
    KV_Controller KV_Services KV_Objects KV_Phases
begin

text \<open>
  Verification development of the KeyVal operator (\<open>src/\<close>), a Kubernetes controller that runs Redis and Valkey
  clusters, with or without Sentinel.

  \<^bold>\<open>The program.\<close> The controller (\<open>src/controllers/controller.go\<close>) is called for one \<open>KeyValCluster\<close> at a time. A pass
  runs through a pipeline (\<open>internal/reconcile/pipeline.go\<close>): the phases of \<open>internal/reconcile/phases/\<close> resolve the
  credentials, apply the ConfigMap, the Services and the StatefulSets, find and enforce the master, move the role
  labels, align running servers with the configuration, judge the Sentinel quorum, import external data, set the
  disruption budgets and publish the status. Behind the phases the controller plans and executes at most one restart,
  asks Sentinel for a failover when the master itself has to restart, and computes when to look again. The packages
  under \<open>internal/ops/\<close> do the work of the phases; \<open>internal/resources/\<close> builds the Kubernetes objects. A deleted
  cluster goes through \<open>internal/finalizer/\<close> instead.

  \<^bold>\<open>Conventions of the model.\<close> Go structs are records, enumerations datatypes. Go maps are association lists with the
  operations \<open>gm_get\<close>, \<open>gm_set\<close> and \<open>gm_delete\<close> (\<open>KV_Prelude\<close>), so that iteration order can be talked about. Times and
  durations are integers in nanoseconds; where a product can overflow (\<open>eviction.go\<close>) the 64-bit range is written out.
  Errors are values of a datatype or sum per package. A call that reads or writes the cluster takes the answers of the
  API server, of Redis and Sentinel, and of the clock from a record or a function argument, and returns the requests it
  sends as a list of actions in the order of the code. Log lines and metrics are left out.

  \<^bold>\<open>Foundations.\<close>
  \<^item> \<open>KV_Prelude\<close>: Go's strings, strconv, sort and maps; the locale \<open>comparator\<close> carries the facts about sorting with a
    \<open>less\<close> function and is interpreted for sorting by a key and for the orders of \<open>KV_Bootstrap\<close> and \<open>KV_Update\<close>.
  \<^item> \<open>KV_Api\<close>: the resource (\<open>api/v1alpha1/keyvalcluster_types.go\<close>) and the parts of Kubernetes objects in use.
  \<^item> \<open>KV_Core\<close>: names, labels, ports and claims (\<open>internal/core\<close>).
  \<^item> \<open>KV_Clients\<close>: the command loop with retries, the INFO parser and Sentinel endpoints (\<open>internal/clients\<close>): number of
    attempts, delays, and that printing and parsing INFO are inverse.
  \<^item> \<open>KV_Runtime\<close>: pod helpers, retry loop and event mapping (\<open>internal/runtime\<close>).
  \<^item> \<open>KV_Requeue\<close>: the requeue accumulator (\<open>internal/reconcile/util.go\<close>) refines a minimum raised to a maximum; the
    backoff schedule of \<open>backoff_tracker.go\<close>.
  \<^item> \<open>KV_Profile\<close>: the tuning profile (\<open>reconcile_profile.go\<close>), monotone in the fleet.
  \<^item> \<open>KV_Security\<close>: credentials, TLS material and the digest (\<open>internal/security\<close>).

  \<^bold>\<open>Replication.\<close>
  \<^item> \<open>KV_MasterCache\<close>: \<open>ops/replication/master_cache.go\<close> with the locale \<open>address_cache\<close>, the contract of the cache over
    sequences of calls, interpreted on the map of the code.
  \<^item> \<open>KV_Replication\<close>, \<open>KV_Topology\<close>: detection of roles and enforcement of a master (\<open>ops/replication/replication.go\<close>).
    The servers are a world that the sent commands change; enforcement ends with one primary, rests on evidence, ends
    for every behaviour of the servers, and is silent on a settled cluster.
  \<^item> \<open>KV_Labels\<close>: the labels phase; one pod labelled master at the end and never two on the way.
  \<^item> \<open>KV_Bootstrap\<close>: offsets on claims and the choice of the freshest pod (\<open>ops/bootstrap/freshness.go\<close>).
  \<^item> \<open>KV_RuntimePhase\<close>: the runtime phase that composes them.
  \<^item> \<open>KV_SentinelPhase\<close>, \<open>KV_Failover\<close>: quorum, rationed resets (\<open>phases/sentinel.go\<close>) and \<open>TriggerFailover\<close>.

  \<^bold>\<open>Objects.\<close>
  \<^item> \<open>KV_Config\<close>, \<open>KV_RuntimeConfig\<close>: the configuration files with a round trip and a stable hash, and the alignment of
    running servers (\<open>resources/configmap.go\<close>, \<open>ops/runtimeconfig/runtime.go\<close>).
  \<^item> \<open>KV_Workload\<close>, \<open>KV_Objects\<close>: both StatefulSets, the phase that applies them and the synchronisation of pod metadata.
  \<^item> \<open>KV_Services\<close>: the five Services, what they select, and their life cycle.
  \<^item> \<open>KV_Disruption\<close>: the budgets; no eviction while blocked, a majority of Sentinels kept.
  \<^item> \<open>KV_Storage\<close>: claims never shrink, and cleanup ends.

  \<^bold>\<open>Health, updates and life cycle.\<close>
  \<^item> \<open>KV_Health\<close>, \<open>KV_Status\<close>: verdict of a pod, conditions and health gate; a published status is stable.
  \<^item> \<open>KV_Eviction\<close>, \<open>KV_Update\<close>: evictions with retries, planning, guards and execution of rolling updates.
  \<^item> \<open>KV_Importer\<close>: the state machine of the external import. \<open>KV_Finalizer\<close>: deletion.
  \<^item> \<open>KV_Phases\<close>: the security, config and status phases, error classes and \<open>Pipeline.Run\<close>.
  \<^item> \<open>KV_Controller\<close>: the controller pass behind the phases, which composes updates, failover and requeue.

  \<^bold>\<open>Across components.\<close> The end of this theory joins topology, labels and Services: clients of the master Service reach
  the server that the enforcement made a primary.

  \<^bold>\<open>Fuel.\<close> Two loops poll until a deadline and take fuel. The wait for replica synchronisation polls at most
  timeout/interval + 2 times, which is \<open>wait_fuel\<close> (32 with the settings of the code); the poll after a failover request
  makes at most 31 rounds, so 32 is enough. Both results, that the function returns with this fuel, are proved
  (\<open>KV_Topology\<close>, \<open>KV_Failover\<close>). All other functions are total.

  \<^bold>\<open>Parameters.\<close> SHA-256, x509 and URL parsing, parsing and printing of quantities and times, the texts of shell
  scripts and random draws are arguments of the definitions that use them.

  \<^bold>\<open>Not modelled.\<close> Logging, metrics and event formatting (\<open>logging/\<close>, \<open>ops/observability/\<close>) are output that no
  decision reads. The shell scripts (\<open>resources/bootstrap_script.go\<close>, \<open>probe_scripts.go\<close>) run in the pods. \<open>main.go\<close>,
  \<open>manager/\<close> and the factories set up the process. \<open>zz_generated.deepcopy.go\<close> is generated and copies values, which is the
  identity here; so are most of the apply configurations of \<open>internal/ssa\<close>. The SLA report and \<open>test/internal\<close> are not
  part of the operator. In \<open>controller.go\<close> the wiring between the phases is left out: each phase is modelled on its own
  input, and the theorems that join phases say which output is handed on. Concurrency is not an issue inside the model:
  controller-runtime runs one pass per resource at a time, and everything that changes between two requests of a pass
  is covered by leaving the answers arbitrary.
\<close>

section \<open>From the primary to the Services\<close>

lemma selects_by_label:
  assumes "gm_get (pod_labels p) LabelAppKey = Some (AppLabel cr)" "pod_role_label p = wanted_label m (pod_name p)"
  shows "(selects (MasterService cr) p \<longleftrightarrow> pod_name p = m) \<and> (selects (ReplicasService cr) p \<longleftrightarrow> pod_name p \<noteq> m)
      \<and> selects (HeadlessService cr) p"
proof -
  have "gm_get (pod_labels p) RoleLabelKey = Some (wanted_label m (pod_name p))" using assms(2)
    by (auto simp: pod_role_label_def gm_str_def wanted_label_def split: option.splits if_splits)
  then show ?thesis using assms(1)
    by (simp add: MasterService_selects ReplicasService_selects HeadlessService_selects wanted_label_def)
qed

lemma labels_select:
  assumes "\<forall>n k. le_patch env n k = PatchOk" "le_client env" "m \<in> pod_name ` set pods"
    and "\<forall>p \<in> set pods. gm_get (pod_labels p) LabelAppKey = Some (AppLabel cr)"
  shows "\<exists>run. Labels env acc pods m = (run, None)
    \<and> pod_name ` {p \<in> set (lr_pods run). selects (MasterService cr) p} = {m}
    \<and> pod_name ` {p \<in> set (lr_pods run). selects (ReplicasService cr) p} = pod_name ` set pods - {m}
    \<and> list_all (selects (HeadlessService cr)) (lr_pods run)"
proof -
  have "pods \<noteq> []" using assms(3) by auto
  from Labels_accepted [OF assms(1,2) this refl, of acc m] obtain run where run: "Labels env acc pods m = (run, None)"
    and len: "length (lr_pods run) = length pods"
    and at: "\<forall>i < length pods. pod_name (lr_pods run ! i) = pod_name (pods ! i)
      \<and> pod_role_label (lr_pods run ! i) = wanted_label m (pod_name (pods ! i))
      \<and> (\<forall>k. k \<noteq> RoleLabelKey \<longrightarrow> gm_get (pod_labels (lr_pods run ! i)) k = gm_get (pod_labels (pods ! i)) k)"
    by (elim exE conjE) (rule that)
  have "map pod_name (lr_pods run) = map pod_name pods"
    by (rule nth_equalityI) (use len at in simp_all)
  then have names: "pod_name ` set (lr_pods run) = pod_name ` set pods" by (simp only: set_map [symmetric])
  have sel: "(selects (MasterService cr) p \<longleftrightarrow> pod_name p = m) \<and> (selects (ReplicasService cr) p \<longleftrightarrow> pod_name p \<noteq> m)
      \<and> selects (HeadlessService cr) p" if "p \<in> set (lr_pods run)" for p
  proof -
    from that obtain i where i: "i < length pods" "lr_pods run ! i = p" unfolding in_set_conv_nth len by (elim exE conjE) (rule that)
    have app: "gm_get (pod_labels (pods ! i)) LabelAppKey = Some (AppLabel cr)"
      using assms(4) nth_mem [OF i(1)] by (rule bspec)
    note at_i = at [rule_format, OF i(1), unfolded i(2)]
    show ?thesis by (rule selects_by_label) (use at_i app in \<open>simp_all add: LabelAppKey_def RoleLabelKey_def\<close>)
  qed
  have sets: "{p \<in> set (lr_pods run). selects (MasterService cr) p} = {p \<in> set (lr_pods run). pod_name p = m}"
    "{p \<in> set (lr_pods run). selects (ReplicasService cr) p} = {p \<in> set (lr_pods run). pod_name p \<noteq> m}"
    by (rule Collect_cong, use sel in blast)+
  have others: "pod_name ` {p \<in> S. pod_name p \<noteq> m} = pod_name ` S - {m}" for S by auto
  have self: "pod_name ` {p \<in> S. pod_name p = m} = {m}" if "m \<in> pod_name ` S" for S using that by auto
  have m: "m \<in> pod_name ` set (lr_pods run)" unfolding names by (rule assms(3))
  have "list_all (selects (HeadlessService cr)) (lr_pods run)" unfolding list_all_iff using sel by blast
  then show ?thesis using run unfolding sets
    by (intro exI [of _ run] conjI) (simp_all only: sets self [OF m] others names)
qed

text \<open>
  C2: End to end: when the enforcement of a master succeeds on truthful reports, and the label patches are accepted,
  then the master Service selects exactly the pods whose server is a primary after the commands, the replicas
  Service exactly the others, and the headless Service all of them.
\<close>

theorem traffic_reaches_primary:
  assumes run: "ensureWithMaster fuel rs cr pods m opts = Some (res, cmds, None)"
    and names: "distinct (map pod_name pods)" "er_master res \<in> pod_name ` set pods"
    and reads: "\<exists>i. pr_info (rs (er_master res)) = Inr i"
    and truth: "\<forall>p \<in> set pods. \<forall>i. pr_info (rs (pod_name p)) = Inr i \<longrightarrow> truthful (w (pod_name p)) i"
    and labels: "\<forall>n k. le_patch env n k = PatchOk" "le_client env"
      "\<forall>p \<in> set pods. gm_get (pod_labels p) LabelAppKey = Some (AppLabel cr)"
  shows "\<exists>lr. Labels env acc pods (er_master res) = (lr, None)
    \<and> pod_name ` {p \<in> set (lr_pods lr). selects (MasterService cr) p}
        = {n \<in> pod_name ` set pods. run_commands w cmds n = Primary}
    \<and> pod_name ` {p \<in> set (lr_pods lr). selects (ReplicasService cr) p}
        = {n \<in> pod_name ` set pods. run_commands w cmds n \<noteq> Primary}
    \<and> list_all (selects (HeadlessService cr)) (lr_pods lr)"
proof -
  have prim: "run_commands w cmds n = Primary \<longleftrightarrow> n = er_master res" if "n \<in> pod_name ` set pods" for n
    using that enforced_primary [OF run names(1) reads truth] by auto
  have "{n \<in> pod_name ` set pods. run_commands w cmds n = Primary} = {er_master res}"
    "{n \<in> pod_name ` set pods. run_commands w cmds n \<noteq> Primary} = pod_name ` set pods - {er_master res}"
    using prim names(2) by auto
  then show ?thesis using labels_select [OF labels(1,2) names(2) labels(3)] by simp
qed

definition demo_traffic_pods :: "pod list" where
  "demo_traffic_pods = map (\<lambda>(n, ip). (pod0 ''ns'' n)\<lparr>pod_ip := ip, pod_labels := [(LabelAppKey, ''kv-redis''), (RoleLabelKey, ''master'')]\<rparr>)
     [(''kv-0'', ''10.0.0.1''), (''kv-1'', ''10.0.0.2'')]"

lemma demo_traffic_run:
  "\<exists>res. ensureWithMaster 0 (demo_replies settled_world) demo_cluster demo_traffic_pods ''kv-1'' demo_opts = Some (res, [], None)
     \<and> er_master res = ''kv-1''"
proof -
  have mh: "master_host demo_cluster demo_traffic_pods ''kv-1'' = ''10.0.0.2''"
    by (simp add: master_host_def demo_traffic_pods_def pod0_def Let_def)
  have f: "if n = ''kv-1'' then settled_world n = Primary else follows demo_cluster demo_traffic_pods ''kv-1'' (settled_world n)" for n
    by (simp add: settled_world_def follows_def mh demo_port HostMatchesMaster_def)
  have quiet: "\<forall>p \<in> set (SortedPodsByName demo_traffic_pods). reachable_pod (demo_replies settled_world (pod_name p)) demo_opts
      \<and> pod_commands (demo_replies settled_world) ''kv-1'' (master_host demo_cluster demo_traffic_pods ''kv-1'')
          (fst (RedisPort demo_cluster)) demo_traffic_pods (eo_threshold demo_opts) p = []"
    using settled_quiet [OF demo_settled] f by (simp add: reachable_pod_def demo_replies_def demo_opts_def)
  have "demo_traffic_pods \<noteq> []" by (simp add: demo_traffic_pods_def)
  then show ?thesis using ensure_pods_quiet [OF quiet, of 0 "er0 ''kv-1''" "[]"]
    by (auto simp: ensureWithMaster_def Let_def er0_def)
qed

theorem traffic_reaches_primary_witness:
  "\<exists>lr. Labels accepting ra_empty demo_traffic_pods ''kv-1'' = (lr, None)
     \<and> pod_name ` {p \<in> set (lr_pods lr). selects (MasterService demo_cluster) p} = {''kv-1''}
     \<and> pod_name ` {p \<in> set (lr_pods lr). selects (ReplicasService demo_cluster) p} = {''kv-0''}"
proof -
  obtain res where run: "ensureWithMaster 0 (demo_replies settled_world) demo_cluster demo_traffic_pods ''kv-1'' demo_opts = Some (res, [], None)"
    and m: "er_master res = ''kv-1''" using demo_traffic_run by blast
  have names: "pod_name ` set demo_traffic_pods = {''kv-0'', ''kv-1''}" by (auto simp: demo_traffic_pods_def pod0_def)
  have d: "distinct (map pod_name demo_traffic_pods)" by (simp add: demo_traffic_pods_def pod0_def)
  have i: "er_master res \<in> pod_name ` set demo_traffic_pods" using m names by simp
  have r: "\<exists>i. pr_info (demo_replies settled_world (er_master res)) = Inr i" by (simp add: demo_replies_def)
  have t: "\<forall>p \<in> set demo_traffic_pods. \<forall>i. pr_info (demo_replies settled_world (pod_name p)) = Inr i
      \<longrightarrow> truthful (settled_world (pod_name p)) i" by (simp add: demo_replies_def demo_truthful)
  have acc: "\<forall>n k. le_patch accepting n k = PatchOk" "le_client accepting" by (simp_all add: accepting_def)
  have app: "AppLabel demo_cluster = ''kv-redis''" by code_simp
  have l: "\<forall>p \<in> set demo_traffic_pods. gm_get (pod_labels p) LabelAppKey = Some (AppLabel demo_cluster)"
    unfolding app by (simp add: demo_traffic_pods_def gm_get_def)
  have w: "{n \<in> {''kv-0'', ''kv-1''}. run_commands settled_world [] n = Primary} = {''kv-1''}"
    "{n \<in> {''kv-0'', ''kv-1''}. run_commands settled_world [] n \<noteq> Primary} = {''kv-0''}"
    by (auto simp: run_commands_def settled_world_def)
  from traffic_reaches_primary [OF run d i r t acc l, of ra_empty] obtain lr where lr: "Labels accepting ra_empty demo_traffic_pods ''kv-1'' = (lr, None)"
    "pod_name ` {p \<in> set (lr_pods lr). selects (MasterService demo_cluster) p} = {''kv-1''}"
    "pod_name ` {p \<in> set (lr_pods lr). selects (ReplicasService demo_cluster) p} = {''kv-0''}"
    unfolding names w m by (elim exE conjE) (rule that)
  show ?thesis by (rule exI [of _ lr]) (intro conjI lr)
qed

end
